(* ===== verification/Prelude.thy ===== *)
theory Prelude
  imports Main "HOL-Library.List_Lexorder" "HOL-Library.Char_ord" "HOL-Library.AList"
    "HOL-Library.Multiset"
begin

text \<open>
  The vocabulary every other theory shares: Go's slices, maps and pointers, the outcome of a
  handler, and the generic lemmas on association lists and sorted lists that the components use.

  \<^item> A Go string is a sequence of bytes, which is what Isabelle's \<open>string\<close> (a list of 8-bit
    characters) is; Go's \<open><\<close> on strings is the lexicographic order of \<open>List_Lexorder\<close>.
  \<^item> A slice is a list, or \<open>None\<close> when it is \<open>nil\<close> (\<open>encoding/json\<close> tells the two apart).
  \<^item> A map with string keys is an association list without duplicate keys. Go leaves the order in
    which a map is iterated open; here the order of the list is one such order, and a result that
    must not depend on it is shown to be the same for every list with the same lookups.
  \<^item> A pointer to a value that the code never writes through is an \<open>option\<close>.
\<close>

named_theorems gomap_simps \<open>lookups and key sets of maps after an update\<close>
named_theorems go_eval \<open>equations that evaluate closed terms of the model\<close>

subsection \<open>Slices, maps, outcomes\<close>

type_synonym 'a slice = "'a list option"
type_synonym 'v gomap = "(string \<times> 'v) list"
type_synonym 'v nmap = "'v gomap option"

definition elems :: "'a list option \<Rightarrow> 'a list" where
  "elems xs = (case xs of None \<Rightarrow> [] | Some ys \<Rightarrow> ys)"

lemma elems_simps [simp]: "elems None = []" "elems (Some ys) = ys"
  by (simp_all add: elems_def)

definition wf_map :: "'v gomap \<Rightarrow> bool" where
  "wf_map m \<longleftrightarrow> distinct (map fst m)"

abbreviation gget :: "'v gomap \<Rightarrow> string \<Rightarrow> 'v option" where
  "gget m k \<equiv> map_of m k"

definition gset :: "string \<Rightarrow> 'v \<Rightarrow> 'v gomap \<Rightarrow> 'v gomap" where
  "gset k v m = AList.update k v m"

definition gdel :: "string \<Rightarrow> 'v gomap \<Rightarrow> 'v gomap" where
  "gdel k m = AList.delete k m"

definition has_key :: "'v gomap \<Rightarrow> string \<Rightarrow> bool" where
  "has_key m k \<longleftrightarrow> map_of m k \<noteq> None"

text \<open>The value a Go map read gives when the element type's zero value is the empty slice.\<close>

definition gslice :: "'a list gomap \<Rightarrow> string \<Rightarrow> 'a list" where
  "gslice m k = (case map_of m k of None \<Rightarrow> [] | Some v \<Rightarrow> v)"

text \<open>What a handler hands back: a reply, an error value, or a panic that unwinds it.\<close>

datatype ('e, 'a) outcome = Reply 'a | Failed 'e | Panicked string

subsection \<open>Maps\<close>

lemma wf_map_Nil [simp, intro]: "wf_map []"
  by (simp add: wf_map_def)

lemma wf_map_gset [simp, intro]: "wf_map m \<Longrightarrow> wf_map (gset k v m)"
  by (simp add: wf_map_def gset_def distinct_update)

lemma wf_map_gdel [simp, intro]: "wf_map m \<Longrightarrow> wf_map (gdel k m)"
  by (simp add: wf_map_def gdel_def distinct_delete)

lemma gget_gset [simp, gomap_simps]:
  "gget (gset k v m) k' = (if k' = k then Some v else gget m k')"
  by (simp add: gset_def update_conv')

lemma gget_gdel [simp, gomap_simps]:
  "gget (gdel k m) k' = (if k' = k then None else gget m k')"
  by (simp add: gdel_def delete_conv')

lemma map_of_gset: "map_of (gset k v m) = (map_of m)(k \<mapsto> v)"
  by (simp add: gset_def update_conv')

lemma map_of_gdel: "map_of (gdel k m) = (map_of m)(k := None)"
  by (rule ext) simp

lemma has_key_iff: "has_key m k \<longleftrightarrow> k \<in> fst ` set m"
  by (auto simp: has_key_def map_of_eq_None_iff)

lemma has_key_gset [simp, gomap_simps]: "has_key (gset k v m) k' \<longleftrightarrow> k' = k \<or> has_key m k'"
  by (simp add: has_key_def)

lemma has_key_gdel [simp, gomap_simps]: "has_key (gdel k m) k' \<longleftrightarrow> k' \<noteq> k \<and> has_key m k'"
  by (simp add: has_key_def)

lemma wf_map_get_iff: "wf_map m \<Longrightarrow> gget m k = Some v \<longleftrightarrow> (k, v) \<in> set m"
  by (simp add: wf_map_def)

lemma gget_in_set: "gget m k = Some v \<Longrightarrow> (k, v) \<in> set m"
  by (rule map_of_SomeD)

lemma set_gset_subset: "set (gset k v m) \<subseteq> insert (k, v) (set m)"
proof (induction m)
  case Nil
  then show ?case by (simp add: gset_def)
next
  case (Cons p m)
  then show ?case by (cases p) (auto simp: gset_def)
qed

lemma set_gdel_subset: "set (gdel k m) \<subseteq> set m"
  by (auto simp: gdel_def AList.delete_eq)

lemma ball_gset:
  "(\<And>k' v'. (k', v') \<in> set m \<Longrightarrow> P k' v') \<Longrightarrow> P k v \<Longrightarrow> (k', v') \<in> set (gset k v m) \<Longrightarrow> P k' v'"
  using set_gset_subset [of k v m] by auto

lemma wf_map_set_eqI:
  assumes "wf_map m" and "wf_map m'" and "map_of m = map_of m'"
  shows "set m = set m'"
proof -
  have "p \<in> set m \<longleftrightarrow> p \<in> set m'" for p
    using assms wf_map_get_iff [of m "fst p" "snd p"] wf_map_get_iff [of m' "fst p" "snd p"] by simp
  then show ?thesis by blast
qed

lemma wf_map_mset_eqI:
  assumes "wf_map m" and "wf_map m'" and "map_of m = map_of m'"
  shows "mset m = mset m'"
proof -
  have "distinct m" "distinct m'"
    using assms(1,2) by (auto simp: wf_map_def distinct_map)
  then show ?thesis
    using wf_map_set_eqI [OF assms] by (simp add: set_eq_iff_mset_eq_distinct)
qed

lemma wf_map_length_eqI:
  assumes "wf_map m" and "wf_map m'" and "map_of m = map_of m'"
  shows "length m = length m'"
  using wf_map_mset_eqI [OF assms] by (metis mset_eq_length)

subsection \<open>Sorted lists\<close>

text \<open>Two sorted arrangements of the same elements agree when no two elements have the same key.\<close>

lemma sorted_key_unique:
  fixes f :: "'a \<Rightarrow> 'b::linorder"
  assumes "mset xs = mset ys" and "sorted (map f xs)" and "sorted (map f ys)"
    and "inj_on f (set xs)"
  shows "xs = ys"
proof -
  have s: "set xs = set ys" using assms(1) by (metis set_mset_mset)
  have "mset (map f xs) = mset (map f ys)" using assms(1) by (metis mset_map)
  then have "map f xs = map f ys"
    using assms(2,3) by (metis properties_for_sort sorted_sort_id)
  then show ?thesis
    using map_inj_on [of f xs ys] assms(4) s by simp
qed

lemma list_all_gset:
  "list_all P m \<Longrightarrow> P (k, v) \<Longrightarrow> list_all P (gset k v m)"
  using set_gset_subset [of k v m] by (auto simp: list_all_iff)

lemma list_all_gdel: "list_all P m \<Longrightarrow> list_all P (gdel k m)"
  using set_gdel_subset [of k m] by (auto simp: list_all_iff)

end
