(* ===== verification/Go_Errors.thy ===== *)
theory Go_Errors
  imports Prelude
begin

text \<open>
  Error values (\<open>pkg/types/errors.go\<close>, \<open>ceph_errors.go\<close>, \<open>ceph_errors_mock.go\<close>). The sentinels
  are constructors; \<open>Wrapped p e s\<close> is \<open>fmt.Errorf(p + "%w" + s, e)\<close>, which \<open>errors.Is\<close> looks
  through; \<open>Foreign\<close> is an error of a library, known by its text; \<open>StatusError\<close> is an error
  that already carries a gRPC status.
\<close>

datatype grpc_code =
    OK | Canceled | Unknown | InvalidArgument | DeadlineExceeded | NotFound | AlreadyExists
  | PermissionDenied | ResourceExhausted | FailedPrecondition | Aborted | OutOfRange
  | Unimplemented | Internal | Unavailable | DataLoss | Unauthenticated

datatype status_detail = RequestInfo string | ErrorInfo string

datatype go_error =
    ErrNotImplemented | ErrInvalidConfig | ErrInvalidArg | ErrNotFound | ErrAlreadyExists
  | ErrInternal | ErrUnauthenticated | ErrAccessDenied
  | RadosErrorNotFound
  | Wrapped string go_error string
  | Foreign string
  | StatusError grpc_code string "status_detail list"

type_synonym 'a res = "go_error + 'a"
type_synonym 'a reply = "(go_error, 'a) outcome"

text \<open>
  The text of an error. What \<open>types.RadosErrorNotFound\<close> prints is fixed by the build (the mock
  build's own text, or go-ceph's), so it is an argument.
\<close>

fun error_text :: "string \<Rightarrow> go_error \<Rightarrow> string" where
  "error_text nf ErrNotImplemented = ''NotImplemented''"
| "error_text nf ErrInvalidConfig = ''InvalidConfig''"
| "error_text nf ErrInvalidArg = ''InvalidArg''"
| "error_text nf ErrNotFound = ''NotFound''"
| "error_text nf ErrAlreadyExists = ''ErrAlreadyExists''"
| "error_text nf ErrInternal = ''InternalError''"
| "error_text nf ErrUnauthenticated = ''Unauthenticated''"
| "error_text nf ErrAccessDenied = ''AccessDenied''"
| "error_text nf RadosErrorNotFound = nf"
| "error_text nf (Wrapped p e s) = p @ error_text nf e @ s"
| "error_text nf (Foreign t) = t"
| "error_text nf (StatusError c m ds) = m"

definition mock_rados_not_found_text :: string where
  "mock_rados_not_found_text = ''Error Not Found''"

fun errors_is :: "go_error \<Rightarrow> go_error \<Rightarrow> bool" where
  "errors_is (Wrapped p e s) t \<longleftrightarrow> Wrapped p e s = t \<or> errors_is e t"
| "errors_is e t \<longleftrightarrow> e = t"

lemma errors_is_refl [simp]: "errors_is e e"
  by (cases e) simp_all

text \<open>Go's \<open>if err != nil { return err }\<close> between two steps.\<close>

definition and_then :: "'a res \<Rightarrow> ('a \<Rightarrow> 'b res) \<Rightarrow> 'b res" where
  "and_then r f = (case r of Inl e \<Rightarrow> Inl e | Inr a \<Rightarrow> f a)"

lemma and_then_simps [simp]: "and_then (Inl e) f = Inl e" "and_then (Inr a) f = f a"
  by (simp_all add: and_then_def)

lemma and_then_Inr: "and_then r f = Inr b \<longleftrightarrow> (\<exists>a. r = Inr a \<and> f a = Inr b)"
  by (cases r) auto

end
