(* ===== verification/Go_Strings.thy ===== *)
theory Go_Strings
  imports Prelude
begin

text \<open>
  The functions of Go's \<open>strings\<close>, \<open>unicode/utf8\<close> and \<open>strconv\<close> packages that the program
  calls, on byte strings. Where a result depends on the Unicode tables (the lower case of a
  string that is not ASCII, whether a rune outside ASCII prints) the table is an argument.
\<close>

subsection \<open>Bytes\<close>

definition byte :: "char \<Rightarrow> nat" where
  "byte c = of_char c"

definition ascii :: "string \<Rightarrow> bool" where
  "ascii s \<longleftrightarrow> list_all (\<lambda>c. c < CHR 0x80) s"

definition upper_letters :: string where
  "upper_letters = ''ABCDEFGHIJKLMNOPQRSTUVWXYZ''"

definition lower_letters :: string where
  "lower_letters = ''abcdefghijklmnopqrstuvwxyz''"

definition lower_table :: "(char \<times> char) list" where
  "lower_table = zip upper_letters lower_letters"

definition lower_byte :: "char \<Rightarrow> char" where
  "lower_byte c = (case map_of lower_table c of None \<Rightarrow> c | Some d \<Rightarrow> d)"

lemma ascii_simps [simp]:
  "ascii []" "ascii (c # s) \<longleftrightarrow> c < CHR 0x80 \<and> ascii s" "ascii (s @ t) \<longleftrightarrow> ascii s \<and> ascii t"
  by (simp_all add: ascii_def)

lemma ascii_concat: "(\<And>s. s \<in> set ss \<Longrightarrow> ascii s) \<Longrightarrow> ascii (concat ss)"
  by (induction ss) auto

subsection \<open>Searching and trimming\<close>

fun has_prefix :: "string \<Rightarrow> string \<Rightarrow> bool" where
  "has_prefix s [] = True"
| "has_prefix [] (p # ps) = False"
| "has_prefix (c # s) (p # ps) = (c = p \<and> has_prefix s ps)"

fun contains :: "string \<Rightarrow> string \<Rightarrow> bool" where
  "contains [] t = (t = [])"
| "contains (c # s) t = (has_prefix (c # s) t \<or> contains s t)"

definition contains_any :: "string \<Rightarrow> string \<Rightarrow> bool" where
  "contains_any s chars = list_ex (\<lambda>c. c \<in> set chars) s"

definition trim_prefix :: "string \<Rightarrow> string \<Rightarrow> string" where
  "trim_prefix s p = (if has_prefix s p then drop (length p) s else s)"

definition has_suffix :: "string \<Rightarrow> string \<Rightarrow> bool" where
  "has_suffix s p = has_prefix (rev s) (rev p)"

definition trim_suffix :: "string \<Rightarrow> string \<Rightarrow> string" where
  "trim_suffix s p = (if has_suffix s p then take (length s - length p) s else s)"

definition trim_char :: "char \<Rightarrow> string \<Rightarrow> string" where
  "trim_char c s = rev (dropWhile (\<lambda>d. d = c) (rev (dropWhile (\<lambda>d. d = c) s)))"

definition replace_char :: "char \<Rightarrow> char \<Rightarrow> string \<Rightarrow> string" where
  "replace_char a b s = map (\<lambda>c. if c = a then b else c) s"

fun join :: "string \<Rightarrow> string list \<Rightarrow> string" where
  "join sep [] = []"
| "join sep [s] = s"
| "join sep (s # t # ts) = s @ sep @ join sep (t # ts)"

lemma has_prefix_iff: "has_prefix s p \<longleftrightarrow> (\<exists>t. s = p @ t)"
  by (induction s p rule: has_prefix.induct) auto

lemma contains_iff: "contains s t \<longleftrightarrow> (\<exists>u v. s = u @ t @ v)"
proof (induction s t rule: contains.induct)
  case (1 t)
  then show ?case by auto
next
  case (2 c s t)
  show ?case
  proof
    assume "contains (c # s) t"
    then consider "has_prefix (c # s) t" | "contains s t" by auto
    then show "\<exists>u v. c # s = u @ t @ v"
    proof cases
      case 1
      then show ?thesis by (metis append_Nil has_prefix_iff)
    next
      case 2
      then show ?thesis using "2.IH" by (metis append_Cons)
    qed
  next
    assume "\<exists>u v. c # s = u @ t @ v"
    then obtain u v where uv: "c # s = u @ t @ v" by blast
    show "contains (c # s) t"
    proof (cases u)
      case Nil
      with uv have "has_prefix (c # s) t" by (simp add: has_prefix_iff)
      then show ?thesis by simp
    next
      case (Cons d u')
      with uv have "s = u' @ t @ v" by simp
      then show ?thesis using "2.IH" by auto
    qed
  qed
qed

lemma trim_prefix_append [simp]: "trim_prefix (p @ s) p = s"
  by (simp add: trim_prefix_def has_prefix_iff)

lemma trim_suffix_append [simp]: "trim_suffix (s @ p) p = s"
  by (simp add: trim_suffix_def has_suffix_def has_prefix_iff)

subsection \<open>Case folding\<close>

text \<open>
  \<open>strings.ToLower\<close>: byte by byte on an ASCII string; on any other string the Unicode tables
  decide, so that case is the argument \<open>ul\<close>.
\<close>

definition to_lower :: "(string \<Rightarrow> string) \<Rightarrow> string \<Rightarrow> string" where
  "to_lower ul s = (if ascii s then map lower_byte s else ul s)"

text \<open>
  Folding for \<open>strings.EqualFold\<close> and for the field names of \<open>encoding/json\<close>, where one side
  is ASCII. The only runes outside ASCII that fold to an ASCII letter are the Kelvin sign (bytes
  E2 84 AA) and the long s (bytes C5 BF); every other rune outside ASCII equals no ASCII string,
  and its bytes are kept.
\<close>

fun fold_ascii :: "string \<Rightarrow> string" where
  "fold_ascii [] = []"
| "fold_ascii (c # s) =
     (if c = CHR 0xC5 then
        (case s of d # s' \<Rightarrow> if d = CHR 0xBF then CHR ''s'' # fold_ascii s' else c # fold_ascii s
         | [] \<Rightarrow> [c])
      else if c = CHR 0xE2 then
        (case s of d # e # s' \<Rightarrow>
             if d = CHR 0x84 \<and> e = CHR 0xAA then CHR ''k'' # fold_ascii s' else c # fold_ascii s
         | _ \<Rightarrow> c # fold_ascii s)
      else lower_byte c # fold_ascii s)"

definition equal_fold :: "string \<Rightarrow> string \<Rightarrow> bool" where
  "equal_fold s t = (fold_ascii s = fold_ascii t)"

lemma fold_ascii_ascii: "ascii s \<Longrightarrow> fold_ascii s = map lower_byte s"
  by (induction s rule: fold_ascii.induct) auto

lemma equal_fold_refl [simp]: "equal_fold s s"
  by (simp add: equal_fold_def)

lemma equal_fold_ascii:
  "ascii s \<Longrightarrow> ascii t \<Longrightarrow> equal_fold s t \<longleftrightarrow> map lower_byte s = map lower_byte t"
  by (simp add: equal_fold_def fold_ascii_ascii)

end
