(* ===== verification/Go_Text.thy ===== *)
theory Go_Text
  imports Go_Strings
begin

text \<open>
  Text conversions of the standard library: UTF-8 decoding and encoding (\<open>unicode/utf8\<close>),
  decimal integers (\<open>strconv.Itoa\<close>, \<open>strconv.ParseInt\<close>) and \<open>strconv.Quote\<close>.
\<close>

subsection \<open>UTF-8\<close>

definition rune_error :: nat where
  "rune_error = 0xFFFD"

definition is_cont :: "nat \<Rightarrow> bool" where
  "is_cont b \<longleftrightarrow> 0x80 \<le> b \<and> b \<le> 0xBF"

text \<open>
  \<open>utf8.DecodeRuneInString\<close>: the first rune and its width; an ill-formed sequence gives the error
  rune with width 1, the empty string width 0.
\<close>

definition decode_rune :: "string \<Rightarrow> nat \<times> nat" where
  "decode_rune s =
    (case map byte (take 4 s) of
       [] \<Rightarrow> (rune_error, 0)
     | b0 # bs \<Rightarrow>
        if b0 < 0x80 then (b0, 1)
        else if 0xC2 \<le> b0 \<and> b0 \<le> 0xDF then
          (case bs of b1 # _ \<Rightarrow>
              if is_cont b1 then ((b0 - 0xC0) * 64 + (b1 - 0x80), 2) else (rune_error, 1)
           | [] \<Rightarrow> (rune_error, 1))
        else if 0xE0 \<le> b0 \<and> b0 \<le> 0xEF then
          (case bs of b1 # b2 # _ \<Rightarrow>
              if (if b0 = 0xE0 then 0xA0 \<le> b1 \<and> b1 \<le> 0xBF
                  else if b0 = 0xED then 0x80 \<le> b1 \<and> b1 \<le> 0x9F else is_cont b1) \<and> is_cont b2
              then ((b0 - 0xE0) * 4096 + (b1 - 0x80) * 64 + (b2 - 0x80), 3) else (rune_error, 1)
           | _ \<Rightarrow> (rune_error, 1))
        else if 0xF0 \<le> b0 \<and> b0 \<le> 0xF4 then
          (case bs of b1 # b2 # b3 # _ \<Rightarrow>
              if (if b0 = 0xF0 then 0x90 \<le> b1 \<and> b1 \<le> 0xBF
                  else if b0 = 0xF4 then 0x80 \<le> b1 \<and> b1 \<le> 0x8F else is_cont b1)
                 \<and> is_cont b2 \<and> is_cont b3
              then ((b0 - 0xF0) * 262144 + (b1 - 0x80) * 4096 + (b2 - 0x80) * 64 + (b3 - 0x80), 4)
              else (rune_error, 1)
           | _ \<Rightarrow> (rune_error, 1))
        else (rune_error, 1))"

text \<open>\<open>utf8.AppendRune\<close>: surrogates and values beyond 10FFFF are written as the error rune.\<close>

definition encode_rune :: "nat \<Rightarrow> string" where
  "encode_rune r0 =
    (let r = (if r0 > 0x10FFFF \<or> 0xD800 \<le> r0 \<and> r0 \<le> 0xDFFF then rune_error else r0) in
     map char_of
      (if r < 0x80 then [r]
       else if r < 0x800 then [0xC0 + r div 64, 0x80 + r mod 64]
       else if r < 0x10000 then
         [0xE0 + r div 4096, 0x80 + (r div 64) mod 64, 0x80 + r mod 64]
       else [0xF0 + r div 262144, 0x80 + (r div 4096) mod 64, 0x80 + (r div 64) mod 64,
             0x80 + r mod 64]))"

lemma less_80_iff: "c < CHR 0x80 \<longleftrightarrow> byte c < 0x80"
  by (simp add: less_char_def byte_def)

lemma decode_rune_ascii: "c < CHR 0x80 \<Longrightarrow> decode_rune (c # s) = (byte c, 1)"
  by (simp add: decode_rune_def less_80_iff)

lemma decode_rune_width_pos: "s \<noteq> [] \<Longrightarrow> 0 < snd (decode_rune s)"
proof -
  assume "s \<noteq> []"
  then obtain b0 bs where "map byte (take 4 s) = b0 # bs" by (cases s) auto
  then show ?thesis
    unfolding decode_rune_def by (simp only: list.case) (simp split: list.split)
qed

lemma byte_inj [simp]: "byte c = byte d \<longleftrightarrow> c = d"
  by (simp add: byte_def)

lemma byte_less_256: "byte c < 256"
  by (simp add: byte_def)

lemma char_of_byte [simp]: "char_of (byte c) = c"
  by (simp add: byte_def)

lemma encode_rune_ascii: "c < CHR 0x80 \<Longrightarrow> encode_rune (byte c) = [c]"
  by (simp add: encode_rune_def less_80_iff)

subsection \<open>Decimal integers\<close>

definition digit_char :: "nat \<Rightarrow> char" where
  "digit_char d = (if d < 10 then ''0123456789'' ! d else CHR ''?'')"

definition is_digit :: "char \<Rightarrow> bool" where
  "is_digit c \<longleftrightarrow> CHR ''0'' \<le> c \<and> c \<le> CHR ''9''"

definition digit_val :: "char \<Rightarrow> nat" where
  "digit_val c = byte c - 48"

fun nat_digits :: "nat \<Rightarrow> string" where
  "nat_digits n = (if n < 10 then [digit_char n] else nat_digits (n div 10) @ [digit_char (n mod 10)])"

declare nat_digits.simps [simp del]

definition itoa :: "int \<Rightarrow> string" where
  "itoa i = (if i < 0 then CHR ''-'' # nat_digits (nat (- i)) else nat_digits (nat i))"

definition digits_val :: "string \<Rightarrow> nat" where
  "digits_val s = foldl (\<lambda>n c. 10 * n + digit_val c) 0 s"

definition in_int64 :: "int \<Rightarrow> bool" where
  "in_int64 i \<longleftrightarrow> - (2 ^ 63) \<le> i \<and> i < 2 ^ 63"

text \<open>
  \<open>strconv.ParseInt(s, 10, 64)\<close> on the number literals the JSON scanner lets through: an optional
  minus sign and digits only, in range.
\<close>

definition parse_int64 :: "string \<Rightarrow> int option" where
  "parse_int64 s =
    (let (neg, ds) = (case s of c # cs \<Rightarrow> if c = CHR ''-'' then (True, cs) else (False, s)
                      | [] \<Rightarrow> (False, []))
     in if ds = [] \<or> \<not> list_all is_digit ds then None
        else let i = (if neg then - int (digits_val ds) else int (digits_val ds))
             in if in_int64 i then Some i else None)"

lemma all_digits:
  "list_all (\<lambda>d. is_digit (digit_char d) \<and> digit_val (digit_char d) = d \<and> digit_char d \<noteq> CHR ''-''
      \<and> digit_char d < CHR 0x80) [0, 1, 2, 3, 4, 5, 6, 7, 8, 9]"
  by (simp add: digit_char_def is_digit_def digit_val_def byte_def of_char_def)

lemma digit_char_props:
  assumes "d < 10"
  shows "is_digit (digit_char d)" "digit_val (digit_char d) = d"
    "digit_char d \<noteq> CHR ''-''" "digit_char d < CHR 0x80"
proof -
  have "d \<in> set [0..<10]" using assms by simp
  then have "d \<in> set [0, 1, 2, 3, 4, 5, 6, 7, 8, 9]" by (simp add: upt_rec numeral_eq_Suc)
  with all_digits [unfolded list_all_iff]
  show "is_digit (digit_char d)" "digit_val (digit_char d) = d"
    "digit_char d \<noteq> CHR ''-''" "digit_char d < CHR 0x80"
    by blast+
qed

lemma digits_val_append: "digits_val (s @ [c]) = 10 * digits_val s + digit_val c"
  by (simp add: digits_val_def)

lemma nat_digits_val: "digits_val (nat_digits n) = n"
proof (induction n rule: nat_digits.induct)
  case (1 n)
  then show ?case
    by (subst nat_digits.simps) (auto simp: digits_val_append digit_char_props, simp add: digits_val_def digit_char_props)
qed

lemma nat_digits_digits: "list_all is_digit (nat_digits n)"
proof (induction n rule: nat_digits.induct)
  case (1 n)
  then show ?case by (subst nat_digits.simps) (auto simp: digit_char_props)
qed

lemma nat_digits_neq_Nil [simp]: "nat_digits n \<noteq> []"
  by (subst nat_digits.simps) simp

lemma is_digit_neq_minus: "is_digit c \<Longrightarrow> c \<noteq> CHR ''-''"
  by (auto simp: is_digit_def)

lemma is_digit_ascii: "is_digit c \<Longrightarrow> c < CHR 0x80"
  by (auto simp: is_digit_def less_eq_char_def less_char_def)

lemma list_all_digit_ascii: "list_all is_digit s \<Longrightarrow> ascii s"
  by (induction s) (auto simp: is_digit_ascii)

theorem parse_int64_itoa: "in_int64 i \<Longrightarrow> parse_int64 (itoa i) = Some i"
proof -
  assume r: "in_int64 i"
  obtain c cs where n: "nat_digits (nat i) = c # cs"
    by (cases "nat_digits (nat i)") auto
  have "is_digit c" using nat_digits_digits [of "nat i"] n by simp
  then have c: "c \<noteq> CHR ''-''" by (rule is_digit_neq_minus)
  show ?thesis
  proof (cases "i < 0")
    case True
    with r show ?thesis
      by (simp add: parse_int64_def itoa_def nat_digits_digits nat_digits_val)
  next
    case False
    have "list_all is_digit (c # cs)" "digits_val (c # cs) = nat i"
      using nat_digits_digits [of "nat i"] nat_digits_val [of "nat i"] n by simp_all
    with False r n c show ?thesis
      by (simp add: parse_int64_def itoa_def)
  qed
qed

lemma ascii_itoa: "ascii (itoa i)"
  by (simp add: itoa_def list_all_digit_ascii nat_digits_digits)

subsection \<open>Quoting\<close>

definition hex_digit :: "nat \<Rightarrow> char" where
  "hex_digit d = (if d < 16 then ''0123456789abcdef'' ! d else CHR ''?'')"

definition hex2 :: "nat \<Rightarrow> string" where
  "hex2 n = [hex_digit (n div 16 mod 16), hex_digit (n mod 16)]"

definition hex4 :: "nat \<Rightarrow> string" where
  "hex4 n = hex2 (n div 256) @ hex2 (n mod 256)"

definition hex8 :: "nat \<Rightarrow> string" where
  "hex8 n = hex4 (n div 65536) @ hex4 (n mod 65536)"

text \<open>
  \<open>strconv.Quote\<close>. The escape of one rune; \<open>isp\<close> says which runes beyond ASCII are printable.
\<close>

definition quote_rune :: "(nat \<Rightarrow> bool) \<Rightarrow> nat \<Rightarrow> string" where
  "quote_rune isp r =
    (if r = 0x22 \<or> r = 0x5C then [CHR 0x5C, char_of r]
     else if (if r < 0x80 then 0x20 \<le> r \<and> r < 0x7F else isp r) then encode_rune r
     else if r = 0x07 then [CHR 0x5C, CHR ''a'']
     else if r = 0x08 then [CHR 0x5C, CHR ''b'']
     else if r = 0x0C then [CHR 0x5C, CHR ''f'']
     else if r = 0x0A then [CHR 0x5C, CHR ''n'']
     else if r = 0x0D then [CHR 0x5C, CHR ''r'']
     else if r = 0x09 then [CHR 0x5C, CHR ''t'']
     else if r = 0x0B then [CHR 0x5C, CHR ''v'']
     else if r < 0x20 \<or> r = 0x7F then [CHR 0x5C, CHR ''x''] @ hex2 r
     else if r < 0x10000 then [CHR 0x5C, CHR ''u''] @ hex4 r
     else [CHR 0x5C, CHR ''U''] @ hex8 r)"

function quote_body :: "(nat \<Rightarrow> bool) \<Rightarrow> string \<Rightarrow> string" where
  "quote_body isp s =
    (if s = [] then []
     else let (r, w) = decode_rune s in
       (if w = 1 \<and> r = rune_error then [CHR 0x5C, CHR ''x''] @ hex2 (byte (hd s))
        else quote_rune isp r) @ quote_body isp (drop w s))"
  by pat_completeness auto
termination
proof (relation "measure (\<lambda>(isp, s). length s)", simp, goal_cases)
  case (1 isp s z r w)
  then have "0 < w" using decode_rune_width_pos [of s] by (metis snd_conv)
  with 1 show ?case by simp
qed

declare quote_body.simps [simp del]

definition strconv_quote :: "(nat \<Rightarrow> bool) \<Rightarrow> string \<Rightarrow> string" where
  "strconv_quote isp s = [CHR 0x22] @ quote_body isp s @ [CHR 0x22]"

lemma quote_body_Nil [simp]: "quote_body isp [] = []"
  by (simp add: quote_body.simps)

lemma quote_body_ascii:
  "c < CHR 0x80 \<Longrightarrow> quote_body isp (c # s) = quote_rune isp (byte c) @ quote_body isp s"
  by (subst quote_body.simps) (simp add: decode_rune_ascii rune_error_def less_80_iff)

end
