(* ===== verification/Go_Json.thy ===== *)
theory Go_Json
  imports Go_Text
begin

text \<open>
  Go's \<open>encoding/json\<close> (Go 1.21, as the Dockerfile builds it): values as trees, the encoder's text
  (\<open>json_print\<close>, with the HTML-safe escapes \<open>Marshal\<close> uses) and the decoder's scanner
  (\<open>json_parse\<close>). Numbers keep their literal, as the decoder does until it knows the target type.
  The scanner's nesting limit of 10000 is not modelled.
\<close>

datatype json =
    JNull
  | JBool bool
  | JNum string
  | JStr string
  | JArr "json list"
  | JObj "(string \<times> json) list"

subsection \<open>The encoder\<close>

definition json_plain :: "char \<Rightarrow> bool" where
  "json_plain c \<longleftrightarrow> CHR 0x20 \<le> c \<and> c < CHR 0x80 \<and> c \<noteq> CHR 0x22 \<and> c \<noteq> CHR 0x5C
     \<and> c \<noteq> CHR ''<'' \<and> c \<noteq> CHR ''>'' \<and> c \<noteq> CHR ''&''"

definition json_escape :: "char \<Rightarrow> string" where
  "json_escape c =
    (if json_plain c then [c]
     else if c = CHR 0x22 \<or> c = CHR 0x5C then [CHR 0x5C, c]
     else if c = CHR 0x0A then [CHR 0x5C, CHR ''n'']
     else if c = CHR 0x0D then [CHR 0x5C, CHR ''r'']
     else if c = CHR 0x09 then [CHR 0x5C, CHR ''t'']
     else [CHR 0x5C, CHR ''u'', CHR ''0'', CHR ''0''] @ hex2 (byte c))"

function json_quote_body :: "string \<Rightarrow> string" where
  "json_quote_body s =
    (case s of [] \<Rightarrow> []
     | c # s' \<Rightarrow>
        if c < CHR 0x80 then json_escape c @ json_quote_body s'
        else let (r, w) = decode_rune s in
          (if r = rune_error \<and> w = 1 then [CHR 0x5C] @ ''ufffd''
           else if r = 0x2028 \<or> r = 0x2029 then [CHR 0x5C] @ ''u202'' @ [hex_digit (r mod 16)]
           else take w s) @ json_quote_body (drop w s))"
  by pat_completeness auto
termination
proof (relation "measure length", simp, simp, goal_cases)
  case (1 s c s' z r w)
  then have "0 < w" using decode_rune_width_pos [of s] by (metis list.distinct(1) snd_conv)
  with 1 show ?case by simp
qed

declare json_quote_body.simps [simp del]

definition json_quote :: "string \<Rightarrow> string" where
  "json_quote s = CHR 0x22 # json_quote_body s @ [CHR 0x22]"

fun json_print :: "json \<Rightarrow> string" where
  "json_print JNull = ''null''"
| "json_print (JBool b) = (if b then ''true'' else ''false'')"
| "json_print (JNum n) = n"
| "json_print (JStr s) = json_quote s"
| "json_print (JArr js) = CHR ''['' # join '','' (map json_print js) @ '']''"
| "json_print (JObj ms) =
     CHR ''{'' # join '','' (map (\<lambda>(k, j). json_quote k @ '':'' @ json_print j) ms) @ ''}''"

subsection \<open>The scanner\<close>

definition is_ws :: "char \<Rightarrow> bool" where
  "is_ws c \<longleftrightarrow> c = CHR '' '' \<or> c = CHR 0x09 \<or> c = CHR 0x0A \<or> c = CHR 0x0D"

definition skip_ws :: "string \<Rightarrow> string" where
  "skip_ws s = dropWhile is_ws s"

definition hex_val :: "char \<Rightarrow> nat option" where
  "hex_val c =
    (if CHR ''0'' \<le> c \<and> c \<le> CHR ''9'' then Some (byte c - 48)
     else if CHR ''a'' \<le> c \<and> c \<le> CHR ''f'' then Some (byte c - 87)
     else if CHR ''A'' \<le> c \<and> c \<le> CHR ''F'' then Some (byte c - 55)
     else None)"

definition hex4_val :: "string \<Rightarrow> nat option" where
  "hex4_val s =
    (case s of a # b # c # d # _ \<Rightarrow>
       (case (hex_val a, hex_val b, hex_val c, hex_val d) of
          (Some p, Some q, Some r, Some t) \<Rightarrow> Some (((p * 16 + q) * 16 + r) * 16 + t)
        | _ \<Rightarrow> None)
     | _ \<Rightarrow> None)"

definition unescape :: "char \<Rightarrow> char option" where
  "unescape e =
    (if e = CHR 0x22 \<or> e = CHR 0x5C \<or> e = CHR ''/'' then Some e
     else if e = CHR ''b'' then Some (CHR 0x08)
     else if e = CHR ''f'' then Some (CHR 0x0C)
     else if e = CHR ''n'' then Some (CHR 0x0A)
     else if e = CHR ''r'' then Some (CHR 0x0D)
     else if e = CHR ''t'' then Some (CHR 0x09)
     else None)"

definition is_surrogate :: "nat \<Rightarrow> bool" where
  "is_surrogate r \<longleftrightarrow> 0xD800 \<le> r \<and> r \<le> 0xDFFF"

text \<open>The low half of a surrogate pair at the start of the text, after a high half.\<close>

definition low_surrogate :: "nat \<Rightarrow> string \<Rightarrow> nat option" where
  "low_surrogate hi s =
    (case s of c # e # s' \<Rightarrow>
       (if c = CHR 0x5C \<and> e = CHR ''u'' then
          (case hex4_val s' of
             Some lo \<Rightarrow>
               if hi < 0xDC00 \<and> 0xDC00 \<le> lo \<and> lo \<le> 0xDFFF
               then Some ((hi - 0xD800) * 1024 + (lo - 0xDC00) + 0x10000) else None
           | None \<Rightarrow> None)
        else None)
     | _ \<Rightarrow> None)"

definition prepend :: "string \<Rightarrow> (string \<times> string) option \<Rightarrow> (string \<times> string) option" where
  "prepend p r = map_option (\<lambda>(v, rest). (p @ v, rest)) r"

lemma prepend_simps [simp]: "prepend p None = None" "prepend p (Some (v, t)) = Some (p @ v, t)"
  by (simp_all add: prepend_def)

lemma prepend_Some: "prepend p r = Some (v, t) \<longleftrightarrow> (\<exists>u. r = Some (u, t) \<and> v = p @ u)"
  by (cases r) auto

text \<open>A string literal after its opening quote: the value and the text after the closing quote.\<close>

function json_string :: "string \<Rightarrow> (string \<times> string) option" where
  "json_string [] = None"
| "json_string (c # s) =
    (if c = CHR 0x22 then Some ([], s)
     else if c = CHR 0x5C then
       (case s of [] \<Rightarrow> None
        | e # s1 \<Rightarrow>
          if e = CHR ''u'' then
            (case hex4_val s1 of None \<Rightarrow> None
             | Some rr \<Rightarrow>
                if is_surrogate rr then
                  (case low_surrogate rr (drop 4 s1) of
                     Some r \<Rightarrow> prepend (encode_rune r) (json_string (drop 10 s1))
                   | None \<Rightarrow> prepend (encode_rune rune_error) (json_string (drop 4 s1)))
                else prepend (encode_rune rr) (json_string (drop 4 s1)))
          else (case unescape e of None \<Rightarrow> None | Some d \<Rightarrow> prepend [d] (json_string s1)))
     else if c < CHR 0x20 then None
     else if c < CHR 0x80 then prepend [c] (json_string s)
     else prepend (encode_rune (fst (decode_rune (c # s))))
            (json_string (drop (snd (decode_rune (c # s)) - 1) s)))"
  by pat_completeness auto
termination
  by (relation "measure length") auto

text \<open>A number literal in four stages; each splits the text into what it reads and the rest.\<close>

definition num_sign :: "string \<Rightarrow> string \<times> string" where
  "num_sign s = (if has_prefix s ''-'' then (''-'', drop 1 s) else ([], s))"

definition num_int :: "string \<Rightarrow> (string \<times> string) option" where
  "num_int s =
    (if has_prefix s ''0'' then Some (''0'', drop 1 s)
     else if takeWhile is_digit s = [] then None
     else Some (takeWhile is_digit s, dropWhile is_digit s))"

definition num_frac :: "string \<Rightarrow> (string \<times> string) option" where
  "num_frac s =
    (if has_prefix s ''.'' then
       (if takeWhile is_digit (drop 1 s) = [] then None
        else Some (''.'' @ takeWhile is_digit (drop 1 s), dropWhile is_digit (drop 1 s)))
     else Some ([], s))"

definition num_exp :: "string \<Rightarrow> (string \<times> string) option" where
  "num_exp s =
    (if has_prefix s ''e'' \<or> has_prefix s ''E'' then
       (let n = (if has_prefix (drop 1 s) ''+'' \<or> has_prefix (drop 1 s) ''-'' then 2 else 1);
            ds = takeWhile is_digit (drop n s)
        in if ds = [] then None else Some (take n s @ ds, dropWhile is_digit (drop n s)))
     else Some ([], s))"

definition json_number :: "string \<Rightarrow> (string \<times> string) option" where
  "json_number s =
    (case num_sign s of (a, s1) \<Rightarrow>
     case num_int s1 of None \<Rightarrow> None | Some (b, s2) \<Rightarrow>
     case num_frac s2 of None \<Rightarrow> None | Some (c, s3) \<Rightarrow>
     case num_exp s3 of None \<Rightarrow> None | Some (d, s4) \<Rightarrow> Some (a @ b @ c @ d, s4))"

text \<open>
  The recursive descent. The fuel bounds the number of nested calls; \<open>json_parse\<close> gives it more
  than any text of the given length needs (\<open>json_fuel_enough\<close>).
\<close>

fun json_value :: "nat \<Rightarrow> string \<Rightarrow> (json \<times> string) option"
  and json_elems :: "nat \<Rightarrow> string \<Rightarrow> (json list \<times> string) option"
  and json_members :: "nat \<Rightarrow> string \<Rightarrow> ((string \<times> json) list \<times> string) option" where
  "json_value 0 s = None"
| "json_value (Suc n) s =
    (case skip_ws s of [] \<Rightarrow> None
     | c # t \<Rightarrow>
        if c = CHR ''{'' then
          (if has_prefix (skip_ws t) ''}'' then Some (JObj [], drop 1 (skip_ws t))
           else map_option (\<lambda>(ms, u). (JObj ms, u)) (json_members n t))
        else if c = CHR ''['' then
          (if has_prefix (skip_ws t) '']'' then Some (JArr [], drop 1 (skip_ws t))
           else map_option (\<lambda>(js, u). (JArr js, u)) (json_elems n t))
        else if c = CHR 0x22 then map_option (\<lambda>(v, u). (JStr v, u)) (json_string t)
        else if has_prefix (c # t) ''null'' then Some (JNull, drop 3 t)
        else if has_prefix (c # t) ''true'' then Some (JBool True, drop 3 t)
        else if has_prefix (c # t) ''false'' then Some (JBool False, drop 4 t)
        else map_option (\<lambda>(v, u). (JNum v, u)) (json_number (c # t)))"
| "json_elems 0 s = None"
| "json_elems (Suc n) s =
    (case json_value n s of None \<Rightarrow> None
     | Some (j, t) \<Rightarrow>
        if has_prefix (skip_ws t) '','' then
          map_option (\<lambda>(js, u). (j # js, u)) (json_elems n (drop 1 (skip_ws t)))
        else if has_prefix (skip_ws t) '']'' then Some ([j], drop 1 (skip_ws t))
        else None)"
| "json_members 0 s = None"
| "json_members (Suc n) s =
    (if has_prefix (skip_ws s) [CHR 0x22] then
       (case json_string (drop 1 (skip_ws s)) of None \<Rightarrow> None
        | Some (k, t) \<Rightarrow>
           if has_prefix (skip_ws t) '':'' then
             (case json_value n (drop 1 (skip_ws t)) of None \<Rightarrow> None
              | Some (j, u) \<Rightarrow>
                 if has_prefix (skip_ws u) '','' then
                   map_option (\<lambda>(ms, v). ((k, j) # ms, v)) (json_members n (drop 1 (skip_ws u)))
                 else if has_prefix (skip_ws u) ''}'' then Some ([(k, j)], drop 1 (skip_ws u))
                 else None)
           else None)
     else None)"

definition json_parse :: "string \<Rightarrow> json option" where
  "json_parse s =
    (case json_value (2 * length s + 2) s of
       Some (j, t) \<Rightarrow> if skip_ws t = [] then Some j else None
     | None \<Rightarrow> None)"

end
