(* ===== verification/Json_Facts.thy ===== *)
theory Json_Facts
  imports Go_Json
begin

text \<open>
  What the components need of the JSON codec: a value whose strings are ASCII and whose numbers are
  integer literals is read back from its own text, whatever follows it; the scanner's fuel never
  decides a result.
\<close>

subsection \<open>String literals\<close>

lemma hex2_round_all:
  "list_all (\<lambda>n. hex4_val (CHR ''0'' # CHR ''0'' # hex2 n) = Some n) [0..<128]"
  by code_simp

lemma hex4_val_append: "hex4_val s = Some n \<Longrightarrow> hex4_val (s @ t) = Some n"
  by (auto simp: hex4_val_def split: list.splits option.splits)

lemma hex4_val_hex2: "n < 128 \<Longrightarrow> hex4_val (CHR ''0'' # CHR ''0'' # hex2 n @ t) = Some n"
  using hex2_round_all hex4_val_append [of "CHR ''0'' # CHR ''0'' # hex2 n" n t]
  by (simp add: list_all_iff)

lemma drop_hex2: "drop 2 (hex2 n @ t) = t"
  by (simp add: hex2_def)

lemma json_string_plain: "json_plain c \<Longrightarrow> json_string (c # s) = prepend [c] (json_string s)"
  by (auto simp: json_plain_def)

lemma json_string_u00:
  assumes "c < CHR 0x80"
  shows "json_string ([CHR 0x5C, CHR ''u'', CHR ''0'', CHR ''0''] @ hex2 (byte c) @ t)
    = prepend [c] (json_string t)"
proof -
  have c: "byte c < 128" using assms by (simp add: less_80_iff)
  then have h: "hex4_val (CHR ''0'' # CHR ''0'' # hex2 (byte c) @ t) = Some (byte c)"
    by (rule hex4_val_hex2)
  have d: "drop 4 (CHR ''0'' # CHR ''0'' # hex2 (byte c) @ t) = t"
    by (simp add: hex2_def)
  have "\<not> is_surrogate (byte c)" using c by (simp add: is_surrogate_def)
  with h d assms show ?thesis by (simp add: encode_rune_ascii)
qed

lemma json_string_escape:
  assumes "c < CHR 0x80"
  shows "json_string (json_escape c @ t) = prepend [c] (json_string t)"
proof -
  consider "json_plain c" | "c \<in> {CHR 0x22, CHR 0x5C, CHR 0x0A, CHR 0x0D, CHR 0x09}"
    | "json_escape c = [CHR 0x5C, CHR ''u'', CHR ''0'', CHR ''0''] @ hex2 (byte c)"
    by (cases "json_plain c"; cases "c \<in> {CHR 0x22, CHR 0x5C, CHR 0x0A, CHR 0x0D, CHR 0x09}")
      (auto simp: json_escape_def)
  then show ?thesis
  proof cases
    case 1
    then show ?thesis by (simp add: json_escape_def json_string_plain del: json_string.simps)
  next
    case 2
    then show ?thesis by (auto simp: json_escape_def json_plain_def unescape_def)
  next
    case 3
    then show ?thesis using json_string_u00 [OF assms, of t] by simp
  qed
qed

lemma json_quote_body_Nil [simp]: "json_quote_body [] = []"
  by (simp add: json_quote_body.simps)

lemma json_quote_body_ascii:
  "c < CHR 0x80 \<Longrightarrow> json_quote_body (c # s) = json_escape c @ json_quote_body s"
  by (subst json_quote_body.simps) simp

lemma json_string_quote_body:
  "ascii s \<Longrightarrow> json_string (json_quote_body s @ CHR 0x22 # t) = Some (s, t)"
proof (induction s)
  case Nil
  then show ?case by simp
next
  case (Cons c s)
  then show ?case by (simp add: json_quote_body_ascii json_string_escape)
qed

lemma json_plain_quote: "list_all json_plain s \<Longrightarrow> json_quote_body s = s"
proof (induction s)
  case Nil
  then show ?case by simp
next
  case (Cons c s)
  then have "c < CHR 0x80" by (simp add: json_plain_def)
  with Cons show ?case by (simp add: json_quote_body_ascii json_escape_def)
qed

lemma json_string_all_plain:
  "list_all json_plain s \<Longrightarrow> json_string (s @ CHR 0x22 # t) = Some (s, t)"
  by (induction s) (simp_all add: json_string_plain del: json_string.simps(2), simp)

subsection \<open>Progress\<close>

lemma length_skip_ws: "length (skip_ws s) \<le> length s"
  by (simp add: skip_ws_def length_dropWhile_le)

lemma json_string_progress: "json_string s = Some (v, t) \<Longrightarrow> length t < length s"
proof (induction s arbitrary: v t rule: json_string.induct)
  case 1
  then show ?case by simp
next
  case (2 c s)
  show ?case
    using "2.prems" "2.IH"
    by (auto simp: prepend_Some split: if_splits list.splits option.splits; fastforce)
qed

lemma num_split:
  "num_sign s = (a, t) \<Longrightarrow> s = a @ t"
  "num_int s = Some (a, t) \<Longrightarrow> s = a @ t \<and> a \<noteq> []"
  "num_frac s = Some (a, t) \<Longrightarrow> s = a @ t"
  "num_exp s = Some (a, t) \<Longrightarrow> s = a @ t"
     apply (auto simp: num_sign_def has_prefix_iff split: if_splits)[1]
    apply (auto simp: num_int_def has_prefix_iff split: if_splits)[1]
   apply (auto simp: num_frac_def has_prefix_iff split: if_splits)[1]
  apply (clarsimp simp: num_exp_def Let_def split: if_splits)
  done

lemma json_number_split: "json_number s = Some (v, t) \<Longrightarrow> s = v @ t \<and> v \<noteq> []"
  by (auto simp: json_number_def dest!: num_split split: prod.splits option.splits)

lemma json_number_progress: "json_number s = Some (v, t) \<Longrightarrow> length t < length s"
  by (auto dest: json_number_split)

lemma json_progress:
  "json_value n s = Some (j, t) \<Longrightarrow> length t < length s"
  "json_elems n s = Some (js, t) \<Longrightarrow> length t < length s"
  "json_members n s = Some (ms, t) \<Longrightarrow> length t < length s"
proof (induction n arbitrary: s j js ms t)
  case 0
  {
    case 1 then show ?case by simp
  next
    case 2 then show ?case by simp
  next
    case 3 then show ?case by simp
  }
next
  case (Suc n)
  {
    case 1
    obtain c u where cu: "skip_ws s = c # u"
      using 1 by (cases "skip_ws s") auto
    have len: "length u < length s" using length_skip_ws [of s] cu by simp
    have "length t \<le> length u"
      using 1 cu Suc.IH(2) [of u] Suc.IH(3) [of u] length_skip_ws [of u]
        json_number_progress [of "c # u"]
      by (auto split: if_splits dest!: json_string_progress; fastforce)
    with len show ?case by simp
  next
    case 2
    then obtain j1 t1 where jt: "json_value n s = Some (j1, t1)"
      by (cases "json_value n s") auto
    have len: "length t1 < length s" using Suc.IH(1) [OF jt] .
    have "length t \<le> length t1"
      using 2 jt Suc.IH(2) [of "drop 1 (skip_ws t1)"] length_skip_ws [of t1]
      by (auto split: if_splits; fastforce)
    with len show ?case by simp
  next
    case 3
    then obtain k t1 where kt: "json_string (drop 1 (skip_ws s)) = Some (k, t1)"
      by (auto split: if_splits option.splits)
    have len1: "length t1 < length s"
      using json_string_progress [OF kt] length_skip_ws [of s] by simp
    obtain j1 t2 where jt: "json_value n (drop 1 (skip_ws t1)) = Some (j1, t2)"
      using 3 kt by (auto split: if_splits option.splits)
    have len2: "length t2 < length s"
      using Suc.IH(1) [OF jt] length_skip_ws [of t1] len1 by simp
    have "length t \<le> length t2"
      using 3 kt jt Suc.IH(3) [of "drop 1 (skip_ws t2)"] length_skip_ws [of t2]
      by (auto split: if_splits; fastforce)
    with len2 show ?case by simp
  }
qed

subsection \<open>Enough fuel\<close>

lemma has_prefix_length: "has_prefix s p \<Longrightarrow> length p \<le> length s"
  by (auto simp: has_prefix_iff)

lemma json_fuel_step:
  "2 * length s + 1 \<le> n \<Longrightarrow> json_value (Suc n) s = json_value n s"
  "2 * length s + 2 \<le> n \<Longrightarrow> json_elems (Suc n) s = json_elems n s"
  "2 * length s + 2 \<le> n \<Longrightarrow> json_members (Suc n) s = json_members n s"
proof (induction n arbitrary: s)
  case 0
  {
    case 1 then show ?case by simp
  next
    case 2 then show ?case by simp
  next
    case 3 then show ?case by simp
  }
next
  case (Suc n)
  {
    case 1
    show ?case
    proof (cases "skip_ws s")
      case Nil
      then show ?thesis by simp
    next
      case (Cons c u)
      then have "2 * length u + 2 \<le> n" using 1 length_skip_ws [of s] by simp
      then have "json_elems (Suc n) u = json_elems n u" "json_members (Suc n) u = json_members n u"
        using Suc.IH(2,3) by blast+
      with Cons show ?thesis by (simp del: json_elems.simps json_members.simps)
    qed
  next
    case 2
    have v: "json_value (Suc n) s = json_value n s" using Suc.IH(1) 2 by simp
    show ?case
    proof (cases "json_value n s")
      case None
      with v show ?thesis by (subst (1 2) json_elems.simps) simp
    next
      case (Some p)
      obtain j t where p: "p = (j, t)" by (cases p)
      have "length t < length s" using Some p json_progress(1) by blast
      then have "2 * length (drop 1 (skip_ws t)) + 2 \<le> n"
        using 2 length_skip_ws [of t] by simp
      then have "json_elems (Suc n) (drop 1 (skip_ws t)) = json_elems n (drop 1 (skip_ws t))"
        by (rule Suc.IH(2))
      with Some p v show ?thesis
        by (subst (1 2) json_elems.simps) (simp del: json_elems.simps json_value.simps)
    qed
  next
    case 3
    show ?case
    proof (cases "json_string (drop 1 (skip_ws s))")
      case None
      then show ?thesis by (subst (1 2) json_members.simps) (simp del: json_members.simps)
    next
      case (Some p)
      obtain k t where p: "p = (k, t)" by (cases p)
      have lt: "length t < length s"
        using Some p json_string_progress [of "drop 1 (skip_ws s)" k t] length_skip_ws [of s] by simp
      have v: "json_value (Suc n) (drop 1 (skip_ws t)) = json_value n (drop 1 (skip_ws t))"
        using Suc.IH(1) 3 lt length_skip_ws [of t] by simp
      have m: "json_members (Suc n) (drop 1 (skip_ws u)) = json_members n (drop 1 (skip_ws u))"
        if "json_value n (drop 1 (skip_ws t)) = Some (j, u)" for j u
        using Suc.IH(3) [of "drop 1 (skip_ws u)"] 3 lt json_progress(1) [OF that]
          length_skip_ws [of u] length_skip_ws [of t] by simp
      show ?thesis
        using Some p v m
        by (subst (1 2) json_members.simps)
          (auto simp del: json_members.simps json_value.simps split: option.split)
    qed
  }
qed

lemma json_fuel_enough:
  assumes "2 * length s + 1 \<le> n" and "2 * length s + 1 \<le> m"
  shows "json_value n s = json_value m s"
proof -
  have "json_value (2 * length s + 1 + k) s = json_value (2 * length s + 1) s" for k
    by (induction k) (simp_all add: json_fuel_step(1) del: json_value.simps)
  then show ?thesis using assms by (metis le_add_diff_inverse)
qed

lemma json_fuel_mono:
  "json_value n s = Some r \<Longrightarrow> json_value (Suc n) s = Some r"
  "json_elems n s = Some rs \<Longrightarrow> json_elems (Suc n) s = Some rs"
  "json_members n s = Some ms \<Longrightarrow> json_members (Suc n) s = Some ms"
proof (induction n arbitrary: s r rs ms)
  case 0
  {
    case 1 then show ?case by simp
  next
    case 2 then show ?case by simp
  next
    case 3 then show ?case by simp
  }
next
  case (Suc n)
  {
    case 1
    obtain c u where cu: "skip_ws s = c # u"
      using 1 by (cases "skip_ws s") auto
    note e = Suc.IH(2) [of u] and m = Suc.IH(3) [of u]
    show ?case
      using 1 cu e m
      by (auto simp del: json_elems.simps json_members.simps split: if_splits)
  next
    case 2
    then obtain j t where v: "json_value n s = Some (j, t)"
      by (cases "json_value n s") auto
    note e = Suc.IH(2) [of "drop 1 (skip_ws t)"]
    show ?case
      using 2 v Suc.IH(1) [OF v] e
      by (subst json_elems.simps) (auto simp del: json_value.simps split: if_splits)
  next
    case 3
    then obtain k t where k: "json_string (drop 1 (skip_ws s)) = Some (k, t)"
      by (auto simp del: json_string.simps split: if_splits option.splits)
    then obtain j u where v: "json_value n (drop 1 (skip_ws t)) = Some (j, u)"
      using 3 by (auto simp del: json_string.simps split: if_splits option.splits)
    note e = Suc.IH(3) [of "drop 1 (skip_ws u)"]
    show ?case
      using 3 k v Suc.IH(1) [OF v] e
      by (subst json_members.simps)
        (auto simp del: json_value.simps json_string.simps split: if_splits)
  }
qed

lemma json_fuel_mono_le:
  "json_value n s = Some r \<Longrightarrow> n \<le> m \<Longrightarrow> json_value m s = Some r"
  "json_elems n s = Some rs \<Longrightarrow> n \<le> m \<Longrightarrow> json_elems m s = Some rs"
  "json_members n s = Some ms \<Longrightarrow> n \<le> m \<Longrightarrow> json_members m s = Some ms"
  by (induction m) (auto simp: le_Suc_eq json_fuel_mono simp del: json_elems.simps json_members.simps json_value.simps)

text \<open>A value read with any fuel at all is what \<open>json_parse\<close> reads.\<close>

lemma json_parseI:
  assumes "json_value n s = Some (j, t)" and "skip_ws t = []"
  shows "json_parse s = Some j"
proof -
  define m where "m = max n (2 * length s + 2)"
  have "json_value m s = Some (j, t)"
    using json_fuel_mono_le(1) [OF assms(1)] by (simp add: m_def)
  moreover have "json_value (2 * length s + 2) s = json_value m s"
    by (rule json_fuel_enough) (simp_all add: m_def)
  ultimately show ?thesis using assms(2) by (simp add: json_parse_def del: json_value.simps)
qed

subsection \<open>Reading back what was printed\<close>

definition int_literal :: "string \<Rightarrow> bool" where
  "int_literal n =
    (let ds = (if has_prefix n ''-'' then drop 1 n else n)
     in ds \<noteq> [] \<and> list_all is_digit ds \<and> (has_prefix ds ''0'' \<longrightarrow> ds = ''0''))"

text \<open>Values whose text the codec preserves: ASCII strings and integer numbers.\<close>

fun json_ok :: "json \<Rightarrow> bool" where
  "json_ok JNull = True"
| "json_ok (JBool b) = True"
| "json_ok (JNum n) = int_literal n"
| "json_ok (JStr s) = ascii s"
| "json_ok (JArr js) = list_all json_ok js"
| "json_ok (JObj ms) = list_all (\<lambda>(k, j). ascii k \<and> json_ok j) ms"

definition json_stop :: "string \<Rightarrow> bool" where
  "json_stop t = (case t of [] \<Rightarrow> True | c # _ \<Rightarrow> c \<in> set '',]}'')"

lemma json_stop_cases:
  assumes "json_stop t"
  obtains "t = []" | u where "t = CHR '','' # u" | u where "t = CHR '']'' # u" | u where "t = CHR ''}'' # u"
  using assms by (cases t) (auto simp: json_stop_def)

lemma span_digits_stop:
  assumes "list_all is_digit ds" and "json_stop t"
  shows "takeWhile is_digit (ds @ t) = ds" and "dropWhile is_digit (ds @ t) = t"
proof -
  have "takeWhile is_digit t = []" "dropWhile is_digit t = t"
    using assms(2) by (cases rule: json_stop_cases; simp add: is_digit_def)+
  then show "takeWhile is_digit (ds @ t) = ds" and "dropWhile is_digit (ds @ t) = t"
    using assms(1) by (simp_all add: list_all_iff)
qed

lemma num_tail_stop: "json_stop t \<Longrightarrow> num_frac t = Some ([], t) \<and> num_exp t = Some ([], t)"
  by (erule json_stop_cases) (simp_all add: num_frac_def num_exp_def)

lemma num_int_digits:
  assumes "list_all is_digit ds" and "ds \<noteq> []" and "has_prefix ds ''0'' \<longrightarrow> ds = ''0''" and "json_stop t"
  shows "num_int (ds @ t) = Some (ds, t)"
proof (cases "has_prefix ds ''0''")
  case True
  then show ?thesis using assms(3) by (simp add: num_int_def)
next
  case False
  obtain d ds' where ds: "ds = d # ds'" using assms(2) by (cases ds) auto
  with False have "\<not> has_prefix (ds @ t) ''0''" by simp
  then show ?thesis
    using span_digits_stop [OF assms(1,4)] assms(2) by (simp add: num_int_def)
qed

lemma json_number_int:
  assumes "int_literal n" and "json_stop t"
  shows "json_number (n @ t) = Some (n, t)"
proof -
  define ds where "ds = (if has_prefix n ''-'' then drop 1 n else n)"
  have ds: "ds \<noteq> []" "list_all is_digit ds" "has_prefix ds ''0'' \<longrightarrow> ds = ''0''"
    using assms(1) by (simp_all add: int_literal_def ds_def Let_def)
  have i: "num_int (ds @ t) = Some (ds, t)"
    using num_int_digits [OF ds(2,1,3) assms(2)] .
  show ?thesis
  proof (cases "has_prefix n ''-''")
    case True
    then have "n = CHR ''-'' # ds" by (auto simp: has_prefix_iff ds_def)
    with i num_tail_stop [OF assms(2)] show ?thesis
      by (simp add: json_number_def num_sign_def)
  next
    case False
    then have n: "n = ds" by (simp add: ds_def)
    obtain d ds' where "ds = d # ds'" using ds(1) by (cases ds) auto
    with False n have "num_sign (n @ t) = ([], n @ t)" by (simp add: num_sign_def)
    with i n num_tail_stop [OF assms(2)] show ?thesis by (simp add: json_number_def)
  qed
qed

text \<open>The first character of a printed value decides which branch the scanner takes.\<close>

lemma int_literal_first:
  assumes "int_literal n"
  obtains c cs where "n = c # cs" "c = CHR ''-'' \<or> is_digit c"
  using assms by (cases n) (auto simp: int_literal_def Let_def split: if_splits)

lemma digit_not_special:
  "is_digit c \<Longrightarrow> \<not> is_ws c \<and> c \<noteq> CHR '']'' \<and> c \<noteq> CHR ''}'' \<and> c \<noteq> CHR ''{'' \<and> c \<noteq> CHR ''['' \<and> c \<noteq> CHR 0x22
     \<and> c \<noteq> CHR ''n'' \<and> c \<noteq> CHR ''t'' \<and> c \<noteq> CHR ''f''"
  by (auto simp: is_digit_def is_ws_def)

lemma json_print_first:
  assumes "json_ok j"
  obtains c cs where "json_print j = c # cs" "\<not> is_ws c" "c \<noteq> CHR '']''"
proof (cases j)
  case (JNum n)
  with assms obtain c cs where n: "n = c # cs" and c: "c = CHR ''-'' \<or> is_digit c"
    by (auto elim!: int_literal_first)
  from c have "\<not> is_ws c" "c \<noteq> CHR '']''" using digit_not_special [of c] by (auto simp: is_ws_def)
  then show ?thesis using that JNum n by simp
next
  case (JBool b)
  then show ?thesis using that by (cases b) (simp_all add: is_ws_def)
qed (use that in \<open>simp_all add: json_quote_def is_ws_def\<close>)

lemma skip_ws_non_ws: "\<not> is_ws c \<Longrightarrow> skip_ws (c # s) = c # s"
  by (simp add: skip_ws_def)

lemma skip_ws_comma [simp]: "skip_ws (CHR '','' # s) = CHR '','' # s"
  and skip_ws_bracket [simp]: "skip_ws (CHR '']'' # s) = CHR '']'' # s"
  and skip_ws_brace [simp]: "skip_ws (CHR ''}'' # s) = CHR ''}'' # s"
  and skip_ws_colon [simp]: "skip_ws (CHR '':'' # s) = CHR '':'' # s"
  and skip_ws_quote [simp]: "skip_ws (CHR 0x22 # s) = CHR 0x22 # s"
  by (simp_all add: skip_ws_def is_ws_def)

lemma json_elems_last:
  "json_value n s = Some (j, CHR '']'' # t) \<Longrightarrow> json_elems (Suc n) s = Some ([j], t)"
  by (simp del: json_value.simps)

lemma json_elems_cons:
  "json_value n s = Some (j, CHR '','' # u) \<Longrightarrow> json_elems n u = Some (js, t)
    \<Longrightarrow> json_elems (Suc n) s = Some (j # js, t)"
  by (subst json_elems.simps) (simp del: json_value.simps json_elems.simps)

lemma json_members_last:
  "ascii k \<Longrightarrow> json_value n s = Some (j, CHR ''}'' # t)
    \<Longrightarrow> json_members (Suc n) (json_quote k @ CHR '':'' # s) = Some ([(k, j)], t)"
  by (simp add: json_quote_def json_string_quote_body del: json_value.simps json_string.simps)

lemma json_members_cons:
  "ascii k \<Longrightarrow> json_value n s = Some (j, CHR '','' # u) \<Longrightarrow> json_members n u = Some (ms, t)
    \<Longrightarrow> json_members (Suc n) (json_quote k @ CHR '':'' # s) = Some ((k, j) # ms, t)"
  by (subst json_members.simps)
    (simp add: json_quote_def json_string_quote_body
      del: json_value.simps json_string.simps json_members.simps)

lemma join_Cons: "ss \<noteq> [] \<Longrightarrow> join sep (s # ss) = s @ sep @ join sep ss"
  by (cases ss) simp_all

lemma json_elems_print:
  assumes "\<And>j t. j \<in> set js \<Longrightarrow> json_stop t \<Longrightarrow> \<exists>n. json_value n (json_print j @ t) = Some (j, t)"
    and "js \<noteq> []"
  shows "\<exists>n. json_elems n (join '','' (map json_print js) @ CHR '']'' # t) = Some (js, t)"
  using assms
proof (induction js)
  case Nil
  then show ?case by simp
next
  case (Cons j js)
  show ?case
  proof (cases "js = []")
    case True
    obtain n where "json_value n (json_print j @ CHR '']'' # t) = Some (j, CHR '']'' # t)"
      using Cons.prems(1) [of j "CHR '']'' # t"] by (auto simp: json_stop_def)
    then have "json_elems (Suc n) (json_print j @ CHR '']'' # t) = Some ([j], t)"
      by (rule json_elems_last)
    with True show ?thesis by (intro exI [of _ "Suc n"]) (simp del: json_elems.simps)
  next
    case False
    let ?e = "join '','' (map json_print js) @ CHR '']'' # t"
    obtain n where n: "json_elems n ?e = Some (js, t)"
      using Cons.IH Cons.prems(1) False by (meson list.set_intros(2))
    obtain m where m: "json_value m (json_print j @ CHR '','' # ?e) = Some (j, CHR '','' # ?e)"
      using Cons.prems(1) [of j "CHR '','' # ?e"] by (auto simp: json_stop_def)
    have "json_elems (Suc (max m n)) (json_print j @ CHR '','' # ?e) = Some (j # js, t)"
      using json_elems_cons json_fuel_mono_le(1) [OF m] json_fuel_mono_le(2) [OF n]
      by (meson max.cobounded1 max.cobounded2)
    with False show ?thesis
      by (intro exI [of _ "Suc (max m n)"]) (simp add: join_Cons del: json_elems.simps)
  qed
qed

definition print_member :: "string \<times> json \<Rightarrow> string" where
  "print_member p = json_quote (fst p) @ CHR '':'' # json_print (snd p)"

lemma print_member_eq: "(\<lambda>(k, j). json_quote k @ '':'' @ json_print j) = print_member"
  by (auto simp: print_member_def)

lemma json_members_print:
  assumes "\<And>p t. p \<in> set ms \<Longrightarrow> json_stop t \<Longrightarrow>
      \<exists>n. json_value n (json_print (snd p) @ t) = Some (snd p, t)"
    and "\<And>p. p \<in> set ms \<Longrightarrow> ascii (fst p)"
    and "ms \<noteq> []"
  shows "\<exists>n. json_members n (join '','' (map print_member ms) @ CHR ''}'' # t) = Some (ms, t)"
  using assms
proof (induction ms)
  case Nil
  then show ?case by simp
next
  case (Cons p ms)
  obtain k j where p: "p = (k, j)" by (cases p)
  then have ak: "ascii k" using Cons.prems(2) [of p] by simp
  show ?case
  proof (cases "ms = []")
    case True
    obtain n where "json_value n (json_print j @ CHR ''}'' # t) = Some (j, CHR ''}'' # t)"
      using Cons.prems(1) [of p "CHR ''}'' # t"] p by (auto simp: json_stop_def)
    then have "json_members (Suc n) (json_quote k @ CHR '':'' # json_print j @ CHR ''}'' # t)
        = Some ([(k, j)], t)"
      by (rule json_members_last [OF ak])
    with True p show ?thesis
      by (intro exI [of _ "Suc n"]) (simp add: print_member_def del: json_members.simps)
  next
    case False
    let ?e = "join '','' (map print_member ms) @ CHR ''}'' # t"
    obtain n where n: "json_members n ?e = Some (ms, t)"
      using Cons.IH Cons.prems(1,2) False by (meson list.set_intros(2))
    obtain m where m: "json_value m (json_print j @ CHR '','' # ?e) = Some (j, CHR '','' # ?e)"
      using Cons.prems(1) [of p "CHR '','' # ?e"] p by (auto simp: json_stop_def)
    have "json_members (Suc (max m n)) (json_quote k @ CHR '':'' # json_print j @ CHR '','' # ?e)
        = Some ((k, j) # ms, t)"
      using json_members_cons [OF ak] json_fuel_mono_le(1) [OF m] json_fuel_mono_le(3) [OF n]
      by (meson max.cobounded1 max.cobounded2)
    with False p show ?thesis
      by (intro exI [of _ "Suc (max m n)"])
        (simp add: join_Cons print_member_def [of "(k, j)"] del: json_members.simps)
  qed
qed

lemma json_value_number:
  assumes "int_literal n" and "json_stop t"
  shows "json_value 1 (n @ t) = Some (JNum n, t)"
proof -
  obtain c cs where n: "n = c # cs" and c: "c = CHR ''-'' \<or> is_digit c"
    using assms(1) by (rule int_literal_first)
  have "\<not> is_ws c \<and> c \<noteq> CHR ''{'' \<and> c \<noteq> CHR ''['' \<and> c \<noteq> CHR 0x22 \<and> c \<noteq> CHR ''n''
    \<and> c \<noteq> CHR ''t'' \<and> c \<noteq> CHR ''f''"
    using c
  proof
    assume "c = CHR ''-''"
    then show ?thesis by (simp add: is_ws_def)
  next
    assume "is_digit c"
    then show ?thesis using digit_not_special [of c] by blast
  qed
  moreover have "json_number (c # cs @ t) = Some (n, t)"
    using json_number_int [OF assms] n by simp
  ultimately show ?thesis using n by (simp add: skip_ws_non_ws)
qed

lemma json_value_string: "ascii s \<Longrightarrow> json_value 1 (json_quote s @ t) = Some (JStr s, t)"
  using json_string_quote_body [of s t] by (simp add: json_quote_def del: json_string.simps)

lemma json_value_array:
  assumes "json_elems n (c # u) = Some (js, t)" and "\<not> is_ws c" and "c \<noteq> CHR '']''"
  shows "json_value (Suc n) (CHR ''['' # c # u) = Some (JArr js, t)"
  using assms by (simp add: skip_ws_non_ws is_ws_def [of "CHR ''[''"] del: json_elems.simps)

lemma json_value_object:
  assumes "json_members n (c # u) = Some (ms, t)" and "\<not> is_ws c" and "c \<noteq> CHR ''}''"
  shows "json_value (Suc n) (CHR ''{'' # c # u) = Some (JObj ms, t)"
  using assms by (simp add: skip_ws_non_ws is_ws_def [of "CHR ''{''"] del: json_members.simps)

lemma json_value_empty:
  "json_value 1 (CHR ''['' # CHR '']'' # t) = Some (JArr [], t)"
  "json_value 1 (CHR ''{'' # CHR ''}'' # t) = Some (JObj [], t)"
  by (simp_all add: skip_ws_non_ws is_ws_def)

lemma json_value_atom:
  "json_value 1 (''null'' @ t) = Some (JNull, t)"
  "json_value 1 (''true'' @ t) = Some (JBool True, t)"
  "json_value 1 (''false'' @ t) = Some (JBool False, t)"
  by (simp_all add: skip_ws_non_ws is_ws_def)

lemma join_first:
  assumes "ss = (c # cs) # ts"
  obtains u where "join sep ss = c # u"
  using assms by (cases ts) simp_all

lemma json_value_print:
  "json_ok j \<Longrightarrow> json_stop t \<Longrightarrow> \<exists>n. json_value n (json_print j @ t) = Some (j, t)"
proof (induction j arbitrary: t)
  case JNull
  show ?case using json_value_atom(1) by (intro exI) (simp only: json_print.simps)
next
  case (JBool b)
  show ?case
    using json_value_atom(2,3) by (intro exI [of _ 1], cases b) (simp_all only: json_print.simps if_True if_False)
next
  case (JNum n)
  then show ?case using json_value_number [of n t] by (metis json_print.simps(3) json_ok.simps(3))
next
  case (JStr s)
  then show ?case using json_value_string [of s t] by (metis json_print.simps(4) json_ok.simps(4))
next
  case (JArr js)
  show ?case
  proof (cases js)
    case Nil
    then show ?thesis using json_value_empty(1) [of t] by (intro exI [of _ 1]) (simp del: json_value.simps)
  next
    case (Cons k ks)
    have ok: "json_ok j" if "j \<in> set js" for j using JArr.prems(1) that by (simp add: list_all_iff)
    obtain n where n: "json_elems n (join '','' (map json_print js) @ CHR '']'' # t) = Some (js, t)"
      using json_elems_print [of js t] JArr.IH ok Cons by blast
    obtain c cs where c: "json_print k = c # cs" "\<not> is_ws c" "c \<noteq> CHR '']''"
      using json_print_first [OF ok [of k]] Cons by auto
    then obtain u where u: "join '','' (map json_print js) = c # u"
      using Cons join_first [of "map json_print js" c cs "map json_print ks"] by auto
    have "json_value (Suc n) (CHR ''['' # c # u @ CHR '']'' # t) = Some (JArr js, t)"
      using json_value_array n u c(2,3) by (simp only: append_Cons)
    with u show ?thesis by (intro exI [of _ "Suc n"]) (simp del: json_value.simps)
  qed
next
  case (JObj ms)
  show ?case
  proof (cases ms)
    case Nil
    then show ?thesis using json_value_empty(2) [of t] by (intro exI [of _ 1]) (simp del: json_value.simps)
  next
    case (Cons p ps)
    have v: "\<exists>n. json_value n (json_print (snd p) @ u) = Some (snd p, u)"
      if "p \<in> set ms" "json_stop u" for p u
      using JObj.IH [of p "snd p" u] JObj.prems(1) that
      by (cases p) (auto simp: list_all_iff simp del: json_value.simps)
    have a: "ascii (fst p)" if "p \<in> set ms" for p
      using JObj.prems(1) that by (cases p) (auto simp: list_all_iff)
    obtain n where n: "json_members n (join '','' (map print_member ms) @ CHR ''}'' # t) = Some (ms, t)"
      using json_members_print [OF v a] Cons by blast
    obtain u where u: "join '','' (map print_member ms) = CHR 0x22 # u"
      using Cons join_first [of "map print_member ms" "CHR 0x22" _ "map print_member ps"]
      by (auto simp: print_member_def json_quote_def)
    have "json_value (Suc n) (CHR ''{'' # CHR 0x22 # u @ CHR ''}'' # t) = Some (JObj ms, t)"
      using json_value_object [of n "CHR 0x22"] n u by (simp add: is_ws_def del: json_value.simps json_members.simps)
    moreover have "json_print (JObj ms) = CHR ''{'' # join '','' (map print_member ms) @ ''}''"
      by (simp only: json_print.simps print_member_eq)
    ultimately show ?thesis
      using u by (intro exI [of _ "Suc n"]) (simp del: json_value.simps json_print.simps)
  qed
qed

theorem json_parse_print: "json_ok j \<Longrightarrow> json_parse (json_print j) = Some j"
  using json_value_print [of j "[]"] by (auto simp: json_stop_def skip_ws_def intro: json_parseI)

end
