(* ===== verification/Rados.thy ===== *)
theory Rados
  imports Go_Errors Json_Facts
begin

text \<open>
  The RADOS layer (\<open>pkg/rados\<close>): the connection interface, the service that runs monitor and manager
  commands on it, and how the production connection is set up. The cluster behind a connection is
  a state of type \<open>'w\<close> that each command may change; nothing is assumed of it here.
\<close>

subsection \<open>The connection interface (config.go) and the service (service.go)\<close>

type_synonym cmd_result = "string \<times> string \<times> go_error option"

record 'w rados_conn =
  mon_command :: "string \<Rightarrow> 'w \<Rightarrow> cmd_result \<times> 'w"
  mon_command_with_input_buffer :: "string \<Rightarrow> string \<Rightarrow> 'w \<Rightarrow> cmd_result \<times> 'w"
  mgr_command :: "string list \<Rightarrow> 'w \<Rightarrow> cmd_result \<times> 'w"
  shutdown :: "'w \<Rightarrow> 'w"

definition exec_mon :: "'w rados_conn \<Rightarrow> string \<Rightarrow> 'w \<Rightarrow> string res \<times> 'w" where
  "exec_mon conn cmd w =
    (case mon_command conn cmd w of ((cmd_res, cmd_status, err), w') \<Rightarrow>
      (case err of Some e \<Rightarrow> (Inl e, w') | None \<Rightarrow> (Inr cmd_res, w')))"

definition exec_mon_with_input_buff ::
  "'w rados_conn \<Rightarrow> string \<Rightarrow> string \<Rightarrow> 'w \<Rightarrow> string res \<times> 'w" where
  "exec_mon_with_input_buff conn cmd buf w =
    (case mon_command_with_input_buffer conn cmd buf w of ((cmd_res, cmd_status, err), w') \<Rightarrow>
      (case err of Some e \<Rightarrow> (Inl e, w') | None \<Rightarrow> (Inr cmd_res, w')))"

definition exec_mgr :: "'w rados_conn \<Rightarrow> string \<Rightarrow> 'w \<Rightarrow> string res \<times> 'w" where
  "exec_mgr conn cmd w =
    (case mgr_command conn [cmd] w of ((cmd_res, cmd_status, err), w') \<Rightarrow>
      (case err of Some e \<Rightarrow> (Inl e, w') | None \<Rightarrow> (Inr cmd_res, w')))"

definition rados_close :: "'w rados_conn \<Rightarrow> 'w \<Rightarrow> 'w" where
  "rados_close conn w = shutdown conn w"

subsection \<open>The production connection (production\_conn.go)\<close>

record rados_config =
  rc_user :: string
  rc_user_keyring :: string
  rc_mon_host :: string
  rc_rados_timeout :: int

text \<open>
  The go-ceph calls the set-up makes, on a connection handle of type \<open>'h\<close>; go-ceph is not part of
  the repository, so they are an argument. \<open>format_seconds\<close> is
  \<open>strconv.FormatFloat(d.Seconds(), 'f', -1, 64)\<close> of a duration in nanoseconds.
\<close>

record 'h ceph_lib =
  new_conn_with_user :: "string \<Rightarrow> 'h res"
  read_default_config_file :: "'h \<Rightarrow> 'h res"
  parse_cmd_line_args :: "string list \<Rightarrow> 'h \<Rightarrow> 'h res"
  set_config_option :: "string \<Rightarrow> string \<Rightarrow> 'h \<Rightarrow> 'h res"
  connect :: "'h \<Rightarrow> 'h res"
  format_seconds :: "int \<Rightarrow> string"

definition new_rados_conn :: "'h ceph_lib \<Rightarrow> rados_config \<Rightarrow> 'h res" where
  "new_rados_conn lib conf =
    and_then (new_conn_with_user lib (rc_user conf)) (\<lambda>conn.
    and_then
      (if rc_mon_host conf = [] \<or> rc_user_keyring conf = [] \<or> rc_rados_timeout conf = 0
       then read_default_config_file lib conn
       else parse_cmd_line_args lib
              [''--mon-host'', rc_mon_host conf, ''--key'', rc_user_keyring conf,
               ''--client_mount_timeout'', ''3''] conn) (\<lambda>conn.
    let timeout = format_seconds lib (rc_rados_timeout conf) in
    and_then (set_config_option lib ''rados_osd_op_timeout'' timeout conn) (\<lambda>conn.
    and_then (set_config_option lib ''rados_mon_op_timeout'' timeout conn) (\<lambda>conn.
    connect lib conn))))"

subsection \<open>Facts\<close>

lemma exec_mon_cases:
  obtains e w' where "exec_mon conn cmd w = (Inl e, w')"
  | b w' where "exec_mon conn cmd w = (Inr b, w')"
  by (cases "exec_mon conn cmd w", cases "fst (exec_mon conn cmd w)") auto

lemma exec_mon_with_input_buff_cases:
  obtains e w' where "exec_mon_with_input_buff conn cmd buf w = (Inl e, w')"
  | b w' where "exec_mon_with_input_buff conn cmd buf w = (Inr b, w')"
  by (cases "exec_mon_with_input_buff conn cmd buf w",
      cases "fst (exec_mon_with_input_buff conn cmd buf w)") auto

end
