(* ===== verification/Roles.thy ===== *)
theory Roles
  imports Go_Errors Go_Text
begin

text \<open>
  Scopes, permissions, roles and the built-in roles (\<open>pkg/user/system_roles.go\<close>, and the type
  \<open>Role\<close> of \<open>service.go\<close>). The built-in roles are written out as the JSON constant decodes.
\<close>

subsection \<open>Scopes and permissions\<close>

datatype scope =
    ScopeHosts
  | ScopeConfigOpt
  | ScopePool
  | ScopeOsd
  | ScopeMonitor
  | ScopeRbdImage
  | ScopeIscsi
  | ScopeRbdMirroring
  | ScopeRgw
  | ScopeCephfs
  | ScopeManager
  | ScopeLog
  | ScopeGrafana
  | ScopePrometheus
  | ScopeUser
  | ScopeDashboardSettings
  | ScopeNfsGanesha
  | ScopeNvmeOf

fun scope_string :: "scope \<Rightarrow> string" where
  "scope_string ScopeHosts = ''hosts''"
| "scope_string ScopeConfigOpt = ''config-opt''"
| "scope_string ScopePool = ''pool''"
| "scope_string ScopeOsd = ''osd''"
| "scope_string ScopeMonitor = ''monitor''"
| "scope_string ScopeRbdImage = ''rbd-image''"
| "scope_string ScopeIscsi = ''iscsi''"
| "scope_string ScopeRbdMirroring = ''rbd-mirroring''"
| "scope_string ScopeRgw = ''rgw''"
| "scope_string ScopeCephfs = ''cephfs''"
| "scope_string ScopeManager = ''manager''"
| "scope_string ScopeLog = ''log''"
| "scope_string ScopeGrafana = ''grafana''"
| "scope_string ScopePrometheus = ''prometheus''"
| "scope_string ScopeUser = ''user''"
| "scope_string ScopeDashboardSettings = ''dashboard-setting''"
| "scope_string ScopeNfsGanesha = ''nfs-ganesha''"
| "scope_string ScopeNvmeOf = ''nvme-of''"

definition scope_set :: "string list" where
  "scope_set =
    [''hosts'', ''config-opt'', ''pool'', ''osd'', ''monitor'', ''rbd-image'', ''iscsi'', ''rbd-mirroring'', ''rgw'', ''cephfs'', ''manager'', ''log'', ''grafana'', ''prometheus'', ''user'', ''dashboard-settings'', ''nfs-ganesha'', ''nvme-of'']"

datatype permission = PermRead | PermCreate | PermUpdate | PermDelete

definition permission_list :: "string list" where
  "permission_list = [''read'', ''create'', ''update'', ''delete'']"

fun permission_index :: "permission \<Rightarrow> nat" where
  "permission_index PermRead = 0"
| "permission_index PermCreate = 1"
| "permission_index PermUpdate = 2"
| "permission_index PermDelete = 3"

definition permission_string :: "permission \<Rightarrow> string" where
  "permission_string p = permission_list ! permission_index p"

definition permission_set :: "permission gomap" where
  "permission_set =
    [(''read'', PermRead), (''create'', PermCreate), (''update'', PermUpdate), (''delete'', PermDelete)]"

lemma permission_string_simps [simp]:
  "permission_string PermRead = ''read''" "permission_string PermCreate = ''create''"
  "permission_string PermUpdate = ''update''" "permission_string PermDelete = ''delete''"
  by (simp_all add: permission_string_def permission_list_def)

subsection \<open>Roles\<close>

record role =
  role_name :: string
  role_description :: "string option"
  role_is_system :: bool
  role_permissions :: "string slice nmap"

text \<open>The value of a Go map read for a role that is not there: no permissions.\<close>

definition no_role :: role where
  "no_role = \<lparr>role_name = [], role_description = None, role_is_system = False, role_permissions = None\<rparr>"

text \<open>
  \<open>fmt\<close> prints \<open>%+q\<close> of a \<open>map[string]struct{}\<close> with its keys sorted and quoted, and of a slice of
  strings element by element. \<open>isp\<close> is the table of printable runes \<open>strconv.Quote\<close> consults.
\<close>

definition quoted_scopes :: string where
  "quoted_scopes =
    ''map['' @ join '' '' (map (\<lambda>s. [CHR 0x22] @ s @ [CHR 0x22] @ '':{}'') (sort scope_set)) @ '']''"

definition quoted_permissions :: string where
  "quoted_permissions = ''['' @ join '' '' (map (\<lambda>s. [CHR 0x22] @ s @ [CHR 0x22]) permission_list) @ '']''"

fun validate_perms :: "(nat \<Rightarrow> bool) \<Rightarrow> string list \<Rightarrow> go_error option" where
  "validate_perms isp [] = None"
| "validate_perms isp (p # ps) =
    (if has_key permission_set p then validate_perms isp ps
     else Some (Wrapped [] ErrInvalidArg
       ('': unknown permission '' @ strconv_quote isp p @ '', valid values '' @ quoted_permissions)))"

fun validate_scopes :: "(nat \<Rightarrow> bool) \<Rightarrow> string slice gomap \<Rightarrow> go_error option" where
  "validate_scopes isp [] = None"
| "validate_scopes isp ((scope, perms) # rest) =
    (if scope \<notin> set scope_set then
       Some (Wrapped [] ErrInvalidArg
         ('': unknown scope '' @ scope @ '', valid values: '' @ quoted_scopes))
     else (case validate_perms isp (elems perms) of
             Some e \<Rightarrow> Some e
           | None \<Rightarrow> validate_scopes isp rest))"

definition role_validate :: "(nat \<Rightarrow> bool) \<Rightarrow> role \<Rightarrow> go_error option" where
  "role_validate isp r =
    (if role_name r = [] then Some (Wrapped [] ErrInvalidArg '': role name is empty'')
     else validate_scopes isp (elems (role_permissions r)))"

subsection \<open>The built-in roles\<close>

definition administrator_role :: role where
  "administrator_role =
    \<lparr>role_name = ''administrator'',
     role_description = Some (''allows full permissions for all security scopes''),
     role_is_system = True,
     role_permissions = Some
      [(''cephfs'', Some [''create'', ''delete'', ''read'', ''update'']),
       (''config-opt'', Some [''create'', ''delete'', ''read'', ''update'']),
       (''dashboard-settings'', Some [''create'', ''delete'', ''read'', ''update'']),
       (''grafana'', Some [''create'', ''delete'', ''read'', ''update'']),
       (''hosts'', Some [''create'', ''delete'', ''read'', ''update'']),
       (''iscsi'', Some [''create'', ''delete'', ''read'', ''update'']),
       (''log'', Some [''create'', ''delete'', ''read'', ''update'']),
       (''manager'', Some [''create'', ''delete'', ''read'', ''update'']),
       (''monitor'', Some [''create'', ''delete'', ''read'', ''update'']),
       (''nfs-ganesha'', Some [''create'', ''delete'', ''read'', ''update'']),
       (''osd'', Some [''create'', ''delete'', ''read'', ''update'']),
       (''pool'', Some [''create'', ''delete'', ''read'', ''update'']),
       (''prometheus'', Some [''create'', ''delete'', ''read'', ''update'']),
       (''rbd-image'', Some [''create'', ''delete'', ''read'', ''update'']),
       (''rbd-mirroring'', Some [''create'', ''delete'', ''read'', ''update'']),
       (''rgw'', Some [''create'', ''delete'', ''read'', ''update'']),
       (''user'', Some [''create'', ''delete'', ''read'', ''update''])]\<rparr>"

definition block_manager_role :: role where
  "block_manager_role =
    \<lparr>role_name = ''block-manager'',
     role_description = Some (''allows full permissions for rbd-image, rbd-mirroring, and iscsi scopes''),
     role_is_system = True,
     role_permissions = Some
      [(''rbd-image'', Some [''read'', ''create'', ''update'', ''delete'']),
       (''pool'', Some [''read'']),
       (''iscsi'', Some [''read'', ''create'', ''update'', ''delete'']),
       (''rbd-mirroring'', Some [''read'', ''create'', ''update'', ''delete'']),
       (''grafana'', Some [''read''])]\<rparr>"

definition cephfs_manager_role :: role where
  "cephfs_manager_role =
    \<lparr>role_name = ''cephfs-manager'',
     role_description = Some (''allows full permissions for the cephfs scope''),
     role_is_system = True,
     role_permissions = Some
      [(''cephfs'', Some [''read'', ''create'', ''update'', ''delete'']),
       (''grafana'', Some [''read''])]\<rparr>"

definition cluster_manager_role :: role where
  "cluster_manager_role =
    \<lparr>role_name = ''cluster-manager'',
     role_description = Some (''allows full permissions for the hosts, osd, mon, mgr,'' @ [CHR 0x0A] @ ''    and config-opt scopes''),
     role_is_system = True,
     role_permissions = Some
      [(''hosts'', Some [''read'', ''create'', ''update'', ''delete'']),
       (''osd'', Some [''read'', ''create'', ''update'', ''delete'']),
       (''monitor'', Some [''read'', ''create'', ''update'', ''delete'']),
       (''manager'', Some [''read'', ''create'', ''update'', ''delete'']),
       (''config-opt'', Some [''read'', ''create'', ''update'', ''delete'']),
       (''log'', Some [''read'', ''create'', ''update'', ''delete'']),
       (''grafana'', Some [''read''])]\<rparr>"

definition ganesha_manager_role :: role where
  "ganesha_manager_role =
    \<lparr>role_name = ''ganesha-manager'',
     role_description = Some (''allows full permissions for the nfs-ganesha scope''),
     role_is_system = True,
     role_permissions = Some
      [(''nfs-ganesha'', Some [''read'', ''create'', ''update'', ''delete'']),
       (''cephfs'', Some [''read'', ''create'', ''update'', ''delete'']),
       (''rgw'', Some [''read'', ''create'', ''update'', ''delete'']),
       (''grafana'', Some [''read''])]\<rparr>"

definition pool_manager_role :: role where
  "pool_manager_role =
    \<lparr>role_name = ''pool-manager'',
     role_description = Some (''allows full permissions for the pool scope''),
     role_is_system = True,
     role_permissions = Some
      [(''pool'', Some [''read'', ''create'', ''update'', ''delete'']),
       (''grafana'', Some [''read''])]\<rparr>"

definition read_only_role :: role where
  "read_only_role =
    \<lparr>role_name = ''read-only'',
     role_description = Some (''allows read permission for all security scope except dashboard settings and config-opt''),
     role_is_system = True,
     role_permissions = Some
      [(''cephfs'', Some [''read'']),
       (''grafana'', Some [''read'']),
       (''hosts'', Some [''read'']),
       (''iscsi'', Some [''read'']),
       (''log'', Some [''read'']),
       (''manager'', Some [''read'']),
       (''monitor'', Some [''read'']),
       (''nfs-ganesha'', Some [''read'']),
       (''osd'', Some [''read'']),
       (''pool'', Some [''read'']),
       (''prometheus'', Some [''read'']),
       (''rbd-image'', Some [''read'']),
       (''rbd-mirroring'', Some [''read'']),
       (''rgw'', Some [''read'']),
       (''user'', Some [''read''])]\<rparr>"

definition rgw_manager_role :: role where
  "rgw_manager_role =
    \<lparr>role_name = ''rgw-manager'',
     role_description = Some (''allows full permissions for the rgw scope''),
     role_is_system = True,
     role_permissions = Some
      [(''rgw'', Some [''read'', ''create'', ''update'', ''delete'']),
       (''grafana'', Some [''read''])]\<rparr>"

definition system_roles :: "role list" where
  "system_roles =
    [administrator_role, block_manager_role, cephfs_manager_role, cluster_manager_role, ganesha_manager_role, pool_manager_role, read_only_role, rgw_manager_role]"

definition system_role_map :: "role gomap" where
  "system_role_map = foldl (\<lambda>m r. gset (role_name r) r m) [] system_roles"

subsection \<open>Facts\<close>

lemmas system_role_defs =
  administrator_role_def block_manager_role_def cephfs_manager_role_def cluster_manager_role_def
  ganesha_manager_role_def pool_manager_role_def read_only_role_def rgw_manager_role_def

lemma system_role_map_eq:
  "system_role_map =
    [(''administrator'', administrator_role), (''block-manager'', block_manager_role),
     (''cephfs-manager'', cephfs_manager_role), (''cluster-manager'', cluster_manager_role),
     (''ganesha-manager'', ganesha_manager_role), (''pool-manager'', pool_manager_role),
     (''read-only'', read_only_role), (''rgw-manager'', rgw_manager_role)]"
  by (simp add: system_role_map_def system_roles_def gset_def system_role_defs)

text \<open>What validation accepts, as a predicate: a name, known scopes, known permissions.\<close>

definition valid_scopes :: "string slice gomap \<Rightarrow> bool" where
  "valid_scopes m \<longleftrightarrow>
    list_all (\<lambda>(scope, perms). scope \<in> set scope_set \<and> list_all (\<lambda>p. p \<in> set permission_list) (elems perms)) m"

lemma has_key_permission_set: "has_key permission_set p \<longleftrightarrow> p \<in> set permission_list"
  by (auto simp: has_key_iff permission_set_def permission_list_def)

lemma validate_perms_None: "validate_perms isp ps = None \<longleftrightarrow> list_all (\<lambda>p. p \<in> set permission_list) ps"
  by (induction ps) (auto simp: has_key_permission_set)

lemma validate_scopes_None: "validate_scopes isp m = None \<longleftrightarrow> valid_scopes m"
  proof (induction m)
  case Nil
  then show ?case by (simp add: valid_scopes_def)
next
  case (Cons p m)
  then show ?case
    using validate_perms_None [of isp "elems (snd p)"]
    by (cases p, cases "validate_perms isp (elems (snd p))") (auto simp: valid_scopes_def)
qed

lemma validate_perms_error: "validate_perms isp ps = Some e \<Longrightarrow> errors_is e ErrInvalidArg"
  by (induction ps) (auto split: if_splits)

lemma validate_scopes_error: "validate_scopes isp m = Some e \<Longrightarrow> errors_is e ErrInvalidArg"
  by (induction m) (auto dest: validate_perms_error split: if_splits option.splits)

lemma role_validate_error: "role_validate isp r = Some e \<Longrightarrow> errors_is e ErrInvalidArg"
  by (auto simp: role_validate_def dest: validate_scopes_error split: if_splits)

lemma role_validate_None:
  "role_validate isp r = None \<longleftrightarrow> role_name r \<noteq> [] \<and> valid_scopes (elems (role_permissions r))"
  by (simp add: role_validate_def validate_scopes_None)

lemma system_roles_valid:
  "list_all (\<lambda>(k, r). role_name r = k \<and> role_is_system r \<and> role_name r \<noteq> []
      \<and> valid_scopes (elems (role_permissions r))) system_role_map"
  by (simp add: system_role_map_eq system_role_defs valid_scopes_def scope_set_def permission_list_def)

lemma wf_system_role_map: "wf_map system_role_map"
  by (simp add: wf_map_def system_role_map_eq)

end
