(* ===== verification/Ctx.thy ===== *)
theory Ctx
  imports Prelude
begin

text \<open>
  The request context (\<open>pkg/ctx/context.go\<close>): the three values the interceptors attach to a
  \<open>context.Context\<close>, each absent until set. A later \<open>Set\<close> hides an earlier one.
\<close>

record req_ctx =
  ctx_trace_id :: "string option"
  ctx_username :: "string option"
  ctx_permissions :: "string list gomap option"

definition background :: req_ctx where
  "background = \<lparr>ctx_trace_id = None, ctx_username = None, ctx_permissions = None\<rparr>"

definition set_trace_id :: "string \<Rightarrow> req_ctx \<Rightarrow> req_ctx" where
  "set_trace_id t ctx = ctx\<lparr>ctx_trace_id := Some t\<rparr>"

definition get_trace_id :: "req_ctx \<Rightarrow> string" where
  "get_trace_id ctx = (case ctx_trace_id ctx of Some t \<Rightarrow> t | None \<Rightarrow> [])"

definition set_username :: "string \<Rightarrow> req_ctx \<Rightarrow> req_ctx" where
  "set_username u ctx = ctx\<lparr>ctx_username := Some u\<rparr>"

definition get_username :: "req_ctx \<Rightarrow> string" where
  "get_username ctx = (case ctx_username ctx of Some u \<Rightarrow> u | None \<Rightarrow> [])"

text \<open>A \<open>nil\<close> map is stored as an empty one; reading an absent value gives the \<open>nil\<close> map.\<close>

definition set_permissions :: "string list gomap option \<Rightarrow> req_ctx \<Rightarrow> req_ctx" where
  "set_permissions perms ctx = ctx\<lparr>ctx_permissions := Some (elems perms)\<rparr>"

definition get_permissions_ctx :: "req_ctx \<Rightarrow> string list gomap" where
  "get_permissions_ctx ctx = elems (ctx_permissions ctx)"

lemma ctx_simps [simp]:
  "get_permissions_ctx (set_permissions p ctx) = elems p"
  "get_username (set_username u ctx) = u"
  "get_trace_id (set_trace_id t ctx) = t"
  "get_username (set_permissions p ctx) = get_username ctx"
  "get_permissions_ctx (set_username u ctx) = get_permissions_ctx ctx"
  "get_permissions_ctx (set_trace_id t ctx) = get_permissions_ctx ctx"
  "get_username (set_trace_id t ctx) = get_username ctx"
  by (simp_all add: get_permissions_ctx_def set_permissions_def get_username_def set_username_def
      get_trace_id_def set_trace_id_def)

end
