(* ===== verification/Go_Sort.thy ===== *)
theory Go_Sort
  imports Prelude
begin

text \<open>
  \<open>sort.Slice\<close> is not stable: the documentation promises a permutation of the slice, ordered by
  \<open>less\<close> when that is a strict weak order, and leaves the order of equal elements open. A function
  that calls it takes the sort as an argument, and \<open>sort_slice_ok\<close> is that promise.
  \<open>insertion_sort\<close> is the routine Go itself runs on up to twelve elements, and keeps it.
\<close>

definition strict_weak :: "('a \<Rightarrow> 'a \<Rightarrow> bool) \<Rightarrow> bool" where
  "strict_weak lt \<longleftrightarrow>
    (\<forall>a. \<not> lt a a) \<and> (\<forall>a b c. lt a b \<longrightarrow> lt b c \<longrightarrow> lt a c)
    \<and> (\<forall>a b c. \<not> lt a b \<longrightarrow> \<not> lt b c \<longrightarrow> \<not> lt a c)"

definition sort_slice_ok :: "(('a \<Rightarrow> 'a \<Rightarrow> bool) \<Rightarrow> 'a list \<Rightarrow> 'a list) \<Rightarrow> bool" where
  "sort_slice_ok srt \<longleftrightarrow>
    (\<forall>lt xs. mset (srt lt xs) = mset xs
      \<and> (strict_weak lt \<longrightarrow> sorted_wrt (\<lambda>a b. \<not> lt b a) (srt lt xs)))"

fun insert_by :: "('a \<Rightarrow> 'a \<Rightarrow> bool) \<Rightarrow> 'a \<Rightarrow> 'a list \<Rightarrow> 'a list" where
  "insert_by lt x [] = [x]"
| "insert_by lt x (y # ys) = (if lt x y then x # y # ys else y # insert_by lt x ys)"

definition insertion_sort :: "('a \<Rightarrow> 'a \<Rightarrow> bool) \<Rightarrow> 'a list \<Rightarrow> 'a list" where
  "insertion_sort lt xs = foldl (\<lambda>acc x. insert_by lt x acc) [] xs"

lemma mset_insert_by: "mset (insert_by lt x ys) = add_mset x (mset ys)"
  by (induction ys) auto

lemma set_insert_by: "set (insert_by lt x ys) = insert x (set ys)"
  by (metis mset_insert_by set_mset_add_mset_insert set_mset_mset)

lemma sorted_insert_by:
  assumes "strict_weak lt"
  shows "sorted_wrt (\<lambda>a b. \<not> lt b a) ys \<Longrightarrow> sorted_wrt (\<lambda>a b. \<not> lt b a) (insert_by lt x ys)"
proof (induction ys)
  case Nil
  then show ?case by simp
next
  case (Cons y ys)
  have irr: "\<not> lt a a" and tr: "lt a b \<Longrightarrow> lt b c \<Longrightarrow> lt a c"
    and ntr: "\<not> lt a b \<Longrightarrow> \<not> lt b c \<Longrightarrow> \<not> lt a c" for a b c
    using assms unfolding strict_weak_def by blast+
  have sy: "sorted_wrt (\<lambda>a b. \<not> lt b a) ys" and hd: "\<And>z. z \<in> set ys \<Longrightarrow> \<not> lt z y"
    using Cons.prems by auto
  show ?case
  proof (cases "lt x y")
    case True
    have yx: "\<not> lt y x" using irr tr [of y x y] True by blast
    have "\<not> lt z x" if "z \<in> set ys" for z using ntr [OF hd [OF that] yx] .
    with True yx sy hd show ?thesis by simp
  next
    case False
    then have "\<not> lt z y" if "z \<in> set (insert_by lt x ys)" for z
      using that hd by (auto simp: set_insert_by)
    with False Cons.IH [OF sy] show ?thesis by simp
  qed
qed

lemma foldl_insert_by:
  "mset (foldl (\<lambda>acc x. insert_by lt x acc) ys xs) = mset ys + mset xs"
  by (induction xs arbitrary: ys) (auto simp: mset_insert_by)

lemma sorted_foldl_insert_by:
  "strict_weak lt \<Longrightarrow> sorted_wrt (\<lambda>a b. \<not> lt b a) ys \<Longrightarrow>
    sorted_wrt (\<lambda>a b. \<not> lt b a) (foldl (\<lambda>acc x. insert_by lt x acc) ys xs)"
  by (induction xs arbitrary: ys) (auto simp: sorted_insert_by)

lemma insertion_sort_ok: "sort_slice_ok insertion_sort"
  by (simp add: sort_slice_ok_def insertion_sort_def foldl_insert_by sorted_foldl_insert_by)

lemma strict_weak_key:
  fixes f :: "'a \<Rightarrow> 'b::linorder"
  shows "strict_weak (\<lambda>a b. f a < f b)" "strict_weak (\<lambda>a b. f b < f a)"
  by (auto simp: strict_weak_def)

lemma strict_weak_false: "strict_weak (\<lambda>a b. False)"
  by (simp add: strict_weak_def)

lemma sort_slice_mset: "sort_slice_ok srt \<Longrightarrow> mset (srt lt xs) = mset xs"
  by (simp add: sort_slice_ok_def)

lemma sort_slice_set: "sort_slice_ok srt \<Longrightarrow> set (srt lt xs) = set xs"
  by (metis set_mset_mset sort_slice_mset)

lemma sort_slice_length: "sort_slice_ok srt \<Longrightarrow> length (srt lt xs) = length xs"
  by (metis mset_eq_length sort_slice_mset)

lemma sort_slice_sorted:
  fixes f :: "'a \<Rightarrow> 'b::linorder"
  assumes "sort_slice_ok srt"
  shows "sorted (map f (srt (\<lambda>a b. f a < f b) xs))"
    and "sorted (rev (map f (srt (\<lambda>a b. f b < f a) xs)))"
proof -
  have "sorted_wrt (\<lambda>a b. \<not> f b < f a) (srt (\<lambda>a b. f a < f b) xs)"
    using assms strict_weak_key(1) [of f] unfolding sort_slice_ok_def by blast
  then show "sorted (map f (srt (\<lambda>a b. f a < f b) xs))"
    by (simp add: sorted_map not_less)
  have "sorted_wrt (\<lambda>a b. \<not> f a < f b) (srt (\<lambda>a b. f b < f a) xs)"
    using assms strict_weak_key(2) [of f] unfolding sort_slice_ok_def by blast
  then show "sorted (rev (map f (srt (\<lambda>a b. f b < f a) xs)))"
    by (simp add: sorted_wrt_rev sorted_wrt_map not_less)
qed

end
