(* ===== verification/Go_Decode.thy ===== *)
theory Go_Decode
  imports Go_Errors Json_Facts
begin

text \<open>
  Decoding JSON values into Go data (\<open>json.Unmarshal\<close>): one decoder per target type, each taking
  the value the target holds before (\<open>null\<close> leaves a scalar alone and sets a pointer, slice or map
  to \<open>nil\<close>). A struct's members are matched to its fields by name, exactly or else up to case; an
  unknown member is skipped. After a type mismatch Go goes on decoding and reports the first
  mismatch at the end; no caller here uses the value then, so the model stops at once. The capacity
  a slice keeps beyond its length is not modelled.
\<close>

definition unmarshal_error :: go_error where
  "unmarshal_error = Foreign ''json: cannot unmarshal''"

definition syntax_error :: go_error where
  "syntax_error = Foreign ''json: invalid syntax''"

subsection \<open>Scalars and pointers\<close>

definition dec_string :: "json \<Rightarrow> string \<Rightarrow> string res" where
  "dec_string j old = (case j of JStr s \<Rightarrow> Inr s | JNull \<Rightarrow> Inr old | _ \<Rightarrow> Inl unmarshal_error)"

definition dec_bool :: "json \<Rightarrow> bool \<Rightarrow> bool res" where
  "dec_bool j old = (case j of JBool b \<Rightarrow> Inr b | JNull \<Rightarrow> Inr old | _ \<Rightarrow> Inl unmarshal_error)"

definition dec_int :: "json \<Rightarrow> int \<Rightarrow> int res" where
  "dec_int j old =
    (case j of
       JNum n \<Rightarrow> (case parse_int64 n of Some i \<Rightarrow> Inr i | None \<Rightarrow> Inl unmarshal_error)
     | JNull \<Rightarrow> Inr old | _ \<Rightarrow> Inl unmarshal_error)"

definition dec_ptr :: "(json \<Rightarrow> 'a \<Rightarrow> 'a res) \<Rightarrow> 'a \<Rightarrow> json \<Rightarrow> 'a option \<Rightarrow> 'a option res" where
  "dec_ptr d zero j old =
    (if j = JNull then Inr None
     else and_then (d j (case old of None \<Rightarrow> zero | Some v \<Rightarrow> v)) (\<lambda>v. Inr (Some v)))"

subsection \<open>Slices and maps\<close>

fun dec_elems :: "(json \<Rightarrow> 'a \<Rightarrow> 'a res) \<Rightarrow> 'a \<Rightarrow> json list \<Rightarrow> 'a list \<Rightarrow> 'a list res" where
  "dec_elems d zero [] olds = Inr []"
| "dec_elems d zero (j # js) olds =
    and_then (d j (case olds of [] \<Rightarrow> zero | v # _ \<Rightarrow> v)) (\<lambda>v.
    and_then (dec_elems d zero js (drop 1 olds)) (\<lambda>vs. Inr (v # vs)))"

definition dec_slice :: "(json \<Rightarrow> 'a \<Rightarrow> 'a res) \<Rightarrow> 'a \<Rightarrow> json \<Rightarrow> 'a slice \<Rightarrow> 'a slice res" where
  "dec_slice d zero j old =
    (case j of JNull \<Rightarrow> Inr None
     | JArr js \<Rightarrow> and_then (dec_elems d zero js (elems old)) (\<lambda>vs. Inr (Some vs))
     | _ \<Rightarrow> Inl unmarshal_error)"

fun dec_entries :: "(json \<Rightarrow> 'a \<Rightarrow> 'a res) \<Rightarrow> 'a \<Rightarrow> (string \<times> json) list \<Rightarrow> 'a gomap \<Rightarrow> 'a gomap res" where
  "dec_entries d zero [] m = Inr m"
| "dec_entries d zero ((k, j) # ms) m =
    and_then (d j zero) (\<lambda>v. dec_entries d zero ms (gset k v m))"

definition dec_map :: "(json \<Rightarrow> 'a \<Rightarrow> 'a res) \<Rightarrow> 'a \<Rightarrow> json \<Rightarrow> 'a nmap \<Rightarrow> 'a nmap res" where
  "dec_map d zero j old =
    (case j of JNull \<Rightarrow> Inr None
     | JObj ms \<Rightarrow> and_then (dec_entries d zero ms (elems old)) (\<lambda>m. Inr (Some m))
     | _ \<Rightarrow> Inl unmarshal_error)"

subsection \<open>Structs\<close>

type_synonym 'r field = "string \<times> (json \<Rightarrow> 'r \<Rightarrow> 'r res)"

definition find_field :: "'r field list \<Rightarrow> string \<Rightarrow> (json \<Rightarrow> 'r \<Rightarrow> 'r res) option" where
  "find_field fs k =
    (case map_of fs k of Some f \<Rightarrow> Some f
     | None \<Rightarrow> map_option snd (List.find (\<lambda>p. equal_fold k (fst p)) fs))"

fun dec_members :: "'r field list \<Rightarrow> (string \<times> json) list \<Rightarrow> 'r \<Rightarrow> 'r res" where
  "dec_members fs [] r = Inr r"
| "dec_members fs ((k, j) # ms) r =
    (case find_field fs k of None \<Rightarrow> dec_members fs ms r
     | Some f \<Rightarrow> and_then (f j r) (dec_members fs ms))"

definition dec_struct :: "'r field list \<Rightarrow> json \<Rightarrow> 'r \<Rightarrow> 'r res" where
  "dec_struct fs j r =
    (case j of JNull \<Rightarrow> Inr r | JObj ms \<Rightarrow> dec_members fs ms r | _ \<Rightarrow> Inl unmarshal_error)"

definition unmarshal :: "(json \<Rightarrow> 'a \<Rightarrow> 'a res) \<Rightarrow> 'a \<Rightarrow> string \<Rightarrow> 'a res" where
  "unmarshal d zero text =
    (case json_parse text of None \<Rightarrow> Inl syntax_error | Some j \<Rightarrow> d j zero)"

text \<open>The field of a struct that one decoder fills: \<open>get\<close> and \<open>put\<close> are the record's own.\<close>

definition field ::
  "string \<Rightarrow> (json \<Rightarrow> 'a \<Rightarrow> 'a res) \<Rightarrow> ('r \<Rightarrow> 'a) \<Rightarrow> ('a \<Rightarrow> 'r \<Rightarrow> 'r) \<Rightarrow> 'r field" where
  "field name d get put = (name, \<lambda>j r. and_then (d j (get r)) (\<lambda>v. Inr (put v r)))"

subsection \<open>Encoding\<close>

definition enc_opt :: "('a \<Rightarrow> json) \<Rightarrow> 'a option \<Rightarrow> json" where
  "enc_opt e v = (case v of None \<Rightarrow> JNull | Some x \<Rightarrow> e x)"

definition enc_int :: "int \<Rightarrow> json" where
  "enc_int i = JNum (itoa i)"

definition enc_slice :: "('a \<Rightarrow> json) \<Rightarrow> 'a slice \<Rightarrow> json" where
  "enc_slice e xs = (case xs of None \<Rightarrow> JNull | Some ys \<Rightarrow> JArr (map e ys))"

text \<open>\<open>Marshal\<close> writes a map's members in the order of their keys.\<close>

definition enc_entries :: "('a \<Rightarrow> json) \<Rightarrow> 'a gomap \<Rightarrow> json" where
  "enc_entries e m = JObj (map (\<lambda>(k, v). (k, e v)) (sort_key fst m))"

definition enc_map :: "('a \<Rightarrow> json) \<Rightarrow> 'a nmap \<Rightarrow> json" where
  "enc_map e m = enc_opt (enc_entries e) m"

subsection \<open>Decoding what was encoded\<close>

named_theorems dec_enc \<open>a decoder applied to an encoded value\<close>

lemma dec_scalars [simp, dec_enc]:
  "dec_string (JStr s) olds = Inr s" "dec_bool (JBool b) oldb = Inr b"
  by (simp_all add: dec_string_def dec_bool_def)

lemma dec_enc_int [dec_enc]: "in_int64 i \<Longrightarrow> dec_int (enc_int i) old = Inr i"
  by (simp add: dec_int_def enc_int_def parse_int64_itoa)

lemma dec_enc_opt:
  assumes "\<And>x old. v = Some x \<Longrightarrow> d (e x) old = Inr x" and "\<And>x. e x \<noteq> JNull"
  shows "dec_ptr d zero (enc_opt e v) old = Inr v"
  using assms by (cases v) (simp_all add: dec_ptr_def enc_opt_def)

lemma dec_elems_enc:
  assumes "\<And>x old. x \<in> set xs \<Longrightarrow> d (e x) old = Inr x"
  shows "dec_elems d zero (map e xs) olds = Inr xs"
  using assms by (induction xs arbitrary: olds) auto

lemma dec_enc_slice:
  assumes "\<And>x old. x \<in> set (elems xs) \<Longrightarrow> d (e x) old = Inr x"
  shows "dec_slice d zero (enc_slice e xs) old = Inr xs"
  using assms by (cases xs) (simp_all add: dec_slice_def enc_slice_def dec_elems_enc)

lemma gset_fresh: "\<not> has_key m k \<Longrightarrow> gset k v m = m @ [(k, v)]"
  by (induction m) (auto simp: gset_def has_key_def split: if_splits)

lemma dec_entries_enc:
  assumes "\<And>k x. (k, x) \<in> set ms \<Longrightarrow> d (e x) zero = Inr (g x)"
    and "distinct (map fst ms)" and "\<And>k. k \<in> fst ` set ms \<Longrightarrow> \<not> has_key m k"
  shows "dec_entries d zero (map (\<lambda>(k, v). (k, e v)) ms) m = Inr (m @ map (\<lambda>(k, v). (k, g v)) ms)"
  using assms
proof (induction ms arbitrary: m)
  case Nil
  then show ?case by simp
next
  case (Cons p ms)
  obtain k v where p: "p = (k, v)" by (cases p)
  have "dec_entries d zero (map (\<lambda>(k, v). (k, e v)) ms) (gset k (g v) m)
      = Inr (gset k (g v) m @ map (\<lambda>(k, v). (k, g v)) ms)"
    using Cons.prems p by (intro Cons.IH) (auto simp: rev_image_eqI)
  moreover have "gset k (g v) m = m @ [(k, g v)]"
    using Cons.prems(3) p by (intro gset_fresh) simp
  moreover have "d (e v) zero = Inr (g v)" using Cons.prems(1) [of k v] p by simp
  ultimately show ?case using p by simp
qed

lemma distinct_sort_key_fst: "wf_map m \<Longrightarrow> distinct (map fst (sort_key fst m))"
  unfolding wf_map_def by (metis distinct_sort mset_map mset_sort mset_eq_imp_distinct_iff)

lemma dec_enc_entries_map:
  assumes "\<And>k x. (k, x) \<in> set m \<Longrightarrow> d (e x) zero = Inr (g x)" and "wf_map m"
  shows "dec_map d zero (enc_entries e m) None = Inr (Some (map (\<lambda>(k, v). (k, g v)) (sort_key fst m)))"
  using dec_entries_enc [of "sort_key fst m" d e zero g "[]"] assms(1) distinct_sort_key_fst [OF assms(2)]
  by (simp add: dec_map_def enc_entries_def has_key_def)

lemma dec_enc_entries:
  assumes "\<And>k x. (k, x) \<in> set m \<Longrightarrow> d (e x) zero = Inr x" and "wf_map m"
  shows "dec_map d zero (enc_entries e m) None = Inr (Some (sort_key fst m))"
  using dec_enc_entries_map [of m d e zero "\<lambda>x. x"] assms by (simp add: case_prod_unfold)

lemma map_of_sort_key: "wf_map m \<Longrightarrow> map_of (sort_key fst m) = map_of m"
proof -
  assume "wf_map m"
  then have "distinct (map fst m)" "distinct (map fst (sort_key fst m))"
    by (auto simp: wf_map_def dest: distinct_sort_key_fst [unfolded wf_map_def])
  then show ?thesis by (simp add: map_of_inject_set)
qed

lemma wf_map_sort_key: "wf_map m \<Longrightarrow> wf_map (sort_key fst m)"
  using distinct_sort_key_fst by (simp add: wf_map_def)

lemma sort_key_eq_Nil [simp]: "sort_key f xs = [] \<longleftrightarrow> xs = []"
  by (metis length_0_conv length_sort)

subsection \<open>Printable encodings\<close>

lemma json_ok_string [simp]: "json_ok (JStr s) \<longleftrightarrow> ascii s"
  by simp

lemma nat_digits_no_leading_zero: "0 < n \<Longrightarrow> \<not> has_prefix (nat_digits n) ''0''"
proof (induction n rule: nat_digits.induct)
  case (1 n)
  show ?case
  proof (cases "n < 10")
    case True
    have "digit_char n \<noteq> CHR ''0''"
    proof
      assume "digit_char n = CHR ''0''"
      then have "digit_val (digit_char n) = 0" by (simp add: digit_val_def byte_def of_char_def)
      then show False using digit_char_props(2) [OF True] 1 by simp
    qed
    with True show ?thesis by (subst nat_digits.simps) simp
  next
    case False
    then have "\<not> has_prefix (nat_digits (n div 10)) ''0''" using 1 by simp
    moreover obtain c cs where "nat_digits (n div 10) = c # cs"
      by (cases "nat_digits (n div 10)") auto
    ultimately show ?thesis using False by (subst nat_digits.simps) simp
  qed
qed

lemma int_literal_itoa: "int_literal (itoa i)"
proof -
  have d: "has_prefix (nat_digits n) ''0'' \<longrightarrow> nat_digits n = ''0''" for n
    using nat_digits_no_leading_zero [of n] by (cases "n = 0") (simp_all add: nat_digits.simps digit_char_def)
  have m: "\<not> has_prefix (nat_digits n) ''-''" for n
    using nat_digits_digits [of n] is_digit_neq_minus by (cases "nat_digits n") auto
  show ?thesis
    using d m nat_digits_digits
    by (cases "i < 0") (simp_all add: int_literal_def itoa_def)
qed

lemma json_ok_enc_int [simp]: "json_ok (enc_int i)"
  by (simp add: enc_int_def int_literal_itoa)

lemma json_ok_enc_opt: "(\<And>x. v = Some x \<Longrightarrow> json_ok (e x)) \<Longrightarrow> json_ok (enc_opt e v)"
  by (cases v) (simp_all add: enc_opt_def)

lemma json_ok_enc_slice:
  "(\<And>x. x \<in> set (elems xs) \<Longrightarrow> json_ok (e x)) \<Longrightarrow> json_ok (enc_slice e xs)"
  by (cases xs) (simp_all add: enc_slice_def list_all_iff)

lemma json_ok_enc_entries:
  "(\<And>k x. (k, x) \<in> set m \<Longrightarrow> ascii k \<and> json_ok (e x)) \<Longrightarrow> json_ok (enc_entries e m)"
  by (auto simp: enc_entries_def list_all_iff)

lemma unmarshal_print: "json_ok j \<Longrightarrow> unmarshal d zero (json_print j) = d j zero"
  by (simp add: unmarshal_def json_parse_print)

end
