(* ===== verification/User_Service.thy ===== *)
theory User_Service
  imports Rados Roles Ctx Go_Sort Go_Decode
begin

text \<open>
  The access database service (\<open>pkg/user/service.go\<close>): users and custom roles held in memory and
  mirrored, as one JSON document, under a \<open>config-key\<close> of the monitor. Every exported method takes
  the service's lock for its whole body, so a method is one atomic step on the pair of the service
  state and the cluster state.
\<close>

subsection \<open>State\<close>

record user =
  u_username :: string
  u_roles :: "string slice"
  u_password :: string
  u_name :: "string option"
  u_email :: "string option"
  u_last_update :: int
  u_enabled :: bool
  u_pwd_expiration :: "int option"
  u_pwd_update_required :: bool

record service =
  svc_users :: "user gomap"
  svc_roles :: "role gomap"

text \<open>The zero value of the Go struct, which a decoder starts from.\<close>

definition zero_user :: user where
  "zero_user =
    \<lparr>u_username = [], u_roles = None, u_password = [], u_name = None, u_email = None,
     u_last_update = 0, u_enabled = False, u_pwd_expiration = None, u_pwd_update_required = False\<rparr>"

text \<open>
  What a method reads from outside: the clock, bcrypt (\<open>golang.org/x/crypto\<close>, with the salt this
  call draws) and the printable-rune table. Each call has its own.
\<close>

record go_env =
  now_unix :: int
  bcrypt_generate :: "nat \<Rightarrow> string \<Rightarrow> string res"
  bcrypt_compare :: "string \<Rightarrow> string \<Rightarrow> go_error option"
  is_print :: "nat \<Rightarrow> bool"

definition pwd_bcrypt_cost :: nat where
  "pwd_bcrypt_cost = 3"

definition set_db_mon_cmd :: string where
  "set_db_mon_cmd = ''{\"prefix\": \"config-key set\", \"key\": \"mgr/dashboard/accessdb_v2\"}''"

definition get_db_mon_cmd :: string where
  "get_db_mon_cmd = ''{\"prefix\": \"config-key get\", \"key\": \"mgr/dashboard/accessdb_v2\"}''"

subsection \<open>The document\<close>

definition enc_user :: "user \<Rightarrow> json" where
  "enc_user u = JObj
    [(''username'', JStr (u_username u)),
     (''roles'', enc_slice JStr (u_roles u)),
     (''password'', JStr (u_password u)),
     (''name'', enc_opt JStr (u_name u)),
     (''email'', enc_opt JStr (u_email u)),
     (''lastUpdate'', enc_int (u_last_update u)),
     (''enabled'', JBool (u_enabled u)),
     (''pwdExpirationDate'', enc_opt enc_int (u_pwd_expiration u)),
     (''pwdUpdateRequired'', JBool (u_pwd_update_required u))]"

definition user_fields :: "user field list" where
  "user_fields =
    [field ''username'' dec_string u_username (\<lambda>v u. u\<lparr>u_username := v\<rparr>),
     field ''roles'' (dec_slice dec_string []) u_roles (\<lambda>v u. u\<lparr>u_roles := v\<rparr>),
     field ''password'' dec_string u_password (\<lambda>v u. u\<lparr>u_password := v\<rparr>),
     field ''name'' (dec_ptr dec_string []) u_name (\<lambda>v u. u\<lparr>u_name := v\<rparr>),
     field ''email'' (dec_ptr dec_string []) u_email (\<lambda>v u. u\<lparr>u_email := v\<rparr>),
     field ''lastUpdate'' dec_int u_last_update (\<lambda>v u. u\<lparr>u_last_update := v\<rparr>),
     field ''enabled'' dec_bool u_enabled (\<lambda>v u. u\<lparr>u_enabled := v\<rparr>),
     field ''pwdExpirationDate'' (dec_ptr dec_int 0) u_pwd_expiration (\<lambda>v u. u\<lparr>u_pwd_expiration := v\<rparr>),
     field ''pwdUpdateRequired'' dec_bool u_pwd_update_required (\<lambda>v u. u\<lparr>u_pwd_update_required := v\<rparr>)]"

definition dec_user :: "json \<Rightarrow> user \<Rightarrow> user res" where
  "dec_user = dec_struct user_fields"

definition enc_role :: "role \<Rightarrow> json" where
  "enc_role r = JObj
    [(''name'', JStr (role_name r)),
     (''description'', enc_opt JStr (role_description r)),
     (''system'', JBool (role_is_system r)),
     (''scopes_permissions'', enc_map (enc_slice JStr) (role_permissions r))]"

definition role_fields :: "role field list" where
  "role_fields =
    [field ''name'' dec_string role_name (\<lambda>v r. r\<lparr>role_name := v\<rparr>),
     field ''description'' (dec_ptr dec_string []) role_description (\<lambda>v r. r\<lparr>role_description := v\<rparr>),
     field ''system'' dec_bool role_is_system (\<lambda>v r. r\<lparr>role_is_system := v\<rparr>),
     field ''scopes_permissions'' (dec_map (dec_slice dec_string []) None) role_permissions
       (\<lambda>v r. r\<lparr>role_permissions := v\<rparr>)]"

definition dec_role :: "json \<Rightarrow> role \<Rightarrow> role res" where
  "dec_role = dec_struct role_fields"

record access_db =
  db_users :: "user nmap"
  db_roles :: "role nmap"
  db_version :: int

definition zero_db :: access_db where
  "zero_db = \<lparr>db_users = None, db_roles = None, db_version = 0\<rparr>"

definition enc_db :: "access_db \<Rightarrow> json" where
  "enc_db d = JObj
    [(''users'', enc_map enc_user (db_users d)),
     (''roles'', enc_map enc_role (db_roles d)),
     (''version'', enc_int (db_version d))]"

definition db_fields :: "access_db field list" where
  "db_fields =
    [field ''users'' (dec_map dec_user zero_user) db_users (\<lambda>v d. d\<lparr>db_users := v\<rparr>),
     field ''roles'' (dec_map dec_role no_role) db_roles (\<lambda>v d. d\<lparr>db_roles := v\<rparr>),
     field ''version'' dec_int db_version (\<lambda>v d. d\<lparr>db_version := v\<rparr>)]"

definition dec_db :: "json \<Rightarrow> access_db \<Rightarrow> access_db res" where
  "dec_db = dec_struct db_fields"

definition marshal_db :: "service \<Rightarrow> string" where
  "marshal_db s =
    json_print (enc_db \<lparr>db_users = Some (svc_users s), db_roles = Some (svc_roles s), db_version = 2\<rparr>)"

definition empty_service :: service where
  "empty_service = \<lparr>svc_users = [], svc_roles = []\<rparr>"

text \<open>The service state a document stands for; an absent or empty map leaves the fresh one.\<close>

definition unmarshal_db :: "string \<Rightarrow> service res" where
  "unmarshal_db text =
    and_then (unmarshal dec_db zero_db text) (\<lambda>d.
      Inr \<lparr>svc_users = elems (db_users d), svc_roles = elems (db_roles d)\<rparr>)"

subsection \<open>Loading and storing\<close>

text \<open>
  \<open>updateFromDB\<close> first drops what is in memory, then asks the monitor: a missing key leaves the empty
  database, any other error is returned with the database still empty.
\<close>

definition update_from_db :: "'w rados_conn \<Rightarrow> service \<Rightarrow> 'w \<Rightarrow> go_error option \<times> service \<times> 'w" where
  "update_from_db C s w =
    (case exec_mon C get_db_mon_cmd w of
       (Inl err, w') \<Rightarrow>
         if errors_is err RadosErrorNotFound then (None, empty_service, w')
         else (Some err, empty_service, w')
     | (Inr cmd_res, w') \<Rightarrow>
         (case unmarshal_db cmd_res of
            Inl err \<Rightarrow> (Some err, empty_service, w')
          | Inr s' \<Rightarrow> (None, s', w')))"

definition new_service :: "'w rados_conn \<Rightarrow> 'w \<Rightarrow> service res \<times> 'w" where
  "new_service C w =
    (case update_from_db C empty_service w of
       (Some err, s, w') \<Rightarrow> (Inl err, w')
     | (None, s, w') \<Rightarrow> (Inr s, w'))"

definition store_to_db :: "'w rados_conn \<Rightarrow> service \<Rightarrow> 'w \<Rightarrow> go_error option \<times> 'w" where
  "store_to_db C s w =
    (case exec_mon_with_input_buff C set_db_mon_cmd (marshal_db s) w of
       (Inl err, w') \<Rightarrow> (Some err, w')
     | (Inr _, w') \<Rightarrow> (None, w'))"

text \<open>
  The tail every mutating method shares: store the edited state; when that fails, reload from the
  monitor (an error of the reload is only logged) and return the store's error.
\<close>

definition commit :: "'w rados_conn \<Rightarrow> service \<Rightarrow> 'w \<Rightarrow> go_error option \<times> service \<times> 'w" where
  "commit C s w =
    (case store_to_db C s w of
       (None, w') \<Rightarrow> (None, s, w')
     | (Some err, w') \<Rightarrow>
         (case update_from_db C s w' of (rollback_err, s', w'') \<Rightarrow> (Some err, s', w'')))"

text \<open>
  Each mutating method runs its checks and builds the edited maps (an error there returns before
  anything is touched), and then commits.
\<close>

definition mutate ::
  "'w rados_conn \<Rightarrow> (service \<Rightarrow> service res) \<Rightarrow> service \<Rightarrow> 'w \<Rightarrow> go_error option \<times> service \<times> 'w" where
  "mutate C edit s w =
    (case edit s of
       Inl err \<Rightarrow> (Some err, s, w)
     | Inr s' \<Rightarrow> commit C s' w)"

subsection \<open>Permission checks\<close>

fun has_all_perms :: "string list gomap \<Rightarrow> scope \<Rightarrow> permission list \<Rightarrow> go_error option" where
  "has_all_perms m sc [] = None"
| "has_all_perms m sc (p # ps) =
    (if permission_string p \<notin> set (gslice m (scope_string sc)) then Some ErrAccessDenied
     else has_all_perms m sc ps)"

definition has_permissions :: "req_ctx \<Rightarrow> scope \<Rightarrow> permission list \<Rightarrow> go_error option" where
  "has_permissions ctx sc perms =
    (if get_permissions_ctx ctx = [] then Some ErrAccessDenied
     else has_all_perms (get_permissions_ctx ctx) sc perms)"

subsection \<open>Reading\<close>

definition list_users :: "((user \<Rightarrow> user \<Rightarrow> bool) \<Rightarrow> user list \<Rightarrow> user list) \<Rightarrow> service \<Rightarrow> user list" where
  "list_users sort_slice s = sort_slice (\<lambda>a b. u_username a < u_username b) (map snd (svc_users s))"

definition get_user :: "service \<Rightarrow> string \<Rightarrow> user res" where
  "get_user s username =
    (case gget (svc_users s) username of None \<Rightarrow> Inl ErrNotFound | Some u \<Rightarrow> Inr u)"

text \<open>The permissions of a role read from a map: those of the zero role when it is not there.\<close>

definition role_perms_of :: "role gomap \<Rightarrow> string \<Rightarrow> string slice gomap" where
  "role_perms_of m name =
    elems (role_permissions (case gget m name of None \<Rightarrow> no_role | Some r \<Rightarrow> r))"

definition append_perms :: "string list gomap \<Rightarrow> string slice gomap \<Rightarrow> string list gomap" where
  "append_perms = foldl (\<lambda>res (scope, perm). gset scope (gslice res scope @ elems perm) res)"

definition get_permissions :: "service \<Rightarrow> string \<Rightarrow> string list gomap" where
  "get_permissions s username =
    (case gget (svc_users s) username of
       None \<Rightarrow> []
     | Some usr \<Rightarrow>
         map (\<lambda>(scope, ps). (scope, remdups_adj (sort ps)))
           (foldl (\<lambda>res role.
              append_perms (append_perms res (role_perms_of (svc_roles s) role))
                (role_perms_of system_role_map role))
             [] (elems (u_roles usr))))"

definition list_roles :: "service \<Rightarrow> role list" where
  "list_roles s = system_roles @ map snd (svc_roles s)"

definition get_role :: "service \<Rightarrow> string \<Rightarrow> role res" where
  "get_role s name =
    (case gget system_role_map name of
       Some r \<Rightarrow> Inr r
     | None \<Rightarrow> (case gget (svc_roles s) name of Some r \<Rightarrow> Inr r | None \<Rightarrow> Inl ErrNotFound))"

subsection \<open>Users\<close>

definition user_validate :: "user \<Rightarrow> go_error option" where
  "user_validate u =
    (if u_username u = [] then Some (Wrapped [] ErrInvalidArg '': username required'')
     else if u_password u = [] then Some (Wrapped [] ErrInvalidArg '': password required'')
     else None)"

fun validate_use_roles :: "role gomap \<Rightarrow> string list \<Rightarrow> go_error option" where
  "validate_use_roles roles [] = None"
| "validate_use_roles roles (r # rs) =
    (if has_key system_role_map r \<or> has_key roles r then validate_use_roles roles rs
     else Some (Wrapped [] ErrInvalidArg ('': role '' @ r @ '' not found'')))"

definition create_user_edit :: "go_env \<Rightarrow> user \<Rightarrow> service \<Rightarrow> service res" where
  "create_user_edit env user s =
    (case user_validate user of Some err \<Rightarrow> Inl err | None \<Rightarrow>
     if has_key (svc_users s) (u_username user) then Inl ErrAlreadyExists
     else (case validate_use_roles (svc_roles s) (elems (u_roles user)) of Some err \<Rightarrow> Inl err | None \<Rightarrow>
       let user = user\<lparr>u_last_update := now_unix env\<rparr> in
       and_then (bcrypt_generate env pwd_bcrypt_cost (u_password user)) (\<lambda>pwd_hash.
       let user = user\<lparr>u_password := pwd_hash\<rparr> in
       Inr (s\<lparr>svc_users := gset (u_username user) user (svc_users s)\<rparr>))))"

definition create_user ::
  "'w rados_conn \<Rightarrow> go_env \<Rightarrow> user \<Rightarrow> service \<Rightarrow> 'w \<Rightarrow> go_error option \<times> service \<times> 'w" where
  "create_user C env user = mutate C (create_user_edit env user)"

definition update_user_edit :: "go_env \<Rightarrow> user \<Rightarrow> service \<Rightarrow> service res" where
  "update_user_edit env user s =
    (case gget (svc_users s) (u_username user) of None \<Rightarrow> Inl ErrNotFound | Some prev \<Rightarrow>
     (case validate_use_roles (svc_roles s) (elems (u_roles user)) of Some err \<Rightarrow> Inl err | None \<Rightarrow>
       and_then
         (if u_password user \<noteq> [] then
            and_then (bcrypt_generate env pwd_bcrypt_cost (u_password user)) (\<lambda>pwd_hash.
            Inr (user\<lparr>u_password := pwd_hash\<rparr>))
          else Inr (user\<lparr>u_password := u_password prev, u_pwd_expiration := u_pwd_expiration prev\<rparr>))
         (\<lambda>user.
       let user = user\<lparr>u_last_update := now_unix env\<rparr> in
       Inr (s\<lparr>svc_users := gset (u_username user) user (svc_users s)\<rparr>))))"

definition update_user ::
  "'w rados_conn \<Rightarrow> go_env \<Rightarrow> user \<Rightarrow> service \<Rightarrow> 'w \<Rightarrow> go_error option \<times> service \<times> 'w" where
  "update_user C env user = mutate C (update_user_edit env user)"

definition delete_user_edit :: "string \<Rightarrow> service \<Rightarrow> service res" where
  "delete_user_edit username s = Inr (s\<lparr>svc_users := gdel username (svc_users s)\<rparr>)"

definition delete_user ::
  "'w rados_conn \<Rightarrow> string \<Rightarrow> service \<Rightarrow> 'w \<Rightarrow> go_error option \<times> service \<times> 'w" where
  "delete_user C username = mutate C (delete_user_edit username)"

definition change_password_edit ::
  "go_env \<Rightarrow> string \<Rightarrow> string \<Rightarrow> string \<Rightarrow> service \<Rightarrow> service res" where
  "change_password_edit env username old_pass new_pass s =
    (case gget (svc_users s) username of None \<Rightarrow> Inl ErrNotFound | Some user \<Rightarrow>
     (case bcrypt_compare env (u_password user) old_pass of
        Some err \<Rightarrow> Inl (Wrapped [] err '': invalid old password'')
      | None \<Rightarrow>
          and_then (bcrypt_generate env pwd_bcrypt_cost new_pass) (\<lambda>pass_hash.
          let user = user\<lparr>u_password := pass_hash\<rparr> in
          Inr (s\<lparr>svc_users := gset username user (svc_users s)\<rparr>))))"

definition change_password ::
  "'w rados_conn \<Rightarrow> go_env \<Rightarrow> string \<Rightarrow> string \<Rightarrow> string \<Rightarrow> service \<Rightarrow> 'w
    \<Rightarrow> go_error option \<times> service \<times> 'w" where
  "change_password C env username old_pass new_pass =
    mutate C (change_password_edit env username old_pass new_pass)"

subsection \<open>Roles\<close>

definition create_role_edit :: "go_env \<Rightarrow> role \<Rightarrow> service \<Rightarrow> service res" where
  "create_role_edit env role s =
    (if has_key system_role_map (role_name role) then Inl ErrAlreadyExists
     else if has_key (svc_roles s) (role_name role) then Inl ErrAlreadyExists
     else (case role_validate (is_print env) role of Some err \<Rightarrow> Inl err | None \<Rightarrow>
       if role_is_system role then
         Inl (Wrapped [] ErrInvalidArg '': system role creation is not permitte'')
       else Inr (s\<lparr>svc_roles := gset (role_name role) role (svc_roles s)\<rparr>)))"

definition create_role ::
  "'w rados_conn \<Rightarrow> go_env \<Rightarrow> role \<Rightarrow> service \<Rightarrow> 'w \<Rightarrow> go_error option \<times> service \<times> 'w" where
  "create_role C env role = mutate C (create_role_edit env role)"

definition update_role_edit :: "go_env \<Rightarrow> role \<Rightarrow> service \<Rightarrow> service res" where
  "update_role_edit env role s =
    (if has_key system_role_map (role_name role) \<or> role_is_system role then
       Inl (Wrapped [] ErrInvalidArg '': cannot update system role'')
     else if \<not> has_key (svc_roles s) (role_name role) then Inl ErrNotFound
     else (case role_validate (is_print env) role of Some err \<Rightarrow> Inl err | None \<Rightarrow>
       Inr (s\<lparr>svc_roles := gset (role_name role) role (svc_roles s)\<rparr>)))"

definition update_role ::
  "'w rados_conn \<Rightarrow> go_env \<Rightarrow> role \<Rightarrow> service \<Rightarrow> 'w \<Rightarrow> go_error option \<times> service \<times> 'w" where
  "update_role C env role = mutate C (update_role_edit env role)"

definition delete_role_edit :: "string \<Rightarrow> service \<Rightarrow> service res" where
  "delete_role_edit name s =
    (if has_key system_role_map name then
       Inl (Wrapped [] ErrInvalidArg '': cannot delete system role'')
     else if \<not> has_key (svc_roles s) name then Inl ErrNotFound
     else if list_ex (\<lambda>(k, usr). name \<in> set (elems (u_roles usr))) (svc_users s) then
       Inl (Wrapped [] ErrInvalidArg '': role is in use'')
     else Inr (s\<lparr>svc_roles := gdel name (svc_roles s)\<rparr>))"

definition delete_role ::
  "'w rados_conn \<Rightarrow> string \<Rightarrow> service \<Rightarrow> 'w \<Rightarrow> go_error option \<times> service \<times> 'w" where
  "delete_role C name = mutate C (delete_role_edit name)"

definition clone_role_edit :: "string \<Rightarrow> string \<Rightarrow> service \<Rightarrow> service res" where
  "clone_role_edit src_name dst_name s =
    and_then
      (case gget (svc_roles s) src_name of
         Some src \<Rightarrow> Inr src
       | None \<Rightarrow>
           (case gget system_role_map src_name of
              None \<Rightarrow> Inl ErrNotFound
            | Some src \<Rightarrow> Inr (src\<lparr>role_is_system := False\<rparr>)))
      (\<lambda>src.
    let src = src\<lparr>role_name := dst_name\<rparr> in
    Inr (s\<lparr>svc_roles := gset dst_name src (svc_roles s)\<rparr>))"

definition clone_role ::
  "'w rados_conn \<Rightarrow> string \<Rightarrow> string \<Rightarrow> service \<Rightarrow> 'w \<Rightarrow> go_error option \<times> service \<times> 'w" where
  "clone_role C src_name dst_name = mutate C (clone_role_edit src_name dst_name)"

end
