(* ===== verification/User_Document.thy ===== *)
theory User_Document
  imports User_Service
begin

text \<open>
  The access database as a document: what \<open>storeToDB\<close> writes is what \<open>updateFromDB\<close> reads back, up to
  the order of the map entries, which JSON fixes to the order of the keys (\<open>canon\<close>).
\<close>

subsection \<open>The order a document fixes\<close>

definition canon_role :: "role \<Rightarrow> role" where
  "canon_role r = r\<lparr>role_permissions := map_option (sort_key fst) (role_permissions r)\<rparr>"

definition canon_roles :: "role gomap \<Rightarrow> role gomap" where
  "canon_roles m = map (\<lambda>(k, r). (k, canon_role r)) (sort_key fst m)"

definition canon :: "service \<Rightarrow> service" where
  "canon s = \<lparr>svc_users = sort_key fst (svc_users s), svc_roles = canon_roles (svc_roles s)\<rparr>"

text \<open>What the encoder and the decoder agree on: ASCII text and 64-bit integers, no duplicate keys.\<close>

definition user_text_ok :: "user \<Rightarrow> bool" where
  "user_text_ok u \<longleftrightarrow>
    ascii (u_username u) \<and> list_all ascii (elems (u_roles u)) \<and> ascii (u_password u)
    \<and> pred_option ascii (u_name u) \<and> pred_option ascii (u_email u)
    \<and> in_int64 (u_last_update u) \<and> pred_option in_int64 (u_pwd_expiration u)"

definition role_text_ok :: "role \<Rightarrow> bool" where
  "role_text_ok r \<longleftrightarrow>
    ascii (role_name r) \<and> pred_option ascii (role_description r)
    \<and> wf_map (elems (role_permissions r))
    \<and> list_all (\<lambda>(k, ps). ascii k \<and> list_all ascii (elems ps)) (elems (role_permissions r))"

definition service_text_ok :: "service \<Rightarrow> bool" where
  "service_text_ok s \<longleftrightarrow>
    wf_map (svc_users s) \<and> list_all (\<lambda>(k, u). ascii k \<and> user_text_ok u) (svc_users s)
    \<and> wf_map (svc_roles s) \<and> list_all (\<lambda>(k, r). ascii k \<and> role_text_ok r) (svc_roles s)"

subsection \<open>Decoding an encoded user, role and database\<close>

lemma enc_not_null [simp]:
  "enc_int i \<noteq> JNull" "enc_entries e m \<noteq> JNull" "enc_user u \<noteq> JNull" "enc_role r \<noteq> JNull"
  by (simp_all add: enc_int_def enc_entries_def enc_user_def enc_role_def)

lemma dec_enc_strings [dec_enc]:
  "dec_slice dec_string [] (enc_slice JStr xs) old = Inr xs"
  "dec_ptr dec_string [] (enc_opt JStr v) old' = Inr v"
  by (rule dec_enc_slice, simp) (rule dec_enc_opt, simp_all)

lemma dec_enc_opt_int [dec_enc]:
  "pred_option in_int64 v \<Longrightarrow> dec_ptr dec_int 0 (enc_opt enc_int v) old = Inr v"
  by (rule dec_enc_opt) (simp_all add: dec_enc_int)

lemma dec_enc_user: "user_text_ok u \<Longrightarrow> dec_user (enc_user u) zero_user = Inr u"
  by (simp add: dec_user_def dec_struct_def enc_user_def user_fields_def field_def find_field_def
      user_text_ok_def dec_enc zero_user_def)

lemma dec_enc_scopes:
  assumes "pred_option wf_map v"
  shows "dec_map (dec_slice dec_string []) None (enc_map (enc_slice JStr) v) None
    = Inr (map_option (sort_key fst) v)"
proof (cases v)
  case None
  then show ?thesis by (simp add: dec_map_def enc_map_def enc_opt_def)
next
  case (Some m)
  with assms show ?thesis
    by (simp add: enc_map_def enc_opt_def) (rule dec_enc_entries, simp_all add: dec_enc)
qed

lemma dec_enc_role: "role_text_ok r \<Longrightarrow> dec_role (enc_role r) no_role = Inr (canon_role r)"
proof -
  assume "role_text_ok r"
  then have "pred_option wf_map (role_permissions r)"
    by (cases "role_permissions r") (simp_all add: role_text_ok_def)
  then show ?thesis
    by (simp add: dec_role_def dec_struct_def enc_role_def role_fields_def field_def find_field_def
        dec_enc no_role_def dec_enc_scopes canon_role_def)
qed

subsection \<open>The round trip\<close>

lemma json_ok_enc_strings [simp]:
  "json_ok (enc_slice JStr xs) \<longleftrightarrow> list_all ascii (elems xs)"
  "json_ok (enc_opt JStr v) \<longleftrightarrow> pred_option ascii v"
  "json_ok (enc_opt enc_int w)"
  by (cases xs) (simp_all add: enc_slice_def list_all_iff, cases v, simp_all add: enc_opt_def,
      cases w, simp_all)

lemma ascii_literals [simp]:
  "ascii ''username''" "ascii ''roles''" "ascii ''password''" "ascii ''name''" "ascii ''email''"
  "ascii ''lastUpdate''" "ascii ''enabled''" "ascii ''pwdExpirationDate''" "ascii ''pwdUpdateRequired''"
  "ascii ''description''" "ascii ''system''" "ascii ''scopes_permissions''" "ascii ''users''" "ascii ''version''"
  by code_simp+

lemma json_ok_enc_user: "user_text_ok u \<Longrightarrow> json_ok (enc_user u)"
  by (simp add: enc_user_def user_text_ok_def)

lemma json_ok_enc_scopes:
  "list_all (\<lambda>(k, ps). ascii k \<and> list_all ascii (elems ps)) (elems v) \<Longrightarrow>
    json_ok (enc_map (enc_slice JStr) v)"
  unfolding enc_map_def
  by (rule json_ok_enc_opt, rule json_ok_enc_entries) (auto simp: list_all_iff)

lemma json_ok_enc_role: "role_text_ok r \<Longrightarrow> json_ok (enc_role r)"
  by (simp add: enc_role_def role_text_ok_def json_ok_enc_scopes)

lemma json_ok_enc_db:
  assumes "service_text_ok s"
  shows "json_ok (enc_db \<lparr>db_users = Some (svc_users s), db_roles = Some (svc_roles s), db_version = v\<rparr>)"
proof -
  have "json_ok (enc_entries enc_user (svc_users s))" "json_ok (enc_entries enc_role (svc_roles s))"
    using assms by (auto intro!: json_ok_enc_entries json_ok_enc_user json_ok_enc_role
        simp: service_text_ok_def list_all_iff)
  then show ?thesis by (simp add: enc_db_def enc_map_def enc_opt_def)
qed

lemma dec_enc_db:
  assumes "service_text_ok s" and "in_int64 v"
  shows "dec_db (enc_db \<lparr>db_users = Some (svc_users s), db_roles = Some (svc_roles s), db_version = v\<rparr>) zero_db
    = Inr \<lparr>db_users = Some (svc_users (canon s)), db_roles = Some (svc_roles (canon s)), db_version = v\<rparr>"
proof -
  have "dec_map dec_user zero_user (enc_entries enc_user (svc_users s)) None
      = Inr (Some (sort_key fst (svc_users s)))"
    using assms(1) by (intro dec_enc_entries) (auto simp: service_text_ok_def list_all_iff dec_enc_user)
  moreover have "dec_map dec_role no_role (enc_entries enc_role (svc_roles s)) None
      = Inr (Some (canon_roles (svc_roles s)))"
    unfolding canon_roles_def using assms(1)
    by (intro dec_enc_entries_map) (auto simp: service_text_ok_def list_all_iff dec_enc_role)
  ultimately show ?thesis using assms(2)
    by (simp add: dec_db_def dec_struct_def enc_db_def db_fields_def field_def find_field_def zero_db_def
        enc_map_def enc_opt_def dec_enc canon_def)
qed

lemma unmarshal_marshal_db: "service_text_ok s \<Longrightarrow> unmarshal_db (marshal_db s) = Inr (canon s)"
  by (simp add: unmarshal_db_def marshal_db_def unmarshal_print json_ok_enc_db dec_enc_db in_int64_def)

subsection \<open>The order does not matter\<close>

lemma gget_canon_roles: "wf_map m \<Longrightarrow> gget (canon_roles m) k = map_option canon_role (gget m k)"
  by (simp add: canon_roles_def map_of_map map_of_sort_key)

lemma gget_canon:
  assumes "wf_map (svc_users s)" and "wf_map (svc_roles s)"
  shows "gget (svc_users (canon s)) k = gget (svc_users s) k"
    and "gget (svc_roles (canon s)) k = map_option canon_role (gget (svc_roles s) k)"
  using assms by (simp_all add: canon_def map_of_sort_key gget_canon_roles)

lemma wf_map_canon:
  assumes "wf_map (svc_users s)" and "wf_map (svc_roles s)"
  shows "wf_map (svc_users (canon s))" and "wf_map (svc_roles (canon s))"
  using assms by (simp_all add: canon_def wf_map_sort_key)
    (simp add: canon_roles_def wf_map_def case_prod_unfold comp_def distinct_sort_key_fst [unfolded wf_map_def])

lemma canon_empty [simp]: "canon empty_service = empty_service"
  by (simp add: canon_def canon_roles_def empty_service_def)

lemma canon_role_idem [simp]: "canon_role (canon_role r) = canon_role r"
  by (cases "role_permissions r") (simp_all add: canon_role_def sort_key_id_if_sorted)

lemma canon_roles_idem: "canon_roles (canon_roles m) = canon_roles m"
proof -
  have fst: "map fst (canon_roles m) = map fst (sort_key fst m)" for m :: "role gomap"
    by (simp add: canon_roles_def case_prod_unfold comp_def)
  have "sort_key fst (canon_roles m) = canon_roles m"
    by (rule sort_key_id_if_sorted) (simp add: fst)
  then show ?thesis
    by (simp add: canon_roles_def [of "canon_roles m"])
      (simp add: canon_roles_def case_prod_unfold comp_def)
qed

lemma canon_idem [simp]: "canon (canon s) = canon s"
  by (simp add: canon_def canon_roles_idem sort_key_id_if_sorted)

lemma text_ok_canon: "service_text_ok s \<Longrightarrow> service_text_ok (canon s)"
proof -
  assume a: "service_text_ok s"
  have r: "role_text_ok r \<Longrightarrow> role_text_ok (canon_role r)" for r
    by (cases "role_permissions r") (simp_all add: role_text_ok_def canon_role_def wf_map_sort_key list_all_iff)
  have w: "wf_map (svc_users (canon s))" "wf_map (svc_roles (canon s))"
    using a wf_map_canon [of s] by (simp_all add: service_text_ok_def)
  show ?thesis
    using a r w by (auto simp: service_text_ok_def canon_def canon_roles_def list_all_iff)
qed

end
