(* ===== verification/User_Laws.thy ===== *)
theory User_Laws
  imports User_Document
begin

text \<open>
  What holds of the access database service whatever is asked of it: the shape its maps keep, and
  how they relate to the document the monitor holds. Every mutating method is an edit followed by a
  commit; the locale \<open>db_edit\<close> is what an edit promises, and each method's edit keeps it.
\<close>

subsection \<open>The invariant\<close>

definition known_role :: "role gomap \<Rightarrow> string \<Rightarrow> bool" where
  "known_role roles r \<longleftrightarrow> has_key system_role_map r \<or> has_key roles r"

definition user_wf :: "role gomap \<Rightarrow> string \<times> user \<Rightarrow> bool" where
  "user_wf roles p \<longleftrightarrow>
    u_username (snd p) = fst p \<and> list_all (known_role roles) (elems (u_roles (snd p)))"

definition role_wf :: "string \<times> role \<Rightarrow> bool" where
  "role_wf p \<longleftrightarrow>
    role_name (snd p) = fst p \<and> \<not> role_is_system (snd p)
    \<and> valid_scopes (elems (role_permissions (snd p)))"

definition svc_wf :: "service \<Rightarrow> bool" where
  "svc_wf s \<longleftrightarrow>
    wf_map (svc_users s) \<and> wf_map (svc_roles s)
    \<and> list_all (user_wf (svc_roles s)) (svc_users s) \<and> list_all role_wf (svc_roles s)"

lemma list_all_gget: "list_all P m \<Longrightarrow> gget m k = Some v \<Longrightarrow> P (k, v)"
  by (auto simp: list_all_iff dest: gget_in_set)

lemma svc_wf_user: "svc_wf s \<Longrightarrow> gget (svc_users s) k = Some u \<Longrightarrow> user_wf (svc_roles s) (k, u)"
  by (rule list_all_gget [of _ "svc_users s"]) (simp_all add: svc_wf_def)

lemma svc_wf_role: "svc_wf s \<Longrightarrow> gget (svc_roles s) k = Some r \<Longrightarrow> role_wf (k, r)"
  by (rule list_all_gget [of _ "svc_roles s"]) (simp_all add: svc_wf_def)

lemma user_wf_mono:
  assumes "list_all (user_wf roles) us"
    and "\<And>r. known_role roles r \<Longrightarrow> known_role roles' r"
  shows "list_all (user_wf roles') us"
  using assms by (auto simp: list_all_iff user_wf_def)

lemma svc_wf_set_user:
  assumes "svc_wf s" and "u_username u = k" and "list_all (known_role (svc_roles s)) (elems (u_roles u))"
  shows "svc_wf (s\<lparr>svc_users := gset k u (svc_users s)\<rparr>)"
  using assms by (auto simp: svc_wf_def user_wf_def intro!: list_all_gset)

lemma svc_wf_set_role:
  assumes "svc_wf s" and "role_wf (k, r)"
  shows "svc_wf (s\<lparr>svc_roles := gset k r (svc_roles s)\<rparr>)"
  using assms by (auto simp: svc_wf_def known_role_def intro!: list_all_gset elim!: user_wf_mono)

lemma svc_wf_empty [simp]: "svc_wf empty_service"
  by (simp add: svc_wf_def empty_service_def)

lemma validate_use_roles_None:
  "validate_use_roles roles rs = None \<longleftrightarrow> list_all (known_role roles) rs"
  by (induction rs) (simp_all add: known_role_def)

lemma system_role_gget:
  assumes "gget system_role_map k = Some r"
  shows "role_name r = k" and "role_is_system r" and "k \<noteq> []"
    and "valid_scopes (elems (role_permissions r))"
  using list_all_gget [OF system_roles_valid assms] by auto

subsection \<open>The contract of an edit\<close>

locale db_edit =
  fixes edit :: "service \<Rightarrow> service res"
  assumes keeps_wf: "svc_wf s \<Longrightarrow> edit s = Inr s' \<Longrightarrow> svc_wf s'"

lemma commit_cases:
  obtains (stored) w' where "store_to_db C s w = (None, w')" and "commit C s w = (None, s, w')"
  | (failed) e w1 re s' w' where "store_to_db C s w = (Some e, w1)"
      and "update_from_db C s w1 = (re, s', w')" and "commit C s w = (Some e, s', w')"
proof (cases "store_to_db C s w")
  case (Pair e w1)
  show ?thesis
  proof (cases e)
    case None
    then show ?thesis using stored [of w1] Pair by (simp add: commit_def)
  next
    case (Some err)
    obtain re s' w' where "update_from_db C s w1 = (re, s', w')"
      by (metis prod_cases3)
    then show ?thesis using failed [of err w1 re s' w'] Pair Some by (simp add: commit_def)
  qed
qed

context db_edit
begin

lemma mutate_cases:
  obtains (rejected) e where "edit s = Inl e" and "mutate C edit s w = (Some e, s, w)"
  | (stored) s' w' where "edit s = Inr s'" and "store_to_db C s' w = (None, w')"
      and "mutate C edit s w = (None, s', w')"
  | (rolled_back) s1 e w1 re s' w' where "edit s = Inr s1" and "store_to_db C s1 w = (Some e, w1)"
      and "update_from_db C s1 w1 = (re, s', w')" and "mutate C edit s w = (Some e, s', w')"
proof (cases "edit s")
  case (Inl e)
  then show ?thesis using rejected by (simp add: mutate_def)
next
  case (Inr s1)
  show ?thesis
  proof (cases rule: commit_cases [of C s1 w])
    case (stored w')
    then show ?thesis using that(2) [of s1 w'] Inr by (simp add: mutate_def)
  next
    case (failed e w1 re s' w')
    then show ?thesis using that(3) [of s1 e w1 re s' w'] Inr by (simp add: mutate_def)
  qed
qed

lemma success:
  assumes "svc_wf s" and "mutate C edit s w = (None, s', w')"
  shows "svc_wf s'" and "edit s = Inr s'" and "store_to_db C s' w = (None, w')"
  using assms by (cases rule: mutate_cases [of s C w]; auto intro: keeps_wf)+

end

subsection \<open>Every method's edit keeps it\<close>

lemma create_user_edit_Inr:
  assumes "create_user_edit env user s = Inr s'"
  obtains h where "user_validate user = None" and "\<not> has_key (svc_users s) (u_username user)"
    and "validate_use_roles (svc_roles s) (elems (u_roles user)) = None"
    and "bcrypt_generate env pwd_bcrypt_cost (u_password user) = Inr h"
    and "s' = s\<lparr>svc_users := gset (u_username user)
      (user\<lparr>u_last_update := now_unix env, u_password := h\<rparr>) (svc_users s)\<rparr>"
proof -
  have v: "user_validate user = None" and n: "\<not> has_key (svc_users s) (u_username user)"
    and r: "validate_use_roles (svc_roles s) (elems (u_roles user)) = None"
    using assms by (simp_all add: create_user_edit_def split: option.splits if_splits)
  then obtain h where h: "bcrypt_generate env pwd_bcrypt_cost (u_password user) = Inr h"
    using assms by (cases "bcrypt_generate env pwd_bcrypt_cost (u_password user)")
      (simp_all add: create_user_edit_def)
  show ?thesis
    by (rule that [OF v n r h]) (use assms v n r h in \<open>simp add: create_user_edit_def Let_def\<close>)
qed

interpretation create_user: db_edit "create_user_edit env user" for env user
proof unfold_locales
  fix s s'
  assume wf: "svc_wf s" and e: "create_user_edit env user s = Inr s'"
  from e obtain h where v: "validate_use_roles (svc_roles s) (elems (u_roles user)) = None"
    and s': "s' = s\<lparr>svc_users := gset (u_username user)
      (user\<lparr>u_last_update := now_unix env, u_password := h\<rparr>) (svc_users s)\<rparr>"
    by (rule create_user_edit_Inr)
  show "svc_wf s'"
    unfolding s' using v by (intro svc_wf_set_user wf) (simp_all add: validate_use_roles_None)
qed

lemma update_user_edit_Inr:
  assumes "update_user_edit env user s = Inr s'"
  obtains prev pw ex where "gget (svc_users s) (u_username user) = Some prev"
    and "validate_use_roles (svc_roles s) (elems (u_roles user)) = None"
    and "u_password user = [] \<and> pw = u_password prev \<and> ex = u_pwd_expiration prev
      \<or> u_password user \<noteq> [] \<and> bcrypt_generate env pwd_bcrypt_cost (u_password user) = Inr pw
        \<and> ex = u_pwd_expiration user"
    and "s' = s\<lparr>svc_users := gset (u_username user)
      (user\<lparr>u_password := pw, u_pwd_expiration := ex, u_last_update := now_unix env\<rparr>) (svc_users s)\<rparr>"
proof -
  obtain prev where p: "gget (svc_users s) (u_username user) = Some prev"
    using assms by (cases "gget (svc_users s) (u_username user)") (simp_all add: update_user_edit_def)
  have v: "validate_use_roles (svc_roles s) (elems (u_roles user)) = None"
    using assms p by (cases "validate_use_roles (svc_roles s) (elems (u_roles user))")
      (simp_all add: update_user_edit_def)
  show ?thesis
  proof (cases "u_password user = []")
    case True
    show ?thesis
      by (rule that [OF p v, of "u_password prev" "u_pwd_expiration prev"])
        (use assms p v True in \<open>simp_all add: update_user_edit_def Let_def\<close>)
  next
    case False
    then obtain h where h: "bcrypt_generate env pwd_bcrypt_cost (u_password user) = Inr h"
      using assms p v by (cases "bcrypt_generate env pwd_bcrypt_cost (u_password user)")
        (simp_all add: update_user_edit_def)
    show ?thesis
      by (rule that [OF p v, of h "u_pwd_expiration user"])
        (use assms p v False h in \<open>simp_all add: update_user_edit_def Let_def\<close>)
  qed
qed

interpretation update_user: db_edit "update_user_edit env user" for env user
proof unfold_locales
  fix s s'
  assume wf: "svc_wf s" and e: "update_user_edit env user s = Inr s'"
  from e obtain prev pw ex where v: "validate_use_roles (svc_roles s) (elems (u_roles user)) = None"
    and s': "s' = s\<lparr>svc_users := gset (u_username user)
      (user\<lparr>u_password := pw, u_pwd_expiration := ex, u_last_update := now_unix env\<rparr>) (svc_users s)\<rparr>"
    by (rule update_user_edit_Inr)
  show "svc_wf s'"
    unfolding s' using v by (intro svc_wf_set_user wf) (simp_all add: validate_use_roles_None)
qed

interpretation delete_user: db_edit "delete_user_edit username" for username
  by unfold_locales (auto simp: delete_user_edit_def svc_wf_def intro: list_all_gdel)

lemma change_password_edit_Inr:
  assumes "change_password_edit env username old_pass new_pass s = Inr s'"
  obtains u h where "gget (svc_users s) username = Some u"
    and "bcrypt_compare env (u_password u) old_pass = None"
    and "bcrypt_generate env pwd_bcrypt_cost new_pass = Inr h"
    and "s' = s\<lparr>svc_users := gset username (u\<lparr>u_password := h\<rparr>) (svc_users s)\<rparr>"
proof -
  obtain u where u: "gget (svc_users s) username = Some u"
    using assms by (cases "gget (svc_users s) username") (simp_all add: change_password_edit_def)
  have c: "bcrypt_compare env (u_password u) old_pass = None"
    using assms u by (cases "bcrypt_compare env (u_password u) old_pass")
      (simp_all add: change_password_edit_def)
  obtain h where h: "bcrypt_generate env pwd_bcrypt_cost new_pass = Inr h"
    using assms u c by (cases "bcrypt_generate env pwd_bcrypt_cost new_pass")
      (simp_all add: change_password_edit_def)
  show ?thesis
    by (rule that [OF u c h]) (use assms u c h in \<open>simp add: change_password_edit_def Let_def\<close>)
qed

interpretation change_password: db_edit "change_password_edit env username old_pass new_pass"
  for env username old_pass new_pass
proof unfold_locales
  fix s s'
  assume wf: "svc_wf s" and e: "change_password_edit env username old_pass new_pass s = Inr s'"
  from e obtain u h where u: "gget (svc_users s) username = Some u"
    and s': "s' = s\<lparr>svc_users := gset username (u\<lparr>u_password := h\<rparr>) (svc_users s)\<rparr>"
    by (rule change_password_edit_Inr)
  have "user_wf (svc_roles s) (username, u)"
    using wf u by (rule svc_wf_user)
  then show "svc_wf s'"
    unfolding s' by (intro svc_wf_set_user wf) (simp_all add: user_wf_def)
qed

interpretation create_role: db_edit "create_role_edit env role" for env role
  by unfold_locales (auto simp: create_role_edit_def role_validate_None role_wf_def
      intro!: svc_wf_set_role split: if_splits option.splits)

interpretation update_role: db_edit "update_role_edit env role" for env role
  by unfold_locales (auto simp: update_role_edit_def role_validate_None role_wf_def
      intro!: svc_wf_set_role split: if_splits option.splits)

interpretation delete_role: db_edit "delete_role_edit name" for name
proof unfold_locales
  fix s s'
  assume wf: "svc_wf s" and e: "delete_role_edit name s = Inr s'"
  have s': "s' = s\<lparr>svc_roles := gdel name (svc_roles s)\<rparr>"
    and nex: "\<not> list_ex (\<lambda>(k, usr). name \<in> set (elems (u_roles usr))) (svc_users s)"
    using e by (auto simp: delete_role_edit_def split: if_splits)
  have "user_wf (gdel name (svc_roles s)) p" if p: "p \<in> set (svc_users s)" for p
  proof -
    have "user_wf (svc_roles s) p" using wf p by (simp add: svc_wf_def list_all_iff)
    moreover have "name \<notin> set (elems (u_roles (snd p)))"
      using nex p by (auto simp: list_ex_iff case_prod_unfold)
    ultimately show ?thesis by (auto simp: user_wf_def list_all_iff known_role_def)
  qed
  then show "svc_wf s'"
    using wf by (simp add: s' svc_wf_def list_all_gdel list_all_iff [of "user_wf (gdel name (svc_roles s))"])
qed

lemma clone_role_edit_Inr:
  assumes "clone_role_edit src_name dst_name s = Inr s'"
  obtains r where "gget (svc_roles s) src_name = Some r
      \<or> (\<exists>r0. gget system_role_map src_name = Some r0 \<and> r = r0\<lparr>role_is_system := False\<rparr>)"
    and "s' = s\<lparr>svc_roles := gset dst_name (r\<lparr>role_name := dst_name\<rparr>) (svc_roles s)\<rparr>"
proof (cases "gget (svc_roles s) src_name")
  case (Some r)
  show ?thesis
    by (rule that [of r]) (use assms Some in \<open>simp_all add: clone_role_edit_def Let_def\<close>)
next
  case None
  then obtain r0 where r0: "gget system_role_map src_name = Some r0"
    using assms by (cases "gget system_role_map src_name") (simp_all add: clone_role_edit_def)
  show ?thesis
    by (rule that [of "r0\<lparr>role_is_system := False\<rparr>"])
      (use assms None r0 in \<open>simp_all add: clone_role_edit_def Let_def\<close>)
qed

interpretation clone_role: db_edit "clone_role_edit src_name dst_name" for src_name dst_name
proof unfold_locales
  fix s s'
  assume wf: "svc_wf s" and e: "clone_role_edit src_name dst_name s = Inr s'"
  from e obtain r where r: "gget (svc_roles s) src_name = Some r
      \<or> (\<exists>r0. gget system_role_map src_name = Some r0 \<and> r = r0\<lparr>role_is_system := False\<rparr>)"
    and s': "s' = s\<lparr>svc_roles := gset dst_name (r\<lparr>role_name := dst_name\<rparr>) (svc_roles s)\<rparr>"
    by (rule clone_role_edit_Inr)
  have "\<not> role_is_system r \<and> valid_scopes (elems (role_permissions r))"
    using r
  proof
    assume "gget (svc_roles s) src_name = Some r"
    then have "role_wf (src_name, r)" by (rule svc_wf_role [OF wf])
    then show ?thesis by (simp add: role_wf_def)
  next
    assume "\<exists>r0. gget system_role_map src_name = Some r0 \<and> r = r0\<lparr>role_is_system := False\<rparr>"
    then show ?thesis using system_role_gget by auto
  qed
  then show "svc_wf s'"
    unfolding s' by (intro svc_wf_set_role wf) (simp add: role_wf_def)
qed

end
