(* ===== verification/User_Cluster.thy ===== *)
theory User_Cluster
  imports User_Laws
begin

text \<open>
  The access database service together with the cluster: what the monitor's \<open>config-key\<close> store
  promises, the requests the service accepts, the states they reach, and how memory and the stored
  document stay in step.
\<close>

subsection \<open>The monitor's key store\<close>

text \<open>
  \<open>doc w\<close> is the document under the access database's key in cluster state \<open>w\<close>. Reading does not
  change it and, when it succeeds, returns it (a not-found answer means there is none). A write that
  reports success has stored its buffer; one that reports an error may or may not have.
\<close>

definition config_key_store :: "'w rados_conn \<Rightarrow> ('w \<Rightarrow> string option) \<Rightarrow> bool" where
  "config_key_store C doc \<longleftrightarrow>
    (\<forall>w r w'. exec_mon C get_db_mon_cmd w = (r, w') \<longrightarrow> doc w' = doc w
      \<and> (\<forall>d. r = Inr d \<longrightarrow> doc w = Some d)
      \<and> (\<forall>e. r = Inl e \<longrightarrow> errors_is e RadosErrorNotFound \<longrightarrow> doc w = None))
    \<and> (\<forall>d w r w'. exec_mon_with_input_buff C set_db_mon_cmd d w = (r, w') \<longrightarrow>
        doc w' = Some d \<or> (doc w' = doc w \<and> (\<exists>e. r = Inl e)))"

lemma config_key_get:
  assumes "config_key_store C doc" and "exec_mon C get_db_mon_cmd w = (r, w')"
  shows "doc w' = doc w" and "r = Inr d \<Longrightarrow> doc w = Some d"
    and "r = Inl e \<Longrightarrow> errors_is e RadosErrorNotFound \<Longrightarrow> doc w = None"
  using assms unfolding config_key_store_def by blast+

lemma store_to_db_doc:
  assumes "config_key_store C doc" and "store_to_db C s w = (r, w')"
  shows "r = None \<Longrightarrow> doc w' = Some (marshal_db s)"
    and "doc w' = Some (marshal_db s) \<or> doc w' = doc w"
proof -
  obtain x where x: "exec_mon_with_input_buff C set_db_mon_cmd (marshal_db s) w = (x, w')"
    and r: "r = (case x of Inl e \<Rightarrow> Some e | Inr _ \<Rightarrow> None)"
    using assms(2) by (auto simp: store_to_db_def split: sum.splits prod.splits)
  have "doc w' = Some (marshal_db s) \<or> (doc w' = doc w \<and> (\<exists>e. x = Inl e))"
    using assms(1) x unfolding config_key_store_def by blast
  then show "r = None \<Longrightarrow> doc w' = Some (marshal_db s)"
    and "doc w' = Some (marshal_db s) \<or> doc w' = doc w"
    using r by auto
qed

text \<open>The service state a cluster state stands for: the empty database when the key is unset.\<close>

definition stored_service :: "string option \<Rightarrow> service res" where
  "stored_service d = (case d of None \<Rightarrow> Inr empty_service | Some text \<Rightarrow> unmarshal_db text)"

lemma update_from_db_result:
  assumes "config_key_store C doc" and "update_from_db C s w = (r, s', w')"
  shows "doc w' = doc w"
    and "r = None \<Longrightarrow> stored_service (doc w) = Inr s'"
    and "r = Some e \<Longrightarrow> s' = empty_service"
proof -
  obtain x w1 where x: "exec_mon C get_db_mon_cmd w = (x, w1)" by (cases "exec_mon C get_db_mon_cmd w")
  have w1: "w1 = w'" and r: "(r = None \<longrightarrow> stored_service (doc w) = Inr s') \<and> (r = Some e \<longrightarrow> s' = empty_service)"
    using assms(2) x config_key_get [OF assms(1) x]
    by (auto simp: update_from_db_def stored_service_def split: sum.splits if_splits)
  show "doc w' = doc w" using config_key_get(1) [OF assms(1) x] w1 by simp
  show "r = None \<Longrightarrow> stored_service (doc w) = Inr s'" "r = Some e \<Longrightarrow> s' = empty_service"
    using r by simp_all
qed

subsection \<open>Requests and their texts\<close>

datatype request =
    CreateUser user
  | UpdateUser user
  | DeleteUser string
  | ChangePassword string string string
  | CreateRole role
  | UpdateRole role
  | DeleteRole string
  | CloneRole string string

fun request_edit :: "go_env \<Rightarrow> request \<Rightarrow> service \<Rightarrow> service res" where
  "request_edit env (CreateUser u) = create_user_edit env u"
| "request_edit env (UpdateUser u) = update_user_edit env u"
| "request_edit env (DeleteUser n) = delete_user_edit n"
| "request_edit env (ChangePassword n old new) = change_password_edit env n old new"
| "request_edit env (CreateRole r) = create_role_edit env r"
| "request_edit env (UpdateRole r) = update_role_edit env r"
| "request_edit env (DeleteRole n) = delete_role_edit n"
| "request_edit env (CloneRole src dst) = clone_role_edit src dst"

fun serve_request ::
  "'w rados_conn \<Rightarrow> go_env \<Rightarrow> request \<Rightarrow> service \<Rightarrow> 'w \<Rightarrow> go_error option \<times> service \<times> 'w" where
  "serve_request C env (CreateUser u) s w = create_user C env u s w"
| "serve_request C env (UpdateUser u) s w = update_user C env u s w"
| "serve_request C env (DeleteUser n) s w = delete_user C n s w"
| "serve_request C env (ChangePassword n old new) s w = change_password C env n old new s w"
| "serve_request C env (CreateRole r) s w = create_role C env r s w"
| "serve_request C env (UpdateRole r) s w = update_role C env r s w"
| "serve_request C env (DeleteRole n) s w = delete_role C n s w"
| "serve_request C env (CloneRole src dst) s w = clone_role C src dst s w"

lemma serve_request_eq: "serve_request C env req s w = mutate C (request_edit env req) s w"
  by (cases req) (simp_all add: create_user_def update_user_def delete_user_def change_password_def
      create_role_def update_role_def delete_role_def clone_role_def)

text \<open>
  Texts that survive JSON: ASCII strings, 64-bit times; and bcrypt hashes are ASCII text.
\<close>

definition env_ok :: "go_env \<Rightarrow> bool" where
  "env_ok env \<longleftrightarrow> in_int64 (now_unix env)
    \<and> (\<forall>cost pw h. bcrypt_generate env cost pw = Inr h \<longrightarrow> ascii h)"

fun request_text_ok :: "request \<Rightarrow> bool" where
  "request_text_ok (CreateUser u) = user_text_ok u"
| "request_text_ok (UpdateUser u) = user_text_ok u"
| "request_text_ok (DeleteUser n) = True"
| "request_text_ok (ChangePassword n old new) = True"
| "request_text_ok (CreateRole r) = role_text_ok r"
| "request_text_ok (UpdateRole r) = role_text_ok r"
| "request_text_ok (DeleteRole n) = True"
| "request_text_ok (CloneRole src dst) = ascii dst"

subsection \<open>An edit keeps the texts printable\<close>

text \<open>The contract of an edit, extended: with printable input it leaves a printable database.\<close>

locale db_text_edit = db_edit +
  fixes input_ok :: bool
  assumes keeps_text: "input_ok \<Longrightarrow> service_text_ok s \<Longrightarrow> edit s = Inr s' \<Longrightarrow> service_text_ok s'"

definition user_entry_ok :: "string \<times> user \<Rightarrow> bool" where
  "user_entry_ok p \<longleftrightarrow> ascii (fst p) \<and> user_text_ok (snd p)"

definition role_entry_ok :: "string \<times> role \<Rightarrow> bool" where
  "role_entry_ok p \<longleftrightarrow> ascii (fst p) \<and> role_text_ok (snd p)"

lemma service_text_ok_iff:
  "service_text_ok s \<longleftrightarrow> wf_map (svc_users s) \<and> list_all user_entry_ok (svc_users s)
    \<and> wf_map (svc_roles s) \<and> list_all role_entry_ok (svc_roles s)"
  by (auto simp: service_text_ok_def user_entry_ok_def role_entry_ok_def list_all_iff)

lemma text_set_user:
  "service_text_ok s \<Longrightarrow> ascii k \<Longrightarrow> user_text_ok u \<Longrightarrow>
    service_text_ok (s\<lparr>svc_users := gset k u (svc_users s)\<rparr>)"
  by (simp add: service_text_ok_iff list_all_gset user_entry_ok_def)

lemma text_set_role:
  "service_text_ok s \<Longrightarrow> ascii k \<Longrightarrow> role_text_ok r \<Longrightarrow>
    service_text_ok (s\<lparr>svc_roles := gset k r (svc_roles s)\<rparr>)"
  by (simp add: service_text_ok_iff list_all_gset role_entry_ok_def)

lemma text_ok_user: "service_text_ok s \<Longrightarrow> gget (svc_users s) k = Some u \<Longrightarrow> ascii k \<and> user_text_ok u"
  using list_all_gget [of user_entry_ok "svc_users s" k u] by (simp add: service_text_ok_iff user_entry_ok_def)

lemma text_ok_role: "service_text_ok s \<Longrightarrow> gget (svc_roles s) k = Some r \<Longrightarrow> ascii k \<and> role_text_ok r"
  using list_all_gget [of role_entry_ok "svc_roles s" k r] by (simp add: service_text_ok_iff role_entry_ok_def)

lemma system_roles_text_ok: "gget system_role_map k = Some r \<Longrightarrow> role_text_ok r"
proof -
  have "list_all (\<lambda>p. role_text_ok (snd p)) system_role_map"
    by (simp add: system_role_map_eq system_role_defs role_text_ok_def ascii_def wf_map_def)
  then show "gget system_role_map k = Some r \<Longrightarrow> role_text_ok r"
    using list_all_gget [of "\<lambda>p. role_text_ok (snd p)" system_role_map k r] by simp
qed

interpretation create_user: db_text_edit "create_user_edit env user" "env_ok env \<and> user_text_ok user"
  for env user
proof unfold_locales
  fix s s'
  assume ok: "env_ok env \<and> user_text_ok user" "service_text_ok s" and e: "create_user_edit env user s = Inr s'"
  from e obtain h where "bcrypt_generate env pwd_bcrypt_cost (u_password user) = Inr h"
    and s': "s' = s\<lparr>svc_users := gset (u_username user)
      (user\<lparr>u_last_update := now_unix env, u_password := h\<rparr>) (svc_users s)\<rparr>"
    by (rule create_user_edit_Inr)
  then show "service_text_ok s'"
    unfolding s' using ok by (intro text_set_user) (auto simp: env_ok_def user_text_ok_def)
qed

interpretation update_user: db_text_edit "update_user_edit env user" "env_ok env \<and> user_text_ok user"
  for env user
proof unfold_locales
  fix s s'
  assume ok: "env_ok env \<and> user_text_ok user" "service_text_ok s" and e: "update_user_edit env user s = Inr s'"
  from e obtain prev pw ex where p: "gget (svc_users s) (u_username user) = Some prev"
    and pw: "u_password user = [] \<and> pw = u_password prev \<and> ex = u_pwd_expiration prev
      \<or> u_password user \<noteq> [] \<and> bcrypt_generate env pwd_bcrypt_cost (u_password user) = Inr pw
        \<and> ex = u_pwd_expiration user"
    and s': "s' = s\<lparr>svc_users := gset (u_username user)
      (user\<lparr>u_password := pw, u_pwd_expiration := ex, u_last_update := now_unix env\<rparr>) (svc_users s)\<rparr>"
    by (rule update_user_edit_Inr)
  have "user_text_ok prev" using text_ok_user [OF ok(2) p] by simp
  with pw ok(1) have "ascii pw \<and> pred_option in_int64 ex"
    by (auto simp: env_ok_def user_text_ok_def)
  then show "service_text_ok s'"
    unfolding s' using ok by (intro text_set_user) (auto simp: env_ok_def user_text_ok_def)
qed

interpretation delete_user: db_text_edit "delete_user_edit username" True for username
  by unfold_locales (auto simp: delete_user_edit_def service_text_ok_iff intro: list_all_gdel)

interpretation change_password: db_text_edit "change_password_edit env username old_pass new_pass" "env_ok env"
  for env username old_pass new_pass
proof unfold_locales
  fix s s'
  assume ok: "env_ok env" "service_text_ok s"
    and e: "change_password_edit env username old_pass new_pass s = Inr s'"
  from e obtain u h where u: "gget (svc_users s) username = Some u"
    and h: "bcrypt_generate env pwd_bcrypt_cost new_pass = Inr h"
    and s': "s' = s\<lparr>svc_users := gset username (u\<lparr>u_password := h\<rparr>) (svc_users s)\<rparr>"
    by (rule change_password_edit_Inr)
  show "service_text_ok s'"
    unfolding s' using ok h text_ok_user [OF ok(2) u]
    by (intro text_set_user) (auto simp: env_ok_def user_text_ok_def)
qed

interpretation create_role: db_text_edit "create_role_edit env role" "role_text_ok role" for env role
  by unfold_locales (auto simp: create_role_edit_def role_text_ok_def
      intro!: text_set_role split: if_splits option.splits)

interpretation update_role: db_text_edit "update_role_edit env role" "role_text_ok role" for env role
  by unfold_locales (auto simp: update_role_edit_def role_text_ok_def
      intro!: text_set_role split: if_splits option.splits)

interpretation delete_role: db_text_edit "delete_role_edit name" True for name
  by unfold_locales (auto simp: delete_role_edit_def service_text_ok_iff list_all_gdel split: if_splits)

interpretation clone_role: db_text_edit "clone_role_edit src_name dst_name" "ascii dst_name"
  for src_name dst_name
proof unfold_locales
  fix s s'
  assume ok: "ascii dst_name" "service_text_ok s" and e: "clone_role_edit src_name dst_name s = Inr s'"
  from e obtain r where r: "gget (svc_roles s) src_name = Some r
      \<or> (\<exists>r0. gget system_role_map src_name = Some r0 \<and> r = r0\<lparr>role_is_system := False\<rparr>)"
    and s': "s' = s\<lparr>svc_roles := gset dst_name (r\<lparr>role_name := dst_name\<rparr>) (svc_roles s)\<rparr>"
    by (rule clone_role_edit_Inr)
  have "role_text_ok r"
    using r text_ok_role [OF ok(2)] system_roles_text_ok by (auto simp: role_text_ok_def)
  then show "service_text_ok s'"
    unfolding s' using ok by (intro text_set_role) (simp_all add: role_text_ok_def)
qed

lemma request_keeps_wf: "svc_wf s \<Longrightarrow> request_edit env req s = Inr s' \<Longrightarrow> svc_wf s'"
  by (cases req) (auto intro: create_user.keeps_wf update_user.keeps_wf delete_user.keeps_wf
      change_password.keeps_wf create_role.keeps_wf update_role.keeps_wf delete_role.keeps_wf
      clone_role.keeps_wf)

lemma request_keeps_text:
  assumes "env_ok env" and "request_text_ok req" and "service_text_ok s" and "request_edit env req s = Inr s'"
  shows "service_text_ok s'"
  using assms
  by (cases req) (auto intro: create_user.keeps_text update_user.keeps_text delete_user.keeps_text
      change_password.keeps_text create_role.keeps_text update_role.keeps_text delete_role.keeps_text
      clone_role.keeps_text)

interpretation serve: db_edit "request_edit env req" for env req
  by unfold_locales (rule request_keeps_wf)

lemma svc_wf_canon:
  assumes "svc_wf s"
  shows "svc_wf (canon s)"
proof -
  have w: "wf_map (svc_users s)" "wf_map (svc_roles s)" using assms by (simp_all add: svc_wf_def)
  have kr: "known_role (svc_roles (canon s)) r = known_role (svc_roles s) r" for r
    by (simp add: known_role_def has_key_def gget_canon [OF w])
  have rc: "role_wf (k, r) \<Longrightarrow> role_wf (k, canon_role r)" for k r
    by (cases "role_permissions r") (simp_all add: role_wf_def canon_role_def valid_scopes_def list_all_iff)
  have "list_all (user_wf (svc_roles (canon s))) (svc_users (canon s))"
    using assms kr by (simp add: svc_wf_def user_wf_def list_all_iff) (simp add: canon_def)
  moreover have "list_all role_wf (svc_roles (canon s))"
    using assms rc by (auto simp: svc_wf_def canon_def canon_roles_def list_all_iff)
  ultimately show ?thesis using wf_map_canon [OF w] by (simp add: svc_wf_def)
qed

subsection \<open>Reachable states\<close>

text \<open>
  A run starts on a cluster state of \<open>W\<close>, serves requests one at a time (each holds the lock
  throughout) and may restart at any moment.
\<close>

inductive reachable :: "'w rados_conn \<Rightarrow> 'w set \<Rightarrow> service \<Rightarrow> 'w \<Rightarrow> bool" for C W where
  start: "w \<in> W \<Longrightarrow> new_service C w = (Inr s, w') \<Longrightarrow> reachable C W s w'"
| serve: "reachable C W s w \<Longrightarrow> env_ok env \<Longrightarrow> request_text_ok req \<Longrightarrow>
    serve_request C env req s w = (r, s', w') \<Longrightarrow> reachable C W s' w'"
| restart: "reachable C W s w \<Longrightarrow> new_service C w = (Inr s', w') \<Longrightarrow> reachable C W s' w'"

definition service_ok :: "service \<Rightarrow> bool" where
  "service_ok s \<longleftrightarrow> svc_wf s \<and> service_text_ok s"

definition doc_ok :: "string option \<Rightarrow> bool" where
  "doc_ok d \<longleftrightarrow> (case stored_service d of Inl e \<Rightarrow> True | Inr s \<Rightarrow> service_ok s)"

text \<open>Memory agrees with the stored document, up to the order of map entries.\<close>

definition in_sync :: "string option \<Rightarrow> service \<Rightarrow> bool" where
  "in_sync d s \<longleftrightarrow> (case stored_service d of Inl e \<Rightarrow> False | Inr s0 \<Rightarrow> canon s0 = canon s)"

lemma service_ok_empty [simp]: "service_ok empty_service"
  by (simp add: service_ok_def service_text_ok_def empty_service_def svc_wf_def)

lemma stored_marshal: "service_ok s \<Longrightarrow> stored_service (Some (marshal_db s)) = Inr (canon s)"
  by (simp add: stored_service_def service_ok_def unmarshal_marshal_db)

lemma doc_ok_marshal: "service_ok s \<Longrightarrow> doc_ok (Some (marshal_db s))"
  by (simp add: doc_ok_def stored_marshal) (simp add: service_ok_def svc_wf_canon text_ok_canon)

lemma in_sync_marshal: "service_ok s \<Longrightarrow> in_sync (Some (marshal_db s)) s"
  by (simp add: in_sync_def stored_marshal)

lemma update_from_db_ok:
  assumes "config_key_store C doc" and "doc_ok (doc w)" and "update_from_db C s w = (r, s', w')"
  shows "service_ok s' \<and> doc_ok (doc w')"
  using update_from_db_result [OF assms(1,3)] assms(2)
  by (cases r) (auto simp: doc_ok_def)

lemma new_service_Inr:
  "new_service C w = (Inr s, w') \<longleftrightarrow> update_from_db C empty_service w = (None, s, w')"
  by (auto simp: new_service_def split: option.splits prod.splits)

lemma serve_request_ok:
  assumes "config_key_store C doc" and "service_ok s" and "doc_ok (doc w)"
    and "env_ok env" and "request_text_ok req" and "serve_request C env req s w = (r, s', w')"
  shows "service_ok s' \<and> doc_ok (doc w')"
proof (cases rule: serve.mutate_cases [of env req s C w])
  case (rejected e)
  then show ?thesis using assms(2,3,6) by (simp add: serve_request_eq)
next
  case (stored s1 w1)
  have ok: "service_ok s1"
    using assms(2,4,5) stored(1) request_keeps_wf request_keeps_text by (auto simp: service_ok_def)
  have "doc w1 = Some (marshal_db s1)" using store_to_db_doc(1) [OF assms(1) stored(2)] by simp
  then show ?thesis using stored(3) ok doc_ok_marshal [OF ok] assms(6) by (simp add: serve_request_eq)
next
  case (rolled_back s1 e w1 re s2 w2)
  have ok: "service_ok s1"
    using assms(2,4,5) rolled_back(1) request_keeps_wf request_keeps_text by (auto simp: service_ok_def)
  have "doc_ok (doc w1)"
    using store_to_db_doc(2) [OF assms(1) rolled_back(2)] doc_ok_marshal [OF ok] assms(3) by auto
  then show ?thesis
    using update_from_db_ok [OF assms(1) _ rolled_back(3)] rolled_back(4) assms(6)
    by (simp add: serve_request_eq)
qed

text \<open>A request whose edited state could not be stored, and whose reload failed as well.\<close>

definition failed_twice :: "'w rados_conn \<Rightarrow> go_env \<Rightarrow> request \<Rightarrow> service \<Rightarrow> 'w \<Rightarrow> bool" where
  "failed_twice C env req s w \<longleftrightarrow>
    (case request_edit env req s of
       Inl e \<Rightarrow> False
     | Inr s1 \<Rightarrow>
        (case store_to_db C s1 w of
           (None, w1) \<Rightarrow> False
         | (Some e, w1) \<Rightarrow> fst (update_from_db C s1 w1) \<noteq> None))"

lemma serve_request_in_sync:
  assumes "config_key_store C doc" and "service_ok s" and "in_sync (doc w) s"
    and "env_ok env" and "request_text_ok req" and "serve_request C env req s w = (r, s', w')"
  shows "if failed_twice C env req s w then r \<noteq> None \<and> s' = empty_service else in_sync (doc w') s'"
proof (cases rule: serve.mutate_cases [of env req s C w])
  case (rejected e)
  then show ?thesis using assms(3,6) by (simp add: serve_request_eq failed_twice_def)
next
  case (stored s1 w1)
  have ok: "service_ok s1"
    using assms(2,4,5) stored(1) request_keeps_wf request_keeps_text by (auto simp: service_ok_def)
  have "doc w1 = Some (marshal_db s1)" using store_to_db_doc(1) [OF assms(1) stored(2)] by simp
  then show ?thesis
    using stored in_sync_marshal [OF ok] assms(6) by (simp add: serve_request_eq failed_twice_def)
next
  case (rolled_back s1 e w1 re s2 w2)
  have r: "r = Some e" "s' = s2" "w' = w2" using rolled_back(4) assms(6) by (simp_all add: serve_request_eq)
  have f: "failed_twice C env req s w \<longleftrightarrow> re \<noteq> None"
    using rolled_back(1-3) by (simp add: failed_twice_def)
  show ?thesis
  proof (cases re)
    case None
    then have "stored_service (doc w1) = Inr s2" "doc w2 = doc w1"
      using update_from_db_result [OF assms(1) rolled_back(3)] by simp_all
    then show ?thesis using r f None by (simp add: in_sync_def)
  next
    case (Some e')
    then show ?thesis using update_from_db_result(3) [OF assms(1) rolled_back(3)] r f by simp
  qed
qed

end
