(* ===== verification/User_Permissions.thy ===== *)
theory User_Permissions
  imports User_Cluster
begin

text \<open>
  What a user may do: the permissions \<open>GetPermissions\<close> collects from the user's roles, and the check
  \<open>HasPermissions\<close> the handlers make against them.
\<close>

subsection \<open>What a role grants\<close>

definition scopes_grant :: "string slice gomap \<Rightarrow> string \<Rightarrow> string \<Rightarrow> bool" where
  "scopes_grant m sc p \<longleftrightarrow> list_ex (\<lambda>(k, ps). k = sc \<and> p \<in> set (elems ps)) m"

definition role_grants :: "role gomap \<Rightarrow> string \<Rightarrow> string \<Rightarrow> string \<Rightarrow> bool" where
  "role_grants m r sc p \<longleftrightarrow>
    (case gget m r of None \<Rightarrow> False | Some role \<Rightarrow> scopes_grant (elems (role_permissions role)) sc p)"

definition user_granted :: "service \<Rightarrow> string \<Rightarrow> string \<Rightarrow> string \<Rightarrow> bool" where
  "user_granted s username sc p \<longleftrightarrow>
    (case gget (svc_users s) username of None \<Rightarrow> False
     | Some usr \<Rightarrow> list_ex (\<lambda>r. role_grants (svc_roles s) r sc p \<or> role_grants system_role_map r sc p)
         (elems (u_roles usr)))"

lemma scopes_grant_simps [simp]:
  "\<not> scopes_grant [] sc p"
  "scopes_grant ((k, ps) # m) sc p \<longleftrightarrow> (k = sc \<and> p \<in> set (elems ps)) \<or> scopes_grant m sc p"
  by (simp_all add: scopes_grant_def)

lemma gslice_gset [simp]: "gslice (gset k v m) k' = (if k' = k then v else gslice m k')"
  by (simp add: gslice_def)

lemma append_perms_simps [simp]:
  "append_perms res [] = res"
  "append_perms res ((sc, ps) # m) = append_perms (gset sc (gslice res sc @ elems ps) res) m"
  by (simp_all add: append_perms_def)

lemma set_append_perms:
  "p \<in> set (gslice (append_perms res m) sc) \<longleftrightarrow> p \<in> set (gslice res sc) \<or> scopes_grant m sc p"
  by (induction m arbitrary: res) (auto split: if_splits)

lemma wf_append_perms: "wf_map res \<Longrightarrow> wf_map (append_perms res m)"
  by (induction m arbitrary: res) auto

lemma role_grants_eq: "scopes_grant (role_perms_of m r) sc p \<longleftrightarrow> role_grants m r sc p"
  by (simp add: role_perms_of_def role_grants_def no_role_def split: option.split)

definition collect_perms :: "service \<Rightarrow> string list gomap \<Rightarrow> string list \<Rightarrow> string list gomap" where
  "collect_perms s = foldl (\<lambda>res role.
     append_perms (append_perms res (role_perms_of (svc_roles s) role)) (role_perms_of system_role_map role))"

lemma collect_perms_simps [simp]:
  "collect_perms s res [] = res"
  "collect_perms s res (r # rs) = collect_perms s
     (append_perms (append_perms res (role_perms_of (svc_roles s) r)) (role_perms_of system_role_map r)) rs"
  by (simp_all add: collect_perms_def)

lemma set_collect_perms:
  "p \<in> set (gslice (collect_perms s res rs) sc) \<longleftrightarrow> p \<in> set (gslice res sc)
    \<or> list_ex (\<lambda>r. role_grants (svc_roles s) r sc p \<or> role_grants system_role_map r sc p) rs"
  by (induction rs arbitrary: res) (auto simp: set_append_perms role_grants_eq)

lemma wf_collect_perms: "wf_map res \<Longrightarrow> wf_map (collect_perms s res rs)"
  by (induction rs arbitrary: res) (auto simp: wf_append_perms)

lemma gslice_map_values:
  "f [] = [] \<Longrightarrow> gslice (map (\<lambda>(k, v). (k, f v)) m) sc = f (gslice m sc)"
  by (simp add: gslice_def map_of_map split: option.split)

lemma get_permissions_eq:
  "get_permissions s username =
    (case gget (svc_users s) username of None \<Rightarrow> []
     | Some usr \<Rightarrow> map (\<lambda>(sc, ps). (sc, remdups_adj (sort ps))) (collect_perms s [] (elems (u_roles usr))))"
  unfolding get_permissions_def collect_perms_def by (rule refl)

lemma get_permissions_granted:
  "p \<in> set (gslice (get_permissions s username) sc) \<longleftrightarrow> user_granted s username sc p"
proof (cases "gget (svc_users s) username")
  case None
  then show ?thesis by (simp add: get_permissions_eq user_granted_def gslice_def)
next
  case (Some usr)
  then show ?thesis
    by (simp add: get_permissions_eq user_granted_def gslice_map_values set_collect_perms)
      (simp add: gslice_def)
qed

lemma strictly_sorted_remdups_adj:
  fixes xs :: "string list"
  shows "sorted xs \<Longrightarrow> sorted_wrt (<) (remdups_adj xs)"
  by (induction xs rule: remdups_adj.induct) auto

lemma strictly_sorted_compact: "sorted_wrt (<) (remdups_adj (sort (xs::string list)))"
  by (simp add: strictly_sorted_remdups_adj)

lemma get_permissions_sorted: "sorted_wrt (<) (gslice (get_permissions s username) sc)"
proof (cases "gget (svc_users s) username")
  case None
  then show ?thesis by (simp add: get_permissions_eq gslice_def)
next
  case (Some usr)
  then show ?thesis
    by (simp add: get_permissions_eq gslice_map_values strictly_sorted_compact)
qed

lemma strictly_sorted_unique:
  fixes xs ys :: "string list"
  assumes "sorted_wrt (<) xs" and "sorted_wrt (<) ys" and "set xs = set ys"
  shows "xs = ys"
  using assms by (metis strict_sorted_equal)

subsection \<open>The check against a context\<close>

lemma has_all_perms_iff:
  "has_all_perms m sc ps = None \<longleftrightarrow>
    list_all (\<lambda>p. permission_string p \<in> set (gslice m (scope_string sc))) ps"
  by (induction ps) auto

lemma has_all_perms_error: "has_all_perms m sc ps = Some e \<Longrightarrow> e = ErrAccessDenied"
  by (induction ps) (auto split: if_splits)

lemma has_permissions_None:
  "has_permissions ctx sc ps = None \<longleftrightarrow> get_permissions_ctx ctx \<noteq> []
    \<and> list_all (\<lambda>p. permission_string p \<in> set (gslice (get_permissions_ctx ctx) (scope_string sc))) ps"
  by (simp add: has_permissions_def has_all_perms_iff)

lemma has_permissions_cases:
  "has_permissions ctx sc ps = None \<or> has_permissions ctx sc ps = Some ErrAccessDenied"
  using has_all_perms_error
  by (cases "has_all_perms (get_permissions_ctx ctx) sc ps") (auto simp: has_permissions_def)

text \<open>Validated scopes are never the one the constant of the dashboard settings spells.\<close>

lemma valid_scopes_grant:
  "valid_scopes m \<Longrightarrow> scopes_grant m sc p \<Longrightarrow> sc \<in> set scope_set \<and> p \<in> set permission_list"
  by (induction m) (auto simp: valid_scopes_def list_all_iff)

lemma user_granted_valid:
  assumes "svc_wf s" and "user_granted s username sc p"
  shows "sc \<in> set scope_set \<and> p \<in> set permission_list"
proof -
  obtain r where "role_grants (svc_roles s) r sc p \<or> role_grants system_role_map r sc p"
    using assms(2) by (auto simp: user_granted_def list_ex_iff split: option.splits)
  then show ?thesis
  proof
    assume "role_grants (svc_roles s) r sc p"
    then obtain role where "gget (svc_roles s) r = Some role"
      and g: "scopes_grant (elems (role_permissions role)) sc p"
      by (auto simp: role_grants_def split: option.splits)
    then have "role_wf (r, role)" using assms(1) svc_wf_role by blast
    then show ?thesis using valid_scopes_grant [OF _ g] by (simp add: role_wf_def)
  next
    assume "role_grants system_role_map r sc p"
    then obtain role where "gget system_role_map r = Some role"
      and g: "scopes_grant (elems (role_permissions role)) sc p"
      by (auto simp: role_grants_def split: option.splits)
    then show ?thesis using valid_scopes_grant system_role_gget(4) by blast
  qed
qed

lemma role_grants_canon:
  assumes "wf_map (svc_users s)" and "wf_map (svc_roles s)"
  shows "role_grants (svc_roles (canon s)) r sc p = role_grants (svc_roles s) r sc p"
proof (cases "gget (svc_roles s) r")
  case None
  then show ?thesis by (simp add: role_grants_def gget_canon [OF assms])
next
  case (Some role)
  then show ?thesis
    by (cases "role_permissions role")
      (simp_all add: role_grants_def gget_canon [OF assms] canon_role_def scopes_grant_def list_ex_iff)
qed

lemma user_granted_canon:
  "wf_map (svc_users s) \<Longrightarrow> wf_map (svc_roles s) \<Longrightarrow>
    user_granted (canon s) username sc p = user_granted s username sc p"
  by (simp add: user_granted_def gget_canon role_grants_canon split: option.split)

lemma user_granted_role:
  assumes "gget (svc_users s) username = Some usr" and "r \<in> set (elems (u_roles usr))"
    and "role_grants (svc_roles s) r sc p"
  shows "user_granted s username sc p"
  using assms by (auto simp: user_granted_def list_ex_iff)

end
