(* ===== verification/User_Spec.thy ===== *)
theory User_Spec
  imports User_Permissions
begin

text \<open>
  The contract of the access database: two partial functions, from names to users and to custom
  roles, and what each request does to them. The concrete edits refine it, whatever the order of
  their maps.
\<close>

type_synonym spec_db = "(string \<Rightarrow> user option) \<times> (string \<Rightarrow> role option)"

definition abs_db :: "service \<Rightarrow> spec_db" where
  "abs_db s = (map_of (svc_users s), map_of (svc_roles s))"

text \<open>The sentinel under the text an error was wrapped in.\<close>

fun root_cause :: "go_error \<Rightarrow> go_error" where
  "root_cause (Wrapped p e t) = root_cause e"
| "root_cause e = e"

definition abs_res :: "service res \<Rightarrow> spec_db res" where
  "abs_res r = (case r of Inl e \<Rightarrow> Inl (root_cause e) | Inr s \<Rightarrow> Inr (abs_db s))"

definition is_system_role :: "string \<Rightarrow> bool" where
  "is_system_role n \<longleftrightarrow> n \<in> set (map role_name system_roles)"

definition roles_exist :: "(string \<Rightarrow> role option) \<Rightarrow> user \<Rightarrow> bool" where
  "roles_exist R u \<longleftrightarrow> (\<forall>r \<in> set (elems (u_roles u)). is_system_role r \<or> R r \<noteq> None)"

definition valid_role :: "role \<Rightarrow> bool" where
  "valid_role r \<longleftrightarrow> role_name r \<noteq> [] \<and> valid_scopes (elems (role_permissions r))"

definition hashed :: "go_env \<Rightarrow> string \<Rightarrow> string res" where
  "hashed env pw = (case bcrypt_generate env pwd_bcrypt_cost pw of
     Inl e \<Rightarrow> Inl (root_cause e) | Inr h \<Rightarrow> Inr h)"

fun spec_request :: "go_env \<Rightarrow> request \<Rightarrow> spec_db \<Rightarrow> spec_db res" where
  "spec_request env (CreateUser u) (U, R) =
    (if u_username u = [] \<or> u_password u = [] then Inl ErrInvalidArg
     else if U (u_username u) \<noteq> None then Inl ErrAlreadyExists
     else if \<not> roles_exist R u then Inl ErrInvalidArg
     else and_then (hashed env (u_password u)) (\<lambda>h.
       Inr (U(u_username u \<mapsto> u\<lparr>u_last_update := now_unix env, u_password := h\<rparr>), R)))"
| "spec_request env (UpdateUser u) (U, R) =
    (case U (u_username u) of None \<Rightarrow> Inl ErrNotFound | Some prev \<Rightarrow>
      if \<not> roles_exist R u then Inl ErrInvalidArg
      else if u_password u = [] then
        Inr (U(u_username u \<mapsto> u\<lparr>u_password := u_password prev,
          u_pwd_expiration := u_pwd_expiration prev, u_last_update := now_unix env\<rparr>), R)
      else and_then (hashed env (u_password u)) (\<lambda>h.
        Inr (U(u_username u \<mapsto> u\<lparr>u_password := h, u_last_update := now_unix env\<rparr>), R)))"
| "spec_request env (DeleteUser n) (U, R) = Inr (U(n := None), R)"
| "spec_request env (ChangePassword n old new) (U, R) =
    (case U n of None \<Rightarrow> Inl ErrNotFound | Some u \<Rightarrow>
      (case bcrypt_compare env (u_password u) old of Some e \<Rightarrow> Inl (root_cause e) | None \<Rightarrow>
        and_then (hashed env new) (\<lambda>h. Inr (U(n \<mapsto> u\<lparr>u_password := h\<rparr>), R))))"
| "spec_request env (CreateRole r) (U, R) =
    (if is_system_role (role_name r) \<or> R (role_name r) \<noteq> None then Inl ErrAlreadyExists
     else if \<not> valid_role r \<or> role_is_system r then Inl ErrInvalidArg
     else Inr (U, R(role_name r \<mapsto> r)))"
| "spec_request env (UpdateRole r) (U, R) =
    (if is_system_role (role_name r) \<or> role_is_system r then Inl ErrInvalidArg
     else if R (role_name r) = None then Inl ErrNotFound
     else if \<not> valid_role r then Inl ErrInvalidArg
     else Inr (U, R(role_name r \<mapsto> r)))"
| "spec_request env (DeleteRole n) (U, R) =
    (if is_system_role n then Inl ErrInvalidArg
     else if R n = None then Inl ErrNotFound
     else if \<exists>k u. U k = Some u \<and> n \<in> set (elems (u_roles u)) then Inl ErrInvalidArg
     else Inr (U, R(n := None)))"
| "spec_request env (CloneRole src dst) (U, R) =
    (case (case R src of Some r \<Rightarrow> Some r | None \<Rightarrow> gget system_role_map src) of
       None \<Rightarrow> Inl ErrNotFound
     | Some r \<Rightarrow> Inr (U, R(dst \<mapsto> r\<lparr>role_is_system := R src \<noteq> None \<and> role_is_system r, role_name := dst\<rparr>)))"

subsection \<open>Refinement\<close>

lemma has_key_system: "has_key system_role_map n \<longleftrightarrow> is_system_role n"
  unfolding is_system_role_def has_key_iff
  by (simp add: system_role_map_eq system_roles_def system_role_defs)

lemma abs_res_simps [simp]:
  "abs_res (Inl e) = Inl (root_cause e)" "abs_res (Inr s) = Inr (abs_db s)"
  by (simp_all add: abs_res_def)

lemma abs_db_set [simp]:
  "abs_db (s\<lparr>svc_users := gset k u (svc_users s)\<rparr>) = ((map_of (svc_users s))(k \<mapsto> u), map_of (svc_roles s))"
  "abs_db (s\<lparr>svc_roles := gset k r (svc_roles s)\<rparr>) = (map_of (svc_users s), (map_of (svc_roles s))(k \<mapsto> r))"
  "abs_db (s\<lparr>svc_users := gdel k (svc_users s)\<rparr>) = ((map_of (svc_users s))(k := None), map_of (svc_roles s))"
  "abs_db (s\<lparr>svc_roles := gdel k (svc_roles s)\<rparr>) = (map_of (svc_users s), (map_of (svc_roles s))(k := None))"
  by (simp_all add: abs_db_def map_of_gset map_of_gdel)

lemma roles_exist_iff:
  "validate_use_roles (svc_roles s) (elems (u_roles u)) = None \<longleftrightarrow> roles_exist (map_of (svc_roles s)) u"
  by (simp add: validate_use_roles_None roles_exist_def known_role_def has_key_system list_all_iff
      has_key_def [of "svc_roles s"])

lemma validate_use_roles_error:
  "validate_use_roles roles rs = Some e \<Longrightarrow> root_cause e = ErrInvalidArg"
  by (induction rs) (auto split: if_splits)

lemma validate_perms_root: "validate_perms isp ps = Some e \<Longrightarrow> root_cause e = ErrInvalidArg"
  by (induction ps) (auto split: if_splits)

lemma validate_scopes_root: "validate_scopes isp m = Some e \<Longrightarrow> root_cause e = ErrInvalidArg"
  by (induction m) (auto dest: validate_perms_root split: if_splits option.splits)

lemma role_validate_root: "role_validate isp r = Some e \<Longrightarrow> root_cause e = ErrInvalidArg"
  by (auto simp: role_validate_def dest: validate_scopes_root split: if_splits)

lemma validate_use_roles_split:
  "(case validate_use_roles (svc_roles s) (elems (u_roles u)) of Some e \<Rightarrow> Inl e | None \<Rightarrow> y) = r \<Longrightarrow>
    abs_res r = (if roles_exist (map_of (svc_roles s)) u then abs_res y else Inl ErrInvalidArg)"
  using roles_exist_iff [of s u] validate_use_roles_error [of "svc_roles s" "elems (u_roles u)"]
  by (cases "validate_use_roles (svc_roles s) (elems (u_roles u))") auto

lemma role_validate_split:
  "(case role_validate isp r of Some e \<Rightarrow> Inl e | None \<Rightarrow> y) = x \<Longrightarrow>
    abs_res x = (if valid_role r then abs_res y else Inl ErrInvalidArg)"
  using role_validate_None [of isp r] role_validate_root [of isp r]
  by (cases "role_validate isp r") (auto simp: valid_role_def)

lemma user_validate_root:
  "user_validate u = None \<longleftrightarrow> u_username u \<noteq> [] \<and> u_password u \<noteq> []"
  "user_validate u = Some e \<Longrightarrow> root_cause e = ErrInvalidArg"
  by (auto simp: user_validate_def split: if_splits)

lemma abs_res_and_then:
  "abs_res (and_then r f) = (case r of Inl e \<Rightarrow> Inl (root_cause e) | Inr a \<Rightarrow> abs_res (f a))"
  by (cases r) simp_all

lemma hashed_and_then:
  "and_then (hashed env pw) f =
    (case bcrypt_generate env pwd_bcrypt_cost pw of Inl e \<Rightarrow> Inl (root_cause e) | Inr h \<Rightarrow> f h)"
  by (simp add: hashed_def split: sum.split)

lemma refine_create_user:
  "abs_res (create_user_edit env u s) = spec_request env (CreateUser u) (abs_db s)"
proof (cases "user_validate u")
  case (Some e)
  then show ?thesis
    using user_validate_root [of u] by (auto simp: create_user_edit_def abs_db_def)
next
  case None
  then have n: "u_username u \<noteq> []" "u_password u \<noteq> []" using user_validate_root(1) [of u] by simp_all
  show ?thesis
    using None n by (simp add: create_user_edit_def abs_db_def [of s] has_key_def Let_def
        validate_use_roles_split [OF refl] abs_res_and_then hashed_and_then split: sum.split)
qed

lemma refine_update_user:
  "abs_res (update_user_edit env u s) = spec_request env (UpdateUser u) (abs_db s)"
  by (simp add: update_user_edit_def abs_db_def [of s] Let_def
      validate_use_roles_split [OF refl] abs_res_and_then hashed_and_then split: sum.split option.split)

lemma refine_change_password:
  "abs_res (change_password_edit env n old new s) = spec_request env (ChangePassword n old new) (abs_db s)"
  by (simp add: change_password_edit_def abs_db_def [of s] Let_def
      abs_res_and_then hashed_and_then split: sum.split option.split)

lemma refine_create_role:
  "abs_res (create_role_edit env r s) = spec_request env (CreateRole r) (abs_db s)"
  by (simp add: create_role_edit_def abs_db_def [of s] has_key_system has_key_def [of "svc_roles s"]
      role_validate_split [OF refl])

lemma refine_update_role:
  "abs_res (update_role_edit env r s) = spec_request env (UpdateRole r) (abs_db s)"
  by (simp add: update_role_edit_def abs_db_def [of s] has_key_system has_key_def [of "svc_roles s"]
      role_validate_split [OF refl])

lemma refine_delete_role:
  assumes "wf_map (svc_users s)"
  shows "abs_res (delete_role_edit n s) = spec_request env (DeleteRole n) (abs_db s)"
proof -
  have "list_ex (\<lambda>(k, usr). n \<in> set (elems (u_roles usr))) (svc_users s)
      \<longleftrightarrow> (\<exists>k u. map_of (svc_users s) k = Some u \<and> n \<in> set (elems (u_roles u)))"
    using wf_map_get_iff [OF assms] by (auto simp: list_ex_iff)
  then show ?thesis
    by (auto simp: delete_role_edit_def abs_db_def [of s] has_key_system has_key_def [of "svc_roles s"])
qed

lemma refine_clone_role:
  "abs_res (clone_role_edit src dst s) = spec_request env (CloneRole src dst) (abs_db s)"
  by (simp add: clone_role_edit_def abs_db_def [of s] Let_def split: option.split)

lemma refine_request:
  assumes "wf_map (svc_users s)"
  shows "abs_res (request_edit env req s) = spec_request env req (abs_db s)"
  using assms
  by (cases req) (simp_all add: refine_create_user refine_update_user refine_change_password
      refine_create_role refine_update_role refine_delete_role refine_clone_role
      delete_user_edit_def del: spec_request.simps, simp add: abs_db_def)

end
