(* ===== verification/Proto.thy ===== *)
theory Proto
  imports Go_Errors
begin

text \<open>
  Protocol buffer values shared by the services: well-known types of the protobuf library as they
  are used here (\<open>timestamppb.Timestamp\<close>, \<open>structpb.Value\<close>, \<open>structpb.ListValue\<close>, \<open>emptypb.Empty\<close>).
  A message field that is a pointer to a message is an \<open>option\<close>; repeated fields are lists.
\<close>

record timestamp =
  ts_seconds :: int
  ts_nanos :: int

definition ts_of_seconds :: "int \<Rightarrow> timestamp" where
  "ts_of_seconds s = \<lparr>ts_seconds = s, ts_nanos = 0\<rparr>"

text \<open>A value is a string or one of the other kinds, which no handler looks into.\<close>

datatype pb_value = StringValue string | NonStringValue

fun get_string_value :: "pb_value \<Rightarrow> string" where
  "get_string_value (StringValue s) = s"
| "get_string_value NonStringValue = []"

type_synonym list_value = "pb_value list"

definition ts_to_pb :: "int option \<Rightarrow> timestamp option" where
  "ts_to_pb v = (case v of None \<Rightarrow> None | Some i \<Rightarrow> Some (ts_of_seconds i))"

end
