(* ===== verification/Auth_Server.thy ===== *)
theory Auth_Server
  imports User_Spec Proto
begin

text \<open>
  The OAuth server (\<open>pkg/auth\<close>): token, authorize, revoke and introspection endpoints, the password
  check fosite calls back, log-in and log-out, and the function that authenticates every gRPC call.
  fosite, the JWT parser and the reader of the bearer header are libraries: their operations are the
  record \<open>oauth_lib\<close>, on a token store of type \<open>'f\<close>. Times are in nanoseconds.
\<close>

subsection \<open>Requests, sessions, responses\<close>

type_synonym form = "string list gomap"

text \<open>\<open>url.Values.Get\<close>: the first value of a key, or the empty string.\<close>

definition form_get :: "form \<Rightarrow> string \<Rightarrow> string" where
  "form_get f k = (case gslice f k of [] \<Rightarrow> [] | v # _ \<Rightarrow> v)"

record http_req =
  hr_form :: form
  hr_basic_auth :: "(string \<times> string) option"

record http_resp =
  resp_code :: int
  resp_body :: string

record jwt_session =
  claims_issuer :: string
  claims_subject :: string
  claims_expires_at :: int
  claims_issued_at :: int
  sess_kid :: string
  sess_subject :: string
  sess_username :: string

record access_request =
  ar_form :: form
  ar_session :: jwt_session
  ar_requested_scopes :: "string list"
  ar_granted_scopes :: "string list"

record access_response =
  acc_token :: string
  acc_extra :: "(string \<times> string) list"

text \<open>
  What fosite and the helper libraries do. \<open>new_access_request\<close> is given the store's \<open>Authenticate\<close>
  method, the request and the session prototype, and answers with the access request (whose session
  is the prototype, or a stored one when a refresh token is redeemed) and what it made of the
  prototype itself.
\<close>

record 'f oauth_lib =
  new_access_request ::
    "(string \<Rightarrow> string \<Rightarrow> go_error option) \<Rightarrow> http_req \<Rightarrow> jwt_session \<Rightarrow> 'f
      \<Rightarrow> (access_request \<times> jwt_session) res \<times> 'f"
  new_access_response :: "access_request \<Rightarrow> 'f \<Rightarrow> access_response res \<times> 'f"
  write_access_error :: "go_error \<Rightarrow> http_resp"
  write_access_response :: "access_response \<Rightarrow> http_resp"
  new_authorize_request :: "http_req \<Rightarrow> 'f \<Rightarrow> access_request res \<times> 'f"
  new_authorize_response :: "access_request \<Rightarrow> jwt_session \<Rightarrow> 'f \<Rightarrow> access_response res \<times> 'f"
  write_authorize_error :: "go_error \<Rightarrow> http_resp"
  write_authorize_response :: "access_response \<Rightarrow> http_resp"
  new_revocation_request :: "http_req \<Rightarrow> 'f \<Rightarrow> go_error option \<times> 'f"
  write_revocation_response :: "go_error option \<Rightarrow> http_resp"
  new_introspection_request :: "http_req \<Rightarrow> jwt_session \<Rightarrow> 'f \<Rightarrow> string res \<times> 'f"
  write_introspection_error :: "go_error \<Rightarrow> http_resp"
  write_introspection_response :: "string \<Rightarrow> http_resp"
  introspect_token :: "string \<Rightarrow> 'f \<Rightarrow> string res \<times> 'f"
  jwt_parse :: "string \<Rightarrow> (bool \<times> go_error option) res"
  format_float :: "int \<Rightarrow> string"

subsection \<open>The server (oauth\_server.go)\<close>

record auth_config =
  ac_access_token_lifespan :: int
  ac_refresh_token_lifespan :: int
  ac_client_id :: string
  ac_issuer :: string

record oauth_client =
  oc_id :: string
  oc_public :: bool
  oc_response_types :: "string list"
  oc_grant_types :: "string list"
  oc_scopes :: "string list"

record server =
  srv_key_id :: string
  srv_issuer :: string
  srv_client_id :: string
  srv_refresh_token_lifespan :: int
  srv_access_token_lifespan :: int
  srv_clients :: "oauth_client gomap"

text \<open>The random secret and the RSA key are drawn first; either can fail.\<close>

definition new_server :: "go_error option \<Rightarrow> go_error option \<Rightarrow> auth_config \<Rightarrow> server res" where
  "new_server rand_err rsa_err config =
    (case rand_err of Some err \<Rightarrow> Inl err | None \<Rightarrow>
     case rsa_err of Some err \<Rightarrow> Inl err | None \<Rightarrow>
       Inr \<lparr>srv_key_id = ''0'', srv_issuer = ac_issuer config, srv_client_id = ac_client_id config,
            srv_refresh_token_lifespan = ac_refresh_token_lifespan config,
            srv_access_token_lifespan = ac_access_token_lifespan config,
            srv_clients =
              [(ac_client_id config,
                \<lparr>oc_id = ac_client_id config, oc_public = True,
                 oc_response_types = [''id_token'', ''code'', ''token'', ''id_token token'',
                   ''code id_token'', ''code token'', ''code id_token token''],
                 oc_grant_types = [''refresh_token'', ''password''],
                 oc_scopes = [''openid'', ''offline'']\<rparr>)]\<rparr>)"

definition new_session :: "server \<Rightarrow> int \<Rightarrow> string \<Rightarrow> jwt_session" where
  "new_session S now subject =
    \<lparr>claims_issuer = srv_issuer S, claims_subject = subject,
     claims_expires_at = now + 6 * 3600 * 1000000000, claims_issued_at = now,
     sess_kid = srv_key_id S, sess_subject = [], sess_username = []\<rparr>"

definition fosite_not_found :: go_error where
  "fosite_not_found = Foreign ''not_found''"

definition authenticate :: "go_env \<Rightarrow> service \<Rightarrow> string \<Rightarrow> string \<Rightarrow> go_error option" where
  "authenticate env s name secret =
    (case get_user s name of
       Inl err \<Rightarrow> Some fosite_not_found
     | Inr usr \<Rightarrow>
         if \<not> u_enabled usr then Some (Wrapped [] fosite_not_found '': User disabled'')
         else (case bcrypt_compare env (u_password usr) secret of
                 Some err \<Rightarrow> Some (Wrapped [] fosite_not_found '': Invalid Credentials'')
               | None \<Rightarrow> None))"

subsection \<open>The endpoints\<close>

text \<open>The token endpoint also tells whose token it issued, for the theorems; the code does not.\<close>

definition token_endpoint_full ::
  "'f oauth_lib \<Rightarrow> server \<Rightarrow> go_env \<Rightarrow> int \<Rightarrow> service \<Rightarrow> http_req \<Rightarrow> 'f
    \<Rightarrow> http_resp \<times> access_request option \<times> 'f" where
  "token_endpoint_full L S env now s req f =
    (let session_data = new_session S now [] in
     case new_access_request L (authenticate env s) req session_data f of
       (Inl err, f) \<Rightarrow> (write_access_error L err, None, f)
     | (Inr (access_req, session_data), f) \<Rightarrow>
         let username = (if sess_username session_data = [] then form_get (ar_form access_req) ''username''
                         else sess_username session_data) in
         (case get_user s username of
            Inl err \<Rightarrow> (write_access_error L err, None, f)
          | Inr usr \<Rightarrow>
              if \<not> u_enabled usr then (write_access_error L (Foreign ''inactive account''), None, f)
              else
                let session = (ar_session access_req)
                      \<lparr>claims_subject := u_username usr, sess_subject := u_username usr\<rparr>;
                    access_req = access_req\<lparr>ar_session := session\<rparr>
                in (case new_access_response L access_req f of
                      (Inl err, f) \<Rightarrow> (write_access_error L err, None, f)
                    | (Inr response, f) \<Rightarrow>
                        let response = response\<lparr>acc_extra := acc_extra response @
                              [(''refresh_expires_in'', format_float L (srv_refresh_token_lifespan S))]\<rparr>
                        in (write_access_response L response, Some access_req, f))))"

definition token_endpoint ::
  "'f oauth_lib \<Rightarrow> server \<Rightarrow> go_env \<Rightarrow> int \<Rightarrow> service \<Rightarrow> http_req \<Rightarrow> 'f \<Rightarrow> http_resp \<times> 'f" where
  "token_endpoint L S env now s req f =
    (case token_endpoint_full L S env now s req f of (resp, issued, f) \<Rightarrow> (resp, f))"

definition http_error :: "string \<Rightarrow> int \<Rightarrow> http_resp" where
  "http_error msg code = \<lparr>resp_code = code, resp_body = msg @ [CHR 0x0A]\<rparr>"

definition authorize ::
  "'f oauth_lib \<Rightarrow> server \<Rightarrow> go_env \<Rightarrow> int \<Rightarrow> service \<Rightarrow> access_request \<Rightarrow> string \<Rightarrow> string \<Rightarrow> 'f
    \<Rightarrow> http_resp \<times> 'f" where
  "authorize L S env now s ar username password f =
    (let session = new_session S now username in
     case get_user s username of
       Inl err \<Rightarrow> (http_error ''can't find account'' 403, f)
     | Inr usr \<Rightarrow>
         if \<not> u_enabled usr then (http_error ''access denied'' 403, f)
         else (case bcrypt_compare env (u_password usr) password of
                 Some err \<Rightarrow> (http_error ''can't find account'' 403, f)
               | None \<Rightarrow>
                   let ar = ar\<lparr>ar_granted_scopes := ar_granted_scopes ar @ ar_requested_scopes ar\<rparr>;
                       session = session\<lparr>sess_subject := u_username usr\<rparr>
                   in (case new_authorize_response L ar session f of
                         (Inl err, f) \<Rightarrow> (write_authorize_error L err, f)
                       | (Inr response, f) \<Rightarrow> (write_authorize_response L response, f))))"

definition login_required :: go_error where
  "login_required = Foreign ''login_required''"

definition auth_endpoint ::
  "'f oauth_lib \<Rightarrow> server \<Rightarrow> go_env \<Rightarrow> int \<Rightarrow> service \<Rightarrow> http_req \<Rightarrow> 'f \<Rightarrow> http_resp \<times> 'f" where
  "auth_endpoint L S env now s req f =
    (case new_authorize_request L req f of
       (Inl err, f) \<Rightarrow> (write_authorize_error L err, f)
     | (Inr ar, f) \<Rightarrow>
         if form_get (ar_form ar) ''prompt'' = ''none'' then (write_authorize_error L login_required, f)
         else authorize L S env now s ar
                (form_get (ar_form ar) ''username'') (form_get (ar_form ar) ''password'') f)"

definition revoke_endpoint :: "'f oauth_lib \<Rightarrow> http_req \<Rightarrow> 'f \<Rightarrow> http_resp \<times> 'f" where
  "revoke_endpoint L req f =
    (case new_revocation_request L req f of (err, f) \<Rightarrow> (write_revocation_response L err, f))"

definition introspection_endpoint ::
  "'f oauth_lib \<Rightarrow> server \<Rightarrow> int \<Rightarrow> http_req \<Rightarrow> 'f \<Rightarrow> http_resp \<times> 'f" where
  "introspection_endpoint L S now req f =
    (case new_introspection_request L req (new_session S now []) f of
       (Inl err, f) \<Rightarrow> (write_introspection_error L err, f)
     | (Inr r, f) \<Rightarrow> (write_introspection_response L r, f))"

subsection \<open>Log-in and log-out (oauth\_adapter.go)\<close>

record login_resp =
  lr_token :: string
  lr_user :: user
  lr_permissions :: "string list gomap"

definition token_fields :: "string field list" where
  "token_fields = [field ''access_token'' dec_string (\<lambda>t. t) (\<lambda>v t. v)]"

text \<open>
  The error of \<open>json.Unmarshal\<close> is ignored: a member of another type is skipped, and a body it
  cannot read leaves the token empty.
\<close>

definition token_of_body :: "string \<Rightarrow> string" where
  "token_of_body body =
    (case json_parse body of
       Some (JObj ms) \<Rightarrow>
         foldl (\<lambda>t (k, j).
           case find_field token_fields k of None \<Rightarrow> t
           | Some f \<Rightarrow> (case f j t of Inl e \<Rightarrow> t | Inr v \<Rightarrow> v)) [] ms
     | _ \<Rightarrow> [])"

definition login ::
  "'f oauth_lib \<Rightarrow> server \<Rightarrow> go_env \<Rightarrow> int \<Rightarrow> service \<Rightarrow> string \<Rightarrow> string \<Rightarrow> 'f \<Rightarrow> login_resp res \<times> 'f" where
  "login L S env now s username password f =
    (let req = \<lparr>hr_form = [(''grant_type'', [''password'']), (''username'', [username]),
                  (''password'', [password]), (''client_id'', [srv_client_id S])],
                hr_basic_auth = Some (srv_client_id S, [])\<rparr> in
     case token_endpoint L S env now s req f of (resp, f) \<Rightarrow>
       if resp_code resp < 200 \<or> resp_code resp > 299 then (Inl ErrUnauthenticated, f)
       else if token_of_body (resp_body resp) = [] then
         (Inl (Wrapped [] ErrInternal '': unable to get token from auth resp boyd''), f)
       else (case get_user s username of
               Inl err \<Rightarrow> (Inl err, f)
             | Inr usr \<Rightarrow>
                 (Inr \<lparr>lr_token = token_of_body (resp_body resp), lr_user = usr,
                       lr_permissions = get_permissions s username\<rparr>, f)))"

definition logout :: "'f oauth_lib \<Rightarrow> server \<Rightarrow> string res \<Rightarrow> 'f \<Rightarrow> go_error option \<times> 'f" where
  "logout L S bearer f =
    (case bearer of
       Inl err \<Rightarrow> (Some err, f)
     | Inr token \<Rightarrow>
         (let req = \<lparr>hr_form = [(''client_id'', [srv_client_id S]), (''token'', [token]),
                       (''token_type_hint'', [''access_token''])], hr_basic_auth = None\<rparr> in
          case revoke_endpoint L req f of (resp, f) \<Rightarrow>
            if resp_code resp < 200 \<or> resp_code resp > 299 then (Some ErrUnauthenticated, f)
            else (None, f)))"

subsection \<open>Authenticating a gRPC call (grpc\_interceptor.go)\<close>

text \<open>
  What the function reads of the call: the method, when the context has one, and what
  \<open>grpc_auth.AuthFromMD\<close> finds in the authorization header.
\<close>

record rpc_info =
  rpc_method :: "string option"
  rpc_bearer :: "string res"

definition unauthenticated :: "go_error \<Rightarrow> go_error" where
  "unauthenticated err = StatusError Unauthenticated (error_text [] err) [ErrorInfo ''ErrUnauthenticated'']"

definition log_with_username :: "string \<Rightarrow> req_ctx \<Rightarrow> req_ctx" where
  "log_with_username t ctx = (if t = [] then ctx else set_username t ctx)"

definition log_with_trace_id :: "string \<Rightarrow> req_ctx \<Rightarrow> req_ctx" where
  "log_with_trace_id t ctx = (if t = [] then ctx else set_trace_id t ctx)"

definition auth_func :: "'f oauth_lib \<Rightarrow> service \<Rightarrow> rpc_info \<Rightarrow> req_ctx \<Rightarrow> 'f \<Rightarrow> req_ctx res \<times> 'f" where
  "auth_func L s info ctx f =
    (case rpc_method info of
       None \<Rightarrow> (Inl (Wrapped [] ErrInternal '': unable to extract grpc method from context''), f)
     | Some mth \<Rightarrow>
         if mth = ''/ceph.Auth/Login'' \<or> mth = ''/ceph.Auth/Check'' then (Inr ctx, f)
         else (case rpc_bearer info of
           Inl err \<Rightarrow> (Inl (unauthenticated (Wrapped ''no token present: '' ErrUnauthenticated [])), f)
         | Inr token_str \<Rightarrow>
             (case introspect_token L token_str f of
                (Inl err, f) \<Rightarrow>
                  (Inl (unauthenticated (Wrapped ''unable to introspect token: '' ErrUnauthenticated [])), f)
              | (Inr username, f) \<Rightarrow>
                  (case jwt_parse L token_str of
                     Inl err \<Rightarrow>
                       (Inl (unauthenticated (Wrapped ''unable to parse jwt: '' ErrUnauthenticated [])), f)
                   | Inr (valid, claims_err) \<Rightarrow>
                       if \<not> valid then
                         (Inl (unauthenticated (Wrapped ''unable to validate jwt: '' ErrUnauthenticated [])), f)
                       else if claims_err \<noteq> None then
                         (Inl (unauthenticated (Wrapped ''unable to validate jwt claims: '' ErrUnauthenticated [])), f)
                       else (case get_user s username of
                               Inl err \<Rightarrow> (Inl (unauthenticated ErrUnauthenticated), f)
                             | Inr usr \<Rightarrow>
                                 (Inr (set_permissions (Some (get_permissions s username))
                                        (log_with_username (u_username usr) ctx)), f))))))"

end
