(* ===== verification/Users_Api.thy ===== *)
theory Users_Api
  imports User_Spec Proto
begin

text \<open>
  The gRPC handlers of the \<open>Users\<close> service (\<open>pkg/api/users_api_handlers.go\<close>) on its messages
  (\<open>users.pb.go\<close>): each checks the permissions in the request context, converts the message, calls
  the access database service and converts the answer. The state of a handler is the pair of the
  service and the cluster.
\<close>

subsection \<open>Messages\<close>

record pb_role =
  pb_role_name :: string
  pb_role_description :: "string option"
  pb_role_scopes :: "list_value option gomap"

record pb_user =
  pb_user_email :: "string option"
  pb_user_enabled :: bool
  pb_user_name :: "string option"
  pb_user_last_update :: "timestamp option"
  pb_user_pwd_expiration :: "timestamp option"
  pb_user_pwd_update_required :: bool
  pb_user_roles :: "string slice"
  pb_user_username :: string

record create_user_req =
  cu_email :: "string option"
  cu_enabled :: bool
  cu_name :: "string option"
  cu_password :: string
  cu_pwd_expiration :: "timestamp option"
  cu_pwd_update_required :: bool
  cu_roles :: "string slice"
  cu_username :: string

record clone_role_req =
  cr_name :: string
  cr_new_name :: string

record get_role_req =
  gr_name :: string

record get_user_req =
  gu_username :: string

record change_password_req =
  cp_username :: string
  cp_old_password :: string
  cp_new_password :: string

subsection \<open>Conversions\<close>

text \<open>
  The values of one scope appended one by one to the entry of the result, which a scope without
  values therefore never gets. A missing \<open>ListValue\<close> is dereferenced: that is a panic (\<open>None\<close>).
\<close>

fun scopes_from_pb :: "list_value option gomap \<Rightarrow> string slice gomap \<Rightarrow> string slice gomap option" where
  "scopes_from_pb [] acc = Some acc"
| "scopes_from_pb ((k, None) # rest) acc = None"
| "scopes_from_pb ((k, Some vs) # rest) acc =
    scopes_from_pb rest
      (foldl (\<lambda>m p. gset k (Some ((case gget m k of None \<Rightarrow> [] | Some ps \<Rightarrow> elems ps) @ [get_string_value p])) m)
        acc vs)"

definition role_from_pb :: "pb_role \<Rightarrow> role option" where
  "role_from_pb r =
    map_option (\<lambda>perms.
      \<lparr>role_name = pb_role_name r, role_description = pb_role_description r, role_is_system = False,
       role_permissions = Some perms\<rparr>)
    (scopes_from_pb (pb_role_scopes r) [])"

definition permissions_to_pb :: "string slice gomap \<Rightarrow> list_value option gomap" where
  "permissions_to_pb m = map (\<lambda>(p, vals). (p, Some (map StringValue (elems vals)))) m"

definition role_to_pb :: "role \<Rightarrow> pb_role" where
  "role_to_pb r =
    \<lparr>pb_role_name = role_name r, pb_role_description = role_description r,
     pb_role_scopes = permissions_to_pb (elems (role_permissions r))\<rparr>"

definition user_to_pb :: "user \<Rightarrow> pb_user" where
  "user_to_pb u =
    \<lparr>pb_user_email = u_email u, pb_user_enabled = u_enabled u, pb_user_name = u_name u,
     pb_user_last_update = Some (ts_of_seconds (u_last_update u)),
     pb_user_pwd_expiration = map_option ts_of_seconds (u_pwd_expiration u),
     pb_user_pwd_update_required = u_pwd_update_required u, pb_user_roles = u_roles u,
     pb_user_username = u_username u\<rparr>"

definition user_from_req :: "create_user_req \<Rightarrow> bool \<Rightarrow> user" where
  "user_from_req req pwd_update_required =
    \<lparr>u_username = cu_username req, u_roles = cu_roles req, u_password = cu_password req,
     u_name = cu_name req, u_email = cu_email req, u_last_update = 0, u_enabled = cu_enabled req,
     u_pwd_expiration = map_option ts_seconds (cu_pwd_expiration req),
     u_pwd_update_required = pwd_update_required\<rparr>"

subsection \<open>Handlers\<close>

type_synonym 'w api_state = "service \<times> 'w"

text \<open>The common shape: \<open>if err := user.HasPermissions(...); err != nil { return nil, err }\<close>.\<close>

definition with_permissions ::
  "req_ctx \<Rightarrow> scope \<Rightarrow> permission list \<Rightarrow> ('s \<Rightarrow> 'a reply \<times> 's) \<Rightarrow> 's \<Rightarrow> 'a reply \<times> 's" where
  "with_permissions ctx sc perms body st =
    (case has_permissions ctx sc perms of Some err \<Rightarrow> (Failed err, st) | None \<Rightarrow> body st)"

text \<open>The contract of a handler that starts with such a check: without the permissions it changes nothing.\<close>

locale guarded_handler =
  fixes h :: "req_ctx \<Rightarrow> 's \<Rightarrow> 'a reply \<times> 's" and sc :: scope and perms :: "permission list"
  assumes refuses: "has_permissions ctx sc perms = Some e \<Longrightarrow> h ctx st = (Failed e, st)"
begin

lemma answered_granted: "h ctx st = (Reply r, st') \<Longrightarrow> has_permissions ctx sc perms = None"
  using refuses by (cases "has_permissions ctx sc perms") auto

lemma changed_granted: "h ctx st = (r, st') \<Longrightarrow> st' \<noteq> st \<Longrightarrow> has_permissions ctx sc perms = None"
  using refuses by (cases "has_permissions ctx sc perms") auto

end

lemma with_permissions_refuses:
  "has_permissions ctx sc perms = Some e \<Longrightarrow> with_permissions ctx sc perms body st = (Failed e, st)"
  by (simp add: with_permissions_def)

definition empty_reply :: "go_error option \<times> service \<times> 'w \<Rightarrow> unit reply \<times> 'w api_state" where
  "empty_reply r = (case r of (None, s, w) \<Rightarrow> (Reply (), (s, w)) | (Some err, s, w) \<Rightarrow> (Failed err, (s, w)))"

definition nil_panic :: string where
  "nil_panic = ''runtime error: invalid memory address or nil pointer dereference''"

definition api_clone_role ::
  "'w rados_conn \<Rightarrow> clone_role_req \<Rightarrow> req_ctx \<Rightarrow> 'w api_state \<Rightarrow> unit reply \<times> 'w api_state" where
  "api_clone_role C req ctx = with_permissions ctx ScopeUser [PermRead, PermCreate]
    (\<lambda>(s, w). empty_reply (clone_role C (cr_name req) (cr_new_name req) s w))"

definition api_create_role ::
  "'w rados_conn \<Rightarrow> go_env \<Rightarrow> pb_role \<Rightarrow> req_ctx \<Rightarrow> 'w api_state \<Rightarrow> unit reply \<times> 'w api_state" where
  "api_create_role C env req ctx = with_permissions ctx ScopeUser [PermCreate]
    (\<lambda>(s, w). case role_from_pb req of None \<Rightarrow> (Panicked nil_panic, (s, w))
      | Some r \<Rightarrow> empty_reply (create_role C env r s w))"

definition api_delete_role ::
  "'w rados_conn \<Rightarrow> get_role_req \<Rightarrow> req_ctx \<Rightarrow> 'w api_state \<Rightarrow> unit reply \<times> 'w api_state" where
  "api_delete_role C req ctx = with_permissions ctx ScopeUser [PermDelete]
    (\<lambda>(s, w). empty_reply (delete_role C (gr_name req) s w))"

definition api_get_role :: "get_role_req \<Rightarrow> req_ctx \<Rightarrow> 'w api_state \<Rightarrow> pb_role reply \<times> 'w api_state" where
  "api_get_role req ctx = with_permissions ctx ScopeUser [PermRead]
    (\<lambda>(s, w). (case get_role s (gr_name req) of Inl err \<Rightarrow> Failed err | Inr r \<Rightarrow> Reply (role_to_pb r), (s, w)))"

definition api_list_roles :: "req_ctx \<Rightarrow> 'w api_state \<Rightarrow> pb_role list reply \<times> 'w api_state" where
  "api_list_roles ctx = with_permissions ctx ScopeUser [PermRead]
    (\<lambda>(s, w). (Reply (map role_to_pb (list_roles s)), (s, w)))"

definition api_update_role ::
  "'w rados_conn \<Rightarrow> go_env \<Rightarrow> pb_role \<Rightarrow> req_ctx \<Rightarrow> 'w api_state \<Rightarrow> unit reply \<times> 'w api_state" where
  "api_update_role C env req ctx = with_permissions ctx ScopeUser [PermUpdate]
    (\<lambda>(s, w). case role_from_pb req of None \<Rightarrow> (Panicked nil_panic, (s, w))
      | Some r \<Rightarrow> empty_reply (update_role C env r s w))"

definition api_user_change_password ::
  "'w rados_conn \<Rightarrow> go_env \<Rightarrow> change_password_req \<Rightarrow> req_ctx \<Rightarrow> 'w api_state \<Rightarrow> unit reply \<times> 'w api_state" where
  "api_user_change_password C env req ctx = (\<lambda>(s, w).
    if get_username ctx \<noteq> cp_username req then (Failed ErrAccessDenied, (s, w))
    else empty_reply
      (change_password C env (cp_username req) (cp_old_password req) (cp_new_password req) s w))"

definition api_create_user ::
  "'w rados_conn \<Rightarrow> go_env \<Rightarrow> create_user_req \<Rightarrow> req_ctx \<Rightarrow> 'w api_state \<Rightarrow> unit reply \<times> 'w api_state" where
  "api_create_user C env req ctx = with_permissions ctx ScopeUser [PermCreate]
    (\<lambda>(s, w). empty_reply (create_user C env (user_from_req req False) s w))"

definition api_delete_user ::
  "'w rados_conn \<Rightarrow> get_user_req \<Rightarrow> req_ctx \<Rightarrow> 'w api_state \<Rightarrow> unit reply \<times> 'w api_state" where
  "api_delete_user C req ctx = with_permissions ctx ScopeUser [PermDelete]
    (\<lambda>(s, w). empty_reply (delete_user C (gu_username req) s w))"

definition api_get_user :: "get_user_req \<Rightarrow> req_ctx \<Rightarrow> 'w api_state \<Rightarrow> pb_user reply \<times> 'w api_state" where
  "api_get_user req ctx = with_permissions ctx ScopeUser [PermRead]
    (\<lambda>(s, w). (case get_user s (gu_username req) of Inl err \<Rightarrow> Failed err | Inr u \<Rightarrow> Reply (user_to_pb u), (s, w)))"

definition api_list_users ::
  "((user \<Rightarrow> user \<Rightarrow> bool) \<Rightarrow> user list \<Rightarrow> user list) \<Rightarrow> req_ctx \<Rightarrow> 'w api_state
    \<Rightarrow> pb_user list reply \<times> 'w api_state" where
  "api_list_users srt ctx = with_permissions ctx ScopeUser [PermRead]
    (\<lambda>(s, w). (Reply (map user_to_pb (list_users srt s)), (s, w)))"

definition api_update_user ::
  "'w rados_conn \<Rightarrow> go_env \<Rightarrow> create_user_req \<Rightarrow> req_ctx \<Rightarrow> 'w api_state \<Rightarrow> unit reply \<times> 'w api_state" where
  "api_update_user C env req ctx = with_permissions ctx ScopeUser [PermUpdate]
    (\<lambda>(s, w). empty_reply (update_user C env (user_from_req req (cu_pwd_update_required req)) s w))"

subsection \<open>Every handler is guarded\<close>

interpretation list_users: guarded_handler "api_list_users srt" ScopeUser "[PermRead]" for srt
  by unfold_locales (simp add: api_list_users_def with_permissions_refuses)

interpretation get_user: guarded_handler "api_get_user req" ScopeUser "[PermRead]" for req
  by unfold_locales (simp add: api_get_user_def with_permissions_refuses)

interpretation create_user: guarded_handler "api_create_user C env req" ScopeUser "[PermCreate]" for C env req
  by unfold_locales (simp add: api_create_user_def with_permissions_refuses)

interpretation delete_user: guarded_handler "api_delete_user C req" ScopeUser "[PermDelete]" for C req
  by unfold_locales (simp add: api_delete_user_def with_permissions_refuses)

interpretation update_user: guarded_handler "api_update_user C env req" ScopeUser "[PermUpdate]" for C env req
  by unfold_locales (simp add: api_update_user_def with_permissions_refuses)

interpretation list_roles: guarded_handler api_list_roles ScopeUser "[PermRead]"
  by unfold_locales (simp add: api_list_roles_def with_permissions_refuses)

interpretation get_role: guarded_handler "api_get_role req" ScopeUser "[PermRead]" for req
  by unfold_locales (simp add: api_get_role_def with_permissions_refuses)

interpretation create_role: guarded_handler "api_create_role C env req" ScopeUser "[PermCreate]" for C env req
  by unfold_locales (simp add: api_create_role_def with_permissions_refuses)

interpretation delete_role: guarded_handler "api_delete_role C req" ScopeUser "[PermDelete]" for C req
  by unfold_locales (simp add: api_delete_role_def with_permissions_refuses)

interpretation update_role: guarded_handler "api_update_role C env req" ScopeUser "[PermUpdate]" for C env req
  by unfold_locales (simp add: api_update_role_def with_permissions_refuses)

interpretation clone_role: guarded_handler "api_clone_role C req" ScopeUser "[PermRead, PermCreate]" for C req
  by unfold_locales (simp add: api_clone_role_def with_permissions_refuses)

end
