(* ===== verification/Grpc_Server.thy ===== *)
theory Grpc_Server
  imports Auth_Server Users_Api
begin

text \<open>
  The chain of interceptors every gRPC call runs through (\<open>pkg/api/grpc_server.go\<close>, the interceptors
  of \<open>pkg/log\<close> and \<open>pkg/trace\<close>): authentication, trace identifier, error conversion, access log and
  panic recovery around the handler. \<open>nf\<close> is the text of \<open>types.RadosErrorNotFound\<close>.
\<close>

subsection \<open>State, handlers, log lines\<close>

datatype log_level = LvlDebug | LvlInfo | LvlWarn | LvlError

datatype log_line =
    AccessLine string
  | RpcLine log_level grpc_code string bool string
  | PanicLine string
  | ApiErrorLine string

record ('w, 'f) sys =
  sys_svc :: service
  sys_cluster :: 'w
  sys_tokens :: 'f
  sys_log :: "log_line list"

type_synonym ('w, 'f, 'a) handler = "req_ctx \<Rightarrow> ('w, 'f) sys \<Rightarrow> 'a reply \<times> ('w, 'f) sys"

definition write_log :: "log_line \<Rightarrow> ('w, 'f) sys \<Rightarrow> ('w, 'f) sys" where
  "write_log l \<sigma> = \<sigma>\<lparr>sys_log := sys_log \<sigma> @ [l]\<rparr>"

text \<open>A handler of the access database service and the cluster, on the whole state.\<close>

definition on_api ::
  "(req_ctx \<Rightarrow> 'w api_state \<Rightarrow> 'a reply \<times> 'w api_state) \<Rightarrow> ('w, 'f, 'a) handler" where
  "on_api h ctx \<sigma> =
    (case h ctx (sys_svc \<sigma>, sys_cluster \<sigma>) of (r, s, w) \<Rightarrow> (r, \<sigma>\<lparr>sys_svc := s, sys_cluster := w\<rparr>))"

subsection \<open>Panic recovery\<close>

definition unary_server_recover :: "('w, 'f, 'a) handler \<Rightarrow> ('w, 'f, 'a) handler" where
  "unary_server_recover handler ctx \<sigma> =
    (case handler ctx \<sigma> of
       (Panicked p, \<sigma>) \<Rightarrow> (Failed (StatusError Internal p []), write_log (PanicLine p) \<sigma>)
     | (r, \<sigma>) \<Rightarrow> (r, \<sigma>))"

text \<open>The stream variants return only an error, so their handlers reply with nothing.\<close>

definition stream_server_recover :: "('w, 'f, unit) handler \<Rightarrow> ('w, 'f, unit) handler" where
  "stream_server_recover handler ctx \<sigma> =
    (case handler ctx \<sigma> of
       (Panicked p, \<sigma>) \<Rightarrow> (Failed (StatusError Internal p []), write_log (PanicLine ''panic'') \<sigma>)
     | (r, \<sigma>) \<Rightarrow> (r, \<sigma>))"

subsection \<open>Access log\<close>

text \<open>\<open>status.Convert\<close>: the status an error carries, itself or inside its wrapping, else \<open>Unknown\<close>.\<close>

fun carried_code :: "go_error \<Rightarrow> grpc_code option" where
  "carried_code (StatusError c m ds) = Some c"
| "carried_code (Wrapped p e t) = carried_code e"
| "carried_code e = None"

definition status_convert :: "string \<Rightarrow> go_error option \<Rightarrow> grpc_code \<times> string" where
  "status_convert nf err =
    (case err of None \<Rightarrow> (OK, [])
     | Some e \<Rightarrow> ((case carried_code e of Some c \<Rightarrow> c | None \<Rightarrow> Unknown), error_text nf e))"

definition rpc_log_handler :: "string \<Rightarrow> go_error option \<Rightarrow> string \<Rightarrow> log_line" where
  "rpc_log_handler nf err full_method =
    (case status_convert nf err of (code, msg) \<Rightarrow>
      if code \<in> {OK, Canceled, NotFound} then RpcLine LvlDebug code full_method True msg
      else if code = Unauthenticated then RpcLine LvlDebug code full_method False msg
      else if code \<in> {PermissionDenied, FailedPrecondition, AlreadyExists, InvalidArgument} then
        RpcLine LvlWarn code full_method False msg
      else RpcLine LvlError code full_method False msg)"

text \<open>A panic passes through unlogged.\<close>

definition unary_server_access_log ::
  "string \<Rightarrow> bool \<Rightarrow> string \<Rightarrow> ('w, 'f, 'a) handler \<Rightarrow> ('w, 'f, 'a) handler" where
  "unary_server_access_log nf enable_access_log full_method handler ctx \<sigma> =
    (case handler ctx (if enable_access_log then write_log (AccessLine full_method) \<sigma> else \<sigma>) of
       (Reply a, \<sigma>) \<Rightarrow> (Reply a, write_log (rpc_log_handler nf None full_method) \<sigma>)
     | (Failed e, \<sigma>) \<Rightarrow> (Failed e, write_log (rpc_log_handler nf (Some e) full_method) \<sigma>)
     | (Panicked p, \<sigma>) \<Rightarrow> (Panicked p, \<sigma>))"

definition stream_server_access_log ::
  "string \<Rightarrow> bool \<Rightarrow> string \<Rightarrow> ('w, 'f, unit) handler \<Rightarrow> ('w, 'f, unit) handler" where
  "stream_server_access_log nf enable_access_log full_method handler ctx \<sigma> =
    (case handler ctx (if enable_access_log then write_log (AccessLine full_method) \<sigma> else \<sigma>) of
       (Reply a, \<sigma>) \<Rightarrow> (Reply a, write_log (rpc_log_handler nf None full_method) \<sigma>)
     | (Failed e, \<sigma>) \<Rightarrow> (Failed e, write_log (rpc_log_handler nf (Some e) full_method) \<sigma>)
     | (Panicked p, \<sigma>) \<Rightarrow> (Panicked p, \<sigma>))"

subsection \<open>Error conversion\<close>

definition convert_api_error :: "string \<Rightarrow> req_ctx \<Rightarrow> go_error \<Rightarrow> go_error" where
  "convert_api_error nf ctx err =
    (let details = [RequestInfo (get_trace_id ctx)];
         with_reason = details @ [ErrorInfo (error_text nf err)];
         build = (\<lambda>code mapped_err details. StatusError code (error_text nf mapped_err) details)
     in
     if errors_is err ErrNotImplemented then build Unimplemented ErrNotImplemented details
     else if errors_is err ErrInvalidArg then build InvalidArgument ErrInvalidArg with_reason
     else if errors_is err ErrInvalidConfig then build InvalidArgument ErrInvalidConfig with_reason
     else if errors_is err ErrNotFound then build NotFound ErrNotFound details
     else if errors_is err ErrAlreadyExists then build AlreadyExists ErrAlreadyExists details
     else if errors_is err ErrUnauthenticated then build Unauthenticated ErrUnauthenticated details
     else if errors_is err ErrAccessDenied then build PermissionDenied ErrAccessDenied details
     else build Internal ErrInternal details)"

definition error_interceptor :: "string \<Rightarrow> ('w, 'f, 'a) handler \<Rightarrow> ('w, 'f, 'a) handler" where
  "error_interceptor nf handler ctx \<sigma> =
    (case handler ctx \<sigma> of
       (Failed e, \<sigma>) \<Rightarrow> (Failed (convert_api_error nf ctx e), write_log (ApiErrorLine (error_text nf e)) \<sigma>)
     | (r, \<sigma>) \<Rightarrow> (r, \<sigma>))"

definition error_stream_interceptor :: "string \<Rightarrow> ('w, 'f, unit) handler \<Rightarrow> ('w, 'f, unit) handler" where
  "error_stream_interceptor nf handler ctx \<sigma> =
    (case handler ctx \<sigma> of
       (Failed e, \<sigma>) \<Rightarrow> (Failed (convert_api_error nf ctx e), write_log (ApiErrorLine (error_text nf e)) \<sigma>)
     | (r, \<sigma>) \<Rightarrow> (r, \<sigma>))"

subsection \<open>Trace identifier, authentication, the chain\<close>

text \<open>\<open>trace_id\<close> is the identifier of the span the call's context carries.\<close>

definition trace_unary_interceptor :: "string \<Rightarrow> ('w, 'f, 'a) handler \<Rightarrow> ('w, 'f, 'a) handler" where
  "trace_unary_interceptor trace_id handler ctx = handler (log_with_trace_id trace_id ctx)"

text \<open>The logging interceptor replaces the logger of the context, which no handler reads.\<close>

definition log_unary_interceptor :: "('w, 'f, 'a) handler \<Rightarrow> ('w, 'f, 'a) handler" where
  "log_unary_interceptor handler ctx = handler ctx"

definition auth_unary_interceptor ::
  "'f oauth_lib \<Rightarrow> rpc_info \<Rightarrow> ('w, 'f, 'a) handler \<Rightarrow> ('w, 'f, 'a) handler" where
  "auth_unary_interceptor L info handler ctx \<sigma> =
    (case auth_func L (sys_svc \<sigma>) info ctx (sys_tokens \<sigma>) of
       (Inl err, f) \<Rightarrow> (Failed err, \<sigma>\<lparr>sys_tokens := f\<rparr>)
     | (Inr ctx', f) \<Rightarrow> handler ctx' (\<sigma>\<lparr>sys_tokens := f\<rparr>))"

record rpc_env =
  re_info :: rpc_info
  re_full_method :: string
  re_trace_id :: string
  re_access_log :: bool
  re_not_found_text :: string

definition inner_chain :: "rpc_env \<Rightarrow> ('w, 'f, 'a) handler \<Rightarrow> ('w, 'f, 'a) handler" where
  "inner_chain e handler =
    log_unary_interceptor
      (trace_unary_interceptor (re_trace_id e)
        (error_interceptor (re_not_found_text e)
          (unary_server_access_log (re_not_found_text e) (re_access_log e) (re_full_method e)
            (unary_server_recover handler))))"

definition serve_rpc :: "'f oauth_lib \<Rightarrow> rpc_env \<Rightarrow> ('w, 'f, 'a) handler \<Rightarrow> ('w, 'f) sys \<Rightarrow> 'a reply \<times> ('w, 'f) sys" where
  "serve_rpc L e handler = auth_unary_interceptor L (re_info e) (inner_chain e handler) background"

subsection \<open>Facts\<close>

fun is_status :: "go_error \<Rightarrow> bool" where
  "is_status (StatusError c m ds) = True"
| "is_status e = False"

lemma convert_api_error_status: "is_status (convert_api_error nf ctx e)"
  by (simp add: convert_api_error_def Let_def)

lemma inner_chain_eq:
  "inner_chain e handler ctx \<sigma> =
    (let ctx = log_with_trace_id (re_trace_id e) ctx;
         log = (\<lambda>err. rpc_log_handler (re_not_found_text e) err (re_full_method e));
         fail = (\<lambda>err \<sigma>. (Failed (convert_api_error (re_not_found_text e) ctx err),
            write_log (ApiErrorLine (error_text (re_not_found_text e) err)) (write_log (log (Some err)) \<sigma>)))
     in case handler ctx (if re_access_log e then write_log (AccessLine (re_full_method e)) \<sigma> else \<sigma>) of
       (Reply a, \<sigma>) \<Rightarrow> (Reply a, write_log (log None) \<sigma>)
     | (Failed err, \<sigma>) \<Rightarrow> fail err \<sigma>
     | (Panicked p, \<sigma>) \<Rightarrow> fail (StatusError Internal p []) (write_log (PanicLine p) \<sigma>))"
  by (simp add: inner_chain_def log_unary_interceptor_def trace_unary_interceptor_def error_interceptor_def
      unary_server_access_log_def unary_server_recover_def Let_def split: prod.split outcome.split)

lemma inner_chain_status:
  "inner_chain e handler ctx \<sigma> = (Failed err, \<sigma>') \<Longrightarrow> is_status err"
  "inner_chain e handler ctx \<sigma> \<noteq> (Panicked p, \<sigma>')"
  by (auto simp: inner_chain_eq Let_def convert_api_error_status split: prod.splits outcome.splits)

lemma unauthenticated_status: "is_status (unauthenticated e)"
  by (simp add: unauthenticated_def)

lemma auth_func_error:
  assumes "auth_func L s info ctx f = (Inl err, f')" and "rpc_method info \<noteq> None"
  shows "\<exists>m. err = StatusError Unauthenticated m [ErrorInfo ''ErrUnauthenticated'']"
  using assms by (auto simp: auth_func_def unauthenticated_def split: sum.splits prod.splits if_splits)

lemma log_with_trace_id_simps [simp]:
  "get_permissions_ctx (log_with_trace_id t ctx) = get_permissions_ctx ctx"
  "get_username (log_with_trace_id t ctx) = get_username ctx"
  by (simp_all add: log_with_trace_id_def)

lemma write_log_simps [simp]:
  "sys_svc (write_log l \<sigma>) = sys_svc \<sigma>" "sys_cluster (write_log l \<sigma>) = sys_cluster \<sigma>"
  "sys_tokens (write_log l \<sigma>) = sys_tokens \<sigma>" "sys_log (write_log l \<sigma>) = sys_log \<sigma> @ [l]"
  by (simp_all add: write_log_def)

end
