(* ===== verification/Auth_Api.thy ===== *)
theory Auth_Api
  imports Grpc_Server
begin

text \<open>
  The gRPC handlers of the \<open>Auth\<close> service (\<open>pkg/api/auth_api_handlers.go\<close>).
\<close>

record login_req =
  lq_username :: string
  lq_password :: string

record pb_login_resp =
  plr_token :: string
  plr_username :: string
  plr_permissions :: "list_value option gomap"
  plr_pwd_expiration_date :: "timestamp option"
  plr_sso :: bool
  plr_pwd_update_required :: bool

definition api_check :: "('w, 'f, unit) handler" where
  "api_check ctx \<sigma> = (Failed ErrNotImplemented, \<sigma>)"

definition login_to_pb :: "login_resp \<Rightarrow> pb_login_resp" where
  "login_to_pb res =
    \<lparr>plr_token = lr_token res, plr_username = u_username (lr_user res),
     plr_permissions = map (\<lambda>(p, vals). (p, Some (map StringValue vals))) (lr_permissions res),
     plr_pwd_expiration_date = ts_to_pb (u_pwd_expiration (lr_user res)), plr_sso = False,
     plr_pwd_update_required = u_pwd_update_required (lr_user res)\<rparr>"

definition api_login ::
  "'f oauth_lib \<Rightarrow> server \<Rightarrow> go_env \<Rightarrow> int \<Rightarrow> login_req \<Rightarrow> ('w, 'f, pb_login_resp) handler" where
  "api_login L S env now req ctx \<sigma> =
    (case login L S env now (sys_svc \<sigma>) (lq_username req) (lq_password req) (sys_tokens \<sigma>) of
       (Inl err, f) \<Rightarrow> (Failed err, \<sigma>\<lparr>sys_tokens := f\<rparr>)
     | (Inr res, f) \<Rightarrow> (Reply (login_to_pb res), \<sigma>\<lparr>sys_tokens := f\<rparr>))"

definition api_logout ::
  "'f oauth_lib \<Rightarrow> server \<Rightarrow> string res \<Rightarrow> ('w, 'f, unit) handler" where
  "api_logout L S bearer ctx \<sigma> =
    (case logout L S bearer (sys_tokens \<sigma>) of
       (Some err, f) \<Rightarrow> (Failed err, \<sigma>\<lparr>sys_tokens := f\<rparr>)
     | (None, f) \<Rightarrow> (Reply (), \<sigma>\<lparr>sys_tokens := f\<rparr>))"

end
