(* ===== verification/Go_Time.thy ===== *)
theory Go_Time
  imports Go_Text Proto
begin

text \<open>
  Reading times (package \<open>time\<close>): the layout \<open>2006-01-02T15:04:05.000000-0700\<close> that \<open>pkg/types/status.go\<close>
  parses with, the strict RFC 3339 form of \<open>time.Time\<close> in JSON, and the seconds since 1970 that
  \<open>timestamppb.New\<close> takes from them.
\<close>

subsection \<open>The calendar\<close>

definition leap :: "int \<Rightarrow> bool" where
  "leap y \<longleftrightarrow> y mod 4 = 0 \<and> (y mod 100 \<noteq> 0 \<or> y mod 400 = 0)"

definition days_in :: "int \<Rightarrow> int \<Rightarrow> int" where
  "days_in m y =
    (if m = 2 then (if leap y then 29 else 28) else if m \<in> {4, 6, 9, 11} then 30 else 31)"

definition days_before_month :: "int \<Rightarrow> int \<Rightarrow> int" where
  "days_before_month m y =
    [0, 31, 59, 90, 120, 151, 181, 212, 243, 273, 304, 334] ! nat (m - 1) + (if leap y \<and> 2 < m then 1 else 0)"

text \<open>Days from 1 January of year 1 to 1 January of \<open>y\<close>.\<close>

definition days_before_year :: "int \<Rightarrow> int" where
  "days_before_year y = 365 * (y - 1) + (y - 1) div 4 - (y - 1) div 100 + (y - 1) div 400"

definition unix_of_civil :: "int \<Rightarrow> int \<Rightarrow> int \<Rightarrow> int \<Rightarrow> int \<Rightarrow> int \<Rightarrow> int" where
  "unix_of_civil y m d hh mm ss =
    (days_before_year y + days_before_month m y + d - 1 - 719162) * 86400 + hh * 3600 + mm * 60 + ss"

definition zero_time :: timestamp where
  "zero_time = \<lparr>ts_seconds = unix_of_civil 1 1 1 0 0 0, ts_nanos = 0\<rparr>"

definition civil_ok :: "int \<Rightarrow> int \<Rightarrow> int \<Rightarrow> int \<Rightarrow> int \<Rightarrow> int \<Rightarrow> bool" where
  "civil_ok y m d hh mm ss \<longleftrightarrow>
    1 \<le> m \<and> m \<le> 12 \<and> 1 \<le> d \<and> d \<le> days_in m y \<and> hh < 24 \<and> mm < 60 \<and> ss < 60"

subsection \<open>Pieces of a text\<close>

definition digits_val :: "string \<Rightarrow> int" where
  "digits_val s = foldl (\<lambda>n c. n * 10 + (int (byte c) - 48)) 0 s"

text \<open>Exactly \<open>n\<close> digits at the start.\<close>

definition fixed_num :: "nat \<Rightarrow> string \<Rightarrow> (int \<times> string) option" where
  "fixed_num n s =
    (if length s < n \<or> \<not> list_all is_digit (take n s) then None
     else Some (digits_val (take n s), drop n s))"

text \<open>One digit, or two.\<close>

definition loose_num :: "string \<Rightarrow> (int \<times> string) option" where
  "loose_num s = (case fixed_num 2 s of Some r \<Rightarrow> Some r | None \<Rightarrow> fixed_num 1 s)"

definition literal :: "char \<Rightarrow> string \<Rightarrow> string option" where
  "literal c s = (case s of [] \<Rightarrow> None | d # t \<Rightarrow> if d = c then Some t else None)"

text \<open>
  The fraction of the custom layout: a period or comma and six characters that are a number, where
  the library's \<open>atoi\<close> also takes a sign; a negative one is out of range.
\<close>

definition frac6 :: "string \<Rightarrow> (int \<times> string) option" where
  "frac6 s =
    (if length s < 7 \<or> (hd s \<noteq> CHR ''.'' \<and> hd s \<noteq> CHR '','') then None
     else
       let body = take 6 (tl s);
           neg = (hd body = CHR ''-'');
           ds = (if neg \<or> hd body = CHR ''+'' then tl body else body)
       in if \<not> list_all is_digit ds \<or> neg \<and> digits_val ds \<noteq> 0 then None
          else Some (digits_val ds * 1000, drop 7 s))"

definition zone_hhmm :: "string \<Rightarrow> (int \<times> string) option" where
  "zone_hhmm s =
    (case s of [] \<Rightarrow> None
     | sign # t \<Rightarrow>
        (case fixed_num 2 t of None \<Rightarrow> None | Some (hr, t) \<Rightarrow>
        (case fixed_num 2 t of None \<Rightarrow> None | Some (mm, t) \<Rightarrow>
          if hr > 24 \<or> mm > 60 then None
          else if sign = CHR ''+'' then Some ((hr * 60 + mm) * 60, t)
          else if sign = CHR ''-'' then Some (- ((hr * 60 + mm) * 60), t)
          else None)))"

subsection \<open>The custom layout\<close>

definition parse_date :: "string \<Rightarrow> (int \<times> int \<times> int \<times> string) option" where
  "parse_date s =
    Option.bind (fixed_num 4 s) (\<lambda>(y, s).
    Option.bind (literal CHR ''-'' s) (\<lambda>s.
    Option.bind (fixed_num 2 s) (\<lambda>(m, s).
    Option.bind (literal CHR ''-'' s) (\<lambda>s.
    Option.bind (fixed_num 2 s) (\<lambda>(d, s).
    Option.bind (literal CHR ''T'' s) (\<lambda>s. Some (y, m, d, s)))))))"

definition parse_custom :: "string \<Rightarrow> timestamp option" where
  "parse_custom s =
    Option.bind (parse_date s) (\<lambda>(y, m, d, s).
    Option.bind (loose_num s) (\<lambda>(hh, s).
    Option.bind (literal CHR '':'' s) (\<lambda>s.
    Option.bind (fixed_num 2 s) (\<lambda>(mm, s).
    Option.bind (literal CHR '':'' s) (\<lambda>s.
    Option.bind (fixed_num 2 s) (\<lambda>(ss, s).
    Option.bind (frac6 s) (\<lambda>(ns, s).
    Option.bind (zone_hhmm s) (\<lambda>(off, s).
      if s = [] \<and> civil_ok y m d hh mm ss then
        Some \<lparr>ts_seconds = unix_of_civil y m d hh mm ss - off, ts_nanos = ns\<rparr>
      else None))))))))"

subsection \<open>RFC 3339\<close>

definition frac_opt :: "string \<Rightarrow> int \<times> string" where
  "frac_opt s =
    (if take 1 s = ''.'' \<and> takeWhile is_digit (tl s) \<noteq> [] then
       let ds = takeWhile is_digit (tl s) in
       (digits_val (take 9 (ds @ ''000000000'')), drop (length ds + 1) s)
     else (0, s))"

definition zone_rfc :: "string \<Rightarrow> int option" where
  "zone_rfc s =
    (if s = ''Z'' then Some 0
     else if length s \<noteq> 6 then None
     else
       Option.bind (fixed_num 2 (tl s)) (\<lambda>(hr, t).
       Option.bind (literal CHR '':'' t) (\<lambda>t.
       Option.bind (fixed_num 2 t) (\<lambda>(mm, t).
         if hr > 23 \<or> mm > 59 then None
         else if hd s = CHR ''+'' then Some ((hr * 60 + mm) * 60)
         else if hd s = CHR ''-'' then Some (- ((hr * 60 + mm) * 60))
         else None))))"

definition parse_rfc3339 :: "string \<Rightarrow> timestamp option" where
  "parse_rfc3339 s =
    Option.bind (parse_date s) (\<lambda>(y, m, d, s).
    Option.bind (fixed_num 2 s) (\<lambda>(hh, s).
    Option.bind (literal CHR '':'' s) (\<lambda>s.
    Option.bind (fixed_num 2 s) (\<lambda>(mm, s).
    Option.bind (literal CHR '':'' s) (\<lambda>s.
    Option.bind (fixed_num 2 s) (\<lambda>(ss, s).
      let (ns, s) = frac_opt s in
      Option.bind (zone_rfc s) (\<lambda>off.
        if civil_ok y m d hh mm ss then
          Some \<lparr>ts_seconds = unix_of_civil y m d hh mm ss - off, ts_nanos = ns\<rparr>
        else None)))))))"

subsection \<open>Facts\<close>

text \<open>The day after a date, and that it is one day later.\<close>

definition next_day :: "int \<Rightarrow> int \<Rightarrow> int \<Rightarrow> int \<times> int \<times> int" where
  "next_day y m d =
    (if d < days_in m y then (y, m, d + 1) else if m < 12 then (y, m + 1, 1) else (y + 1, 1, 1))"

lemma div_step:
  fixes y n :: int
  assumes "0 < n"
  shows "y div n = (y - 1) div n + (if y mod n = 0 then 1 else 0)"
proof (cases "y mod n = 0")
  case True
  then have "y = n * (y div n)" using mult_div_mod_eq [of n y] by linarith
  then have "y - 1 = n * (y div n - 1) + (n - 1)" by (simp add: right_diff_distrib)
  then have "(y - 1) div n = y div n - 1"
    using assms by (intro int_div_pos_eq [of _ _ _ "n - 1"]) simp_all
  then show ?thesis using True by simp
next
  case False
  have "0 \<le> y mod n" "y mod n < n" using assms by simp_all
  then have r: "0 \<le> y mod n - 1" "y mod n - 1 < n" using False by linarith+
  have "y - 1 = n * (y div n) + (y mod n - 1)" by simp
  then have "(y - 1) div n = y div n"
    using r by (rule int_div_pos_eq)
  then show ?thesis using False by simp
qed

lemma year_arith:
  fixes y :: int
  assumes "b4 = a4 + (if c4 then 1 else 0)" and "b100 = a100 + (if c100 then 1 else 0)"
    and "b400 = a400 + (if c400 then 1 else 0)" and "c400 \<Longrightarrow> c100" and "c100 \<Longrightarrow> c4"
  shows "365 * y + b4 - b100 + b400
    = 365 * (y - 1) + a4 - a100 + a400 + (if c4 \<and> (\<not> c100 \<or> c400) then 366 else 365)"
  using assms by (cases c4; cases c100; cases c400) simp_all

lemma year_length: "days_before_year (y + 1) = days_before_year y + (if leap y then 366 else 365)"
proof -
  have "y mod 100 mod 4 = y mod 4" "y mod 400 mod 100 = y mod 100"
    by (simp_all add: mod_mod_cancel)
  then have "y mod 400 = 0 \<Longrightarrow> y mod 100 = 0" "y mod 100 = 0 \<Longrightarrow> y mod 4 = 0" by auto
  then have "365 * y + y div 4 - y div 100 + y div 400
      = 365 * (y - 1) + (y - 1) div 4 - (y - 1) div 100 + (y - 1) div 400
        + (if y mod 4 = 0 \<and> (\<not> y mod 100 = 0 \<or> y mod 400 = 0) then 366 else 365)"
    by (intro year_arith div_step) simp_all
  then show ?thesis
    unfolding days_before_year_def leap_def by (simp only: add_diff_cancel_right')
qed

lemma month_length:
  assumes "1 \<le> m" and "m < 12"
  shows "days_before_month (m + 1) y = days_before_month m y + days_in m y"
proof -
  have "m \<in> {1, 2, 3, 4, 5, 6, 7, 8, 9, 10, 11}" using assms by simp presburger
  then show ?thesis by (elim insertE emptyE) (simp_all add: days_before_month_def days_in_def)
qed

lemma december: "days_before_month 12 y + days_in 12 y = (if leap y then 366 else 365)"
  by (simp add: days_before_month_def days_in_def)

lemma days_before_january [simp]: "days_before_month 1 y = 0"
  by (simp add: days_before_month_def)

lemma unix_next_day:
  assumes "1 \<le> m" and "m \<le> 12" and "d \<le> days_in m y" and "next_day y m d = (y', m', d')"
  shows "unix_of_civil y' m' d' hh mm ss = unix_of_civil y m d hh mm ss + 86400"
proof -
  consider "d < days_in m y" | "d = days_in m y" "m < 12" | "d = days_in m y" "m = 12"
    using assms by linarith
  then show ?thesis
  proof cases
    case 1
    then show ?thesis using assms(4) by (auto simp: next_day_def unix_of_civil_def)
  next
    case 2
    then have "y' = y" "m' = m + 1" "d' = 1" using assms(4) by (auto simp: next_day_def)
    then show ?thesis using 2 month_length [OF assms(1)] by (simp add: unix_of_civil_def)
  next
    case 3
    then have n: "y' = y + 1" "m' = 1" "d' = 1" using assms(4) by (auto simp: next_day_def)
    have "days_before_year y' = days_before_year y + days_before_month 12 y + days_in 12 y"
      using year_length [of y] december [of y] n by simp
    then show ?thesis using 3 n by (simp add: unix_of_civil_def algebra_simps)
  qed
qed

lemma unix_epoch: "unix_of_civil 1970 1 1 0 0 0 = 0"
  by (simp add: unix_of_civil_def days_before_year_def)

lemma zero_time_seconds: "ts_seconds zero_time = -62135596800"
  by (simp add: zero_time_def unix_of_civil_def days_before_year_def)

end
