(* ===== verification/Status_Decode.thy ===== *)
theory Status_Decode
  imports Go_Decode Go_Time
begin

text \<open>
  Decoders for the field types of the status structs (\<open>pkg/types/status.go\<close>, \<open>status.pb.go\<close>): integers of
  each width, floats (kept as their literal; that a literal can exceed a 64-bit float is not
  modelled), times, and the values of \<open>structpb\<close>, which keep the JSON they were read from.
\<close>

definition dec_ranged :: "int \<Rightarrow> int \<Rightarrow> json \<Rightarrow> int \<Rightarrow> int res" where
  "dec_ranged lo hi j old =
    (case dec_int j old of
       Inl e \<Rightarrow> Inl e
     | Inr i \<Rightarrow> if j \<noteq> JNull \<and> (i < lo \<or> hi < i) then Inl unmarshal_error else Inr i)"

definition dec_int32 :: "json \<Rightarrow> int \<Rightarrow> int res" where
  "dec_int32 = dec_ranged (- (2 ^ 31)) (2 ^ 31 - 1)"

text \<open>\<open>strconv.ParseUint\<close> takes no sign.\<close>

definition dec_uint64 :: "json \<Rightarrow> int \<Rightarrow> int res" where
  "dec_uint64 j old =
    (case j of
       JNum n \<Rightarrow>
         if n \<noteq> [] \<and> list_all is_digit n \<and> digits_val n < 2 ^ 64 then Inr (digits_val n) else Inl unmarshal_error
     | JNull \<Rightarrow> Inr old
     | _ \<Rightarrow> Inl unmarshal_error)"

definition dec_float :: "json \<Rightarrow> string \<Rightarrow> string res" where
  "dec_float j old = (case j of JNum n \<Rightarrow> Inr n | JNull \<Rightarrow> Inr old | _ \<Rightarrow> Inl unmarshal_error)"

text \<open>
  \<open>CephTimestamp.UnmarshalJSON\<close> gets the raw text of the value, and is called for \<open>null\<close> too. A string
  written with escapes keeps them in the raw text; such a string is not modelled.
\<close>

definition unmarshal_ceph_timestamp :: "string \<Rightarrow> timestamp option res" where
  "unmarshal_ceph_timestamp data =
    (let s = trim_char CHR 0x22 data in
     if s = ''0.000000'' \<or> s = [] then Inr (Some zero_time)
     else (case parse_custom s of
             None \<Rightarrow> Inl (Foreign ''parsing time'')
           | Some t \<Rightarrow> Inr (Some t)))"

definition dec_ceph_timestamp :: "json \<Rightarrow> timestamp option \<Rightarrow> timestamp option res" where
  "dec_ceph_timestamp j old = unmarshal_ceph_timestamp (json_print j)"

text \<open>\<open>time.Time\<close> in JSON, and a \<open>timestamppb.Timestamp\<close>, which \<open>encoding/json\<close> reads field by field.\<close>

definition dec_time :: "json \<Rightarrow> timestamp \<Rightarrow> timestamp res" where
  "dec_time j old =
    (case j of
       JNull \<Rightarrow> Inr old
     | JStr s \<Rightarrow> (case parse_rfc3339 s of None \<Rightarrow> Inl (Foreign ''parsing time'') | Some t \<Rightarrow> Inr t)
     | _ \<Rightarrow> Inl (Foreign ''Time.UnmarshalJSON: input is not a JSON string''))"

definition zero_pb_time :: timestamp where
  "zero_pb_time = \<lparr>ts_seconds = 0, ts_nanos = 0\<rparr>"

definition dec_timestamppb :: "json \<Rightarrow> timestamp \<Rightarrow> timestamp res" where
  "dec_timestamppb = dec_struct
    [field ''seconds'' dec_int ts_seconds (\<lambda>v t. t\<lparr>ts_seconds := v\<rparr>),
     field ''nanos'' dec_int32 ts_nanos (\<lambda>v t. t\<lparr>ts_nanos := v\<rparr>)]"

definition dec_pb_value :: "json \<Rightarrow> json \<Rightarrow> json res" where
  "dec_pb_value j old = Inr j"

definition dec_pb_struct :: "json \<Rightarrow> json \<Rightarrow> json res" where
  "dec_pb_struct j old = (case j of JObj ms \<Rightarrow> Inr j | _ \<Rightarrow> Inl (Foreign ''proto: unexpected token''))"

end
