(* ===== verification/Status_Types.thy ===== *)
theory Status_Types
  imports Status_Decode
begin

text \<open>
  The answer of the \<open>status\<close> command, which is decoded straight into its protobuf messages
  (\<open>status.pb.go\<close>): one record per message, its zero value and its decoder.
\<close>

record ceph_status_health =
  ceph_status_health_status :: string
  ceph_status_health_checks :: "json option nmap"
  ceph_status_health_mutes :: "json option slice"

definition zero_ceph_status_health :: ceph_status_health where
  "zero_ceph_status_health =
    \<lparr>ceph_status_health_status = [], ceph_status_health_checks = None,
      ceph_status_health_mutes = None\<rparr>"

definition ceph_status_health_fields :: "ceph_status_health field list" where
  "ceph_status_health_fields =
    [field ''status'' dec_string ceph_status_health_status (\<lambda>v r. r\<lparr>ceph_status_health_status := v\<rparr>),
     field ''checks'' (dec_map (dec_ptr dec_pb_struct JNull) None) ceph_status_health_checks (\<lambda>v r. r\<lparr>ceph_status_health_checks := v\<rparr>),
     field ''mutes'' (dec_slice (dec_ptr dec_pb_value JNull) None) ceph_status_health_mutes (\<lambda>v r. r\<lparr>ceph_status_health_mutes := v\<rparr>)]"

definition dec_ceph_status_health :: "json \<Rightarrow> ceph_status_health \<Rightarrow> ceph_status_health res" where
  "dec_ceph_status_health = dec_struct ceph_status_health_fields"

record ceph_status_mon_map =
  ceph_status_mon_map_epoch :: int
  ceph_status_mon_map_min_mon_release_name :: string
  ceph_status_mon_map_num_mons :: int

definition zero_ceph_status_mon_map :: ceph_status_mon_map where
  "zero_ceph_status_mon_map =
    \<lparr>ceph_status_mon_map_epoch = 0, ceph_status_mon_map_min_mon_release_name = [],
      ceph_status_mon_map_num_mons = 0\<rparr>"

definition ceph_status_mon_map_fields :: "ceph_status_mon_map field list" where
  "ceph_status_mon_map_fields =
    [field ''epoch'' dec_int32 ceph_status_mon_map_epoch (\<lambda>v r. r\<lparr>ceph_status_mon_map_epoch := v\<rparr>),
     field ''min_mon_release_name'' dec_string ceph_status_mon_map_min_mon_release_name (\<lambda>v r. r\<lparr>ceph_status_mon_map_min_mon_release_name := v\<rparr>),
     field ''num_mons'' dec_int32 ceph_status_mon_map_num_mons (\<lambda>v r. r\<lparr>ceph_status_mon_map_num_mons := v\<rparr>)]"

definition dec_ceph_status_mon_map :: "json \<Rightarrow> ceph_status_mon_map \<Rightarrow> ceph_status_mon_map res" where
  "dec_ceph_status_mon_map = dec_struct ceph_status_mon_map_fields"

record ceph_status_osd_map =
  ceph_status_osd_map_epoch :: int
  ceph_status_osd_map_num_osds :: int
  ceph_status_osd_map_num_up_osds :: int
  ceph_status_osd_map_osd_up_since :: int
  ceph_status_osd_map_num_in_osds :: int
  ceph_status_osd_map_osd_in_since :: int
  ceph_status_osd_map_num_remapped_pgs :: int

definition zero_ceph_status_osd_map :: ceph_status_osd_map where
  "zero_ceph_status_osd_map =
    \<lparr>ceph_status_osd_map_epoch = 0, ceph_status_osd_map_num_osds = 0,
      ceph_status_osd_map_num_up_osds = 0, ceph_status_osd_map_osd_up_since = 0,
      ceph_status_osd_map_num_in_osds = 0, ceph_status_osd_map_osd_in_since = 0,
      ceph_status_osd_map_num_remapped_pgs = 0\<rparr>"

definition ceph_status_osd_map_fields :: "ceph_status_osd_map field list" where
  "ceph_status_osd_map_fields =
    [field ''epoch'' dec_int32 ceph_status_osd_map_epoch (\<lambda>v r. r\<lparr>ceph_status_osd_map_epoch := v\<rparr>),
     field ''num_osds'' dec_int32 ceph_status_osd_map_num_osds (\<lambda>v r. r\<lparr>ceph_status_osd_map_num_osds := v\<rparr>),
     field ''num_up_osds'' dec_int32 ceph_status_osd_map_num_up_osds (\<lambda>v r. r\<lparr>ceph_status_osd_map_num_up_osds := v\<rparr>),
     field ''osd_up_since'' dec_int ceph_status_osd_map_osd_up_since (\<lambda>v r. r\<lparr>ceph_status_osd_map_osd_up_since := v\<rparr>),
     field ''num_in_osds'' dec_int32 ceph_status_osd_map_num_in_osds (\<lambda>v r. r\<lparr>ceph_status_osd_map_num_in_osds := v\<rparr>),
     field ''osd_in_since'' dec_int ceph_status_osd_map_osd_in_since (\<lambda>v r. r\<lparr>ceph_status_osd_map_osd_in_since := v\<rparr>),
     field ''num_remapped_pgs'' dec_int32 ceph_status_osd_map_num_remapped_pgs (\<lambda>v r. r\<lparr>ceph_status_osd_map_num_remapped_pgs := v\<rparr>)]"

definition dec_ceph_status_osd_map :: "json \<Rightarrow> ceph_status_osd_map \<Rightarrow> ceph_status_osd_map res" where
  "dec_ceph_status_osd_map = dec_struct ceph_status_osd_map_fields"

record ceph_status_pg_state =
  ceph_status_pg_state_state_name :: string
  ceph_status_pg_state_count :: int

definition zero_ceph_status_pg_state :: ceph_status_pg_state where
  "zero_ceph_status_pg_state =
    \<lparr>ceph_status_pg_state_state_name = [], ceph_status_pg_state_count = 0\<rparr>"

definition ceph_status_pg_state_fields :: "ceph_status_pg_state field list" where
  "ceph_status_pg_state_fields =
    [field ''state_name'' dec_string ceph_status_pg_state_state_name (\<lambda>v r. r\<lparr>ceph_status_pg_state_state_name := v\<rparr>),
     field ''count'' dec_int32 ceph_status_pg_state_count (\<lambda>v r. r\<lparr>ceph_status_pg_state_count := v\<rparr>)]"

definition dec_ceph_status_pg_state :: "json \<Rightarrow> ceph_status_pg_state \<Rightarrow> ceph_status_pg_state res" where
  "dec_ceph_status_pg_state = dec_struct ceph_status_pg_state_fields"

record ceph_status_pg_map =
  ceph_status_pg_map_pgs_by_state :: "ceph_status_pg_state option slice"
  ceph_status_pg_map_num_pgs :: int
  ceph_status_pg_map_num_pools :: int
  ceph_status_pg_map_num_objects :: int
  ceph_status_pg_map_data_bytes :: int
  ceph_status_pg_map_bytes_used :: int
  ceph_status_pg_map_bytes_avail :: int
  ceph_status_pg_map_bytes_total :: int

definition zero_ceph_status_pg_map :: ceph_status_pg_map where
  "zero_ceph_status_pg_map =
    \<lparr>ceph_status_pg_map_pgs_by_state = None, ceph_status_pg_map_num_pgs = 0,
      ceph_status_pg_map_num_pools = 0, ceph_status_pg_map_num_objects = 0,
      ceph_status_pg_map_data_bytes = 0, ceph_status_pg_map_bytes_used = 0,
      ceph_status_pg_map_bytes_avail = 0, ceph_status_pg_map_bytes_total = 0\<rparr>"

definition ceph_status_pg_map_fields :: "ceph_status_pg_map field list" where
  "ceph_status_pg_map_fields =
    [field ''pgs_by_state'' (dec_slice (dec_ptr dec_ceph_status_pg_state zero_ceph_status_pg_state) None) ceph_status_pg_map_pgs_by_state (\<lambda>v r. r\<lparr>ceph_status_pg_map_pgs_by_state := v\<rparr>),
     field ''num_pgs'' dec_int32 ceph_status_pg_map_num_pgs (\<lambda>v r. r\<lparr>ceph_status_pg_map_num_pgs := v\<rparr>),
     field ''num_pools'' dec_int32 ceph_status_pg_map_num_pools (\<lambda>v r. r\<lparr>ceph_status_pg_map_num_pools := v\<rparr>),
     field ''num_objects'' dec_int32 ceph_status_pg_map_num_objects (\<lambda>v r. r\<lparr>ceph_status_pg_map_num_objects := v\<rparr>),
     field ''data_bytes'' dec_int ceph_status_pg_map_data_bytes (\<lambda>v r. r\<lparr>ceph_status_pg_map_data_bytes := v\<rparr>),
     field ''bytes_used'' dec_int ceph_status_pg_map_bytes_used (\<lambda>v r. r\<lparr>ceph_status_pg_map_bytes_used := v\<rparr>),
     field ''bytes_avail'' dec_int ceph_status_pg_map_bytes_avail (\<lambda>v r. r\<lparr>ceph_status_pg_map_bytes_avail := v\<rparr>),
     field ''bytes_total'' dec_int ceph_status_pg_map_bytes_total (\<lambda>v r. r\<lparr>ceph_status_pg_map_bytes_total := v\<rparr>)]"

definition dec_ceph_status_pg_map :: "json \<Rightarrow> ceph_status_pg_map \<Rightarrow> ceph_status_pg_map res" where
  "dec_ceph_status_pg_map = dec_struct ceph_status_pg_map_fields"

record ceph_status_fs_map =
  ceph_status_fs_map_epoch :: int
  ceph_status_fs_map_by_rank :: "json option slice"
  ceph_status_fs_map_up_standby :: int

definition zero_ceph_status_fs_map :: ceph_status_fs_map where
  "zero_ceph_status_fs_map =
    \<lparr>ceph_status_fs_map_epoch = 0, ceph_status_fs_map_by_rank = None,
      ceph_status_fs_map_up_standby = 0\<rparr>"

definition ceph_status_fs_map_fields :: "ceph_status_fs_map field list" where
  "ceph_status_fs_map_fields =
    [field ''epoch'' dec_int32 ceph_status_fs_map_epoch (\<lambda>v r. r\<lparr>ceph_status_fs_map_epoch := v\<rparr>),
     field ''by_rank'' (dec_slice (dec_ptr dec_pb_value JNull) None) ceph_status_fs_map_by_rank (\<lambda>v r. r\<lparr>ceph_status_fs_map_by_rank := v\<rparr>),
     field ''up_standby'' dec_int32 ceph_status_fs_map_up_standby (\<lambda>v r. r\<lparr>ceph_status_fs_map_up_standby := v\<rparr>)]"

definition dec_ceph_status_fs_map :: "json \<Rightarrow> ceph_status_fs_map \<Rightarrow> ceph_status_fs_map res" where
  "dec_ceph_status_fs_map = dec_struct ceph_status_fs_map_fields"

record ceph_status_mgr_map =
  ceph_status_mgr_map_available :: bool
  ceph_status_mgr_map_num_standbys :: int
  ceph_status_mgr_map_modules :: "string slice"
  ceph_status_mgr_map_services :: "string nmap"

definition zero_ceph_status_mgr_map :: ceph_status_mgr_map where
  "zero_ceph_status_mgr_map =
    \<lparr>ceph_status_mgr_map_available = False, ceph_status_mgr_map_num_standbys = 0,
      ceph_status_mgr_map_modules = None, ceph_status_mgr_map_services = None\<rparr>"

definition ceph_status_mgr_map_fields :: "ceph_status_mgr_map field list" where
  "ceph_status_mgr_map_fields =
    [field ''available'' dec_bool ceph_status_mgr_map_available (\<lambda>v r. r\<lparr>ceph_status_mgr_map_available := v\<rparr>),
     field ''num_standbys'' dec_int32 ceph_status_mgr_map_num_standbys (\<lambda>v r. r\<lparr>ceph_status_mgr_map_num_standbys := v\<rparr>),
     field ''modules'' (dec_slice dec_string []) ceph_status_mgr_map_modules (\<lambda>v r. r\<lparr>ceph_status_mgr_map_modules := v\<rparr>),
     field ''services'' (dec_map dec_string []) ceph_status_mgr_map_services (\<lambda>v r. r\<lparr>ceph_status_mgr_map_services := v\<rparr>)]"

definition dec_ceph_status_mgr_map :: "json \<Rightarrow> ceph_status_mgr_map \<Rightarrow> ceph_status_mgr_map res" where
  "dec_ceph_status_mgr_map = dec_struct ceph_status_mgr_map_fields"

record ceph_status_service =
  ceph_status_service_daemons :: "json option nmap"
  ceph_status_service_summary :: string

definition zero_ceph_status_service :: ceph_status_service where
  "zero_ceph_status_service =
    \<lparr>ceph_status_service_daemons = None, ceph_status_service_summary = []\<rparr>"

definition ceph_status_service_fields :: "ceph_status_service field list" where
  "ceph_status_service_fields =
    [field ''daemons'' (dec_map (dec_ptr dec_pb_value JNull) None) ceph_status_service_daemons (\<lambda>v r. r\<lparr>ceph_status_service_daemons := v\<rparr>),
     field ''summary'' dec_string ceph_status_service_summary (\<lambda>v r. r\<lparr>ceph_status_service_summary := v\<rparr>)]"

definition dec_ceph_status_service :: "json \<Rightarrow> ceph_status_service \<Rightarrow> ceph_status_service res" where
  "dec_ceph_status_service = dec_struct ceph_status_service_fields"

record ceph_status_service_map =
  ceph_status_service_map_epoch :: int
  ceph_status_service_map_modified :: string
  ceph_status_service_map_services :: "ceph_status_service option nmap"

definition zero_ceph_status_service_map :: ceph_status_service_map where
  "zero_ceph_status_service_map =
    \<lparr>ceph_status_service_map_epoch = 0, ceph_status_service_map_modified = [],
      ceph_status_service_map_services = None\<rparr>"

definition ceph_status_service_map_fields :: "ceph_status_service_map field list" where
  "ceph_status_service_map_fields =
    [field ''epoch'' dec_int32 ceph_status_service_map_epoch (\<lambda>v r. r\<lparr>ceph_status_service_map_epoch := v\<rparr>),
     field ''modified'' dec_string ceph_status_service_map_modified (\<lambda>v r. r\<lparr>ceph_status_service_map_modified := v\<rparr>),
     field ''services'' (dec_map (dec_ptr dec_ceph_status_service zero_ceph_status_service) None) ceph_status_service_map_services (\<lambda>v r. r\<lparr>ceph_status_service_map_services := v\<rparr>)]"

definition dec_ceph_status_service_map :: "json \<Rightarrow> ceph_status_service_map \<Rightarrow> ceph_status_service_map res" where
  "dec_ceph_status_service_map = dec_struct ceph_status_service_map_fields"

record get_ceph_status_response =
  status_fsid :: string
  status_health :: "ceph_status_health option"
  status_election_epoch :: int
  status_quorum :: "int slice"
  status_quorum_names :: "string slice"
  status_quorum_age :: int
  status_monmap :: "ceph_status_mon_map option"
  status_osdmap :: "ceph_status_osd_map option"
  status_pgmap :: "ceph_status_pg_map option"
  status_fsmap :: "ceph_status_fs_map option"
  status_mgrmap :: "ceph_status_mgr_map option"
  status_servicemap :: "ceph_status_service_map option"
  status_progress_events :: "json option"

definition zero_get_ceph_status_response :: get_ceph_status_response where
  "zero_get_ceph_status_response =
    \<lparr>status_fsid = [], status_health = None, status_election_epoch = 0, status_quorum = None,
      status_quorum_names = None, status_quorum_age = 0, status_monmap = None, status_osdmap = None,
      status_pgmap = None, status_fsmap = None, status_mgrmap = None, status_servicemap = None,
      status_progress_events = None\<rparr>"

definition get_ceph_status_response_fields :: "get_ceph_status_response field list" where
  "get_ceph_status_response_fields =
    [field ''fsid'' dec_string status_fsid (\<lambda>v r. r\<lparr>status_fsid := v\<rparr>),
     field ''health'' (dec_ptr dec_ceph_status_health zero_ceph_status_health) status_health (\<lambda>v r. r\<lparr>status_health := v\<rparr>),
     field ''election_epoch'' dec_int32 status_election_epoch (\<lambda>v r. r\<lparr>status_election_epoch := v\<rparr>),
     field ''quorum'' (dec_slice dec_int32 0) status_quorum (\<lambda>v r. r\<lparr>status_quorum := v\<rparr>),
     field ''quorum_names'' (dec_slice dec_string []) status_quorum_names (\<lambda>v r. r\<lparr>status_quorum_names := v\<rparr>),
     field ''quorum_age'' dec_int32 status_quorum_age (\<lambda>v r. r\<lparr>status_quorum_age := v\<rparr>),
     field ''monmap'' (dec_ptr dec_ceph_status_mon_map zero_ceph_status_mon_map) status_monmap (\<lambda>v r. r\<lparr>status_monmap := v\<rparr>),
     field ''osdmap'' (dec_ptr dec_ceph_status_osd_map zero_ceph_status_osd_map) status_osdmap (\<lambda>v r. r\<lparr>status_osdmap := v\<rparr>),
     field ''pgmap'' (dec_ptr dec_ceph_status_pg_map zero_ceph_status_pg_map) status_pgmap (\<lambda>v r. r\<lparr>status_pgmap := v\<rparr>),
     field ''fsmap'' (dec_ptr dec_ceph_status_fs_map zero_ceph_status_fs_map) status_fsmap (\<lambda>v r. r\<lparr>status_fsmap := v\<rparr>),
     field ''mgrmap'' (dec_ptr dec_ceph_status_mgr_map zero_ceph_status_mgr_map) status_mgrmap (\<lambda>v r. r\<lparr>status_mgrmap := v\<rparr>),
     field ''servicemap'' (dec_ptr dec_ceph_status_service_map zero_ceph_status_service_map) status_servicemap (\<lambda>v r. r\<lparr>status_servicemap := v\<rparr>),
     field ''progress_events'' (dec_ptr dec_pb_struct JNull) status_progress_events (\<lambda>v r. r\<lparr>status_progress_events := v\<rparr>)]"

definition dec_get_ceph_status_response :: "json \<Rightarrow> get_ceph_status_response \<Rightarrow> get_ceph_status_response res" where
  "dec_get_ceph_status_response = dec_struct get_ceph_status_response_fields"

end
