(* ===== verification/Mon_Types.thy ===== *)
theory Mon_Types
  imports Status_Decode
begin

text \<open>
  The answer of \<open>mon dump\<close>: the structs it is decoded into (\<open>CephMonDumpResponse\<close> of
  \<open>pkg/types/status.go\<close> and the messages of \<open>status.pb.go\<close> inside it) and the message it is
  converted to.
\<close>

record ceph_mon_dump_features =
  ceph_mon_dump_features_persistent :: "string slice"
  ceph_mon_dump_features_optional :: "string slice"

definition zero_ceph_mon_dump_features :: ceph_mon_dump_features where
  "zero_ceph_mon_dump_features =
    \<lparr>ceph_mon_dump_features_persistent = None, ceph_mon_dump_features_optional = None\<rparr>"

definition ceph_mon_dump_features_fields :: "ceph_mon_dump_features field list" where
  "ceph_mon_dump_features_fields =
    [field ''persistent'' (dec_slice dec_string []) ceph_mon_dump_features_persistent (\<lambda>v r. r\<lparr>ceph_mon_dump_features_persistent := v\<rparr>),
     field ''optional'' (dec_slice dec_string []) ceph_mon_dump_features_optional (\<lambda>v r. r\<lparr>ceph_mon_dump_features_optional := v\<rparr>)]"

definition dec_ceph_mon_dump_features :: "json \<Rightarrow> ceph_mon_dump_features \<Rightarrow> ceph_mon_dump_features res" where
  "dec_ceph_mon_dump_features = dec_struct ceph_mon_dump_features_fields"

record ceph_mon_dump_address =
  ceph_mon_dump_address_type :: string
  ceph_mon_dump_address_addr :: string
  ceph_mon_dump_address_nonce :: int

definition zero_ceph_mon_dump_address :: ceph_mon_dump_address where
  "zero_ceph_mon_dump_address =
    \<lparr>ceph_mon_dump_address_type = [], ceph_mon_dump_address_addr = [],
      ceph_mon_dump_address_nonce = 0\<rparr>"

definition ceph_mon_dump_address_fields :: "ceph_mon_dump_address field list" where
  "ceph_mon_dump_address_fields =
    [field ''type'' dec_string ceph_mon_dump_address_type (\<lambda>v r. r\<lparr>ceph_mon_dump_address_type := v\<rparr>),
     field ''addr'' dec_string ceph_mon_dump_address_addr (\<lambda>v r. r\<lparr>ceph_mon_dump_address_addr := v\<rparr>),
     field ''nonce'' dec_int32 ceph_mon_dump_address_nonce (\<lambda>v r. r\<lparr>ceph_mon_dump_address_nonce := v\<rparr>)]"

definition dec_ceph_mon_dump_address :: "json \<Rightarrow> ceph_mon_dump_address \<Rightarrow> ceph_mon_dump_address res" where
  "dec_ceph_mon_dump_address = dec_struct ceph_mon_dump_address_fields"

record ceph_mon_dump_addr_vec =
  ceph_mon_dump_addr_vec_addrvec :: "ceph_mon_dump_address option slice"

definition zero_ceph_mon_dump_addr_vec :: ceph_mon_dump_addr_vec where
  "zero_ceph_mon_dump_addr_vec =
    \<lparr>ceph_mon_dump_addr_vec_addrvec = None\<rparr>"

definition ceph_mon_dump_addr_vec_fields :: "ceph_mon_dump_addr_vec field list" where
  "ceph_mon_dump_addr_vec_fields =
    [field ''addrvec'' (dec_slice (dec_ptr dec_ceph_mon_dump_address zero_ceph_mon_dump_address) None) ceph_mon_dump_addr_vec_addrvec (\<lambda>v r. r\<lparr>ceph_mon_dump_addr_vec_addrvec := v\<rparr>)]"

definition dec_ceph_mon_dump_addr_vec :: "json \<Rightarrow> ceph_mon_dump_addr_vec \<Rightarrow> ceph_mon_dump_addr_vec res" where
  "dec_ceph_mon_dump_addr_vec = dec_struct ceph_mon_dump_addr_vec_fields"

record ceph_mon_dump_mon_info =
  ceph_mon_dump_mon_info_rank :: int
  ceph_mon_dump_mon_info_name :: string
  ceph_mon_dump_mon_info_public_addrs :: "ceph_mon_dump_addr_vec option"
  ceph_mon_dump_mon_info_addr :: string
  ceph_mon_dump_mon_info_public_addr :: string
  ceph_mon_dump_mon_info_priority :: int
  ceph_mon_dump_mon_info_weight :: int
  ceph_mon_dump_mon_info_crush_location :: string

definition zero_ceph_mon_dump_mon_info :: ceph_mon_dump_mon_info where
  "zero_ceph_mon_dump_mon_info =
    \<lparr>ceph_mon_dump_mon_info_rank = 0, ceph_mon_dump_mon_info_name = [],
      ceph_mon_dump_mon_info_public_addrs = None, ceph_mon_dump_mon_info_addr = [],
      ceph_mon_dump_mon_info_public_addr = [], ceph_mon_dump_mon_info_priority = 0,
      ceph_mon_dump_mon_info_weight = 0, ceph_mon_dump_mon_info_crush_location = []\<rparr>"

definition ceph_mon_dump_mon_info_fields :: "ceph_mon_dump_mon_info field list" where
  "ceph_mon_dump_mon_info_fields =
    [field ''rank'' dec_int32 ceph_mon_dump_mon_info_rank (\<lambda>v r. r\<lparr>ceph_mon_dump_mon_info_rank := v\<rparr>),
     field ''name'' dec_string ceph_mon_dump_mon_info_name (\<lambda>v r. r\<lparr>ceph_mon_dump_mon_info_name := v\<rparr>),
     field ''public_addrs'' (dec_ptr dec_ceph_mon_dump_addr_vec zero_ceph_mon_dump_addr_vec) ceph_mon_dump_mon_info_public_addrs (\<lambda>v r. r\<lparr>ceph_mon_dump_mon_info_public_addrs := v\<rparr>),
     field ''addr'' dec_string ceph_mon_dump_mon_info_addr (\<lambda>v r. r\<lparr>ceph_mon_dump_mon_info_addr := v\<rparr>),
     field ''public_addr'' dec_string ceph_mon_dump_mon_info_public_addr (\<lambda>v r. r\<lparr>ceph_mon_dump_mon_info_public_addr := v\<rparr>),
     field ''priority'' dec_int32 ceph_mon_dump_mon_info_priority (\<lambda>v r. r\<lparr>ceph_mon_dump_mon_info_priority := v\<rparr>),
     field ''weight'' dec_int32 ceph_mon_dump_mon_info_weight (\<lambda>v r. r\<lparr>ceph_mon_dump_mon_info_weight := v\<rparr>),
     field ''crush_location'' dec_string ceph_mon_dump_mon_info_crush_location (\<lambda>v r. r\<lparr>ceph_mon_dump_mon_info_crush_location := v\<rparr>)]"

definition dec_ceph_mon_dump_mon_info :: "json \<Rightarrow> ceph_mon_dump_mon_info \<Rightarrow> ceph_mon_dump_mon_info res" where
  "dec_ceph_mon_dump_mon_info = dec_struct ceph_mon_dump_mon_info_fields"

record ceph_mon_dump_response =
  mon_dump_epoch :: int
  mon_dump_fsid :: string
  mon_dump_modified :: "timestamp option"
  mon_dump_created :: "timestamp option"
  mon_dump_min_mon_release :: int
  mon_dump_min_mon_release_name :: string
  mon_dump_election_strategy :: int
  mon_dump_disallowed_leaders :: string
  mon_dump_stretch_mode :: bool
  mon_dump_tiebreaker_mon :: string
  mon_dump_removed_ranks :: string
  mon_dump_features :: "ceph_mon_dump_features option"
  mon_dump_mons :: "ceph_mon_dump_mon_info option slice"
  mon_dump_quorum :: "int slice"

definition zero_ceph_mon_dump_response :: ceph_mon_dump_response where
  "zero_ceph_mon_dump_response =
    \<lparr>mon_dump_epoch = 0, mon_dump_fsid = [], mon_dump_modified = None, mon_dump_created = None,
      mon_dump_min_mon_release = 0, mon_dump_min_mon_release_name = [], mon_dump_election_strategy = 0,
      mon_dump_disallowed_leaders = [], mon_dump_stretch_mode = False, mon_dump_tiebreaker_mon = [],
      mon_dump_removed_ranks = [], mon_dump_features = None, mon_dump_mons = None,
      mon_dump_quorum = None\<rparr>"

definition ceph_mon_dump_response_fields :: "ceph_mon_dump_response field list" where
  "ceph_mon_dump_response_fields =
    [field ''epoch'' dec_int32 mon_dump_epoch (\<lambda>v r. r\<lparr>mon_dump_epoch := v\<rparr>),
     field ''fsid'' dec_string mon_dump_fsid (\<lambda>v r. r\<lparr>mon_dump_fsid := v\<rparr>),
     field ''modified'' (dec_ptr dec_time zero_time) mon_dump_modified (\<lambda>v r. r\<lparr>mon_dump_modified := v\<rparr>),
     field ''created'' (dec_ptr dec_time zero_time) mon_dump_created (\<lambda>v r. r\<lparr>mon_dump_created := v\<rparr>),
     field ''min_mon_release'' dec_int32 mon_dump_min_mon_release (\<lambda>v r. r\<lparr>mon_dump_min_mon_release := v\<rparr>),
     field ''min_mon_release_name'' dec_string mon_dump_min_mon_release_name (\<lambda>v r. r\<lparr>mon_dump_min_mon_release_name := v\<rparr>),
     field ''election_strategy'' dec_int32 mon_dump_election_strategy (\<lambda>v r. r\<lparr>mon_dump_election_strategy := v\<rparr>),
     field ''disallowed_leaders'' dec_string mon_dump_disallowed_leaders (\<lambda>v r. r\<lparr>mon_dump_disallowed_leaders := v\<rparr>),
     field ''stretch_mode'' dec_bool mon_dump_stretch_mode (\<lambda>v r. r\<lparr>mon_dump_stretch_mode := v\<rparr>),
     field ''tiebreaker_mon'' dec_string mon_dump_tiebreaker_mon (\<lambda>v r. r\<lparr>mon_dump_tiebreaker_mon := v\<rparr>),
     field ''removed_ranks'' dec_string mon_dump_removed_ranks (\<lambda>v r. r\<lparr>mon_dump_removed_ranks := v\<rparr>),
     field ''features'' (dec_ptr dec_ceph_mon_dump_features zero_ceph_mon_dump_features) mon_dump_features (\<lambda>v r. r\<lparr>mon_dump_features := v\<rparr>),
     field ''mons'' (dec_slice (dec_ptr dec_ceph_mon_dump_mon_info zero_ceph_mon_dump_mon_info) None) mon_dump_mons (\<lambda>v r. r\<lparr>mon_dump_mons := v\<rparr>),
     field ''quorum'' (dec_slice dec_int32 0) mon_dump_quorum (\<lambda>v r. r\<lparr>mon_dump_quorum := v\<rparr>)]"

definition dec_ceph_mon_dump_response :: "json \<Rightarrow> ceph_mon_dump_response \<Rightarrow> ceph_mon_dump_response res" where
  "dec_ceph_mon_dump_response = dec_struct ceph_mon_dump_response_fields"

record pb_ceph_mon_dump_response =
  pb_mon_dump_epoch :: int
  pb_mon_dump_fsid :: string
  pb_mon_dump_modified :: "timestamp option"
  pb_mon_dump_created :: "timestamp option"
  pb_mon_dump_min_mon_release :: int
  pb_mon_dump_min_mon_release_name :: string
  pb_mon_dump_election_strategy :: int
  pb_mon_dump_disallowed_leaders :: string
  pb_mon_dump_stretch_mode :: bool
  pb_mon_dump_tiebreaker_mon :: string
  pb_mon_dump_removed_ranks :: string
  pb_mon_dump_features :: "ceph_mon_dump_features option"
  pb_mon_dump_mons :: "ceph_mon_dump_mon_info option slice"
  pb_mon_dump_quorum :: "int slice"

end
