(* ===== verification/Osd_Types.thy ===== *)
theory Osd_Types
  imports Status_Decode
begin

text \<open>
  The answer of \<open>osd dump\<close>: the structs of \<open>pkg/types/status.go\<close> it is decoded into, with the
  messages of \<open>status.pb.go\<close> inside them, and the messages it is converted to (\<open>pb\<close> in their names).
\<close>

record osd_dump_last_pg_merge_meta =
  osd_dump_last_pg_merge_meta_source_pgid :: string
  osd_dump_last_pg_merge_meta_ready_epoch :: int
  osd_dump_last_pg_merge_meta_last_epoch_started :: int
  osd_dump_last_pg_merge_meta_last_epoch_clean :: int
  osd_dump_last_pg_merge_meta_source_version :: string
  osd_dump_last_pg_merge_meta_target_version :: string

definition zero_osd_dump_last_pg_merge_meta :: osd_dump_last_pg_merge_meta where
  "zero_osd_dump_last_pg_merge_meta =
    \<lparr>osd_dump_last_pg_merge_meta_source_pgid = [], osd_dump_last_pg_merge_meta_ready_epoch = 0,
      osd_dump_last_pg_merge_meta_last_epoch_started = 0, osd_dump_last_pg_merge_meta_last_epoch_clean = 0,
      osd_dump_last_pg_merge_meta_source_version = [],
      osd_dump_last_pg_merge_meta_target_version = []\<rparr>"

definition osd_dump_last_pg_merge_meta_fields :: "osd_dump_last_pg_merge_meta field list" where
  "osd_dump_last_pg_merge_meta_fields =
    [field ''source_pgid'' dec_string osd_dump_last_pg_merge_meta_source_pgid (\<lambda>v r. r\<lparr>osd_dump_last_pg_merge_meta_source_pgid := v\<rparr>),
     field ''ready_epoch'' dec_int32 osd_dump_last_pg_merge_meta_ready_epoch (\<lambda>v r. r\<lparr>osd_dump_last_pg_merge_meta_ready_epoch := v\<rparr>),
     field ''last_epoch_started'' dec_int32 osd_dump_last_pg_merge_meta_last_epoch_started (\<lambda>v r. r\<lparr>osd_dump_last_pg_merge_meta_last_epoch_started := v\<rparr>),
     field ''last_epoch_clean'' dec_int32 osd_dump_last_pg_merge_meta_last_epoch_clean (\<lambda>v r. r\<lparr>osd_dump_last_pg_merge_meta_last_epoch_clean := v\<rparr>),
     field ''source_version'' dec_string osd_dump_last_pg_merge_meta_source_version (\<lambda>v r. r\<lparr>osd_dump_last_pg_merge_meta_source_version := v\<rparr>),
     field ''target_version'' dec_string osd_dump_last_pg_merge_meta_target_version (\<lambda>v r. r\<lparr>osd_dump_last_pg_merge_meta_target_version := v\<rparr>)]"

definition dec_osd_dump_last_pg_merge_meta :: "json \<Rightarrow> osd_dump_last_pg_merge_meta \<Rightarrow> osd_dump_last_pg_merge_meta res" where
  "dec_osd_dump_last_pg_merge_meta = dec_struct osd_dump_last_pg_merge_meta_fields"

record osd_dump_hit_set_params =
  osd_dump_hit_set_params_type :: string

definition zero_osd_dump_hit_set_params :: osd_dump_hit_set_params where
  "zero_osd_dump_hit_set_params =
    \<lparr>osd_dump_hit_set_params_type = []\<rparr>"

definition osd_dump_hit_set_params_fields :: "osd_dump_hit_set_params field list" where
  "osd_dump_hit_set_params_fields =
    [field ''type'' dec_string osd_dump_hit_set_params_type (\<lambda>v r. r\<lparr>osd_dump_hit_set_params_type := v\<rparr>)]"

definition dec_osd_dump_hit_set_params :: "json \<Rightarrow> osd_dump_hit_set_params \<Rightarrow> osd_dump_hit_set_params res" where
  "dec_osd_dump_hit_set_params = dec_struct osd_dump_hit_set_params_fields"

record osd_dump_read_balance =
  osd_dump_read_balance_score_acting :: string
  osd_dump_read_balance_score_stable :: string
  osd_dump_read_balance_optimal_score :: string
  osd_dump_read_balance_raw_score_acting :: string
  osd_dump_read_balance_raw_score_stable :: string
  osd_dump_read_balance_primary_affinity_weighted :: string
  osd_dump_read_balance_average_primary_affinity :: string
  osd_dump_read_balance_average_primary_affinity_weighted :: string

definition zero_osd_dump_read_balance :: osd_dump_read_balance where
  "zero_osd_dump_read_balance =
    \<lparr>osd_dump_read_balance_score_acting = ''0'', osd_dump_read_balance_score_stable = ''0'',
      osd_dump_read_balance_optimal_score = ''0'', osd_dump_read_balance_raw_score_acting = ''0'',
      osd_dump_read_balance_raw_score_stable = ''0'',
      osd_dump_read_balance_primary_affinity_weighted = ''0'',
      osd_dump_read_balance_average_primary_affinity = ''0'',
      osd_dump_read_balance_average_primary_affinity_weighted = ''0''\<rparr>"

definition osd_dump_read_balance_fields :: "osd_dump_read_balance field list" where
  "osd_dump_read_balance_fields =
    [field ''score_acting'' dec_float osd_dump_read_balance_score_acting (\<lambda>v r. r\<lparr>osd_dump_read_balance_score_acting := v\<rparr>),
     field ''score_stable'' dec_float osd_dump_read_balance_score_stable (\<lambda>v r. r\<lparr>osd_dump_read_balance_score_stable := v\<rparr>),
     field ''optimal_score'' dec_float osd_dump_read_balance_optimal_score (\<lambda>v r. r\<lparr>osd_dump_read_balance_optimal_score := v\<rparr>),
     field ''raw_score_acting'' dec_float osd_dump_read_balance_raw_score_acting (\<lambda>v r. r\<lparr>osd_dump_read_balance_raw_score_acting := v\<rparr>),
     field ''raw_score_stable'' dec_float osd_dump_read_balance_raw_score_stable (\<lambda>v r. r\<lparr>osd_dump_read_balance_raw_score_stable := v\<rparr>),
     field ''primary_affinity_weighted'' dec_float osd_dump_read_balance_primary_affinity_weighted (\<lambda>v r. r\<lparr>osd_dump_read_balance_primary_affinity_weighted := v\<rparr>),
     field ''average_primary_affinity'' dec_float osd_dump_read_balance_average_primary_affinity (\<lambda>v r. r\<lparr>osd_dump_read_balance_average_primary_affinity := v\<rparr>),
     field ''average_primary_affinity_weighted'' dec_float osd_dump_read_balance_average_primary_affinity_weighted (\<lambda>v r. r\<lparr>osd_dump_read_balance_average_primary_affinity_weighted := v\<rparr>)]"

definition dec_osd_dump_read_balance :: "json \<Rightarrow> osd_dump_read_balance \<Rightarrow> osd_dump_read_balance res" where
  "dec_osd_dump_read_balance = dec_struct osd_dump_read_balance_fields"

record osd_dump_pool =
  pool_pool :: int
  pool_pool_name :: string
  pool_create_time :: "timestamp option"
  pool_flags :: int
  pool_flags_names :: string
  pool_type :: int
  pool_size :: int
  pool_min_size :: int
  pool_crush_rule :: int
  pool_peering_crush_bucket_count :: int
  pool_peering_crush_bucket_target :: int
  pool_peering_crush_bucket_barrier :: int
  pool_peering_crush_bucket_mandatory_member :: int
  pool_object_hash :: int
  pool_pg_autoscale_mode :: string
  pool_pg_num :: int
  pool_pg_placement_num :: int
  pool_pg_placement_num_target :: int
  pool_pg_num_target :: int
  pool_pg_num_pending :: int
  pool_last_pg_merge_meta :: "osd_dump_last_pg_merge_meta option"
  pool_last_change :: string
  pool_last_force_op_resend :: string
  pool_last_force_op_resend_prenautilus :: string
  pool_last_force_op_resend_preluminous :: string
  pool_auid :: int
  pool_snap_mode :: string
  pool_snap_seq :: int
  pool_snap_epoch :: int
  pool_pool_snaps :: "json option slice"
  pool_removed_snaps :: string
  pool_quota_max_bytes :: int
  pool_quota_max_objects :: int
  pool_tiers :: "int slice"
  pool_tier_of :: int
  pool_read_tier :: int
  pool_write_tier :: int
  pool_cache_mode :: string
  pool_target_max_bytes :: int
  pool_target_max_objects :: int
  pool_cache_target_dirty_ratio_micro :: int
  pool_cache_target_dirty_high_ratio_micro :: int
  pool_cache_target_full_ratio_micro :: int
  pool_cache_min_flush_age :: int
  pool_cache_min_evict_age :: int
  pool_erasure_code_profile :: string
  pool_hit_set_params :: "osd_dump_hit_set_params option"
  pool_hit_set_period :: int
  pool_hit_set_count :: int
  pool_use_gmt_hitset :: bool
  pool_min_read_recency_for_promote :: int
  pool_min_write_recency_for_promote :: int
  pool_hit_set_grade_decay_rate :: int
  pool_hit_set_search_last_n :: int
  pool_grade_table :: "json option slice"
  pool_stripe_width :: int
  pool_expected_num_objects :: int
  pool_fast_read :: bool
  pool_options :: "json option"
  pool_application_metadata :: "json option"
  pool_read_balance :: "osd_dump_read_balance option"

definition zero_osd_dump_pool :: osd_dump_pool where
  "zero_osd_dump_pool =
    \<lparr>pool_pool = 0, pool_pool_name = [], pool_create_time = None, pool_flags = 0,
      pool_flags_names = [], pool_type = 0, pool_size = 0, pool_min_size = 0, pool_crush_rule = 0,
      pool_peering_crush_bucket_count = 0, pool_peering_crush_bucket_target = 0,
      pool_peering_crush_bucket_barrier = 0, pool_peering_crush_bucket_mandatory_member = 0,
      pool_object_hash = 0, pool_pg_autoscale_mode = [], pool_pg_num = 0, pool_pg_placement_num = 0,
      pool_pg_placement_num_target = 0, pool_pg_num_target = 0, pool_pg_num_pending = 0,
      pool_last_pg_merge_meta = None, pool_last_change = [], pool_last_force_op_resend = [],
      pool_last_force_op_resend_prenautilus = [], pool_last_force_op_resend_preluminous = [],
      pool_auid = 0, pool_snap_mode = [], pool_snap_seq = 0, pool_snap_epoch = 0, pool_pool_snaps = None,
      pool_removed_snaps = [], pool_quota_max_bytes = 0, pool_quota_max_objects = 0, pool_tiers = None,
      pool_tier_of = 0, pool_read_tier = 0, pool_write_tier = 0, pool_cache_mode = [],
      pool_target_max_bytes = 0, pool_target_max_objects = 0, pool_cache_target_dirty_ratio_micro = 0,
      pool_cache_target_dirty_high_ratio_micro = 0, pool_cache_target_full_ratio_micro = 0,
      pool_cache_min_flush_age = 0, pool_cache_min_evict_age = 0, pool_erasure_code_profile = [],
      pool_hit_set_params = None, pool_hit_set_period = 0, pool_hit_set_count = 0,
      pool_use_gmt_hitset = False, pool_min_read_recency_for_promote = 0,
      pool_min_write_recency_for_promote = 0, pool_hit_set_grade_decay_rate = 0,
      pool_hit_set_search_last_n = 0, pool_grade_table = None, pool_stripe_width = 0,
      pool_expected_num_objects = 0, pool_fast_read = False, pool_options = None,
      pool_application_metadata = None, pool_read_balance = None\<rparr>"

definition osd_dump_pool_fields :: "osd_dump_pool field list" where
  "osd_dump_pool_fields =
    [field ''pool'' dec_int32 pool_pool (\<lambda>v r. r\<lparr>pool_pool := v\<rparr>),
     field ''pool_name'' dec_string pool_pool_name (\<lambda>v r. r\<lparr>pool_pool_name := v\<rparr>),
     field ''create_time'' dec_ceph_timestamp pool_create_time (\<lambda>v r. r\<lparr>pool_create_time := v\<rparr>),
     field ''flags'' dec_int pool_flags (\<lambda>v r. r\<lparr>pool_flags := v\<rparr>),
     field ''flags_names'' dec_string pool_flags_names (\<lambda>v r. r\<lparr>pool_flags_names := v\<rparr>),
     field ''type'' dec_int32 pool_type (\<lambda>v r. r\<lparr>pool_type := v\<rparr>),
     field ''size'' dec_int32 pool_size (\<lambda>v r. r\<lparr>pool_size := v\<rparr>),
     field ''min_size'' dec_int32 pool_min_size (\<lambda>v r. r\<lparr>pool_min_size := v\<rparr>),
     field ''crush_rule'' dec_int32 pool_crush_rule (\<lambda>v r. r\<lparr>pool_crush_rule := v\<rparr>),
     field ''peering_crush_bucket_count'' dec_int32 pool_peering_crush_bucket_count (\<lambda>v r. r\<lparr>pool_peering_crush_bucket_count := v\<rparr>),
     field ''peering_crush_bucket_target'' dec_int32 pool_peering_crush_bucket_target (\<lambda>v r. r\<lparr>pool_peering_crush_bucket_target := v\<rparr>),
     field ''peering_crush_bucket_barrier'' dec_int32 pool_peering_crush_bucket_barrier (\<lambda>v r. r\<lparr>pool_peering_crush_bucket_barrier := v\<rparr>),
     field ''peering_crush_bucket_mandatory_member'' dec_int32 pool_peering_crush_bucket_mandatory_member (\<lambda>v r. r\<lparr>pool_peering_crush_bucket_mandatory_member := v\<rparr>),
     field ''object_hash'' dec_int32 pool_object_hash (\<lambda>v r. r\<lparr>pool_object_hash := v\<rparr>),
     field ''pg_autoscale_mode'' dec_string pool_pg_autoscale_mode (\<lambda>v r. r\<lparr>pool_pg_autoscale_mode := v\<rparr>),
     field ''pg_num'' dec_int32 pool_pg_num (\<lambda>v r. r\<lparr>pool_pg_num := v\<rparr>),
     field ''pg_placement_num'' dec_int32 pool_pg_placement_num (\<lambda>v r. r\<lparr>pool_pg_placement_num := v\<rparr>),
     field ''pg_placement_num_target'' dec_int32 pool_pg_placement_num_target (\<lambda>v r. r\<lparr>pool_pg_placement_num_target := v\<rparr>),
     field ''pg_num_target'' dec_int32 pool_pg_num_target (\<lambda>v r. r\<lparr>pool_pg_num_target := v\<rparr>),
     field ''pg_num_pending'' dec_int32 pool_pg_num_pending (\<lambda>v r. r\<lparr>pool_pg_num_pending := v\<rparr>),
     field ''last_pg_merge_meta'' (dec_ptr dec_osd_dump_last_pg_merge_meta zero_osd_dump_last_pg_merge_meta) pool_last_pg_merge_meta (\<lambda>v r. r\<lparr>pool_last_pg_merge_meta := v\<rparr>),
     field ''last_change'' dec_string pool_last_change (\<lambda>v r. r\<lparr>pool_last_change := v\<rparr>),
     field ''last_force_op_resend'' dec_string pool_last_force_op_resend (\<lambda>v r. r\<lparr>pool_last_force_op_resend := v\<rparr>),
     field ''last_force_op_resend_prenautilus'' dec_string pool_last_force_op_resend_prenautilus (\<lambda>v r. r\<lparr>pool_last_force_op_resend_prenautilus := v\<rparr>),
     field ''last_force_op_resend_preluminous'' dec_string pool_last_force_op_resend_preluminous (\<lambda>v r. r\<lparr>pool_last_force_op_resend_preluminous := v\<rparr>),
     field ''auid'' dec_uint64 pool_auid (\<lambda>v r. r\<lparr>pool_auid := v\<rparr>),
     field ''snap_mode'' dec_string pool_snap_mode (\<lambda>v r. r\<lparr>pool_snap_mode := v\<rparr>),
     field ''snap_seq'' dec_uint64 pool_snap_seq (\<lambda>v r. r\<lparr>pool_snap_seq := v\<rparr>),
     field ''snap_epoch'' dec_uint64 pool_snap_epoch (\<lambda>v r. r\<lparr>pool_snap_epoch := v\<rparr>),
     field ''pool_snaps'' (dec_slice (dec_ptr dec_pb_value JNull) None) pool_pool_snaps (\<lambda>v r. r\<lparr>pool_pool_snaps := v\<rparr>),
     field ''removed_snaps'' dec_string pool_removed_snaps (\<lambda>v r. r\<lparr>pool_removed_snaps := v\<rparr>),
     field ''quota_max_bytes'' dec_uint64 pool_quota_max_bytes (\<lambda>v r. r\<lparr>pool_quota_max_bytes := v\<rparr>),
     field ''quota_max_objects'' dec_uint64 pool_quota_max_objects (\<lambda>v r. r\<lparr>pool_quota_max_objects := v\<rparr>),
     field ''tiers'' (dec_slice dec_int32 0) pool_tiers (\<lambda>v r. r\<lparr>pool_tiers := v\<rparr>),
     field ''tier_of'' dec_int32 pool_tier_of (\<lambda>v r. r\<lparr>pool_tier_of := v\<rparr>),
     field ''read_tier'' dec_int32 pool_read_tier (\<lambda>v r. r\<lparr>pool_read_tier := v\<rparr>),
     field ''write_tier'' dec_int32 pool_write_tier (\<lambda>v r. r\<lparr>pool_write_tier := v\<rparr>),
     field ''cache_mode'' dec_string pool_cache_mode (\<lambda>v r. r\<lparr>pool_cache_mode := v\<rparr>),
     field ''target_max_bytes'' dec_uint64 pool_target_max_bytes (\<lambda>v r. r\<lparr>pool_target_max_bytes := v\<rparr>),
     field ''target_max_objects'' dec_uint64 pool_target_max_objects (\<lambda>v r. r\<lparr>pool_target_max_objects := v\<rparr>),
     field ''cache_target_dirty_ratio_micro'' dec_uint64 pool_cache_target_dirty_ratio_micro (\<lambda>v r. r\<lparr>pool_cache_target_dirty_ratio_micro := v\<rparr>),
     field ''cache_target_dirty_high_ratio_micro'' dec_uint64 pool_cache_target_dirty_high_ratio_micro (\<lambda>v r. r\<lparr>pool_cache_target_dirty_high_ratio_micro := v\<rparr>),
     field ''cache_target_full_ratio_micro'' dec_uint64 pool_cache_target_full_ratio_micro (\<lambda>v r. r\<lparr>pool_cache_target_full_ratio_micro := v\<rparr>),
     field ''cache_min_flush_age'' dec_uint64 pool_cache_min_flush_age (\<lambda>v r. r\<lparr>pool_cache_min_flush_age := v\<rparr>),
     field ''cache_min_evict_age'' dec_uint64 pool_cache_min_evict_age (\<lambda>v r. r\<lparr>pool_cache_min_evict_age := v\<rparr>),
     field ''erasure_code_profile'' dec_string pool_erasure_code_profile (\<lambda>v r. r\<lparr>pool_erasure_code_profile := v\<rparr>),
     field ''hit_set_params'' (dec_ptr dec_osd_dump_hit_set_params zero_osd_dump_hit_set_params) pool_hit_set_params (\<lambda>v r. r\<lparr>pool_hit_set_params := v\<rparr>),
     field ''hit_set_period'' dec_uint64 pool_hit_set_period (\<lambda>v r. r\<lparr>pool_hit_set_period := v\<rparr>),
     field ''hit_set_count'' dec_uint64 pool_hit_set_count (\<lambda>v r. r\<lparr>pool_hit_set_count := v\<rparr>),
     field ''use_gmt_hitset'' dec_bool pool_use_gmt_hitset (\<lambda>v r. r\<lparr>pool_use_gmt_hitset := v\<rparr>),
     field ''min_read_recency_for_promote'' dec_uint64 pool_min_read_recency_for_promote (\<lambda>v r. r\<lparr>pool_min_read_recency_for_promote := v\<rparr>),
     field ''min_write_recency_for_promote'' dec_uint64 pool_min_write_recency_for_promote (\<lambda>v r. r\<lparr>pool_min_write_recency_for_promote := v\<rparr>),
     field ''hit_set_grade_decay_rate'' dec_uint64 pool_hit_set_grade_decay_rate (\<lambda>v r. r\<lparr>pool_hit_set_grade_decay_rate := v\<rparr>),
     field ''hit_set_search_last_n'' dec_uint64 pool_hit_set_search_last_n (\<lambda>v r. r\<lparr>pool_hit_set_search_last_n := v\<rparr>),
     field ''grade_table'' (dec_slice (dec_ptr dec_pb_value JNull) None) pool_grade_table (\<lambda>v r. r\<lparr>pool_grade_table := v\<rparr>),
     field ''stripe_width'' dec_uint64 pool_stripe_width (\<lambda>v r. r\<lparr>pool_stripe_width := v\<rparr>),
     field ''expected_num_objects'' dec_uint64 pool_expected_num_objects (\<lambda>v r. r\<lparr>pool_expected_num_objects := v\<rparr>),
     field ''fast_read'' dec_bool pool_fast_read (\<lambda>v r. r\<lparr>pool_fast_read := v\<rparr>),
     field ''options'' (dec_ptr dec_pb_struct JNull) pool_options (\<lambda>v r. r\<lparr>pool_options := v\<rparr>),
     field ''application_metadata'' (dec_ptr dec_pb_struct JNull) pool_application_metadata (\<lambda>v r. r\<lparr>pool_application_metadata := v\<rparr>),
     field ''read_balance'' (dec_ptr dec_osd_dump_read_balance zero_osd_dump_read_balance) pool_read_balance (\<lambda>v r. r\<lparr>pool_read_balance := v\<rparr>)]"

definition dec_osd_dump_pool :: "json \<Rightarrow> osd_dump_pool \<Rightarrow> osd_dump_pool res" where
  "dec_osd_dump_pool = dec_struct osd_dump_pool_fields"

record osd_dump_addr_vec =
  osd_dump_addr_vec_type :: string
  osd_dump_addr_vec_addr :: string
  osd_dump_addr_vec_nonce :: int

definition zero_osd_dump_addr_vec :: osd_dump_addr_vec where
  "zero_osd_dump_addr_vec =
    \<lparr>osd_dump_addr_vec_type = [], osd_dump_addr_vec_addr = [], osd_dump_addr_vec_nonce = 0\<rparr>"

definition osd_dump_addr_vec_fields :: "osd_dump_addr_vec field list" where
  "osd_dump_addr_vec_fields =
    [field ''type'' dec_string osd_dump_addr_vec_type (\<lambda>v r. r\<lparr>osd_dump_addr_vec_type := v\<rparr>),
     field ''addr'' dec_string osd_dump_addr_vec_addr (\<lambda>v r. r\<lparr>osd_dump_addr_vec_addr := v\<rparr>),
     field ''nonce'' dec_uint64 osd_dump_addr_vec_nonce (\<lambda>v r. r\<lparr>osd_dump_addr_vec_nonce := v\<rparr>)]"

definition dec_osd_dump_addr_vec :: "json \<Rightarrow> osd_dump_addr_vec \<Rightarrow> osd_dump_addr_vec res" where
  "dec_osd_dump_addr_vec = dec_struct osd_dump_addr_vec_fields"

record osd_dump_public_addrs =
  osd_dump_public_addrs_addrvec :: "osd_dump_addr_vec option slice"

definition zero_osd_dump_public_addrs :: osd_dump_public_addrs where
  "zero_osd_dump_public_addrs =
    \<lparr>osd_dump_public_addrs_addrvec = None\<rparr>"

definition osd_dump_public_addrs_fields :: "osd_dump_public_addrs field list" where
  "osd_dump_public_addrs_fields =
    [field ''addrvec'' (dec_slice (dec_ptr dec_osd_dump_addr_vec zero_osd_dump_addr_vec) None) osd_dump_public_addrs_addrvec (\<lambda>v r. r\<lparr>osd_dump_public_addrs_addrvec := v\<rparr>)]"

definition dec_osd_dump_public_addrs :: "json \<Rightarrow> osd_dump_public_addrs \<Rightarrow> osd_dump_public_addrs res" where
  "dec_osd_dump_public_addrs = dec_struct osd_dump_public_addrs_fields"

record osd_dump_cluster_addrs =
  osd_dump_cluster_addrs_addrvec :: "osd_dump_addr_vec option slice"

definition zero_osd_dump_cluster_addrs :: osd_dump_cluster_addrs where
  "zero_osd_dump_cluster_addrs =
    \<lparr>osd_dump_cluster_addrs_addrvec = None\<rparr>"

definition osd_dump_cluster_addrs_fields :: "osd_dump_cluster_addrs field list" where
  "osd_dump_cluster_addrs_fields =
    [field ''addrvec'' (dec_slice (dec_ptr dec_osd_dump_addr_vec zero_osd_dump_addr_vec) None) osd_dump_cluster_addrs_addrvec (\<lambda>v r. r\<lparr>osd_dump_cluster_addrs_addrvec := v\<rparr>)]"

definition dec_osd_dump_cluster_addrs :: "json \<Rightarrow> osd_dump_cluster_addrs \<Rightarrow> osd_dump_cluster_addrs res" where
  "dec_osd_dump_cluster_addrs = dec_struct osd_dump_cluster_addrs_fields"

record osd_dump_heartbeat_addrs =
  osd_dump_heartbeat_addrs_addrvec :: "osd_dump_addr_vec option slice"

definition zero_osd_dump_heartbeat_addrs :: osd_dump_heartbeat_addrs where
  "zero_osd_dump_heartbeat_addrs =
    \<lparr>osd_dump_heartbeat_addrs_addrvec = None\<rparr>"

definition osd_dump_heartbeat_addrs_fields :: "osd_dump_heartbeat_addrs field list" where
  "osd_dump_heartbeat_addrs_fields =
    [field ''addrvec'' (dec_slice (dec_ptr dec_osd_dump_addr_vec zero_osd_dump_addr_vec) None) osd_dump_heartbeat_addrs_addrvec (\<lambda>v r. r\<lparr>osd_dump_heartbeat_addrs_addrvec := v\<rparr>)]"

definition dec_osd_dump_heartbeat_addrs :: "json \<Rightarrow> osd_dump_heartbeat_addrs \<Rightarrow> osd_dump_heartbeat_addrs res" where
  "dec_osd_dump_heartbeat_addrs = dec_struct osd_dump_heartbeat_addrs_fields"

record osd_dump_osd_info =
  osd_dump_osd_info_osd :: int
  osd_dump_osd_info_uuid :: string
  osd_dump_osd_info_up :: int
  osd_dump_osd_info_in :: int
  osd_dump_osd_info_weight :: string
  osd_dump_osd_info_primary_affinity :: string
  osd_dump_osd_info_last_clean_begin :: int
  osd_dump_osd_info_last_clean_end :: int
  osd_dump_osd_info_up_from :: int
  osd_dump_osd_info_up_thru :: int
  osd_dump_osd_info_down_at :: int
  osd_dump_osd_info_lost_at :: int
  osd_dump_osd_info_public_addrs :: "osd_dump_public_addrs option"
  osd_dump_osd_info_cluster_addrs :: "osd_dump_cluster_addrs option"
  osd_dump_osd_info_heartbeat_back_addrs :: "osd_dump_heartbeat_addrs option"
  osd_dump_osd_info_heartbeat_front_addrs :: "osd_dump_heartbeat_addrs option"
  osd_dump_osd_info_public_addr :: string
  osd_dump_osd_info_cluster_addr :: string
  osd_dump_osd_info_heartbeat_back_addr :: string
  osd_dump_osd_info_heartbeat_front_addr :: string
  osd_dump_osd_info_state :: "string slice"

definition zero_osd_dump_osd_info :: osd_dump_osd_info where
  "zero_osd_dump_osd_info =
    \<lparr>osd_dump_osd_info_osd = 0, osd_dump_osd_info_uuid = [], osd_dump_osd_info_up = 0,
      osd_dump_osd_info_in = 0, osd_dump_osd_info_weight = ''0'',
      osd_dump_osd_info_primary_affinity = ''0'', osd_dump_osd_info_last_clean_begin = 0,
      osd_dump_osd_info_last_clean_end = 0, osd_dump_osd_info_up_from = 0, osd_dump_osd_info_up_thru = 0,
      osd_dump_osd_info_down_at = 0, osd_dump_osd_info_lost_at = 0, osd_dump_osd_info_public_addrs = None,
      osd_dump_osd_info_cluster_addrs = None, osd_dump_osd_info_heartbeat_back_addrs = None,
      osd_dump_osd_info_heartbeat_front_addrs = None, osd_dump_osd_info_public_addr = [],
      osd_dump_osd_info_cluster_addr = [], osd_dump_osd_info_heartbeat_back_addr = [],
      osd_dump_osd_info_heartbeat_front_addr = [], osd_dump_osd_info_state = None\<rparr>"

definition osd_dump_osd_info_fields :: "osd_dump_osd_info field list" where
  "osd_dump_osd_info_fields =
    [field ''osd'' dec_int32 osd_dump_osd_info_osd (\<lambda>v r. r\<lparr>osd_dump_osd_info_osd := v\<rparr>),
     field ''uuid'' dec_string osd_dump_osd_info_uuid (\<lambda>v r. r\<lparr>osd_dump_osd_info_uuid := v\<rparr>),
     field ''up'' dec_int32 osd_dump_osd_info_up (\<lambda>v r. r\<lparr>osd_dump_osd_info_up := v\<rparr>),
     field ''in'' dec_int32 osd_dump_osd_info_in (\<lambda>v r. r\<lparr>osd_dump_osd_info_in := v\<rparr>),
     field ''weight'' dec_float osd_dump_osd_info_weight (\<lambda>v r. r\<lparr>osd_dump_osd_info_weight := v\<rparr>),
     field ''primary_affinity'' dec_float osd_dump_osd_info_primary_affinity (\<lambda>v r. r\<lparr>osd_dump_osd_info_primary_affinity := v\<rparr>),
     field ''last_clean_begin'' dec_int32 osd_dump_osd_info_last_clean_begin (\<lambda>v r. r\<lparr>osd_dump_osd_info_last_clean_begin := v\<rparr>),
     field ''last_clean_end'' dec_int32 osd_dump_osd_info_last_clean_end (\<lambda>v r. r\<lparr>osd_dump_osd_info_last_clean_end := v\<rparr>),
     field ''up_from'' dec_int32 osd_dump_osd_info_up_from (\<lambda>v r. r\<lparr>osd_dump_osd_info_up_from := v\<rparr>),
     field ''up_thru'' dec_int32 osd_dump_osd_info_up_thru (\<lambda>v r. r\<lparr>osd_dump_osd_info_up_thru := v\<rparr>),
     field ''down_at'' dec_int32 osd_dump_osd_info_down_at (\<lambda>v r. r\<lparr>osd_dump_osd_info_down_at := v\<rparr>),
     field ''lost_at'' dec_int32 osd_dump_osd_info_lost_at (\<lambda>v r. r\<lparr>osd_dump_osd_info_lost_at := v\<rparr>),
     field ''public_addrs'' (dec_ptr dec_osd_dump_public_addrs zero_osd_dump_public_addrs) osd_dump_osd_info_public_addrs (\<lambda>v r. r\<lparr>osd_dump_osd_info_public_addrs := v\<rparr>),
     field ''cluster_addrs'' (dec_ptr dec_osd_dump_cluster_addrs zero_osd_dump_cluster_addrs) osd_dump_osd_info_cluster_addrs (\<lambda>v r. r\<lparr>osd_dump_osd_info_cluster_addrs := v\<rparr>),
     field ''heartbeat_back_addrs'' (dec_ptr dec_osd_dump_heartbeat_addrs zero_osd_dump_heartbeat_addrs) osd_dump_osd_info_heartbeat_back_addrs (\<lambda>v r. r\<lparr>osd_dump_osd_info_heartbeat_back_addrs := v\<rparr>),
     field ''heartbeat_front_addrs'' (dec_ptr dec_osd_dump_heartbeat_addrs zero_osd_dump_heartbeat_addrs) osd_dump_osd_info_heartbeat_front_addrs (\<lambda>v r. r\<lparr>osd_dump_osd_info_heartbeat_front_addrs := v\<rparr>),
     field ''public_addr'' dec_string osd_dump_osd_info_public_addr (\<lambda>v r. r\<lparr>osd_dump_osd_info_public_addr := v\<rparr>),
     field ''cluster_addr'' dec_string osd_dump_osd_info_cluster_addr (\<lambda>v r. r\<lparr>osd_dump_osd_info_cluster_addr := v\<rparr>),
     field ''heartbeat_back_addr'' dec_string osd_dump_osd_info_heartbeat_back_addr (\<lambda>v r. r\<lparr>osd_dump_osd_info_heartbeat_back_addr := v\<rparr>),
     field ''heartbeat_front_addr'' dec_string osd_dump_osd_info_heartbeat_front_addr (\<lambda>v r. r\<lparr>osd_dump_osd_info_heartbeat_front_addr := v\<rparr>),
     field ''state'' (dec_slice dec_string []) osd_dump_osd_info_state (\<lambda>v r. r\<lparr>osd_dump_osd_info_state := v\<rparr>)]"

definition dec_osd_dump_osd_info :: "json \<Rightarrow> osd_dump_osd_info \<Rightarrow> osd_dump_osd_info res" where
  "dec_osd_dump_osd_info = dec_struct osd_dump_osd_info_fields"

record osd_dump_osd_x_info =
  xinfo_osd :: int
  xinfo_down_stamp :: "timestamp option"
  xinfo_laggy_probability :: string
  xinfo_laggy_interval :: string
  xinfo_features :: int
  xinfo_old_weight :: string
  xinfo_last_purged_snaps_scrub :: "timestamp option"
  xinfo_dead_epoch :: int

definition zero_osd_dump_osd_x_info :: osd_dump_osd_x_info where
  "zero_osd_dump_osd_x_info =
    \<lparr>xinfo_osd = 0, xinfo_down_stamp = None, xinfo_laggy_probability = ''0'',
      xinfo_laggy_interval = ''0'', xinfo_features = 0, xinfo_old_weight = ''0'',
      xinfo_last_purged_snaps_scrub = None, xinfo_dead_epoch = 0\<rparr>"

definition osd_dump_osd_x_info_fields :: "osd_dump_osd_x_info field list" where
  "osd_dump_osd_x_info_fields =
    [field ''osd'' dec_int32 xinfo_osd (\<lambda>v r. r\<lparr>xinfo_osd := v\<rparr>),
     field ''down_stamp'' dec_ceph_timestamp xinfo_down_stamp (\<lambda>v r. r\<lparr>xinfo_down_stamp := v\<rparr>),
     field ''laggy_probability'' dec_float xinfo_laggy_probability (\<lambda>v r. r\<lparr>xinfo_laggy_probability := v\<rparr>),
     field ''laggy_interval'' dec_float xinfo_laggy_interval (\<lambda>v r. r\<lparr>xinfo_laggy_interval := v\<rparr>),
     field ''features'' dec_uint64 xinfo_features (\<lambda>v r. r\<lparr>xinfo_features := v\<rparr>),
     field ''old_weight'' dec_float xinfo_old_weight (\<lambda>v r. r\<lparr>xinfo_old_weight := v\<rparr>),
     field ''last_purged_snaps_scrub'' dec_ceph_timestamp xinfo_last_purged_snaps_scrub (\<lambda>v r. r\<lparr>xinfo_last_purged_snaps_scrub := v\<rparr>),
     field ''dead_epoch'' dec_int32 xinfo_dead_epoch (\<lambda>v r. r\<lparr>xinfo_dead_epoch := v\<rparr>)]"

definition dec_osd_dump_osd_x_info :: "json \<Rightarrow> osd_dump_osd_x_info \<Rightarrow> osd_dump_osd_x_info res" where
  "dec_osd_dump_osd_x_info = dec_struct osd_dump_osd_x_info_fields"

record osd_dump_erasure_code_profile =
  osd_dump_erasure_code_profile_k :: string
  osd_dump_erasure_code_profile_m :: string
  osd_dump_erasure_code_profile_plugin :: string
  osd_dump_erasure_code_profile_technique :: string

definition zero_osd_dump_erasure_code_profile :: osd_dump_erasure_code_profile where
  "zero_osd_dump_erasure_code_profile =
    \<lparr>osd_dump_erasure_code_profile_k = [], osd_dump_erasure_code_profile_m = [],
      osd_dump_erasure_code_profile_plugin = [], osd_dump_erasure_code_profile_technique = []\<rparr>"

definition osd_dump_erasure_code_profile_fields :: "osd_dump_erasure_code_profile field list" where
  "osd_dump_erasure_code_profile_fields =
    [field ''k'' dec_string osd_dump_erasure_code_profile_k (\<lambda>v r. r\<lparr>osd_dump_erasure_code_profile_k := v\<rparr>),
     field ''m'' dec_string osd_dump_erasure_code_profile_m (\<lambda>v r. r\<lparr>osd_dump_erasure_code_profile_m := v\<rparr>),
     field ''plugin'' dec_string osd_dump_erasure_code_profile_plugin (\<lambda>v r. r\<lparr>osd_dump_erasure_code_profile_plugin := v\<rparr>),
     field ''technique'' dec_string osd_dump_erasure_code_profile_technique (\<lambda>v r. r\<lparr>osd_dump_erasure_code_profile_technique := v\<rparr>)]"

definition dec_osd_dump_erasure_code_profile :: "json \<Rightarrow> osd_dump_erasure_code_profile \<Rightarrow> osd_dump_erasure_code_profile res" where
  "dec_osd_dump_erasure_code_profile = dec_struct osd_dump_erasure_code_profile_fields"

record osd_dump_stretch_mode =
  osd_dump_stretch_mode_stretch_mode_enabled :: bool
  osd_dump_stretch_mode_stretch_bucket_count :: int
  osd_dump_stretch_mode_degraded_stretch_mode :: int
  osd_dump_stretch_mode_recovering_stretch_mode :: int
  osd_dump_stretch_mode_stretch_mode_bucket :: int

definition zero_osd_dump_stretch_mode :: osd_dump_stretch_mode where
  "zero_osd_dump_stretch_mode =
    \<lparr>osd_dump_stretch_mode_stretch_mode_enabled = False,
      osd_dump_stretch_mode_stretch_bucket_count = 0, osd_dump_stretch_mode_degraded_stretch_mode = 0,
      osd_dump_stretch_mode_recovering_stretch_mode = 0,
      osd_dump_stretch_mode_stretch_mode_bucket = 0\<rparr>"

definition osd_dump_stretch_mode_fields :: "osd_dump_stretch_mode field list" where
  "osd_dump_stretch_mode_fields =
    [field ''stretch_mode_enabled'' dec_bool osd_dump_stretch_mode_stretch_mode_enabled (\<lambda>v r. r\<lparr>osd_dump_stretch_mode_stretch_mode_enabled := v\<rparr>),
     field ''stretch_bucket_count'' dec_int32 osd_dump_stretch_mode_stretch_bucket_count (\<lambda>v r. r\<lparr>osd_dump_stretch_mode_stretch_bucket_count := v\<rparr>),
     field ''degraded_stretch_mode'' dec_int32 osd_dump_stretch_mode_degraded_stretch_mode (\<lambda>v r. r\<lparr>osd_dump_stretch_mode_degraded_stretch_mode := v\<rparr>),
     field ''recovering_stretch_mode'' dec_int32 osd_dump_stretch_mode_recovering_stretch_mode (\<lambda>v r. r\<lparr>osd_dump_stretch_mode_recovering_stretch_mode := v\<rparr>),
     field ''stretch_mode_bucket'' dec_int32 osd_dump_stretch_mode_stretch_mode_bucket (\<lambda>v r. r\<lparr>osd_dump_stretch_mode_stretch_mode_bucket := v\<rparr>)]"

definition dec_osd_dump_stretch_mode :: "json \<Rightarrow> osd_dump_stretch_mode \<Rightarrow> osd_dump_stretch_mode res" where
  "dec_osd_dump_stretch_mode = dec_struct osd_dump_stretch_mode_fields"

record ceph_osd_dump_response =
  osd_dump_epoch :: int
  osd_dump_fsid :: string
  osd_dump_created :: "timestamp option"
  osd_dump_modified :: "timestamp option"
  osd_dump_last_up_change :: "timestamp option"
  osd_dump_last_in_change :: "timestamp option"
  osd_dump_flags :: string
  osd_dump_flags_num :: int
  osd_dump_flags_set :: "string slice"
  osd_dump_crush_version :: int
  osd_dump_full_ratio :: string
  osd_dump_backfillfull_ratio :: string
  osd_dump_nearfull_ratio :: string
  osd_dump_cluster_snapshot :: string
  osd_dump_pool_max :: int
  osd_dump_max_osd :: int
  osd_dump_require_min_compat_client :: string
  osd_dump_min_compat_client :: string
  osd_dump_require_osd_release :: string
  osd_dump_allow_crimson :: bool
  osd_dump_pools :: "osd_dump_pool slice"
  osd_dump_osds :: "osd_dump_osd_info option slice"
  osd_dump_osd_xinfo :: "osd_dump_osd_x_info option slice"
  osd_dump_pg_upmap :: "json option slice"
  osd_dump_pg_upmap_items :: "json option slice"
  osd_dump_pg_upmap_primaries :: "json option slice"
  osd_dump_pg_temp :: "json option slice"
  osd_dump_primary_temp :: "json option slice"
  osd_dump_blocklist :: "timestamp option nmap"
  osd_dump_range_blocklist :: "json option"
  osd_dump_erasure_code_profiles :: "osd_dump_erasure_code_profile option nmap"
  osd_dump_removed_snaps_queue :: "json option slice"
  osd_dump_new_removed_snaps :: "json option slice"
  osd_dump_new_purged_snaps :: "json option slice"
  osd_dump_crush_node_flags :: "json option"
  osd_dump_device_class_flags :: "json option"
  osd_dump_stretch_mode :: "osd_dump_stretch_mode option"

definition zero_ceph_osd_dump_response :: ceph_osd_dump_response where
  "zero_ceph_osd_dump_response =
    \<lparr>osd_dump_epoch = 0, osd_dump_fsid = [], osd_dump_created = None, osd_dump_modified = None,
      osd_dump_last_up_change = None, osd_dump_last_in_change = None, osd_dump_flags = [],
      osd_dump_flags_num = 0, osd_dump_flags_set = None, osd_dump_crush_version = 0,
      osd_dump_full_ratio = ''0'', osd_dump_backfillfull_ratio = ''0'', osd_dump_nearfull_ratio = ''0'',
      osd_dump_cluster_snapshot = [], osd_dump_pool_max = 0, osd_dump_max_osd = 0,
      osd_dump_require_min_compat_client = [], osd_dump_min_compat_client = [],
      osd_dump_require_osd_release = [], osd_dump_allow_crimson = False, osd_dump_pools = None,
      osd_dump_osds = None, osd_dump_osd_xinfo = None, osd_dump_pg_upmap = None,
      osd_dump_pg_upmap_items = None, osd_dump_pg_upmap_primaries = None, osd_dump_pg_temp = None,
      osd_dump_primary_temp = None, osd_dump_blocklist = None, osd_dump_range_blocklist = None,
      osd_dump_erasure_code_profiles = None, osd_dump_removed_snaps_queue = None,
      osd_dump_new_removed_snaps = None, osd_dump_new_purged_snaps = None,
      osd_dump_crush_node_flags = None, osd_dump_device_class_flags = None,
      osd_dump_stretch_mode = None\<rparr>"

definition ceph_osd_dump_response_fields :: "ceph_osd_dump_response field list" where
  "ceph_osd_dump_response_fields =
    [field ''epoch'' dec_int32 osd_dump_epoch (\<lambda>v r. r\<lparr>osd_dump_epoch := v\<rparr>),
     field ''fsid'' dec_string osd_dump_fsid (\<lambda>v r. r\<lparr>osd_dump_fsid := v\<rparr>),
     field ''created'' dec_ceph_timestamp osd_dump_created (\<lambda>v r. r\<lparr>osd_dump_created := v\<rparr>),
     field ''modified'' dec_ceph_timestamp osd_dump_modified (\<lambda>v r. r\<lparr>osd_dump_modified := v\<rparr>),
     field ''last_up_change'' dec_ceph_timestamp osd_dump_last_up_change (\<lambda>v r. r\<lparr>osd_dump_last_up_change := v\<rparr>),
     field ''last_in_change'' dec_ceph_timestamp osd_dump_last_in_change (\<lambda>v r. r\<lparr>osd_dump_last_in_change := v\<rparr>),
     field ''flags'' dec_string osd_dump_flags (\<lambda>v r. r\<lparr>osd_dump_flags := v\<rparr>),
     field ''flags_num'' dec_int32 osd_dump_flags_num (\<lambda>v r. r\<lparr>osd_dump_flags_num := v\<rparr>),
     field ''flags_set'' (dec_slice dec_string []) osd_dump_flags_set (\<lambda>v r. r\<lparr>osd_dump_flags_set := v\<rparr>),
     field ''crush_version'' dec_int32 osd_dump_crush_version (\<lambda>v r. r\<lparr>osd_dump_crush_version := v\<rparr>),
     field ''full_ratio'' dec_float osd_dump_full_ratio (\<lambda>v r. r\<lparr>osd_dump_full_ratio := v\<rparr>),
     field ''backfillfull_ratio'' dec_float osd_dump_backfillfull_ratio (\<lambda>v r. r\<lparr>osd_dump_backfillfull_ratio := v\<rparr>),
     field ''nearfull_ratio'' dec_float osd_dump_nearfull_ratio (\<lambda>v r. r\<lparr>osd_dump_nearfull_ratio := v\<rparr>),
     field ''cluster_snapshot'' dec_string osd_dump_cluster_snapshot (\<lambda>v r. r\<lparr>osd_dump_cluster_snapshot := v\<rparr>),
     field ''pool_max'' dec_int32 osd_dump_pool_max (\<lambda>v r. r\<lparr>osd_dump_pool_max := v\<rparr>),
     field ''max_osd'' dec_int32 osd_dump_max_osd (\<lambda>v r. r\<lparr>osd_dump_max_osd := v\<rparr>),
     field ''require_min_compat_client'' dec_string osd_dump_require_min_compat_client (\<lambda>v r. r\<lparr>osd_dump_require_min_compat_client := v\<rparr>),
     field ''min_compat_client'' dec_string osd_dump_min_compat_client (\<lambda>v r. r\<lparr>osd_dump_min_compat_client := v\<rparr>),
     field ''require_osd_release'' dec_string osd_dump_require_osd_release (\<lambda>v r. r\<lparr>osd_dump_require_osd_release := v\<rparr>),
     field ''allow_crimson'' dec_bool osd_dump_allow_crimson (\<lambda>v r. r\<lparr>osd_dump_allow_crimson := v\<rparr>),
     field ''pools'' (dec_slice dec_osd_dump_pool zero_osd_dump_pool) osd_dump_pools (\<lambda>v r. r\<lparr>osd_dump_pools := v\<rparr>),
     field ''osds'' (dec_slice (dec_ptr dec_osd_dump_osd_info zero_osd_dump_osd_info) None) osd_dump_osds (\<lambda>v r. r\<lparr>osd_dump_osds := v\<rparr>),
     field ''osd_xinfo'' (dec_slice (dec_ptr dec_osd_dump_osd_x_info zero_osd_dump_osd_x_info) None) osd_dump_osd_xinfo (\<lambda>v r. r\<lparr>osd_dump_osd_xinfo := v\<rparr>),
     field ''pg_upmap'' (dec_slice (dec_ptr dec_pb_value JNull) None) osd_dump_pg_upmap (\<lambda>v r. r\<lparr>osd_dump_pg_upmap := v\<rparr>),
     field ''pg_upmap_items'' (dec_slice (dec_ptr dec_pb_value JNull) None) osd_dump_pg_upmap_items (\<lambda>v r. r\<lparr>osd_dump_pg_upmap_items := v\<rparr>),
     field ''pg_upmap_primaries'' (dec_slice (dec_ptr dec_pb_value JNull) None) osd_dump_pg_upmap_primaries (\<lambda>v r. r\<lparr>osd_dump_pg_upmap_primaries := v\<rparr>),
     field ''pg_temp'' (dec_slice (dec_ptr dec_pb_value JNull) None) osd_dump_pg_temp (\<lambda>v r. r\<lparr>osd_dump_pg_temp := v\<rparr>),
     field ''primary_temp'' (dec_slice (dec_ptr dec_pb_value JNull) None) osd_dump_primary_temp (\<lambda>v r. r\<lparr>osd_dump_primary_temp := v\<rparr>),
     field ''blocklist'' (dec_map dec_ceph_timestamp None) osd_dump_blocklist (\<lambda>v r. r\<lparr>osd_dump_blocklist := v\<rparr>),
     field ''range_blocklist'' (dec_ptr dec_pb_struct JNull) osd_dump_range_blocklist (\<lambda>v r. r\<lparr>osd_dump_range_blocklist := v\<rparr>),
     field ''erasure_code_profiles'' (dec_map (dec_ptr dec_osd_dump_erasure_code_profile zero_osd_dump_erasure_code_profile) None) osd_dump_erasure_code_profiles (\<lambda>v r. r\<lparr>osd_dump_erasure_code_profiles := v\<rparr>),
     field ''removed_snaps_queue'' (dec_slice (dec_ptr dec_pb_value JNull) None) osd_dump_removed_snaps_queue (\<lambda>v r. r\<lparr>osd_dump_removed_snaps_queue := v\<rparr>),
     field ''new_removed_snaps'' (dec_slice (dec_ptr dec_pb_value JNull) None) osd_dump_new_removed_snaps (\<lambda>v r. r\<lparr>osd_dump_new_removed_snaps := v\<rparr>),
     field ''new_purged_snaps'' (dec_slice (dec_ptr dec_pb_value JNull) None) osd_dump_new_purged_snaps (\<lambda>v r. r\<lparr>osd_dump_new_purged_snaps := v\<rparr>),
     field ''crush_node_flags'' (dec_ptr dec_pb_struct JNull) osd_dump_crush_node_flags (\<lambda>v r. r\<lparr>osd_dump_crush_node_flags := v\<rparr>),
     field ''device_class_flags'' (dec_ptr dec_pb_struct JNull) osd_dump_device_class_flags (\<lambda>v r. r\<lparr>osd_dump_device_class_flags := v\<rparr>),
     field ''stretch_mode'' (dec_ptr dec_osd_dump_stretch_mode zero_osd_dump_stretch_mode) osd_dump_stretch_mode (\<lambda>v r. r\<lparr>osd_dump_stretch_mode := v\<rparr>)]"

definition dec_ceph_osd_dump_response :: "json \<Rightarrow> ceph_osd_dump_response \<Rightarrow> ceph_osd_dump_response res" where
  "dec_ceph_osd_dump_response = dec_struct ceph_osd_dump_response_fields"

record pb_osd_dump_pool =
  pb_pool_pool :: int
  pb_pool_pool_name :: string
  pb_pool_create_time :: "timestamp option"
  pb_pool_flags :: int
  pb_pool_flags_names :: string
  pb_pool_type :: int
  pb_pool_size :: int
  pb_pool_min_size :: int
  pb_pool_crush_rule :: int
  pb_pool_peering_crush_bucket_count :: int
  pb_pool_peering_crush_bucket_target :: int
  pb_pool_peering_crush_bucket_barrier :: int
  pb_pool_peering_crush_bucket_mandatory_member :: int
  pb_pool_object_hash :: int
  pb_pool_pg_autoscale_mode :: string
  pb_pool_pg_num :: int
  pb_pool_pg_placement_num :: int
  pb_pool_pg_placement_num_target :: int
  pb_pool_pg_num_target :: int
  pb_pool_pg_num_pending :: int
  pb_pool_last_pg_merge_meta :: "osd_dump_last_pg_merge_meta option"
  pb_pool_last_change :: string
  pb_pool_last_force_op_resend :: string
  pb_pool_last_force_op_resend_prenautilus :: string
  pb_pool_last_force_op_resend_preluminous :: string
  pb_pool_auid :: int
  pb_pool_snap_mode :: string
  pb_pool_snap_seq :: int
  pb_pool_snap_epoch :: int
  pb_pool_pool_snaps :: "json option slice"
  pb_pool_removed_snaps :: string
  pb_pool_quota_max_bytes :: int
  pb_pool_quota_max_objects :: int
  pb_pool_tiers :: "int slice"
  pb_pool_tier_of :: int
  pb_pool_read_tier :: int
  pb_pool_write_tier :: int
  pb_pool_cache_mode :: string
  pb_pool_target_max_bytes :: int
  pb_pool_target_max_objects :: int
  pb_pool_cache_target_dirty_ratio_micro :: int
  pb_pool_cache_target_dirty_high_ratio_micro :: int
  pb_pool_cache_target_full_ratio_micro :: int
  pb_pool_cache_min_flush_age :: int
  pb_pool_cache_min_evict_age :: int
  pb_pool_erasure_code_profile :: string
  pb_pool_hit_set_params :: "osd_dump_hit_set_params option"
  pb_pool_hit_set_period :: int
  pb_pool_hit_set_count :: int
  pb_pool_use_gmt_hitset :: bool
  pb_pool_min_read_recency_for_promote :: int
  pb_pool_min_write_recency_for_promote :: int
  pb_pool_hit_set_grade_decay_rate :: int
  pb_pool_hit_set_search_last_n :: int
  pb_pool_grade_table :: "json option slice"
  pb_pool_stripe_width :: int
  pb_pool_expected_num_objects :: int
  pb_pool_fast_read :: bool
  pb_pool_options :: "json option"
  pb_pool_application_metadata :: "json option"
  pb_pool_read_balance :: "osd_dump_read_balance option"

record pb_osd_dump_osd_x_info =
  pb_xinfo_osd :: int
  pb_xinfo_down_stamp :: "timestamp option"
  pb_xinfo_laggy_probability :: string
  pb_xinfo_laggy_interval :: string
  pb_xinfo_features :: int
  pb_xinfo_old_weight :: string
  pb_xinfo_last_purged_snaps_scrub :: "timestamp option"
  pb_xinfo_dead_epoch :: int

record get_ceph_osd_dump_response =
  pb_osd_dump_epoch :: int
  pb_osd_dump_fsid :: string
  pb_osd_dump_created :: "timestamp option"
  pb_osd_dump_modified :: "timestamp option"
  pb_osd_dump_last_up_change :: "timestamp option"
  pb_osd_dump_last_in_change :: "timestamp option"
  pb_osd_dump_flags :: string
  pb_osd_dump_flags_num :: int
  pb_osd_dump_flags_set :: "string slice"
  pb_osd_dump_crush_version :: int
  pb_osd_dump_full_ratio :: string
  pb_osd_dump_backfillfull_ratio :: string
  pb_osd_dump_nearfull_ratio :: string
  pb_osd_dump_cluster_snapshot :: string
  pb_osd_dump_pool_max :: int
  pb_osd_dump_max_osd :: int
  pb_osd_dump_require_min_compat_client :: string
  pb_osd_dump_min_compat_client :: string
  pb_osd_dump_require_osd_release :: string
  pb_osd_dump_allow_crimson :: bool
  pb_osd_dump_pools :: "pb_osd_dump_pool option slice"
  pb_osd_dump_osds :: "osd_dump_osd_info option slice"
  pb_osd_dump_osd_xinfo :: "pb_osd_dump_osd_x_info option slice"
  pb_osd_dump_pg_upmap :: "json option slice"
  pb_osd_dump_pg_upmap_items :: "json option slice"
  pb_osd_dump_pg_upmap_primaries :: "json option slice"
  pb_osd_dump_pg_temp :: "json option slice"
  pb_osd_dump_primary_temp :: "json option slice"
  pb_osd_dump_blocklist :: "timestamp option nmap"
  pb_osd_dump_range_blocklist :: "json option"
  pb_osd_dump_erasure_code_profiles :: "osd_dump_erasure_code_profile option nmap"
  pb_osd_dump_removed_snaps_queue :: "json option slice"
  pb_osd_dump_new_removed_snaps :: "json option slice"
  pb_osd_dump_new_purged_snaps :: "json option slice"
  pb_osd_dump_crush_node_flags :: "json option"
  pb_osd_dump_device_class_flags :: "json option"
  pb_osd_dump_stretch_mode :: "osd_dump_stretch_mode option"

end
