(* ===== verification/Pg_Types.thy ===== *)
theory Pg_Types
  imports Status_Decode
begin

text \<open>
  The answer of \<open>pg dump\<close>: the structs of \<open>pkg/types/status.go\<close> it is decoded into, with the
  messages of \<open>status.pb.go\<close> inside them, and the messages it is converted to (\<open>pb\<close> in their names).
\<close>

record pg_stats_sum_pg_stats_sum_stat_sum =
  pg_stats_sum_pg_stats_sum_stat_sum_num_bytes :: int
  pg_stats_sum_pg_stats_sum_stat_sum_num_objects :: int
  pg_stats_sum_pg_stats_sum_stat_sum_num_object_clones :: int
  pg_stats_sum_pg_stats_sum_stat_sum_num_object_copies :: int
  pg_stats_sum_pg_stats_sum_stat_sum_num_objects_missing_on_primary :: int
  pg_stats_sum_pg_stats_sum_stat_sum_num_objects_missing :: int
  pg_stats_sum_pg_stats_sum_stat_sum_num_objects_degraded :: int
  pg_stats_sum_pg_stats_sum_stat_sum_num_objects_misplaced :: int
  pg_stats_sum_pg_stats_sum_stat_sum_num_objects_unfound :: int
  pg_stats_sum_pg_stats_sum_stat_sum_num_objects_dirty :: int
  pg_stats_sum_pg_stats_sum_stat_sum_num_whiteouts :: int
  pg_stats_sum_pg_stats_sum_stat_sum_num_read :: int
  pg_stats_sum_pg_stats_sum_stat_sum_num_read_kb :: int
  pg_stats_sum_pg_stats_sum_stat_sum_num_write :: int
  pg_stats_sum_pg_stats_sum_stat_sum_num_write_kb :: int
  pg_stats_sum_pg_stats_sum_stat_sum_num_scrub_errors :: int
  pg_stats_sum_pg_stats_sum_stat_sum_num_shallow_scrub_errors :: int
  pg_stats_sum_pg_stats_sum_stat_sum_num_deep_scrub_errors :: int
  pg_stats_sum_pg_stats_sum_stat_sum_num_objects_recovered :: int
  pg_stats_sum_pg_stats_sum_stat_sum_num_bytes_recovered :: int
  pg_stats_sum_pg_stats_sum_stat_sum_num_keys_recovered :: int
  pg_stats_sum_pg_stats_sum_stat_sum_num_objects_omap :: int
  pg_stats_sum_pg_stats_sum_stat_sum_num_objects_hit_set_archive :: int
  pg_stats_sum_pg_stats_sum_stat_sum_num_bytes_hit_set_archive :: int
  pg_stats_sum_pg_stats_sum_stat_sum_num_flush :: int
  pg_stats_sum_pg_stats_sum_stat_sum_num_flush_kb :: int
  pg_stats_sum_pg_stats_sum_stat_sum_num_evict :: int
  pg_stats_sum_pg_stats_sum_stat_sum_num_evict_kb :: int
  pg_stats_sum_pg_stats_sum_stat_sum_num_promote :: int
  pg_stats_sum_pg_stats_sum_stat_sum_num_flush_mode_high :: int
  pg_stats_sum_pg_stats_sum_stat_sum_num_flush_mode_low :: int
  pg_stats_sum_pg_stats_sum_stat_sum_num_evict_mode_some :: int
  pg_stats_sum_pg_stats_sum_stat_sum_num_evict_mode_full :: int
  pg_stats_sum_pg_stats_sum_stat_sum_num_objects_pinned :: int
  pg_stats_sum_pg_stats_sum_stat_sum_num_legacy_snapsets :: int
  pg_stats_sum_pg_stats_sum_stat_sum_num_large_omap_objects :: int
  pg_stats_sum_pg_stats_sum_stat_sum_num_objects_manifest :: int
  pg_stats_sum_pg_stats_sum_stat_sum_num_omap_bytes :: int
  pg_stats_sum_pg_stats_sum_stat_sum_num_omap_keys :: int
  pg_stats_sum_pg_stats_sum_stat_sum_num_objects_repaired :: int

definition zero_pg_stats_sum_pg_stats_sum_stat_sum :: pg_stats_sum_pg_stats_sum_stat_sum where
  "zero_pg_stats_sum_pg_stats_sum_stat_sum =
    \<lparr>pg_stats_sum_pg_stats_sum_stat_sum_num_bytes = 0,
      pg_stats_sum_pg_stats_sum_stat_sum_num_objects = 0,
      pg_stats_sum_pg_stats_sum_stat_sum_num_object_clones = 0,
      pg_stats_sum_pg_stats_sum_stat_sum_num_object_copies = 0,
      pg_stats_sum_pg_stats_sum_stat_sum_num_objects_missing_on_primary = 0,
      pg_stats_sum_pg_stats_sum_stat_sum_num_objects_missing = 0,
      pg_stats_sum_pg_stats_sum_stat_sum_num_objects_degraded = 0,
      pg_stats_sum_pg_stats_sum_stat_sum_num_objects_misplaced = 0,
      pg_stats_sum_pg_stats_sum_stat_sum_num_objects_unfound = 0,
      pg_stats_sum_pg_stats_sum_stat_sum_num_objects_dirty = 0,
      pg_stats_sum_pg_stats_sum_stat_sum_num_whiteouts = 0,
      pg_stats_sum_pg_stats_sum_stat_sum_num_read = 0, pg_stats_sum_pg_stats_sum_stat_sum_num_read_kb = 0,
      pg_stats_sum_pg_stats_sum_stat_sum_num_write = 0,
      pg_stats_sum_pg_stats_sum_stat_sum_num_write_kb = 0,
      pg_stats_sum_pg_stats_sum_stat_sum_num_scrub_errors = 0,
      pg_stats_sum_pg_stats_sum_stat_sum_num_shallow_scrub_errors = 0,
      pg_stats_sum_pg_stats_sum_stat_sum_num_deep_scrub_errors = 0,
      pg_stats_sum_pg_stats_sum_stat_sum_num_objects_recovered = 0,
      pg_stats_sum_pg_stats_sum_stat_sum_num_bytes_recovered = 0,
      pg_stats_sum_pg_stats_sum_stat_sum_num_keys_recovered = 0,
      pg_stats_sum_pg_stats_sum_stat_sum_num_objects_omap = 0,
      pg_stats_sum_pg_stats_sum_stat_sum_num_objects_hit_set_archive = 0,
      pg_stats_sum_pg_stats_sum_stat_sum_num_bytes_hit_set_archive = 0,
      pg_stats_sum_pg_stats_sum_stat_sum_num_flush = 0,
      pg_stats_sum_pg_stats_sum_stat_sum_num_flush_kb = 0,
      pg_stats_sum_pg_stats_sum_stat_sum_num_evict = 0,
      pg_stats_sum_pg_stats_sum_stat_sum_num_evict_kb = 0,
      pg_stats_sum_pg_stats_sum_stat_sum_num_promote = 0,
      pg_stats_sum_pg_stats_sum_stat_sum_num_flush_mode_high = 0,
      pg_stats_sum_pg_stats_sum_stat_sum_num_flush_mode_low = 0,
      pg_stats_sum_pg_stats_sum_stat_sum_num_evict_mode_some = 0,
      pg_stats_sum_pg_stats_sum_stat_sum_num_evict_mode_full = 0,
      pg_stats_sum_pg_stats_sum_stat_sum_num_objects_pinned = 0,
      pg_stats_sum_pg_stats_sum_stat_sum_num_legacy_snapsets = 0,
      pg_stats_sum_pg_stats_sum_stat_sum_num_large_omap_objects = 0,
      pg_stats_sum_pg_stats_sum_stat_sum_num_objects_manifest = 0,
      pg_stats_sum_pg_stats_sum_stat_sum_num_omap_bytes = 0,
      pg_stats_sum_pg_stats_sum_stat_sum_num_omap_keys = 0,
      pg_stats_sum_pg_stats_sum_stat_sum_num_objects_repaired = 0\<rparr>"

definition pg_stats_sum_pg_stats_sum_stat_sum_fields :: "pg_stats_sum_pg_stats_sum_stat_sum field list" where
  "pg_stats_sum_pg_stats_sum_stat_sum_fields =
    [field ''num_bytes'' dec_int pg_stats_sum_pg_stats_sum_stat_sum_num_bytes (\<lambda>v r. r\<lparr>pg_stats_sum_pg_stats_sum_stat_sum_num_bytes := v\<rparr>),
     field ''num_objects'' dec_int pg_stats_sum_pg_stats_sum_stat_sum_num_objects (\<lambda>v r. r\<lparr>pg_stats_sum_pg_stats_sum_stat_sum_num_objects := v\<rparr>),
     field ''num_object_clones'' dec_int pg_stats_sum_pg_stats_sum_stat_sum_num_object_clones (\<lambda>v r. r\<lparr>pg_stats_sum_pg_stats_sum_stat_sum_num_object_clones := v\<rparr>),
     field ''num_object_copies'' dec_int pg_stats_sum_pg_stats_sum_stat_sum_num_object_copies (\<lambda>v r. r\<lparr>pg_stats_sum_pg_stats_sum_stat_sum_num_object_copies := v\<rparr>),
     field ''num_objects_missing_on_primary'' dec_int pg_stats_sum_pg_stats_sum_stat_sum_num_objects_missing_on_primary (\<lambda>v r. r\<lparr>pg_stats_sum_pg_stats_sum_stat_sum_num_objects_missing_on_primary := v\<rparr>),
     field ''num_objects_missing'' dec_int pg_stats_sum_pg_stats_sum_stat_sum_num_objects_missing (\<lambda>v r. r\<lparr>pg_stats_sum_pg_stats_sum_stat_sum_num_objects_missing := v\<rparr>),
     field ''num_objects_degraded'' dec_int pg_stats_sum_pg_stats_sum_stat_sum_num_objects_degraded (\<lambda>v r. r\<lparr>pg_stats_sum_pg_stats_sum_stat_sum_num_objects_degraded := v\<rparr>),
     field ''num_objects_misplaced'' dec_int pg_stats_sum_pg_stats_sum_stat_sum_num_objects_misplaced (\<lambda>v r. r\<lparr>pg_stats_sum_pg_stats_sum_stat_sum_num_objects_misplaced := v\<rparr>),
     field ''num_objects_unfound'' dec_int pg_stats_sum_pg_stats_sum_stat_sum_num_objects_unfound (\<lambda>v r. r\<lparr>pg_stats_sum_pg_stats_sum_stat_sum_num_objects_unfound := v\<rparr>),
     field ''num_objects_dirty'' dec_int pg_stats_sum_pg_stats_sum_stat_sum_num_objects_dirty (\<lambda>v r. r\<lparr>pg_stats_sum_pg_stats_sum_stat_sum_num_objects_dirty := v\<rparr>),
     field ''num_whiteouts'' dec_int pg_stats_sum_pg_stats_sum_stat_sum_num_whiteouts (\<lambda>v r. r\<lparr>pg_stats_sum_pg_stats_sum_stat_sum_num_whiteouts := v\<rparr>),
     field ''num_read'' dec_int pg_stats_sum_pg_stats_sum_stat_sum_num_read (\<lambda>v r. r\<lparr>pg_stats_sum_pg_stats_sum_stat_sum_num_read := v\<rparr>),
     field ''num_read_kb'' dec_int pg_stats_sum_pg_stats_sum_stat_sum_num_read_kb (\<lambda>v r. r\<lparr>pg_stats_sum_pg_stats_sum_stat_sum_num_read_kb := v\<rparr>),
     field ''num_write'' dec_int pg_stats_sum_pg_stats_sum_stat_sum_num_write (\<lambda>v r. r\<lparr>pg_stats_sum_pg_stats_sum_stat_sum_num_write := v\<rparr>),
     field ''num_write_kb'' dec_int pg_stats_sum_pg_stats_sum_stat_sum_num_write_kb (\<lambda>v r. r\<lparr>pg_stats_sum_pg_stats_sum_stat_sum_num_write_kb := v\<rparr>),
     field ''num_scrub_errors'' dec_int pg_stats_sum_pg_stats_sum_stat_sum_num_scrub_errors (\<lambda>v r. r\<lparr>pg_stats_sum_pg_stats_sum_stat_sum_num_scrub_errors := v\<rparr>),
     field ''num_shallow_scrub_errors'' dec_int pg_stats_sum_pg_stats_sum_stat_sum_num_shallow_scrub_errors (\<lambda>v r. r\<lparr>pg_stats_sum_pg_stats_sum_stat_sum_num_shallow_scrub_errors := v\<rparr>),
     field ''num_deep_scrub_errors'' dec_int pg_stats_sum_pg_stats_sum_stat_sum_num_deep_scrub_errors (\<lambda>v r. r\<lparr>pg_stats_sum_pg_stats_sum_stat_sum_num_deep_scrub_errors := v\<rparr>),
     field ''num_objects_recovered'' dec_int pg_stats_sum_pg_stats_sum_stat_sum_num_objects_recovered (\<lambda>v r. r\<lparr>pg_stats_sum_pg_stats_sum_stat_sum_num_objects_recovered := v\<rparr>),
     field ''num_bytes_recovered'' dec_int pg_stats_sum_pg_stats_sum_stat_sum_num_bytes_recovered (\<lambda>v r. r\<lparr>pg_stats_sum_pg_stats_sum_stat_sum_num_bytes_recovered := v\<rparr>),
     field ''num_keys_recovered'' dec_int pg_stats_sum_pg_stats_sum_stat_sum_num_keys_recovered (\<lambda>v r. r\<lparr>pg_stats_sum_pg_stats_sum_stat_sum_num_keys_recovered := v\<rparr>),
     field ''num_objects_omap'' dec_int pg_stats_sum_pg_stats_sum_stat_sum_num_objects_omap (\<lambda>v r. r\<lparr>pg_stats_sum_pg_stats_sum_stat_sum_num_objects_omap := v\<rparr>),
     field ''num_objects_hit_set_archive'' dec_int pg_stats_sum_pg_stats_sum_stat_sum_num_objects_hit_set_archive (\<lambda>v r. r\<lparr>pg_stats_sum_pg_stats_sum_stat_sum_num_objects_hit_set_archive := v\<rparr>),
     field ''num_bytes_hit_set_archive'' dec_int pg_stats_sum_pg_stats_sum_stat_sum_num_bytes_hit_set_archive (\<lambda>v r. r\<lparr>pg_stats_sum_pg_stats_sum_stat_sum_num_bytes_hit_set_archive := v\<rparr>),
     field ''num_flush'' dec_int pg_stats_sum_pg_stats_sum_stat_sum_num_flush (\<lambda>v r. r\<lparr>pg_stats_sum_pg_stats_sum_stat_sum_num_flush := v\<rparr>),
     field ''num_flush_kb'' dec_int pg_stats_sum_pg_stats_sum_stat_sum_num_flush_kb (\<lambda>v r. r\<lparr>pg_stats_sum_pg_stats_sum_stat_sum_num_flush_kb := v\<rparr>),
     field ''num_evict'' dec_int pg_stats_sum_pg_stats_sum_stat_sum_num_evict (\<lambda>v r. r\<lparr>pg_stats_sum_pg_stats_sum_stat_sum_num_evict := v\<rparr>),
     field ''num_evict_kb'' dec_int pg_stats_sum_pg_stats_sum_stat_sum_num_evict_kb (\<lambda>v r. r\<lparr>pg_stats_sum_pg_stats_sum_stat_sum_num_evict_kb := v\<rparr>),
     field ''num_promote'' dec_int pg_stats_sum_pg_stats_sum_stat_sum_num_promote (\<lambda>v r. r\<lparr>pg_stats_sum_pg_stats_sum_stat_sum_num_promote := v\<rparr>),
     field ''num_flush_mode_high'' dec_int pg_stats_sum_pg_stats_sum_stat_sum_num_flush_mode_high (\<lambda>v r. r\<lparr>pg_stats_sum_pg_stats_sum_stat_sum_num_flush_mode_high := v\<rparr>),
     field ''num_flush_mode_low'' dec_int pg_stats_sum_pg_stats_sum_stat_sum_num_flush_mode_low (\<lambda>v r. r\<lparr>pg_stats_sum_pg_stats_sum_stat_sum_num_flush_mode_low := v\<rparr>),
     field ''num_evict_mode_some'' dec_int pg_stats_sum_pg_stats_sum_stat_sum_num_evict_mode_some (\<lambda>v r. r\<lparr>pg_stats_sum_pg_stats_sum_stat_sum_num_evict_mode_some := v\<rparr>),
     field ''num_evict_mode_full'' dec_int pg_stats_sum_pg_stats_sum_stat_sum_num_evict_mode_full (\<lambda>v r. r\<lparr>pg_stats_sum_pg_stats_sum_stat_sum_num_evict_mode_full := v\<rparr>),
     field ''num_objects_pinned'' dec_int pg_stats_sum_pg_stats_sum_stat_sum_num_objects_pinned (\<lambda>v r. r\<lparr>pg_stats_sum_pg_stats_sum_stat_sum_num_objects_pinned := v\<rparr>),
     field ''num_legacy_snapsets'' dec_int pg_stats_sum_pg_stats_sum_stat_sum_num_legacy_snapsets (\<lambda>v r. r\<lparr>pg_stats_sum_pg_stats_sum_stat_sum_num_legacy_snapsets := v\<rparr>),
     field ''num_large_omap_objects'' dec_int pg_stats_sum_pg_stats_sum_stat_sum_num_large_omap_objects (\<lambda>v r. r\<lparr>pg_stats_sum_pg_stats_sum_stat_sum_num_large_omap_objects := v\<rparr>),
     field ''num_objects_manifest'' dec_int pg_stats_sum_pg_stats_sum_stat_sum_num_objects_manifest (\<lambda>v r. r\<lparr>pg_stats_sum_pg_stats_sum_stat_sum_num_objects_manifest := v\<rparr>),
     field ''num_omap_bytes'' dec_int pg_stats_sum_pg_stats_sum_stat_sum_num_omap_bytes (\<lambda>v r. r\<lparr>pg_stats_sum_pg_stats_sum_stat_sum_num_omap_bytes := v\<rparr>),
     field ''num_omap_keys'' dec_int pg_stats_sum_pg_stats_sum_stat_sum_num_omap_keys (\<lambda>v r. r\<lparr>pg_stats_sum_pg_stats_sum_stat_sum_num_omap_keys := v\<rparr>),
     field ''num_objects_repaired'' dec_int pg_stats_sum_pg_stats_sum_stat_sum_num_objects_repaired (\<lambda>v r. r\<lparr>pg_stats_sum_pg_stats_sum_stat_sum_num_objects_repaired := v\<rparr>)]"

definition dec_pg_stats_sum_pg_stats_sum_stat_sum :: "json \<Rightarrow> pg_stats_sum_pg_stats_sum_stat_sum \<Rightarrow> pg_stats_sum_pg_stats_sum_stat_sum res" where
  "dec_pg_stats_sum_pg_stats_sum_stat_sum = dec_struct pg_stats_sum_pg_stats_sum_stat_sum_fields"

record pg_stats_sum_pg_stats_sum_store_stats =
  pg_stats_sum_pg_stats_sum_store_stats_total :: int
  pg_stats_sum_pg_stats_sum_store_stats_available :: int
  pg_stats_sum_pg_stats_sum_store_stats_internally_reserved :: int
  pg_stats_sum_pg_stats_sum_store_stats_allocated :: int
  pg_stats_sum_pg_stats_sum_store_stats_data_stored :: int
  pg_stats_sum_pg_stats_sum_store_stats_data_compressed :: int
  pg_stats_sum_pg_stats_sum_store_stats_data_compressed_allocated :: int
  pg_stats_sum_pg_stats_sum_store_stats_data_compressed_original :: int
  pg_stats_sum_pg_stats_sum_store_stats_omap_allocated :: int
  pg_stats_sum_pg_stats_sum_store_stats_internal_metadata :: int

definition zero_pg_stats_sum_pg_stats_sum_store_stats :: pg_stats_sum_pg_stats_sum_store_stats where
  "zero_pg_stats_sum_pg_stats_sum_store_stats =
    \<lparr>pg_stats_sum_pg_stats_sum_store_stats_total = 0,
      pg_stats_sum_pg_stats_sum_store_stats_available = 0,
      pg_stats_sum_pg_stats_sum_store_stats_internally_reserved = 0,
      pg_stats_sum_pg_stats_sum_store_stats_allocated = 0,
      pg_stats_sum_pg_stats_sum_store_stats_data_stored = 0,
      pg_stats_sum_pg_stats_sum_store_stats_data_compressed = 0,
      pg_stats_sum_pg_stats_sum_store_stats_data_compressed_allocated = 0,
      pg_stats_sum_pg_stats_sum_store_stats_data_compressed_original = 0,
      pg_stats_sum_pg_stats_sum_store_stats_omap_allocated = 0,
      pg_stats_sum_pg_stats_sum_store_stats_internal_metadata = 0\<rparr>"

definition pg_stats_sum_pg_stats_sum_store_stats_fields :: "pg_stats_sum_pg_stats_sum_store_stats field list" where
  "pg_stats_sum_pg_stats_sum_store_stats_fields =
    [field ''total'' dec_int pg_stats_sum_pg_stats_sum_store_stats_total (\<lambda>v r. r\<lparr>pg_stats_sum_pg_stats_sum_store_stats_total := v\<rparr>),
     field ''available'' dec_int pg_stats_sum_pg_stats_sum_store_stats_available (\<lambda>v r. r\<lparr>pg_stats_sum_pg_stats_sum_store_stats_available := v\<rparr>),
     field ''internally_reserved'' dec_int pg_stats_sum_pg_stats_sum_store_stats_internally_reserved (\<lambda>v r. r\<lparr>pg_stats_sum_pg_stats_sum_store_stats_internally_reserved := v\<rparr>),
     field ''allocated'' dec_int pg_stats_sum_pg_stats_sum_store_stats_allocated (\<lambda>v r. r\<lparr>pg_stats_sum_pg_stats_sum_store_stats_allocated := v\<rparr>),
     field ''data_stored'' dec_int pg_stats_sum_pg_stats_sum_store_stats_data_stored (\<lambda>v r. r\<lparr>pg_stats_sum_pg_stats_sum_store_stats_data_stored := v\<rparr>),
     field ''data_compressed'' dec_int pg_stats_sum_pg_stats_sum_store_stats_data_compressed (\<lambda>v r. r\<lparr>pg_stats_sum_pg_stats_sum_store_stats_data_compressed := v\<rparr>),
     field ''data_compressed_allocated'' dec_int pg_stats_sum_pg_stats_sum_store_stats_data_compressed_allocated (\<lambda>v r. r\<lparr>pg_stats_sum_pg_stats_sum_store_stats_data_compressed_allocated := v\<rparr>),
     field ''data_compressed_original'' dec_int pg_stats_sum_pg_stats_sum_store_stats_data_compressed_original (\<lambda>v r. r\<lparr>pg_stats_sum_pg_stats_sum_store_stats_data_compressed_original := v\<rparr>),
     field ''omap_allocated'' dec_int pg_stats_sum_pg_stats_sum_store_stats_omap_allocated (\<lambda>v r. r\<lparr>pg_stats_sum_pg_stats_sum_store_stats_omap_allocated := v\<rparr>),
     field ''internal_metadata'' dec_int pg_stats_sum_pg_stats_sum_store_stats_internal_metadata (\<lambda>v r. r\<lparr>pg_stats_sum_pg_stats_sum_store_stats_internal_metadata := v\<rparr>)]"

definition dec_pg_stats_sum_pg_stats_sum_store_stats :: "json \<Rightarrow> pg_stats_sum_pg_stats_sum_store_stats \<Rightarrow> pg_stats_sum_pg_stats_sum_store_stats res" where
  "dec_pg_stats_sum_pg_stats_sum_store_stats = dec_struct pg_stats_sum_pg_stats_sum_store_stats_fields"

record pg_stats_sum =
  pg_stats_sum_stat_sum :: "pg_stats_sum_pg_stats_sum_stat_sum option"
  pg_stats_sum_store_stats :: "pg_stats_sum_pg_stats_sum_store_stats option"
  pg_stats_sum_log_size :: int
  pg_stats_sum_ondisk_log_size :: int
  pg_stats_sum_up :: int
  pg_stats_sum_acting :: int
  pg_stats_sum_num_store_stats :: int

definition zero_pg_stats_sum :: pg_stats_sum where
  "zero_pg_stats_sum =
    \<lparr>pg_stats_sum_stat_sum = None, pg_stats_sum_store_stats = None, pg_stats_sum_log_size = 0,
      pg_stats_sum_ondisk_log_size = 0, pg_stats_sum_up = 0, pg_stats_sum_acting = 0,
      pg_stats_sum_num_store_stats = 0\<rparr>"

definition pg_stats_sum_fields :: "pg_stats_sum field list" where
  "pg_stats_sum_fields =
    [field ''stat_sum'' (dec_ptr dec_pg_stats_sum_pg_stats_sum_stat_sum zero_pg_stats_sum_pg_stats_sum_stat_sum) pg_stats_sum_stat_sum (\<lambda>v r. r\<lparr>pg_stats_sum_stat_sum := v\<rparr>),
     field ''store_stats'' (dec_ptr dec_pg_stats_sum_pg_stats_sum_store_stats zero_pg_stats_sum_pg_stats_sum_store_stats) pg_stats_sum_store_stats (\<lambda>v r. r\<lparr>pg_stats_sum_store_stats := v\<rparr>),
     field ''log_size'' dec_int pg_stats_sum_log_size (\<lambda>v r. r\<lparr>pg_stats_sum_log_size := v\<rparr>),
     field ''ondisk_log_size'' dec_int pg_stats_sum_ondisk_log_size (\<lambda>v r. r\<lparr>pg_stats_sum_ondisk_log_size := v\<rparr>),
     field ''up'' dec_int pg_stats_sum_up (\<lambda>v r. r\<lparr>pg_stats_sum_up := v\<rparr>),
     field ''acting'' dec_int pg_stats_sum_acting (\<lambda>v r. r\<lparr>pg_stats_sum_acting := v\<rparr>),
     field ''num_store_stats'' dec_int pg_stats_sum_num_store_stats (\<lambda>v r. r\<lparr>pg_stats_sum_num_store_stats := v\<rparr>)]"

definition dec_pg_stats_sum :: "json \<Rightarrow> pg_stats_sum \<Rightarrow> pg_stats_sum res" where
  "dec_pg_stats_sum = dec_struct pg_stats_sum_fields"

record osd_stats_sum_stat_fs =
  osd_stats_sum_stat_fs_total :: int
  osd_stats_sum_stat_fs_available :: int
  osd_stats_sum_stat_fs_internally_reserved :: int
  osd_stats_sum_stat_fs_allocated :: int
  osd_stats_sum_stat_fs_data_stored :: int
  osd_stats_sum_stat_fs_data_compressed :: int
  osd_stats_sum_stat_fs_data_compressed_allocated :: int
  osd_stats_sum_stat_fs_data_compressed_original :: int
  osd_stats_sum_stat_fs_omap_allocated :: int
  osd_stats_sum_stat_fs_internal_metadata :: int

definition zero_osd_stats_sum_stat_fs :: osd_stats_sum_stat_fs where
  "zero_osd_stats_sum_stat_fs =
    \<lparr>osd_stats_sum_stat_fs_total = 0, osd_stats_sum_stat_fs_available = 0,
      osd_stats_sum_stat_fs_internally_reserved = 0, osd_stats_sum_stat_fs_allocated = 0,
      osd_stats_sum_stat_fs_data_stored = 0, osd_stats_sum_stat_fs_data_compressed = 0,
      osd_stats_sum_stat_fs_data_compressed_allocated = 0,
      osd_stats_sum_stat_fs_data_compressed_original = 0, osd_stats_sum_stat_fs_omap_allocated = 0,
      osd_stats_sum_stat_fs_internal_metadata = 0\<rparr>"

definition osd_stats_sum_stat_fs_fields :: "osd_stats_sum_stat_fs field list" where
  "osd_stats_sum_stat_fs_fields =
    [field ''total'' dec_int osd_stats_sum_stat_fs_total (\<lambda>v r. r\<lparr>osd_stats_sum_stat_fs_total := v\<rparr>),
     field ''available'' dec_int osd_stats_sum_stat_fs_available (\<lambda>v r. r\<lparr>osd_stats_sum_stat_fs_available := v\<rparr>),
     field ''internally_reserved'' dec_int osd_stats_sum_stat_fs_internally_reserved (\<lambda>v r. r\<lparr>osd_stats_sum_stat_fs_internally_reserved := v\<rparr>),
     field ''allocated'' dec_int osd_stats_sum_stat_fs_allocated (\<lambda>v r. r\<lparr>osd_stats_sum_stat_fs_allocated := v\<rparr>),
     field ''data_stored'' dec_int osd_stats_sum_stat_fs_data_stored (\<lambda>v r. r\<lparr>osd_stats_sum_stat_fs_data_stored := v\<rparr>),
     field ''data_compressed'' dec_int osd_stats_sum_stat_fs_data_compressed (\<lambda>v r. r\<lparr>osd_stats_sum_stat_fs_data_compressed := v\<rparr>),
     field ''data_compressed_allocated'' dec_int osd_stats_sum_stat_fs_data_compressed_allocated (\<lambda>v r. r\<lparr>osd_stats_sum_stat_fs_data_compressed_allocated := v\<rparr>),
     field ''data_compressed_original'' dec_int osd_stats_sum_stat_fs_data_compressed_original (\<lambda>v r. r\<lparr>osd_stats_sum_stat_fs_data_compressed_original := v\<rparr>),
     field ''omap_allocated'' dec_int osd_stats_sum_stat_fs_omap_allocated (\<lambda>v r. r\<lparr>osd_stats_sum_stat_fs_omap_allocated := v\<rparr>),
     field ''internal_metadata'' dec_int osd_stats_sum_stat_fs_internal_metadata (\<lambda>v r. r\<lparr>osd_stats_sum_stat_fs_internal_metadata := v\<rparr>)]"

definition dec_osd_stats_sum_stat_fs :: "json \<Rightarrow> osd_stats_sum_stat_fs \<Rightarrow> osd_stats_sum_stat_fs res" where
  "dec_osd_stats_sum_stat_fs = dec_struct osd_stats_sum_stat_fs_fields"

record osd_stats_sum_op_queue_age_hist =
  osd_stats_sum_op_queue_age_hist_histogram :: "int slice"
  osd_stats_sum_op_queue_age_hist_upper_bound :: int

definition zero_osd_stats_sum_op_queue_age_hist :: osd_stats_sum_op_queue_age_hist where
  "zero_osd_stats_sum_op_queue_age_hist =
    \<lparr>osd_stats_sum_op_queue_age_hist_histogram = None,
      osd_stats_sum_op_queue_age_hist_upper_bound = 0\<rparr>"

definition osd_stats_sum_op_queue_age_hist_fields :: "osd_stats_sum_op_queue_age_hist field list" where
  "osd_stats_sum_op_queue_age_hist_fields =
    [field ''histogram'' (dec_slice dec_int 0) osd_stats_sum_op_queue_age_hist_histogram (\<lambda>v r. r\<lparr>osd_stats_sum_op_queue_age_hist_histogram := v\<rparr>),
     field ''upper_bound'' dec_int osd_stats_sum_op_queue_age_hist_upper_bound (\<lambda>v r. r\<lparr>osd_stats_sum_op_queue_age_hist_upper_bound := v\<rparr>)]"

definition dec_osd_stats_sum_op_queue_age_hist :: "json \<Rightarrow> osd_stats_sum_op_queue_age_hist \<Rightarrow> osd_stats_sum_op_queue_age_hist res" where
  "dec_osd_stats_sum_op_queue_age_hist = dec_struct osd_stats_sum_op_queue_age_hist_fields"

record osd_stats_sum_perf_stat =
  osd_stats_sum_perf_stat_commit_latency_ms :: int
  osd_stats_sum_perf_stat_apply_latency_ms :: int
  osd_stats_sum_perf_stat_commit_latency_ns :: int
  osd_stats_sum_perf_stat_apply_latency_ns :: int

definition zero_osd_stats_sum_perf_stat :: osd_stats_sum_perf_stat where
  "zero_osd_stats_sum_perf_stat =
    \<lparr>osd_stats_sum_perf_stat_commit_latency_ms = 0, osd_stats_sum_perf_stat_apply_latency_ms = 0,
      osd_stats_sum_perf_stat_commit_latency_ns = 0, osd_stats_sum_perf_stat_apply_latency_ns = 0\<rparr>"

definition osd_stats_sum_perf_stat_fields :: "osd_stats_sum_perf_stat field list" where
  "osd_stats_sum_perf_stat_fields =
    [field ''commit_latency_ms'' dec_int osd_stats_sum_perf_stat_commit_latency_ms (\<lambda>v r. r\<lparr>osd_stats_sum_perf_stat_commit_latency_ms := v\<rparr>),
     field ''apply_latency_ms'' dec_int osd_stats_sum_perf_stat_apply_latency_ms (\<lambda>v r. r\<lparr>osd_stats_sum_perf_stat_apply_latency_ms := v\<rparr>),
     field ''commit_latency_ns'' dec_int osd_stats_sum_perf_stat_commit_latency_ns (\<lambda>v r. r\<lparr>osd_stats_sum_perf_stat_commit_latency_ns := v\<rparr>),
     field ''apply_latency_ns'' dec_int osd_stats_sum_perf_stat_apply_latency_ns (\<lambda>v r. r\<lparr>osd_stats_sum_perf_stat_apply_latency_ns := v\<rparr>)]"

definition dec_osd_stats_sum_perf_stat :: "json \<Rightarrow> osd_stats_sum_perf_stat \<Rightarrow> osd_stats_sum_perf_stat res" where
  "dec_osd_stats_sum_perf_stat = dec_struct osd_stats_sum_perf_stat_fields"

record osd_stats_sum_network_ping_time_interface_average =
  osd_stats_sum_network_ping_time_interface_average_min1 :: string
  osd_stats_sum_network_ping_time_interface_average_min5 :: string
  osd_stats_sum_network_ping_time_interface_average_min15 :: string

definition zero_osd_stats_sum_network_ping_time_interface_average :: osd_stats_sum_network_ping_time_interface_average where
  "zero_osd_stats_sum_network_ping_time_interface_average =
    \<lparr>osd_stats_sum_network_ping_time_interface_average_min1 = ''0'',
      osd_stats_sum_network_ping_time_interface_average_min5 = ''0'',
      osd_stats_sum_network_ping_time_interface_average_min15 = ''0''\<rparr>"

definition osd_stats_sum_network_ping_time_interface_average_fields :: "osd_stats_sum_network_ping_time_interface_average field list" where
  "osd_stats_sum_network_ping_time_interface_average_fields =
    [field ''min1'' dec_float osd_stats_sum_network_ping_time_interface_average_min1 (\<lambda>v r. r\<lparr>osd_stats_sum_network_ping_time_interface_average_min1 := v\<rparr>),
     field ''min5'' dec_float osd_stats_sum_network_ping_time_interface_average_min5 (\<lambda>v r. r\<lparr>osd_stats_sum_network_ping_time_interface_average_min5 := v\<rparr>),
     field ''min15'' dec_float osd_stats_sum_network_ping_time_interface_average_min15 (\<lambda>v r. r\<lparr>osd_stats_sum_network_ping_time_interface_average_min15 := v\<rparr>)]"

definition dec_osd_stats_sum_network_ping_time_interface_average :: "json \<Rightarrow> osd_stats_sum_network_ping_time_interface_average \<Rightarrow> osd_stats_sum_network_ping_time_interface_average res" where
  "dec_osd_stats_sum_network_ping_time_interface_average = dec_struct osd_stats_sum_network_ping_time_interface_average_fields"

record osd_stats_sum_network_ping_time_interface_min =
  osd_stats_sum_network_ping_time_interface_min_min1 :: string
  osd_stats_sum_network_ping_time_interface_min_min5 :: string
  osd_stats_sum_network_ping_time_interface_min_min15 :: string

definition zero_osd_stats_sum_network_ping_time_interface_min :: osd_stats_sum_network_ping_time_interface_min where
  "zero_osd_stats_sum_network_ping_time_interface_min =
    \<lparr>osd_stats_sum_network_ping_time_interface_min_min1 = ''0'',
      osd_stats_sum_network_ping_time_interface_min_min5 = ''0'',
      osd_stats_sum_network_ping_time_interface_min_min15 = ''0''\<rparr>"

definition osd_stats_sum_network_ping_time_interface_min_fields :: "osd_stats_sum_network_ping_time_interface_min field list" where
  "osd_stats_sum_network_ping_time_interface_min_fields =
    [field ''min1'' dec_float osd_stats_sum_network_ping_time_interface_min_min1 (\<lambda>v r. r\<lparr>osd_stats_sum_network_ping_time_interface_min_min1 := v\<rparr>),
     field ''min5'' dec_float osd_stats_sum_network_ping_time_interface_min_min5 (\<lambda>v r. r\<lparr>osd_stats_sum_network_ping_time_interface_min_min5 := v\<rparr>),
     field ''min15'' dec_float osd_stats_sum_network_ping_time_interface_min_min15 (\<lambda>v r. r\<lparr>osd_stats_sum_network_ping_time_interface_min_min15 := v\<rparr>)]"

definition dec_osd_stats_sum_network_ping_time_interface_min :: "json \<Rightarrow> osd_stats_sum_network_ping_time_interface_min \<Rightarrow> osd_stats_sum_network_ping_time_interface_min res" where
  "dec_osd_stats_sum_network_ping_time_interface_min = dec_struct osd_stats_sum_network_ping_time_interface_min_fields"

record osd_stats_sum_network_ping_time_interface_max =
  osd_stats_sum_network_ping_time_interface_max_min1 :: string
  osd_stats_sum_network_ping_time_interface_max_min5 :: string
  osd_stats_sum_network_ping_time_interface_max_min15 :: string

definition zero_osd_stats_sum_network_ping_time_interface_max :: osd_stats_sum_network_ping_time_interface_max where
  "zero_osd_stats_sum_network_ping_time_interface_max =
    \<lparr>osd_stats_sum_network_ping_time_interface_max_min1 = ''0'',
      osd_stats_sum_network_ping_time_interface_max_min5 = ''0'',
      osd_stats_sum_network_ping_time_interface_max_min15 = ''0''\<rparr>"

definition osd_stats_sum_network_ping_time_interface_max_fields :: "osd_stats_sum_network_ping_time_interface_max field list" where
  "osd_stats_sum_network_ping_time_interface_max_fields =
    [field ''min1'' dec_float osd_stats_sum_network_ping_time_interface_max_min1 (\<lambda>v r. r\<lparr>osd_stats_sum_network_ping_time_interface_max_min1 := v\<rparr>),
     field ''min5'' dec_float osd_stats_sum_network_ping_time_interface_max_min5 (\<lambda>v r. r\<lparr>osd_stats_sum_network_ping_time_interface_max_min5 := v\<rparr>),
     field ''min15'' dec_float osd_stats_sum_network_ping_time_interface_max_min15 (\<lambda>v r. r\<lparr>osd_stats_sum_network_ping_time_interface_max_min15 := v\<rparr>)]"

definition dec_osd_stats_sum_network_ping_time_interface_max :: "json \<Rightarrow> osd_stats_sum_network_ping_time_interface_max \<Rightarrow> osd_stats_sum_network_ping_time_interface_max res" where
  "dec_osd_stats_sum_network_ping_time_interface_max = dec_struct osd_stats_sum_network_ping_time_interface_max_fields"

record osd_stats_sum_network_ping_time_interface =
  osd_stats_sum_network_ping_time_interface_interface_name :: string
  osd_stats_sum_network_ping_time_interface_average :: "osd_stats_sum_network_ping_time_interface_average option"
  osd_stats_sum_network_ping_time_interface_min :: "osd_stats_sum_network_ping_time_interface_min option"
  osd_stats_sum_network_ping_time_interface_max :: "osd_stats_sum_network_ping_time_interface_max option"
  osd_stats_sum_network_ping_time_interface_last :: string

definition zero_osd_stats_sum_network_ping_time_interface :: osd_stats_sum_network_ping_time_interface where
  "zero_osd_stats_sum_network_ping_time_interface =
    \<lparr>osd_stats_sum_network_ping_time_interface_interface_name = [],
      osd_stats_sum_network_ping_time_interface_average = None,
      osd_stats_sum_network_ping_time_interface_min = None,
      osd_stats_sum_network_ping_time_interface_max = None,
      osd_stats_sum_network_ping_time_interface_last = ''0''\<rparr>"

definition osd_stats_sum_network_ping_time_interface_fields :: "osd_stats_sum_network_ping_time_interface field list" where
  "osd_stats_sum_network_ping_time_interface_fields =
    [field ''interface_name'' dec_string osd_stats_sum_network_ping_time_interface_interface_name (\<lambda>v r. r\<lparr>osd_stats_sum_network_ping_time_interface_interface_name := v\<rparr>),
     field ''average'' (dec_ptr dec_osd_stats_sum_network_ping_time_interface_average zero_osd_stats_sum_network_ping_time_interface_average) osd_stats_sum_network_ping_time_interface_average (\<lambda>v r. r\<lparr>osd_stats_sum_network_ping_time_interface_average := v\<rparr>),
     field ''min'' (dec_ptr dec_osd_stats_sum_network_ping_time_interface_min zero_osd_stats_sum_network_ping_time_interface_min) osd_stats_sum_network_ping_time_interface_min (\<lambda>v r. r\<lparr>osd_stats_sum_network_ping_time_interface_min := v\<rparr>),
     field ''max'' (dec_ptr dec_osd_stats_sum_network_ping_time_interface_max zero_osd_stats_sum_network_ping_time_interface_max) osd_stats_sum_network_ping_time_interface_max (\<lambda>v r. r\<lparr>osd_stats_sum_network_ping_time_interface_max := v\<rparr>),
     field ''last'' dec_float osd_stats_sum_network_ping_time_interface_last (\<lambda>v r. r\<lparr>osd_stats_sum_network_ping_time_interface_last := v\<rparr>)]"

definition dec_osd_stats_sum_network_ping_time_interface :: "json \<Rightarrow> osd_stats_sum_network_ping_time_interface \<Rightarrow> osd_stats_sum_network_ping_time_interface res" where
  "dec_osd_stats_sum_network_ping_time_interface = dec_struct osd_stats_sum_network_ping_time_interface_fields"

record osd_stats_sum_network_ping_time =
  osd_stats_sum_network_ping_time_osd :: int
  osd_stats_sum_network_ping_time_last_update :: "timestamp option"
  osd_stats_sum_network_ping_time_interfaces :: "osd_stats_sum_network_ping_time_interface option slice"

definition zero_osd_stats_sum_network_ping_time :: osd_stats_sum_network_ping_time where
  "zero_osd_stats_sum_network_ping_time =
    \<lparr>osd_stats_sum_network_ping_time_osd = 0, osd_stats_sum_network_ping_time_last_update = None,
      osd_stats_sum_network_ping_time_interfaces = None\<rparr>"

definition osd_stats_sum_network_ping_time_fields :: "osd_stats_sum_network_ping_time field list" where
  "osd_stats_sum_network_ping_time_fields =
    [field ''osd'' dec_int osd_stats_sum_network_ping_time_osd (\<lambda>v r. r\<lparr>osd_stats_sum_network_ping_time_osd := v\<rparr>),
     field ''last_update'' (dec_ptr dec_timestamppb zero_pb_time) osd_stats_sum_network_ping_time_last_update (\<lambda>v r. r\<lparr>osd_stats_sum_network_ping_time_last_update := v\<rparr>),
     field ''interfaces'' (dec_slice (dec_ptr dec_osd_stats_sum_network_ping_time_interface zero_osd_stats_sum_network_ping_time_interface) None) osd_stats_sum_network_ping_time_interfaces (\<lambda>v r. r\<lparr>osd_stats_sum_network_ping_time_interfaces := v\<rparr>)]"

definition dec_osd_stats_sum_network_ping_time :: "json \<Rightarrow> osd_stats_sum_network_ping_time \<Rightarrow> osd_stats_sum_network_ping_time res" where
  "dec_osd_stats_sum_network_ping_time = dec_struct osd_stats_sum_network_ping_time_fields"

record osd_stats_sum =
  osd_stats_sum_up_from :: int
  osd_stats_sum_seq :: int
  osd_stats_sum_num_pgs :: int
  osd_stats_sum_num_osds :: int
  osd_stats_sum_num_per_pool_osds :: int
  osd_stats_sum_num_per_pool_omap_osds :: int
  osd_stats_sum_kb :: int
  osd_stats_sum_kb_used :: int
  osd_stats_sum_kb_used_data :: int
  osd_stats_sum_kb_used_omap :: int
  osd_stats_sum_kb_used_meta :: int
  osd_stats_sum_kb_avail :: int
  osd_stats_sum_statfs :: "osd_stats_sum_stat_fs option"
  osd_stats_sum_hb_peers :: "int slice"
  osd_stats_sum_snap_trim_queue_len :: int
  osd_stats_sum_num_snap_trimming :: int
  osd_stats_sum_num_shards_repaired :: int
  osd_stats_sum_op_queue_age_hist :: "osd_stats_sum_op_queue_age_hist option"
  osd_stats_sum_perf_stat :: "osd_stats_sum_perf_stat option"
  osd_stats_sum_alerts :: "string slice"
  osd_stats_sum_network_ping_times :: "osd_stats_sum_network_ping_time option slice"

definition zero_osd_stats_sum :: osd_stats_sum where
  "zero_osd_stats_sum =
    \<lparr>osd_stats_sum_up_from = 0, osd_stats_sum_seq = 0, osd_stats_sum_num_pgs = 0,
      osd_stats_sum_num_osds = 0, osd_stats_sum_num_per_pool_osds = 0,
      osd_stats_sum_num_per_pool_omap_osds = 0, osd_stats_sum_kb = 0, osd_stats_sum_kb_used = 0,
      osd_stats_sum_kb_used_data = 0, osd_stats_sum_kb_used_omap = 0, osd_stats_sum_kb_used_meta = 0,
      osd_stats_sum_kb_avail = 0, osd_stats_sum_statfs = None, osd_stats_sum_hb_peers = None,
      osd_stats_sum_snap_trim_queue_len = 0, osd_stats_sum_num_snap_trimming = 0,
      osd_stats_sum_num_shards_repaired = 0, osd_stats_sum_op_queue_age_hist = None,
      osd_stats_sum_perf_stat = None, osd_stats_sum_alerts = None,
      osd_stats_sum_network_ping_times = None\<rparr>"

definition osd_stats_sum_fields :: "osd_stats_sum field list" where
  "osd_stats_sum_fields =
    [field ''up_from'' dec_int osd_stats_sum_up_from (\<lambda>v r. r\<lparr>osd_stats_sum_up_from := v\<rparr>),
     field ''seq'' dec_int osd_stats_sum_seq (\<lambda>v r. r\<lparr>osd_stats_sum_seq := v\<rparr>),
     field ''num_pgs'' dec_int osd_stats_sum_num_pgs (\<lambda>v r. r\<lparr>osd_stats_sum_num_pgs := v\<rparr>),
     field ''num_osds'' dec_int osd_stats_sum_num_osds (\<lambda>v r. r\<lparr>osd_stats_sum_num_osds := v\<rparr>),
     field ''num_per_pool_osds'' dec_int osd_stats_sum_num_per_pool_osds (\<lambda>v r. r\<lparr>osd_stats_sum_num_per_pool_osds := v\<rparr>),
     field ''num_per_pool_omap_osds'' dec_int osd_stats_sum_num_per_pool_omap_osds (\<lambda>v r. r\<lparr>osd_stats_sum_num_per_pool_omap_osds := v\<rparr>),
     field ''kb'' dec_int osd_stats_sum_kb (\<lambda>v r. r\<lparr>osd_stats_sum_kb := v\<rparr>),
     field ''kb_used'' dec_int osd_stats_sum_kb_used (\<lambda>v r. r\<lparr>osd_stats_sum_kb_used := v\<rparr>),
     field ''kb_used_data'' dec_int osd_stats_sum_kb_used_data (\<lambda>v r. r\<lparr>osd_stats_sum_kb_used_data := v\<rparr>),
     field ''kb_used_omap'' dec_int osd_stats_sum_kb_used_omap (\<lambda>v r. r\<lparr>osd_stats_sum_kb_used_omap := v\<rparr>),
     field ''kb_used_meta'' dec_int osd_stats_sum_kb_used_meta (\<lambda>v r. r\<lparr>osd_stats_sum_kb_used_meta := v\<rparr>),
     field ''kb_avail'' dec_int osd_stats_sum_kb_avail (\<lambda>v r. r\<lparr>osd_stats_sum_kb_avail := v\<rparr>),
     field ''statfs'' (dec_ptr dec_osd_stats_sum_stat_fs zero_osd_stats_sum_stat_fs) osd_stats_sum_statfs (\<lambda>v r. r\<lparr>osd_stats_sum_statfs := v\<rparr>),
     field ''hb_peers'' (dec_slice dec_int 0) osd_stats_sum_hb_peers (\<lambda>v r. r\<lparr>osd_stats_sum_hb_peers := v\<rparr>),
     field ''snap_trim_queue_len'' dec_int osd_stats_sum_snap_trim_queue_len (\<lambda>v r. r\<lparr>osd_stats_sum_snap_trim_queue_len := v\<rparr>),
     field ''num_snap_trimming'' dec_int osd_stats_sum_num_snap_trimming (\<lambda>v r. r\<lparr>osd_stats_sum_num_snap_trimming := v\<rparr>),
     field ''num_shards_repaired'' dec_int osd_stats_sum_num_shards_repaired (\<lambda>v r. r\<lparr>osd_stats_sum_num_shards_repaired := v\<rparr>),
     field ''op_queue_age_hist'' (dec_ptr dec_osd_stats_sum_op_queue_age_hist zero_osd_stats_sum_op_queue_age_hist) osd_stats_sum_op_queue_age_hist (\<lambda>v r. r\<lparr>osd_stats_sum_op_queue_age_hist := v\<rparr>),
     field ''perf_stat'' (dec_ptr dec_osd_stats_sum_perf_stat zero_osd_stats_sum_perf_stat) osd_stats_sum_perf_stat (\<lambda>v r. r\<lparr>osd_stats_sum_perf_stat := v\<rparr>),
     field ''alerts'' (dec_slice dec_string []) osd_stats_sum_alerts (\<lambda>v r. r\<lparr>osd_stats_sum_alerts := v\<rparr>),
     field ''network_ping_times'' (dec_slice (dec_ptr dec_osd_stats_sum_network_ping_time zero_osd_stats_sum_network_ping_time) None) osd_stats_sum_network_ping_times (\<lambda>v r. r\<lparr>osd_stats_sum_network_ping_times := v\<rparr>)]"

definition dec_osd_stats_sum :: "json \<Rightarrow> osd_stats_sum \<Rightarrow> osd_stats_sum res" where
  "dec_osd_stats_sum = dec_struct osd_stats_sum_fields"

record pg_stats_delta_pg_stats_delta_stat_sum =
  pg_stats_delta_pg_stats_delta_stat_sum_num_bytes :: int
  pg_stats_delta_pg_stats_delta_stat_sum_num_objects :: int
  pg_stats_delta_pg_stats_delta_stat_sum_num_object_clones :: int
  pg_stats_delta_pg_stats_delta_stat_sum_num_object_copies :: int
  pg_stats_delta_pg_stats_delta_stat_sum_num_objects_missing_on_primary :: int
  pg_stats_delta_pg_stats_delta_stat_sum_num_objects_missing :: int
  pg_stats_delta_pg_stats_delta_stat_sum_num_objects_degraded :: int
  pg_stats_delta_pg_stats_delta_stat_sum_num_objects_misplaced :: int
  pg_stats_delta_pg_stats_delta_stat_sum_num_objects_unfound :: int
  pg_stats_delta_pg_stats_delta_stat_sum_num_objects_dirty :: int
  pg_stats_delta_pg_stats_delta_stat_sum_num_whiteouts :: int
  pg_stats_delta_pg_stats_delta_stat_sum_num_read :: int
  pg_stats_delta_pg_stats_delta_stat_sum_num_read_kb :: int
  pg_stats_delta_pg_stats_delta_stat_sum_num_write :: int
  pg_stats_delta_pg_stats_delta_stat_sum_num_write_kb :: int
  pg_stats_delta_pg_stats_delta_stat_sum_num_scrub_errors :: int
  pg_stats_delta_pg_stats_delta_stat_sum_num_shallow_scrub_errors :: int
  pg_stats_delta_pg_stats_delta_stat_sum_num_deep_scrub_errors :: int
  pg_stats_delta_pg_stats_delta_stat_sum_num_objects_recovered :: int
  pg_stats_delta_pg_stats_delta_stat_sum_num_bytes_recovered :: int
  pg_stats_delta_pg_stats_delta_stat_sum_num_keys_recovered :: int
  pg_stats_delta_pg_stats_delta_stat_sum_num_objects_omap :: int
  pg_stats_delta_pg_stats_delta_stat_sum_num_objects_hit_set_archive :: int
  pg_stats_delta_pg_stats_delta_stat_sum_num_bytes_hit_set_archive :: int
  pg_stats_delta_pg_stats_delta_stat_sum_num_flush :: int
  pg_stats_delta_pg_stats_delta_stat_sum_num_flush_kb :: int
  pg_stats_delta_pg_stats_delta_stat_sum_num_evict :: int
  pg_stats_delta_pg_stats_delta_stat_sum_num_evict_kb :: int
  pg_stats_delta_pg_stats_delta_stat_sum_num_promote :: int
  pg_stats_delta_pg_stats_delta_stat_sum_num_flush_mode_high :: int
  pg_stats_delta_pg_stats_delta_stat_sum_num_flush_mode_low :: int
  pg_stats_delta_pg_stats_delta_stat_sum_num_evict_mode_some :: int
  pg_stats_delta_pg_stats_delta_stat_sum_num_evict_mode_full :: int
  pg_stats_delta_pg_stats_delta_stat_sum_num_objects_pinned :: int
  pg_stats_delta_pg_stats_delta_stat_sum_num_legacy_snapsets :: int
  pg_stats_delta_pg_stats_delta_stat_sum_num_large_omap_objects :: int
  pg_stats_delta_pg_stats_delta_stat_sum_num_objects_manifest :: int
  pg_stats_delta_pg_stats_delta_stat_sum_num_omap_bytes :: int
  pg_stats_delta_pg_stats_delta_stat_sum_num_omap_keys :: int
  pg_stats_delta_pg_stats_delta_stat_sum_num_objects_repaired :: int

definition zero_pg_stats_delta_pg_stats_delta_stat_sum :: pg_stats_delta_pg_stats_delta_stat_sum where
  "zero_pg_stats_delta_pg_stats_delta_stat_sum =
    \<lparr>pg_stats_delta_pg_stats_delta_stat_sum_num_bytes = 0,
      pg_stats_delta_pg_stats_delta_stat_sum_num_objects = 0,
      pg_stats_delta_pg_stats_delta_stat_sum_num_object_clones = 0,
      pg_stats_delta_pg_stats_delta_stat_sum_num_object_copies = 0,
      pg_stats_delta_pg_stats_delta_stat_sum_num_objects_missing_on_primary = 0,
      pg_stats_delta_pg_stats_delta_stat_sum_num_objects_missing = 0,
      pg_stats_delta_pg_stats_delta_stat_sum_num_objects_degraded = 0,
      pg_stats_delta_pg_stats_delta_stat_sum_num_objects_misplaced = 0,
      pg_stats_delta_pg_stats_delta_stat_sum_num_objects_unfound = 0,
      pg_stats_delta_pg_stats_delta_stat_sum_num_objects_dirty = 0,
      pg_stats_delta_pg_stats_delta_stat_sum_num_whiteouts = 0,
      pg_stats_delta_pg_stats_delta_stat_sum_num_read = 0,
      pg_stats_delta_pg_stats_delta_stat_sum_num_read_kb = 0,
      pg_stats_delta_pg_stats_delta_stat_sum_num_write = 0,
      pg_stats_delta_pg_stats_delta_stat_sum_num_write_kb = 0,
      pg_stats_delta_pg_stats_delta_stat_sum_num_scrub_errors = 0,
      pg_stats_delta_pg_stats_delta_stat_sum_num_shallow_scrub_errors = 0,
      pg_stats_delta_pg_stats_delta_stat_sum_num_deep_scrub_errors = 0,
      pg_stats_delta_pg_stats_delta_stat_sum_num_objects_recovered = 0,
      pg_stats_delta_pg_stats_delta_stat_sum_num_bytes_recovered = 0,
      pg_stats_delta_pg_stats_delta_stat_sum_num_keys_recovered = 0,
      pg_stats_delta_pg_stats_delta_stat_sum_num_objects_omap = 0,
      pg_stats_delta_pg_stats_delta_stat_sum_num_objects_hit_set_archive = 0,
      pg_stats_delta_pg_stats_delta_stat_sum_num_bytes_hit_set_archive = 0,
      pg_stats_delta_pg_stats_delta_stat_sum_num_flush = 0,
      pg_stats_delta_pg_stats_delta_stat_sum_num_flush_kb = 0,
      pg_stats_delta_pg_stats_delta_stat_sum_num_evict = 0,
      pg_stats_delta_pg_stats_delta_stat_sum_num_evict_kb = 0,
      pg_stats_delta_pg_stats_delta_stat_sum_num_promote = 0,
      pg_stats_delta_pg_stats_delta_stat_sum_num_flush_mode_high = 0,
      pg_stats_delta_pg_stats_delta_stat_sum_num_flush_mode_low = 0,
      pg_stats_delta_pg_stats_delta_stat_sum_num_evict_mode_some = 0,
      pg_stats_delta_pg_stats_delta_stat_sum_num_evict_mode_full = 0,
      pg_stats_delta_pg_stats_delta_stat_sum_num_objects_pinned = 0,
      pg_stats_delta_pg_stats_delta_stat_sum_num_legacy_snapsets = 0,
      pg_stats_delta_pg_stats_delta_stat_sum_num_large_omap_objects = 0,
      pg_stats_delta_pg_stats_delta_stat_sum_num_objects_manifest = 0,
      pg_stats_delta_pg_stats_delta_stat_sum_num_omap_bytes = 0,
      pg_stats_delta_pg_stats_delta_stat_sum_num_omap_keys = 0,
      pg_stats_delta_pg_stats_delta_stat_sum_num_objects_repaired = 0\<rparr>"

definition pg_stats_delta_pg_stats_delta_stat_sum_fields :: "pg_stats_delta_pg_stats_delta_stat_sum field list" where
  "pg_stats_delta_pg_stats_delta_stat_sum_fields =
    [field ''num_bytes'' dec_int pg_stats_delta_pg_stats_delta_stat_sum_num_bytes (\<lambda>v r. r\<lparr>pg_stats_delta_pg_stats_delta_stat_sum_num_bytes := v\<rparr>),
     field ''num_objects'' dec_int pg_stats_delta_pg_stats_delta_stat_sum_num_objects (\<lambda>v r. r\<lparr>pg_stats_delta_pg_stats_delta_stat_sum_num_objects := v\<rparr>),
     field ''num_object_clones'' dec_int pg_stats_delta_pg_stats_delta_stat_sum_num_object_clones (\<lambda>v r. r\<lparr>pg_stats_delta_pg_stats_delta_stat_sum_num_object_clones := v\<rparr>),
     field ''num_object_copies'' dec_int pg_stats_delta_pg_stats_delta_stat_sum_num_object_copies (\<lambda>v r. r\<lparr>pg_stats_delta_pg_stats_delta_stat_sum_num_object_copies := v\<rparr>),
     field ''num_objects_missing_on_primary'' dec_int pg_stats_delta_pg_stats_delta_stat_sum_num_objects_missing_on_primary (\<lambda>v r. r\<lparr>pg_stats_delta_pg_stats_delta_stat_sum_num_objects_missing_on_primary := v\<rparr>),
     field ''num_objects_missing'' dec_int pg_stats_delta_pg_stats_delta_stat_sum_num_objects_missing (\<lambda>v r. r\<lparr>pg_stats_delta_pg_stats_delta_stat_sum_num_objects_missing := v\<rparr>),
     field ''num_objects_degraded'' dec_int pg_stats_delta_pg_stats_delta_stat_sum_num_objects_degraded (\<lambda>v r. r\<lparr>pg_stats_delta_pg_stats_delta_stat_sum_num_objects_degraded := v\<rparr>),
     field ''num_objects_misplaced'' dec_int pg_stats_delta_pg_stats_delta_stat_sum_num_objects_misplaced (\<lambda>v r. r\<lparr>pg_stats_delta_pg_stats_delta_stat_sum_num_objects_misplaced := v\<rparr>),
     field ''num_objects_unfound'' dec_int pg_stats_delta_pg_stats_delta_stat_sum_num_objects_unfound (\<lambda>v r. r\<lparr>pg_stats_delta_pg_stats_delta_stat_sum_num_objects_unfound := v\<rparr>),
     field ''num_objects_dirty'' dec_int pg_stats_delta_pg_stats_delta_stat_sum_num_objects_dirty (\<lambda>v r. r\<lparr>pg_stats_delta_pg_stats_delta_stat_sum_num_objects_dirty := v\<rparr>),
     field ''num_whiteouts'' dec_int pg_stats_delta_pg_stats_delta_stat_sum_num_whiteouts (\<lambda>v r. r\<lparr>pg_stats_delta_pg_stats_delta_stat_sum_num_whiteouts := v\<rparr>),
     field ''num_read'' dec_int pg_stats_delta_pg_stats_delta_stat_sum_num_read (\<lambda>v r. r\<lparr>pg_stats_delta_pg_stats_delta_stat_sum_num_read := v\<rparr>),
     field ''num_read_kb'' dec_int pg_stats_delta_pg_stats_delta_stat_sum_num_read_kb (\<lambda>v r. r\<lparr>pg_stats_delta_pg_stats_delta_stat_sum_num_read_kb := v\<rparr>),
     field ''num_write'' dec_int pg_stats_delta_pg_stats_delta_stat_sum_num_write (\<lambda>v r. r\<lparr>pg_stats_delta_pg_stats_delta_stat_sum_num_write := v\<rparr>),
     field ''num_write_kb'' dec_int pg_stats_delta_pg_stats_delta_stat_sum_num_write_kb (\<lambda>v r. r\<lparr>pg_stats_delta_pg_stats_delta_stat_sum_num_write_kb := v\<rparr>),
     field ''num_scrub_errors'' dec_int pg_stats_delta_pg_stats_delta_stat_sum_num_scrub_errors (\<lambda>v r. r\<lparr>pg_stats_delta_pg_stats_delta_stat_sum_num_scrub_errors := v\<rparr>),
     field ''num_shallow_scrub_errors'' dec_int pg_stats_delta_pg_stats_delta_stat_sum_num_shallow_scrub_errors (\<lambda>v r. r\<lparr>pg_stats_delta_pg_stats_delta_stat_sum_num_shallow_scrub_errors := v\<rparr>),
     field ''num_deep_scrub_errors'' dec_int pg_stats_delta_pg_stats_delta_stat_sum_num_deep_scrub_errors (\<lambda>v r. r\<lparr>pg_stats_delta_pg_stats_delta_stat_sum_num_deep_scrub_errors := v\<rparr>),
     field ''num_objects_recovered'' dec_int pg_stats_delta_pg_stats_delta_stat_sum_num_objects_recovered (\<lambda>v r. r\<lparr>pg_stats_delta_pg_stats_delta_stat_sum_num_objects_recovered := v\<rparr>),
     field ''num_bytes_recovered'' dec_int pg_stats_delta_pg_stats_delta_stat_sum_num_bytes_recovered (\<lambda>v r. r\<lparr>pg_stats_delta_pg_stats_delta_stat_sum_num_bytes_recovered := v\<rparr>),
     field ''num_keys_recovered'' dec_int pg_stats_delta_pg_stats_delta_stat_sum_num_keys_recovered (\<lambda>v r. r\<lparr>pg_stats_delta_pg_stats_delta_stat_sum_num_keys_recovered := v\<rparr>),
     field ''num_objects_omap'' dec_int pg_stats_delta_pg_stats_delta_stat_sum_num_objects_omap (\<lambda>v r. r\<lparr>pg_stats_delta_pg_stats_delta_stat_sum_num_objects_omap := v\<rparr>),
     field ''num_objects_hit_set_archive'' dec_int pg_stats_delta_pg_stats_delta_stat_sum_num_objects_hit_set_archive (\<lambda>v r. r\<lparr>pg_stats_delta_pg_stats_delta_stat_sum_num_objects_hit_set_archive := v\<rparr>),
     field ''num_bytes_hit_set_archive'' dec_int pg_stats_delta_pg_stats_delta_stat_sum_num_bytes_hit_set_archive (\<lambda>v r. r\<lparr>pg_stats_delta_pg_stats_delta_stat_sum_num_bytes_hit_set_archive := v\<rparr>),
     field ''num_flush'' dec_int pg_stats_delta_pg_stats_delta_stat_sum_num_flush (\<lambda>v r. r\<lparr>pg_stats_delta_pg_stats_delta_stat_sum_num_flush := v\<rparr>),
     field ''num_flush_kb'' dec_int pg_stats_delta_pg_stats_delta_stat_sum_num_flush_kb (\<lambda>v r. r\<lparr>pg_stats_delta_pg_stats_delta_stat_sum_num_flush_kb := v\<rparr>),
     field ''num_evict'' dec_int pg_stats_delta_pg_stats_delta_stat_sum_num_evict (\<lambda>v r. r\<lparr>pg_stats_delta_pg_stats_delta_stat_sum_num_evict := v\<rparr>),
     field ''num_evict_kb'' dec_int pg_stats_delta_pg_stats_delta_stat_sum_num_evict_kb (\<lambda>v r. r\<lparr>pg_stats_delta_pg_stats_delta_stat_sum_num_evict_kb := v\<rparr>),
     field ''num_promote'' dec_int pg_stats_delta_pg_stats_delta_stat_sum_num_promote (\<lambda>v r. r\<lparr>pg_stats_delta_pg_stats_delta_stat_sum_num_promote := v\<rparr>),
     field ''num_flush_mode_high'' dec_int pg_stats_delta_pg_stats_delta_stat_sum_num_flush_mode_high (\<lambda>v r. r\<lparr>pg_stats_delta_pg_stats_delta_stat_sum_num_flush_mode_high := v\<rparr>),
     field ''num_flush_mode_low'' dec_int pg_stats_delta_pg_stats_delta_stat_sum_num_flush_mode_low (\<lambda>v r. r\<lparr>pg_stats_delta_pg_stats_delta_stat_sum_num_flush_mode_low := v\<rparr>),
     field ''num_evict_mode_some'' dec_int pg_stats_delta_pg_stats_delta_stat_sum_num_evict_mode_some (\<lambda>v r. r\<lparr>pg_stats_delta_pg_stats_delta_stat_sum_num_evict_mode_some := v\<rparr>),
     field ''num_evict_mode_full'' dec_int pg_stats_delta_pg_stats_delta_stat_sum_num_evict_mode_full (\<lambda>v r. r\<lparr>pg_stats_delta_pg_stats_delta_stat_sum_num_evict_mode_full := v\<rparr>),
     field ''num_objects_pinned'' dec_int pg_stats_delta_pg_stats_delta_stat_sum_num_objects_pinned (\<lambda>v r. r\<lparr>pg_stats_delta_pg_stats_delta_stat_sum_num_objects_pinned := v\<rparr>),
     field ''num_legacy_snapsets'' dec_int pg_stats_delta_pg_stats_delta_stat_sum_num_legacy_snapsets (\<lambda>v r. r\<lparr>pg_stats_delta_pg_stats_delta_stat_sum_num_legacy_snapsets := v\<rparr>),
     field ''num_large_omap_objects'' dec_int pg_stats_delta_pg_stats_delta_stat_sum_num_large_omap_objects (\<lambda>v r. r\<lparr>pg_stats_delta_pg_stats_delta_stat_sum_num_large_omap_objects := v\<rparr>),
     field ''num_objects_manifest'' dec_int pg_stats_delta_pg_stats_delta_stat_sum_num_objects_manifest (\<lambda>v r. r\<lparr>pg_stats_delta_pg_stats_delta_stat_sum_num_objects_manifest := v\<rparr>),
     field ''num_omap_bytes'' dec_int pg_stats_delta_pg_stats_delta_stat_sum_num_omap_bytes (\<lambda>v r. r\<lparr>pg_stats_delta_pg_stats_delta_stat_sum_num_omap_bytes := v\<rparr>),
     field ''num_omap_keys'' dec_int pg_stats_delta_pg_stats_delta_stat_sum_num_omap_keys (\<lambda>v r. r\<lparr>pg_stats_delta_pg_stats_delta_stat_sum_num_omap_keys := v\<rparr>),
     field ''num_objects_repaired'' dec_int pg_stats_delta_pg_stats_delta_stat_sum_num_objects_repaired (\<lambda>v r. r\<lparr>pg_stats_delta_pg_stats_delta_stat_sum_num_objects_repaired := v\<rparr>)]"

definition dec_pg_stats_delta_pg_stats_delta_stat_sum :: "json \<Rightarrow> pg_stats_delta_pg_stats_delta_stat_sum \<Rightarrow> pg_stats_delta_pg_stats_delta_stat_sum res" where
  "dec_pg_stats_delta_pg_stats_delta_stat_sum = dec_struct pg_stats_delta_pg_stats_delta_stat_sum_fields"

record pg_stats_delta_pg_stats_delta_store_stats =
  pg_stats_delta_pg_stats_delta_store_stats_total :: int
  pg_stats_delta_pg_stats_delta_store_stats_available :: int
  pg_stats_delta_pg_stats_delta_store_stats_internally_reserved :: int
  pg_stats_delta_pg_stats_delta_store_stats_allocated :: int
  pg_stats_delta_pg_stats_delta_store_stats_data_stored :: int
  pg_stats_delta_pg_stats_delta_store_stats_data_compressed :: int
  pg_stats_delta_pg_stats_delta_store_stats_data_compressed_allocated :: int
  pg_stats_delta_pg_stats_delta_store_stats_data_compressed_original :: int
  pg_stats_delta_pg_stats_delta_store_stats_omap_allocated :: int
  pg_stats_delta_pg_stats_delta_store_stats_internal_metadata :: int

definition zero_pg_stats_delta_pg_stats_delta_store_stats :: pg_stats_delta_pg_stats_delta_store_stats where
  "zero_pg_stats_delta_pg_stats_delta_store_stats =
    \<lparr>pg_stats_delta_pg_stats_delta_store_stats_total = 0,
      pg_stats_delta_pg_stats_delta_store_stats_available = 0,
      pg_stats_delta_pg_stats_delta_store_stats_internally_reserved = 0,
      pg_stats_delta_pg_stats_delta_store_stats_allocated = 0,
      pg_stats_delta_pg_stats_delta_store_stats_data_stored = 0,
      pg_stats_delta_pg_stats_delta_store_stats_data_compressed = 0,
      pg_stats_delta_pg_stats_delta_store_stats_data_compressed_allocated = 0,
      pg_stats_delta_pg_stats_delta_store_stats_data_compressed_original = 0,
      pg_stats_delta_pg_stats_delta_store_stats_omap_allocated = 0,
      pg_stats_delta_pg_stats_delta_store_stats_internal_metadata = 0\<rparr>"

definition pg_stats_delta_pg_stats_delta_store_stats_fields :: "pg_stats_delta_pg_stats_delta_store_stats field list" where
  "pg_stats_delta_pg_stats_delta_store_stats_fields =
    [field ''total'' dec_int pg_stats_delta_pg_stats_delta_store_stats_total (\<lambda>v r. r\<lparr>pg_stats_delta_pg_stats_delta_store_stats_total := v\<rparr>),
     field ''available'' dec_int pg_stats_delta_pg_stats_delta_store_stats_available (\<lambda>v r. r\<lparr>pg_stats_delta_pg_stats_delta_store_stats_available := v\<rparr>),
     field ''internally_reserved'' dec_int pg_stats_delta_pg_stats_delta_store_stats_internally_reserved (\<lambda>v r. r\<lparr>pg_stats_delta_pg_stats_delta_store_stats_internally_reserved := v\<rparr>),
     field ''allocated'' dec_int pg_stats_delta_pg_stats_delta_store_stats_allocated (\<lambda>v r. r\<lparr>pg_stats_delta_pg_stats_delta_store_stats_allocated := v\<rparr>),
     field ''data_stored'' dec_int pg_stats_delta_pg_stats_delta_store_stats_data_stored (\<lambda>v r. r\<lparr>pg_stats_delta_pg_stats_delta_store_stats_data_stored := v\<rparr>),
     field ''data_compressed'' dec_int pg_stats_delta_pg_stats_delta_store_stats_data_compressed (\<lambda>v r. r\<lparr>pg_stats_delta_pg_stats_delta_store_stats_data_compressed := v\<rparr>),
     field ''data_compressed_allocated'' dec_int pg_stats_delta_pg_stats_delta_store_stats_data_compressed_allocated (\<lambda>v r. r\<lparr>pg_stats_delta_pg_stats_delta_store_stats_data_compressed_allocated := v\<rparr>),
     field ''data_compressed_original'' dec_int pg_stats_delta_pg_stats_delta_store_stats_data_compressed_original (\<lambda>v r. r\<lparr>pg_stats_delta_pg_stats_delta_store_stats_data_compressed_original := v\<rparr>),
     field ''omap_allocated'' dec_int pg_stats_delta_pg_stats_delta_store_stats_omap_allocated (\<lambda>v r. r\<lparr>pg_stats_delta_pg_stats_delta_store_stats_omap_allocated := v\<rparr>),
     field ''internal_metadata'' dec_int pg_stats_delta_pg_stats_delta_store_stats_internal_metadata (\<lambda>v r. r\<lparr>pg_stats_delta_pg_stats_delta_store_stats_internal_metadata := v\<rparr>)]"

definition dec_pg_stats_delta_pg_stats_delta_store_stats :: "json \<Rightarrow> pg_stats_delta_pg_stats_delta_store_stats \<Rightarrow> pg_stats_delta_pg_stats_delta_store_stats res" where
  "dec_pg_stats_delta_pg_stats_delta_store_stats = dec_struct pg_stats_delta_pg_stats_delta_store_stats_fields"

record pg_stats_delta =
  pg_stats_delta_stat_sum :: "pg_stats_delta_pg_stats_delta_stat_sum option"
  pg_stats_delta_store_stats :: "pg_stats_delta_pg_stats_delta_store_stats option"
  pg_stats_delta_log_size :: int
  pg_stats_delta_ondisk_log_size :: int
  pg_stats_delta_up :: int
  pg_stats_delta_acting :: int
  pg_stats_delta_num_store_stats :: int
  pg_stats_delta_stamp_delta :: string

definition zero_pg_stats_delta :: pg_stats_delta where
  "zero_pg_stats_delta =
    \<lparr>pg_stats_delta_stat_sum = None, pg_stats_delta_store_stats = None, pg_stats_delta_log_size = 0,
      pg_stats_delta_ondisk_log_size = 0, pg_stats_delta_up = 0, pg_stats_delta_acting = 0,
      pg_stats_delta_num_store_stats = 0, pg_stats_delta_stamp_delta = []\<rparr>"

definition pg_stats_delta_fields :: "pg_stats_delta field list" where
  "pg_stats_delta_fields =
    [field ''stat_sum'' (dec_ptr dec_pg_stats_delta_pg_stats_delta_stat_sum zero_pg_stats_delta_pg_stats_delta_stat_sum) pg_stats_delta_stat_sum (\<lambda>v r. r\<lparr>pg_stats_delta_stat_sum := v\<rparr>),
     field ''store_stats'' (dec_ptr dec_pg_stats_delta_pg_stats_delta_store_stats zero_pg_stats_delta_pg_stats_delta_store_stats) pg_stats_delta_store_stats (\<lambda>v r. r\<lparr>pg_stats_delta_store_stats := v\<rparr>),
     field ''log_size'' dec_int pg_stats_delta_log_size (\<lambda>v r. r\<lparr>pg_stats_delta_log_size := v\<rparr>),
     field ''ondisk_log_size'' dec_int pg_stats_delta_ondisk_log_size (\<lambda>v r. r\<lparr>pg_stats_delta_ondisk_log_size := v\<rparr>),
     field ''up'' dec_int pg_stats_delta_up (\<lambda>v r. r\<lparr>pg_stats_delta_up := v\<rparr>),
     field ''acting'' dec_int pg_stats_delta_acting (\<lambda>v r. r\<lparr>pg_stats_delta_acting := v\<rparr>),
     field ''num_store_stats'' dec_int pg_stats_delta_num_store_stats (\<lambda>v r. r\<lparr>pg_stats_delta_num_store_stats := v\<rparr>),
     field ''stamp_delta'' dec_string pg_stats_delta_stamp_delta (\<lambda>v r. r\<lparr>pg_stats_delta_stamp_delta := v\<rparr>)]"

definition dec_pg_stats_delta :: "json \<Rightarrow> pg_stats_delta \<Rightarrow> pg_stats_delta res" where
  "dec_pg_stats_delta = dec_struct pg_stats_delta_fields"

record pg_stat_pg_stat_stat_sum =
  pg_stat_pg_stat_stat_sum_num_bytes :: int
  pg_stat_pg_stat_stat_sum_num_objects :: int
  pg_stat_pg_stat_stat_sum_num_object_clones :: int
  pg_stat_pg_stat_stat_sum_num_object_copies :: int
  pg_stat_pg_stat_stat_sum_num_objects_missing_on_primary :: int
  pg_stat_pg_stat_stat_sum_num_objects_missing :: int
  pg_stat_pg_stat_stat_sum_num_objects_degraded :: int
  pg_stat_pg_stat_stat_sum_num_objects_misplaced :: int
  pg_stat_pg_stat_stat_sum_num_objects_unfound :: int
  pg_stat_pg_stat_stat_sum_num_objects_dirty :: int
  pg_stat_pg_stat_stat_sum_num_whiteouts :: int
  pg_stat_pg_stat_stat_sum_num_read :: int
  pg_stat_pg_stat_stat_sum_num_read_kb :: int
  pg_stat_pg_stat_stat_sum_num_write :: int
  pg_stat_pg_stat_stat_sum_num_write_kb :: int
  pg_stat_pg_stat_stat_sum_num_scrub_errors :: int
  pg_stat_pg_stat_stat_sum_num_shallow_scrub_errors :: int
  pg_stat_pg_stat_stat_sum_num_deep_scrub_errors :: int
  pg_stat_pg_stat_stat_sum_num_objects_recovered :: int
  pg_stat_pg_stat_stat_sum_num_bytes_recovered :: int
  pg_stat_pg_stat_stat_sum_num_keys_recovered :: int
  pg_stat_pg_stat_stat_sum_num_objects_omap :: int
  pg_stat_pg_stat_stat_sum_num_objects_hit_set_archive :: int
  pg_stat_pg_stat_stat_sum_num_bytes_hit_set_archive :: int
  pg_stat_pg_stat_stat_sum_num_flush :: int
  pg_stat_pg_stat_stat_sum_num_flush_kb :: int
  pg_stat_pg_stat_stat_sum_num_evict :: int
  pg_stat_pg_stat_stat_sum_num_evict_kb :: int
  pg_stat_pg_stat_stat_sum_num_promote :: int
  pg_stat_pg_stat_stat_sum_num_flush_mode_high :: int
  pg_stat_pg_stat_stat_sum_num_flush_mode_low :: int
  pg_stat_pg_stat_stat_sum_num_evict_mode_some :: int
  pg_stat_pg_stat_stat_sum_num_evict_mode_full :: int
  pg_stat_pg_stat_stat_sum_num_objects_pinned :: int
  pg_stat_pg_stat_stat_sum_num_legacy_snapsets :: int
  pg_stat_pg_stat_stat_sum_num_large_omap_objects :: int
  pg_stat_pg_stat_stat_sum_num_objects_manifest :: int
  pg_stat_pg_stat_stat_sum_num_omap_bytes :: int
  pg_stat_pg_stat_stat_sum_num_omap_keys :: int
  pg_stat_pg_stat_stat_sum_num_objects_repaired :: int

definition zero_pg_stat_pg_stat_stat_sum :: pg_stat_pg_stat_stat_sum where
  "zero_pg_stat_pg_stat_stat_sum =
    \<lparr>pg_stat_pg_stat_stat_sum_num_bytes = 0, pg_stat_pg_stat_stat_sum_num_objects = 0,
      pg_stat_pg_stat_stat_sum_num_object_clones = 0, pg_stat_pg_stat_stat_sum_num_object_copies = 0,
      pg_stat_pg_stat_stat_sum_num_objects_missing_on_primary = 0,
      pg_stat_pg_stat_stat_sum_num_objects_missing = 0, pg_stat_pg_stat_stat_sum_num_objects_degraded = 0,
      pg_stat_pg_stat_stat_sum_num_objects_misplaced = 0, pg_stat_pg_stat_stat_sum_num_objects_unfound = 0,
      pg_stat_pg_stat_stat_sum_num_objects_dirty = 0, pg_stat_pg_stat_stat_sum_num_whiteouts = 0,
      pg_stat_pg_stat_stat_sum_num_read = 0, pg_stat_pg_stat_stat_sum_num_read_kb = 0,
      pg_stat_pg_stat_stat_sum_num_write = 0, pg_stat_pg_stat_stat_sum_num_write_kb = 0,
      pg_stat_pg_stat_stat_sum_num_scrub_errors = 0, pg_stat_pg_stat_stat_sum_num_shallow_scrub_errors = 0,
      pg_stat_pg_stat_stat_sum_num_deep_scrub_errors = 0,
      pg_stat_pg_stat_stat_sum_num_objects_recovered = 0, pg_stat_pg_stat_stat_sum_num_bytes_recovered = 0,
      pg_stat_pg_stat_stat_sum_num_keys_recovered = 0, pg_stat_pg_stat_stat_sum_num_objects_omap = 0,
      pg_stat_pg_stat_stat_sum_num_objects_hit_set_archive = 0,
      pg_stat_pg_stat_stat_sum_num_bytes_hit_set_archive = 0, pg_stat_pg_stat_stat_sum_num_flush = 0,
      pg_stat_pg_stat_stat_sum_num_flush_kb = 0, pg_stat_pg_stat_stat_sum_num_evict = 0,
      pg_stat_pg_stat_stat_sum_num_evict_kb = 0, pg_stat_pg_stat_stat_sum_num_promote = 0,
      pg_stat_pg_stat_stat_sum_num_flush_mode_high = 0, pg_stat_pg_stat_stat_sum_num_flush_mode_low = 0,
      pg_stat_pg_stat_stat_sum_num_evict_mode_some = 0, pg_stat_pg_stat_stat_sum_num_evict_mode_full = 0,
      pg_stat_pg_stat_stat_sum_num_objects_pinned = 0, pg_stat_pg_stat_stat_sum_num_legacy_snapsets = 0,
      pg_stat_pg_stat_stat_sum_num_large_omap_objects = 0,
      pg_stat_pg_stat_stat_sum_num_objects_manifest = 0, pg_stat_pg_stat_stat_sum_num_omap_bytes = 0,
      pg_stat_pg_stat_stat_sum_num_omap_keys = 0, pg_stat_pg_stat_stat_sum_num_objects_repaired = 0\<rparr>"

definition pg_stat_pg_stat_stat_sum_fields :: "pg_stat_pg_stat_stat_sum field list" where
  "pg_stat_pg_stat_stat_sum_fields =
    [field ''num_bytes'' dec_int pg_stat_pg_stat_stat_sum_num_bytes (\<lambda>v r. r\<lparr>pg_stat_pg_stat_stat_sum_num_bytes := v\<rparr>),
     field ''num_objects'' dec_int pg_stat_pg_stat_stat_sum_num_objects (\<lambda>v r. r\<lparr>pg_stat_pg_stat_stat_sum_num_objects := v\<rparr>),
     field ''num_object_clones'' dec_int pg_stat_pg_stat_stat_sum_num_object_clones (\<lambda>v r. r\<lparr>pg_stat_pg_stat_stat_sum_num_object_clones := v\<rparr>),
     field ''num_object_copies'' dec_int pg_stat_pg_stat_stat_sum_num_object_copies (\<lambda>v r. r\<lparr>pg_stat_pg_stat_stat_sum_num_object_copies := v\<rparr>),
     field ''num_objects_missing_on_primary'' dec_int pg_stat_pg_stat_stat_sum_num_objects_missing_on_primary (\<lambda>v r. r\<lparr>pg_stat_pg_stat_stat_sum_num_objects_missing_on_primary := v\<rparr>),
     field ''num_objects_missing'' dec_int pg_stat_pg_stat_stat_sum_num_objects_missing (\<lambda>v r. r\<lparr>pg_stat_pg_stat_stat_sum_num_objects_missing := v\<rparr>),
     field ''num_objects_degraded'' dec_int pg_stat_pg_stat_stat_sum_num_objects_degraded (\<lambda>v r. r\<lparr>pg_stat_pg_stat_stat_sum_num_objects_degraded := v\<rparr>),
     field ''num_objects_misplaced'' dec_int pg_stat_pg_stat_stat_sum_num_objects_misplaced (\<lambda>v r. r\<lparr>pg_stat_pg_stat_stat_sum_num_objects_misplaced := v\<rparr>),
     field ''num_objects_unfound'' dec_int pg_stat_pg_stat_stat_sum_num_objects_unfound (\<lambda>v r. r\<lparr>pg_stat_pg_stat_stat_sum_num_objects_unfound := v\<rparr>),
     field ''num_objects_dirty'' dec_int pg_stat_pg_stat_stat_sum_num_objects_dirty (\<lambda>v r. r\<lparr>pg_stat_pg_stat_stat_sum_num_objects_dirty := v\<rparr>),
     field ''num_whiteouts'' dec_int pg_stat_pg_stat_stat_sum_num_whiteouts (\<lambda>v r. r\<lparr>pg_stat_pg_stat_stat_sum_num_whiteouts := v\<rparr>),
     field ''num_read'' dec_int pg_stat_pg_stat_stat_sum_num_read (\<lambda>v r. r\<lparr>pg_stat_pg_stat_stat_sum_num_read := v\<rparr>),
     field ''num_read_kb'' dec_int pg_stat_pg_stat_stat_sum_num_read_kb (\<lambda>v r. r\<lparr>pg_stat_pg_stat_stat_sum_num_read_kb := v\<rparr>),
     field ''num_write'' dec_int pg_stat_pg_stat_stat_sum_num_write (\<lambda>v r. r\<lparr>pg_stat_pg_stat_stat_sum_num_write := v\<rparr>),
     field ''num_write_kb'' dec_int pg_stat_pg_stat_stat_sum_num_write_kb (\<lambda>v r. r\<lparr>pg_stat_pg_stat_stat_sum_num_write_kb := v\<rparr>),
     field ''num_scrub_errors'' dec_int pg_stat_pg_stat_stat_sum_num_scrub_errors (\<lambda>v r. r\<lparr>pg_stat_pg_stat_stat_sum_num_scrub_errors := v\<rparr>),
     field ''num_shallow_scrub_errors'' dec_int pg_stat_pg_stat_stat_sum_num_shallow_scrub_errors (\<lambda>v r. r\<lparr>pg_stat_pg_stat_stat_sum_num_shallow_scrub_errors := v\<rparr>),
     field ''num_deep_scrub_errors'' dec_int pg_stat_pg_stat_stat_sum_num_deep_scrub_errors (\<lambda>v r. r\<lparr>pg_stat_pg_stat_stat_sum_num_deep_scrub_errors := v\<rparr>),
     field ''num_objects_recovered'' dec_int pg_stat_pg_stat_stat_sum_num_objects_recovered (\<lambda>v r. r\<lparr>pg_stat_pg_stat_stat_sum_num_objects_recovered := v\<rparr>),
     field ''num_bytes_recovered'' dec_int pg_stat_pg_stat_stat_sum_num_bytes_recovered (\<lambda>v r. r\<lparr>pg_stat_pg_stat_stat_sum_num_bytes_recovered := v\<rparr>),
     field ''num_keys_recovered'' dec_int pg_stat_pg_stat_stat_sum_num_keys_recovered (\<lambda>v r. r\<lparr>pg_stat_pg_stat_stat_sum_num_keys_recovered := v\<rparr>),
     field ''num_objects_omap'' dec_int pg_stat_pg_stat_stat_sum_num_objects_omap (\<lambda>v r. r\<lparr>pg_stat_pg_stat_stat_sum_num_objects_omap := v\<rparr>),
     field ''num_objects_hit_set_archive'' dec_int pg_stat_pg_stat_stat_sum_num_objects_hit_set_archive (\<lambda>v r. r\<lparr>pg_stat_pg_stat_stat_sum_num_objects_hit_set_archive := v\<rparr>),
     field ''num_bytes_hit_set_archive'' dec_int pg_stat_pg_stat_stat_sum_num_bytes_hit_set_archive (\<lambda>v r. r\<lparr>pg_stat_pg_stat_stat_sum_num_bytes_hit_set_archive := v\<rparr>),
     field ''num_flush'' dec_int pg_stat_pg_stat_stat_sum_num_flush (\<lambda>v r. r\<lparr>pg_stat_pg_stat_stat_sum_num_flush := v\<rparr>),
     field ''num_flush_kb'' dec_int pg_stat_pg_stat_stat_sum_num_flush_kb (\<lambda>v r. r\<lparr>pg_stat_pg_stat_stat_sum_num_flush_kb := v\<rparr>),
     field ''num_evict'' dec_int pg_stat_pg_stat_stat_sum_num_evict (\<lambda>v r. r\<lparr>pg_stat_pg_stat_stat_sum_num_evict := v\<rparr>),
     field ''num_evict_kb'' dec_int pg_stat_pg_stat_stat_sum_num_evict_kb (\<lambda>v r. r\<lparr>pg_stat_pg_stat_stat_sum_num_evict_kb := v\<rparr>),
     field ''num_promote'' dec_int pg_stat_pg_stat_stat_sum_num_promote (\<lambda>v r. r\<lparr>pg_stat_pg_stat_stat_sum_num_promote := v\<rparr>),
     field ''num_flush_mode_high'' dec_int pg_stat_pg_stat_stat_sum_num_flush_mode_high (\<lambda>v r. r\<lparr>pg_stat_pg_stat_stat_sum_num_flush_mode_high := v\<rparr>),
     field ''num_flush_mode_low'' dec_int pg_stat_pg_stat_stat_sum_num_flush_mode_low (\<lambda>v r. r\<lparr>pg_stat_pg_stat_stat_sum_num_flush_mode_low := v\<rparr>),
     field ''num_evict_mode_some'' dec_int pg_stat_pg_stat_stat_sum_num_evict_mode_some (\<lambda>v r. r\<lparr>pg_stat_pg_stat_stat_sum_num_evict_mode_some := v\<rparr>),
     field ''num_evict_mode_full'' dec_int pg_stat_pg_stat_stat_sum_num_evict_mode_full (\<lambda>v r. r\<lparr>pg_stat_pg_stat_stat_sum_num_evict_mode_full := v\<rparr>),
     field ''num_objects_pinned'' dec_int pg_stat_pg_stat_stat_sum_num_objects_pinned (\<lambda>v r. r\<lparr>pg_stat_pg_stat_stat_sum_num_objects_pinned := v\<rparr>),
     field ''num_legacy_snapsets'' dec_int pg_stat_pg_stat_stat_sum_num_legacy_snapsets (\<lambda>v r. r\<lparr>pg_stat_pg_stat_stat_sum_num_legacy_snapsets := v\<rparr>),
     field ''num_large_omap_objects'' dec_int pg_stat_pg_stat_stat_sum_num_large_omap_objects (\<lambda>v r. r\<lparr>pg_stat_pg_stat_stat_sum_num_large_omap_objects := v\<rparr>),
     field ''num_objects_manifest'' dec_int pg_stat_pg_stat_stat_sum_num_objects_manifest (\<lambda>v r. r\<lparr>pg_stat_pg_stat_stat_sum_num_objects_manifest := v\<rparr>),
     field ''num_omap_bytes'' dec_int pg_stat_pg_stat_stat_sum_num_omap_bytes (\<lambda>v r. r\<lparr>pg_stat_pg_stat_stat_sum_num_omap_bytes := v\<rparr>),
     field ''num_omap_keys'' dec_int pg_stat_pg_stat_stat_sum_num_omap_keys (\<lambda>v r. r\<lparr>pg_stat_pg_stat_stat_sum_num_omap_keys := v\<rparr>),
     field ''num_objects_repaired'' dec_int pg_stat_pg_stat_stat_sum_num_objects_repaired (\<lambda>v r. r\<lparr>pg_stat_pg_stat_stat_sum_num_objects_repaired := v\<rparr>)]"

definition dec_pg_stat_pg_stat_stat_sum :: "json \<Rightarrow> pg_stat_pg_stat_stat_sum \<Rightarrow> pg_stat_pg_stat_stat_sum res" where
  "dec_pg_stat_pg_stat_stat_sum = dec_struct pg_stat_pg_stat_stat_sum_fields"

record pg_stat =
  pg_stat_pgid :: string
  pg_stat_version :: string
  pg_stat_reported_seq :: int
  pg_stat_reported_epoch :: int
  pg_stat_state :: string
  pg_stat_last_fresh :: "timestamp option"
  pg_stat_last_change :: "timestamp option"
  pg_stat_last_active :: "timestamp option"
  pg_stat_last_peered :: "timestamp option"
  pg_stat_last_clean :: "timestamp option"
  pg_stat_last_became_active :: "timestamp option"
  pg_stat_last_became_peered :: "timestamp option"
  pg_stat_last_unstale :: "timestamp option"
  pg_stat_last_undegraded :: "timestamp option"
  pg_stat_last_fullsized :: "timestamp option"
  pg_stat_mapping_epoch :: int
  pg_stat_log_start :: string
  pg_stat_ondisk_log_start :: string
  pg_stat_created :: int
  pg_stat_last_epoch_clean :: int
  pg_stat_parent :: string
  pg_stat_parent_split_bits :: int
  pg_stat_last_scrub :: string
  pg_stat_last_scrub_stamp :: "timestamp option"
  pg_stat_last_deep_scrub :: string
  pg_stat_last_deep_scrub_stamp :: "timestamp option"
  pg_stat_last_clean_scrub_stamp :: "timestamp option"
  pg_stat_objects_scrubbed :: int
  pg_stat_log_size :: int
  pg_stat_log_dups_size :: int
  pg_stat_ondisk_log_size :: int
  pg_stat_stats_invalid :: bool
  pg_stat_dirty_stats_invalid :: bool
  pg_stat_omap_stats_invalid :: bool
  pg_stat_hitset_stats_invalid :: bool
  pg_stat_hitset_bytes_stats_invalid :: bool
  pg_stat_pin_stats_invalid :: bool
  pg_stat_manifest_stats_invalid :: bool
  pg_stat_snaptrimq_len :: int
  pg_stat_last_scrub_duration :: int
  pg_stat_scrub_schedule :: string
  pg_stat_scrub_duration :: string
  pg_stat_objects_trimmed :: int
  pg_stat_snaptrim_duration :: string
  pg_stat_stat_sum :: "pg_stat_pg_stat_stat_sum option"
  pg_stat_up :: "int slice"
  pg_stat_acting :: "int slice"
  pg_stat_avail_no_missing :: "int slice"
  pg_stat_object_location_counts :: "int slice"
  pg_stat_blocked_by :: "int slice"
  pg_stat_up_primary :: int
  pg_stat_acting_primary :: int
  pg_stat_purged_snaps :: "int slice"

definition zero_pg_stat :: pg_stat where
  "zero_pg_stat =
    \<lparr>pg_stat_pgid = [], pg_stat_version = [], pg_stat_reported_seq = 0, pg_stat_reported_epoch = 0,
      pg_stat_state = [], pg_stat_last_fresh = None, pg_stat_last_change = None,
      pg_stat_last_active = None, pg_stat_last_peered = None, pg_stat_last_clean = None,
      pg_stat_last_became_active = None, pg_stat_last_became_peered = None, pg_stat_last_unstale = None,
      pg_stat_last_undegraded = None, pg_stat_last_fullsized = None, pg_stat_mapping_epoch = 0,
      pg_stat_log_start = [], pg_stat_ondisk_log_start = [], pg_stat_created = 0,
      pg_stat_last_epoch_clean = 0, pg_stat_parent = [], pg_stat_parent_split_bits = 0,
      pg_stat_last_scrub = [], pg_stat_last_scrub_stamp = None, pg_stat_last_deep_scrub = [],
      pg_stat_last_deep_scrub_stamp = None, pg_stat_last_clean_scrub_stamp = None,
      pg_stat_objects_scrubbed = 0, pg_stat_log_size = 0, pg_stat_log_dups_size = 0,
      pg_stat_ondisk_log_size = 0, pg_stat_stats_invalid = False, pg_stat_dirty_stats_invalid = False,
      pg_stat_omap_stats_invalid = False, pg_stat_hitset_stats_invalid = False,
      pg_stat_hitset_bytes_stats_invalid = False, pg_stat_pin_stats_invalid = False,
      pg_stat_manifest_stats_invalid = False, pg_stat_snaptrimq_len = 0, pg_stat_last_scrub_duration = 0,
      pg_stat_scrub_schedule = [], pg_stat_scrub_duration = ''0'', pg_stat_objects_trimmed = 0,
      pg_stat_snaptrim_duration = ''0'', pg_stat_stat_sum = None, pg_stat_up = None, pg_stat_acting = None,
      pg_stat_avail_no_missing = None, pg_stat_object_location_counts = None, pg_stat_blocked_by = None,
      pg_stat_up_primary = 0, pg_stat_acting_primary = 0, pg_stat_purged_snaps = None\<rparr>"

definition pg_stat_fields :: "pg_stat field list" where
  "pg_stat_fields =
    [field ''pgid'' dec_string pg_stat_pgid (\<lambda>v r. r\<lparr>pg_stat_pgid := v\<rparr>),
     field ''version'' dec_string pg_stat_version (\<lambda>v r. r\<lparr>pg_stat_version := v\<rparr>),
     field ''reported_seq'' dec_int pg_stat_reported_seq (\<lambda>v r. r\<lparr>pg_stat_reported_seq := v\<rparr>),
     field ''reported_epoch'' dec_int pg_stat_reported_epoch (\<lambda>v r. r\<lparr>pg_stat_reported_epoch := v\<rparr>),
     field ''state'' dec_string pg_stat_state (\<lambda>v r. r\<lparr>pg_stat_state := v\<rparr>),
     field ''last_fresh'' dec_ceph_timestamp pg_stat_last_fresh (\<lambda>v r. r\<lparr>pg_stat_last_fresh := v\<rparr>),
     field ''last_change'' dec_ceph_timestamp pg_stat_last_change (\<lambda>v r. r\<lparr>pg_stat_last_change := v\<rparr>),
     field ''last_active'' dec_ceph_timestamp pg_stat_last_active (\<lambda>v r. r\<lparr>pg_stat_last_active := v\<rparr>),
     field ''last_peered'' dec_ceph_timestamp pg_stat_last_peered (\<lambda>v r. r\<lparr>pg_stat_last_peered := v\<rparr>),
     field ''last_clean'' dec_ceph_timestamp pg_stat_last_clean (\<lambda>v r. r\<lparr>pg_stat_last_clean := v\<rparr>),
     field ''last_became_active'' dec_ceph_timestamp pg_stat_last_became_active (\<lambda>v r. r\<lparr>pg_stat_last_became_active := v\<rparr>),
     field ''last_became_peered'' dec_ceph_timestamp pg_stat_last_became_peered (\<lambda>v r. r\<lparr>pg_stat_last_became_peered := v\<rparr>),
     field ''last_unstale'' dec_ceph_timestamp pg_stat_last_unstale (\<lambda>v r. r\<lparr>pg_stat_last_unstale := v\<rparr>),
     field ''last_undegraded'' dec_ceph_timestamp pg_stat_last_undegraded (\<lambda>v r. r\<lparr>pg_stat_last_undegraded := v\<rparr>),
     field ''last_fullsized'' dec_ceph_timestamp pg_stat_last_fullsized (\<lambda>v r. r\<lparr>pg_stat_last_fullsized := v\<rparr>),
     field ''mapping_epoch'' dec_int pg_stat_mapping_epoch (\<lambda>v r. r\<lparr>pg_stat_mapping_epoch := v\<rparr>),
     field ''log_start'' dec_string pg_stat_log_start (\<lambda>v r. r\<lparr>pg_stat_log_start := v\<rparr>),
     field ''ondisk_log_start'' dec_string pg_stat_ondisk_log_start (\<lambda>v r. r\<lparr>pg_stat_ondisk_log_start := v\<rparr>),
     field ''created'' dec_int pg_stat_created (\<lambda>v r. r\<lparr>pg_stat_created := v\<rparr>),
     field ''last_epoch_clean'' dec_int pg_stat_last_epoch_clean (\<lambda>v r. r\<lparr>pg_stat_last_epoch_clean := v\<rparr>),
     field ''parent'' dec_string pg_stat_parent (\<lambda>v r. r\<lparr>pg_stat_parent := v\<rparr>),
     field ''parent_split_bits'' dec_int pg_stat_parent_split_bits (\<lambda>v r. r\<lparr>pg_stat_parent_split_bits := v\<rparr>),
     field ''last_scrub'' dec_string pg_stat_last_scrub (\<lambda>v r. r\<lparr>pg_stat_last_scrub := v\<rparr>),
     field ''last_scrub_stamp'' dec_ceph_timestamp pg_stat_last_scrub_stamp (\<lambda>v r. r\<lparr>pg_stat_last_scrub_stamp := v\<rparr>),
     field ''last_deep_scrub'' dec_string pg_stat_last_deep_scrub (\<lambda>v r. r\<lparr>pg_stat_last_deep_scrub := v\<rparr>),
     field ''last_deep_scrub_stamp'' dec_ceph_timestamp pg_stat_last_deep_scrub_stamp (\<lambda>v r. r\<lparr>pg_stat_last_deep_scrub_stamp := v\<rparr>),
     field ''last_clean_scrub_stamp'' dec_ceph_timestamp pg_stat_last_clean_scrub_stamp (\<lambda>v r. r\<lparr>pg_stat_last_clean_scrub_stamp := v\<rparr>),
     field ''objects_scrubbed'' dec_int pg_stat_objects_scrubbed (\<lambda>v r. r\<lparr>pg_stat_objects_scrubbed := v\<rparr>),
     field ''log_size'' dec_int pg_stat_log_size (\<lambda>v r. r\<lparr>pg_stat_log_size := v\<rparr>),
     field ''log_dups_size'' dec_int pg_stat_log_dups_size (\<lambda>v r. r\<lparr>pg_stat_log_dups_size := v\<rparr>),
     field ''ondisk_log_size'' dec_int pg_stat_ondisk_log_size (\<lambda>v r. r\<lparr>pg_stat_ondisk_log_size := v\<rparr>),
     field ''stats_invalid'' dec_bool pg_stat_stats_invalid (\<lambda>v r. r\<lparr>pg_stat_stats_invalid := v\<rparr>),
     field ''dirty_stats_invalid'' dec_bool pg_stat_dirty_stats_invalid (\<lambda>v r. r\<lparr>pg_stat_dirty_stats_invalid := v\<rparr>),
     field ''omap_stats_invalid'' dec_bool pg_stat_omap_stats_invalid (\<lambda>v r. r\<lparr>pg_stat_omap_stats_invalid := v\<rparr>),
     field ''hitset_stats_invalid'' dec_bool pg_stat_hitset_stats_invalid (\<lambda>v r. r\<lparr>pg_stat_hitset_stats_invalid := v\<rparr>),
     field ''hitset_bytes_stats_invalid'' dec_bool pg_stat_hitset_bytes_stats_invalid (\<lambda>v r. r\<lparr>pg_stat_hitset_bytes_stats_invalid := v\<rparr>),
     field ''pin_stats_invalid'' dec_bool pg_stat_pin_stats_invalid (\<lambda>v r. r\<lparr>pg_stat_pin_stats_invalid := v\<rparr>),
     field ''manifest_stats_invalid'' dec_bool pg_stat_manifest_stats_invalid (\<lambda>v r. r\<lparr>pg_stat_manifest_stats_invalid := v\<rparr>),
     field ''snaptrimq_len'' dec_int pg_stat_snaptrimq_len (\<lambda>v r. r\<lparr>pg_stat_snaptrimq_len := v\<rparr>),
     field ''last_scrub_duration'' dec_int pg_stat_last_scrub_duration (\<lambda>v r. r\<lparr>pg_stat_last_scrub_duration := v\<rparr>),
     field ''scrub_schedule'' dec_string pg_stat_scrub_schedule (\<lambda>v r. r\<lparr>pg_stat_scrub_schedule := v\<rparr>),
     field ''scrub_duration'' dec_float pg_stat_scrub_duration (\<lambda>v r. r\<lparr>pg_stat_scrub_duration := v\<rparr>),
     field ''objects_trimmed'' dec_int pg_stat_objects_trimmed (\<lambda>v r. r\<lparr>pg_stat_objects_trimmed := v\<rparr>),
     field ''snaptrim_duration'' dec_float pg_stat_snaptrim_duration (\<lambda>v r. r\<lparr>pg_stat_snaptrim_duration := v\<rparr>),
     field ''stat_sum'' (dec_ptr dec_pg_stat_pg_stat_stat_sum zero_pg_stat_pg_stat_stat_sum) pg_stat_stat_sum (\<lambda>v r. r\<lparr>pg_stat_stat_sum := v\<rparr>),
     field ''up'' (dec_slice dec_int 0) pg_stat_up (\<lambda>v r. r\<lparr>pg_stat_up := v\<rparr>),
     field ''acting'' (dec_slice dec_int 0) pg_stat_acting (\<lambda>v r. r\<lparr>pg_stat_acting := v\<rparr>),
     field ''avail_no_missing'' (dec_slice dec_int 0) pg_stat_avail_no_missing (\<lambda>v r. r\<lparr>pg_stat_avail_no_missing := v\<rparr>),
     field ''object_location_counts'' (dec_slice dec_int 0) pg_stat_object_location_counts (\<lambda>v r. r\<lparr>pg_stat_object_location_counts := v\<rparr>),
     field ''blocked_by'' (dec_slice dec_int 0) pg_stat_blocked_by (\<lambda>v r. r\<lparr>pg_stat_blocked_by := v\<rparr>),
     field ''up_primary'' dec_int pg_stat_up_primary (\<lambda>v r. r\<lparr>pg_stat_up_primary := v\<rparr>),
     field ''acting_primary'' dec_int pg_stat_acting_primary (\<lambda>v r. r\<lparr>pg_stat_acting_primary := v\<rparr>),
     field ''purged_snaps'' (dec_slice dec_int 0) pg_stat_purged_snaps (\<lambda>v r. r\<lparr>pg_stat_purged_snaps := v\<rparr>)]"

definition dec_pg_stat :: "json \<Rightarrow> pg_stat \<Rightarrow> pg_stat res" where
  "dec_pg_stat = dec_struct pg_stat_fields"

record pool_stats_pool_stats_stat_sum =
  pool_stats_pool_stats_stat_sum_num_bytes :: int
  pool_stats_pool_stats_stat_sum_num_objects :: int
  pool_stats_pool_stats_stat_sum_num_object_clones :: int
  pool_stats_pool_stats_stat_sum_num_object_copies :: int
  pool_stats_pool_stats_stat_sum_num_objects_missing_on_primary :: int
  pool_stats_pool_stats_stat_sum_num_objects_missing :: int
  pool_stats_pool_stats_stat_sum_num_objects_degraded :: int
  pool_stats_pool_stats_stat_sum_num_objects_misplaced :: int
  pool_stats_pool_stats_stat_sum_num_objects_unfound :: int
  pool_stats_pool_stats_stat_sum_num_objects_dirty :: int
  pool_stats_pool_stats_stat_sum_num_whiteouts :: int
  pool_stats_pool_stats_stat_sum_num_read :: int
  pool_stats_pool_stats_stat_sum_num_read_kb :: int
  pool_stats_pool_stats_stat_sum_num_write :: int
  pool_stats_pool_stats_stat_sum_num_write_kb :: int
  pool_stats_pool_stats_stat_sum_num_scrub_errors :: int
  pool_stats_pool_stats_stat_sum_num_shallow_scrub_errors :: int
  pool_stats_pool_stats_stat_sum_num_deep_scrub_errors :: int
  pool_stats_pool_stats_stat_sum_num_objects_recovered :: int
  pool_stats_pool_stats_stat_sum_num_bytes_recovered :: int
  pool_stats_pool_stats_stat_sum_num_keys_recovered :: int
  pool_stats_pool_stats_stat_sum_num_objects_omap :: int
  pool_stats_pool_stats_stat_sum_num_objects_hit_set_archive :: int
  pool_stats_pool_stats_stat_sum_num_bytes_hit_set_archive :: int
  pool_stats_pool_stats_stat_sum_num_flush :: int
  pool_stats_pool_stats_stat_sum_num_flush_kb :: int
  pool_stats_pool_stats_stat_sum_num_evict :: int
  pool_stats_pool_stats_stat_sum_num_evict_kb :: int
  pool_stats_pool_stats_stat_sum_num_promote :: int
  pool_stats_pool_stats_stat_sum_num_flush_mode_high :: int
  pool_stats_pool_stats_stat_sum_num_flush_mode_low :: int
  pool_stats_pool_stats_stat_sum_num_evict_mode_some :: int
  pool_stats_pool_stats_stat_sum_num_evict_mode_full :: int
  pool_stats_pool_stats_stat_sum_num_objects_pinned :: int
  pool_stats_pool_stats_stat_sum_num_legacy_snapsets :: int
  pool_stats_pool_stats_stat_sum_num_large_omap_objects :: int
  pool_stats_pool_stats_stat_sum_num_objects_manifest :: int
  pool_stats_pool_stats_stat_sum_num_omap_bytes :: int
  pool_stats_pool_stats_stat_sum_num_omap_keys :: int
  pool_stats_pool_stats_stat_sum_num_objects_repaired :: int

definition zero_pool_stats_pool_stats_stat_sum :: pool_stats_pool_stats_stat_sum where
  "zero_pool_stats_pool_stats_stat_sum =
    \<lparr>pool_stats_pool_stats_stat_sum_num_bytes = 0, pool_stats_pool_stats_stat_sum_num_objects = 0,
      pool_stats_pool_stats_stat_sum_num_object_clones = 0,
      pool_stats_pool_stats_stat_sum_num_object_copies = 0,
      pool_stats_pool_stats_stat_sum_num_objects_missing_on_primary = 0,
      pool_stats_pool_stats_stat_sum_num_objects_missing = 0,
      pool_stats_pool_stats_stat_sum_num_objects_degraded = 0,
      pool_stats_pool_stats_stat_sum_num_objects_misplaced = 0,
      pool_stats_pool_stats_stat_sum_num_objects_unfound = 0,
      pool_stats_pool_stats_stat_sum_num_objects_dirty = 0,
      pool_stats_pool_stats_stat_sum_num_whiteouts = 0, pool_stats_pool_stats_stat_sum_num_read = 0,
      pool_stats_pool_stats_stat_sum_num_read_kb = 0, pool_stats_pool_stats_stat_sum_num_write = 0,
      pool_stats_pool_stats_stat_sum_num_write_kb = 0, pool_stats_pool_stats_stat_sum_num_scrub_errors = 0,
      pool_stats_pool_stats_stat_sum_num_shallow_scrub_errors = 0,
      pool_stats_pool_stats_stat_sum_num_deep_scrub_errors = 0,
      pool_stats_pool_stats_stat_sum_num_objects_recovered = 0,
      pool_stats_pool_stats_stat_sum_num_bytes_recovered = 0,
      pool_stats_pool_stats_stat_sum_num_keys_recovered = 0,
      pool_stats_pool_stats_stat_sum_num_objects_omap = 0,
      pool_stats_pool_stats_stat_sum_num_objects_hit_set_archive = 0,
      pool_stats_pool_stats_stat_sum_num_bytes_hit_set_archive = 0,
      pool_stats_pool_stats_stat_sum_num_flush = 0, pool_stats_pool_stats_stat_sum_num_flush_kb = 0,
      pool_stats_pool_stats_stat_sum_num_evict = 0, pool_stats_pool_stats_stat_sum_num_evict_kb = 0,
      pool_stats_pool_stats_stat_sum_num_promote = 0,
      pool_stats_pool_stats_stat_sum_num_flush_mode_high = 0,
      pool_stats_pool_stats_stat_sum_num_flush_mode_low = 0,
      pool_stats_pool_stats_stat_sum_num_evict_mode_some = 0,
      pool_stats_pool_stats_stat_sum_num_evict_mode_full = 0,
      pool_stats_pool_stats_stat_sum_num_objects_pinned = 0,
      pool_stats_pool_stats_stat_sum_num_legacy_snapsets = 0,
      pool_stats_pool_stats_stat_sum_num_large_omap_objects = 0,
      pool_stats_pool_stats_stat_sum_num_objects_manifest = 0,
      pool_stats_pool_stats_stat_sum_num_omap_bytes = 0, pool_stats_pool_stats_stat_sum_num_omap_keys = 0,
      pool_stats_pool_stats_stat_sum_num_objects_repaired = 0\<rparr>"

definition pool_stats_pool_stats_stat_sum_fields :: "pool_stats_pool_stats_stat_sum field list" where
  "pool_stats_pool_stats_stat_sum_fields =
    [field ''num_bytes'' dec_int pool_stats_pool_stats_stat_sum_num_bytes (\<lambda>v r. r\<lparr>pool_stats_pool_stats_stat_sum_num_bytes := v\<rparr>),
     field ''num_objects'' dec_int pool_stats_pool_stats_stat_sum_num_objects (\<lambda>v r. r\<lparr>pool_stats_pool_stats_stat_sum_num_objects := v\<rparr>),
     field ''num_object_clones'' dec_int pool_stats_pool_stats_stat_sum_num_object_clones (\<lambda>v r. r\<lparr>pool_stats_pool_stats_stat_sum_num_object_clones := v\<rparr>),
     field ''num_object_copies'' dec_int pool_stats_pool_stats_stat_sum_num_object_copies (\<lambda>v r. r\<lparr>pool_stats_pool_stats_stat_sum_num_object_copies := v\<rparr>),
     field ''num_objects_missing_on_primary'' dec_int pool_stats_pool_stats_stat_sum_num_objects_missing_on_primary (\<lambda>v r. r\<lparr>pool_stats_pool_stats_stat_sum_num_objects_missing_on_primary := v\<rparr>),
     field ''num_objects_missing'' dec_int pool_stats_pool_stats_stat_sum_num_objects_missing (\<lambda>v r. r\<lparr>pool_stats_pool_stats_stat_sum_num_objects_missing := v\<rparr>),
     field ''num_objects_degraded'' dec_int pool_stats_pool_stats_stat_sum_num_objects_degraded (\<lambda>v r. r\<lparr>pool_stats_pool_stats_stat_sum_num_objects_degraded := v\<rparr>),
     field ''num_objects_misplaced'' dec_int pool_stats_pool_stats_stat_sum_num_objects_misplaced (\<lambda>v r. r\<lparr>pool_stats_pool_stats_stat_sum_num_objects_misplaced := v\<rparr>),
     field ''num_objects_unfound'' dec_int pool_stats_pool_stats_stat_sum_num_objects_unfound (\<lambda>v r. r\<lparr>pool_stats_pool_stats_stat_sum_num_objects_unfound := v\<rparr>),
     field ''num_objects_dirty'' dec_int pool_stats_pool_stats_stat_sum_num_objects_dirty (\<lambda>v r. r\<lparr>pool_stats_pool_stats_stat_sum_num_objects_dirty := v\<rparr>),
     field ''num_whiteouts'' dec_int pool_stats_pool_stats_stat_sum_num_whiteouts (\<lambda>v r. r\<lparr>pool_stats_pool_stats_stat_sum_num_whiteouts := v\<rparr>),
     field ''num_read'' dec_int pool_stats_pool_stats_stat_sum_num_read (\<lambda>v r. r\<lparr>pool_stats_pool_stats_stat_sum_num_read := v\<rparr>),
     field ''num_read_kb'' dec_int pool_stats_pool_stats_stat_sum_num_read_kb (\<lambda>v r. r\<lparr>pool_stats_pool_stats_stat_sum_num_read_kb := v\<rparr>),
     field ''num_write'' dec_int pool_stats_pool_stats_stat_sum_num_write (\<lambda>v r. r\<lparr>pool_stats_pool_stats_stat_sum_num_write := v\<rparr>),
     field ''num_write_kb'' dec_int pool_stats_pool_stats_stat_sum_num_write_kb (\<lambda>v r. r\<lparr>pool_stats_pool_stats_stat_sum_num_write_kb := v\<rparr>),
     field ''num_scrub_errors'' dec_int pool_stats_pool_stats_stat_sum_num_scrub_errors (\<lambda>v r. r\<lparr>pool_stats_pool_stats_stat_sum_num_scrub_errors := v\<rparr>),
     field ''num_shallow_scrub_errors'' dec_int pool_stats_pool_stats_stat_sum_num_shallow_scrub_errors (\<lambda>v r. r\<lparr>pool_stats_pool_stats_stat_sum_num_shallow_scrub_errors := v\<rparr>),
     field ''num_deep_scrub_errors'' dec_int pool_stats_pool_stats_stat_sum_num_deep_scrub_errors (\<lambda>v r. r\<lparr>pool_stats_pool_stats_stat_sum_num_deep_scrub_errors := v\<rparr>),
     field ''num_objects_recovered'' dec_int pool_stats_pool_stats_stat_sum_num_objects_recovered (\<lambda>v r. r\<lparr>pool_stats_pool_stats_stat_sum_num_objects_recovered := v\<rparr>),
     field ''num_bytes_recovered'' dec_int pool_stats_pool_stats_stat_sum_num_bytes_recovered (\<lambda>v r. r\<lparr>pool_stats_pool_stats_stat_sum_num_bytes_recovered := v\<rparr>),
     field ''num_keys_recovered'' dec_int pool_stats_pool_stats_stat_sum_num_keys_recovered (\<lambda>v r. r\<lparr>pool_stats_pool_stats_stat_sum_num_keys_recovered := v\<rparr>),
     field ''num_objects_omap'' dec_int pool_stats_pool_stats_stat_sum_num_objects_omap (\<lambda>v r. r\<lparr>pool_stats_pool_stats_stat_sum_num_objects_omap := v\<rparr>),
     field ''num_objects_hit_set_archive'' dec_int pool_stats_pool_stats_stat_sum_num_objects_hit_set_archive (\<lambda>v r. r\<lparr>pool_stats_pool_stats_stat_sum_num_objects_hit_set_archive := v\<rparr>),
     field ''num_bytes_hit_set_archive'' dec_int pool_stats_pool_stats_stat_sum_num_bytes_hit_set_archive (\<lambda>v r. r\<lparr>pool_stats_pool_stats_stat_sum_num_bytes_hit_set_archive := v\<rparr>),
     field ''num_flush'' dec_int pool_stats_pool_stats_stat_sum_num_flush (\<lambda>v r. r\<lparr>pool_stats_pool_stats_stat_sum_num_flush := v\<rparr>),
     field ''num_flush_kb'' dec_int pool_stats_pool_stats_stat_sum_num_flush_kb (\<lambda>v r. r\<lparr>pool_stats_pool_stats_stat_sum_num_flush_kb := v\<rparr>),
     field ''num_evict'' dec_int pool_stats_pool_stats_stat_sum_num_evict (\<lambda>v r. r\<lparr>pool_stats_pool_stats_stat_sum_num_evict := v\<rparr>),
     field ''num_evict_kb'' dec_int pool_stats_pool_stats_stat_sum_num_evict_kb (\<lambda>v r. r\<lparr>pool_stats_pool_stats_stat_sum_num_evict_kb := v\<rparr>),
     field ''num_promote'' dec_int pool_stats_pool_stats_stat_sum_num_promote (\<lambda>v r. r\<lparr>pool_stats_pool_stats_stat_sum_num_promote := v\<rparr>),
     field ''num_flush_mode_high'' dec_int pool_stats_pool_stats_stat_sum_num_flush_mode_high (\<lambda>v r. r\<lparr>pool_stats_pool_stats_stat_sum_num_flush_mode_high := v\<rparr>),
     field ''num_flush_mode_low'' dec_int pool_stats_pool_stats_stat_sum_num_flush_mode_low (\<lambda>v r. r\<lparr>pool_stats_pool_stats_stat_sum_num_flush_mode_low := v\<rparr>),
     field ''num_evict_mode_some'' dec_int pool_stats_pool_stats_stat_sum_num_evict_mode_some (\<lambda>v r. r\<lparr>pool_stats_pool_stats_stat_sum_num_evict_mode_some := v\<rparr>),
     field ''num_evict_mode_full'' dec_int pool_stats_pool_stats_stat_sum_num_evict_mode_full (\<lambda>v r. r\<lparr>pool_stats_pool_stats_stat_sum_num_evict_mode_full := v\<rparr>),
     field ''num_objects_pinned'' dec_int pool_stats_pool_stats_stat_sum_num_objects_pinned (\<lambda>v r. r\<lparr>pool_stats_pool_stats_stat_sum_num_objects_pinned := v\<rparr>),
     field ''num_legacy_snapsets'' dec_int pool_stats_pool_stats_stat_sum_num_legacy_snapsets (\<lambda>v r. r\<lparr>pool_stats_pool_stats_stat_sum_num_legacy_snapsets := v\<rparr>),
     field ''num_large_omap_objects'' dec_int pool_stats_pool_stats_stat_sum_num_large_omap_objects (\<lambda>v r. r\<lparr>pool_stats_pool_stats_stat_sum_num_large_omap_objects := v\<rparr>),
     field ''num_objects_manifest'' dec_int pool_stats_pool_stats_stat_sum_num_objects_manifest (\<lambda>v r. r\<lparr>pool_stats_pool_stats_stat_sum_num_objects_manifest := v\<rparr>),
     field ''num_omap_bytes'' dec_int pool_stats_pool_stats_stat_sum_num_omap_bytes (\<lambda>v r. r\<lparr>pool_stats_pool_stats_stat_sum_num_omap_bytes := v\<rparr>),
     field ''num_omap_keys'' dec_int pool_stats_pool_stats_stat_sum_num_omap_keys (\<lambda>v r. r\<lparr>pool_stats_pool_stats_stat_sum_num_omap_keys := v\<rparr>),
     field ''num_objects_repaired'' dec_int pool_stats_pool_stats_stat_sum_num_objects_repaired (\<lambda>v r. r\<lparr>pool_stats_pool_stats_stat_sum_num_objects_repaired := v\<rparr>)]"

definition dec_pool_stats_pool_stats_stat_sum :: "json \<Rightarrow> pool_stats_pool_stats_stat_sum \<Rightarrow> pool_stats_pool_stats_stat_sum res" where
  "dec_pool_stats_pool_stats_stat_sum = dec_struct pool_stats_pool_stats_stat_sum_fields"

record pool_stats_pool_stats_store_stats =
  pool_stats_pool_stats_store_stats_total :: int
  pool_stats_pool_stats_store_stats_available :: int
  pool_stats_pool_stats_store_stats_internally_reserved :: int
  pool_stats_pool_stats_store_stats_allocated :: int
  pool_stats_pool_stats_store_stats_data_stored :: int
  pool_stats_pool_stats_store_stats_data_compressed :: int
  pool_stats_pool_stats_store_stats_data_compressed_allocated :: int
  pool_stats_pool_stats_store_stats_data_compressed_original :: int
  pool_stats_pool_stats_store_stats_omap_allocated :: int
  pool_stats_pool_stats_store_stats_internal_metadata :: int

definition zero_pool_stats_pool_stats_store_stats :: pool_stats_pool_stats_store_stats where
  "zero_pool_stats_pool_stats_store_stats =
    \<lparr>pool_stats_pool_stats_store_stats_total = 0, pool_stats_pool_stats_store_stats_available = 0,
      pool_stats_pool_stats_store_stats_internally_reserved = 0,
      pool_stats_pool_stats_store_stats_allocated = 0, pool_stats_pool_stats_store_stats_data_stored = 0,
      pool_stats_pool_stats_store_stats_data_compressed = 0,
      pool_stats_pool_stats_store_stats_data_compressed_allocated = 0,
      pool_stats_pool_stats_store_stats_data_compressed_original = 0,
      pool_stats_pool_stats_store_stats_omap_allocated = 0,
      pool_stats_pool_stats_store_stats_internal_metadata = 0\<rparr>"

definition pool_stats_pool_stats_store_stats_fields :: "pool_stats_pool_stats_store_stats field list" where
  "pool_stats_pool_stats_store_stats_fields =
    [field ''total'' dec_int pool_stats_pool_stats_store_stats_total (\<lambda>v r. r\<lparr>pool_stats_pool_stats_store_stats_total := v\<rparr>),
     field ''available'' dec_int pool_stats_pool_stats_store_stats_available (\<lambda>v r. r\<lparr>pool_stats_pool_stats_store_stats_available := v\<rparr>),
     field ''internally_reserved'' dec_int pool_stats_pool_stats_store_stats_internally_reserved (\<lambda>v r. r\<lparr>pool_stats_pool_stats_store_stats_internally_reserved := v\<rparr>),
     field ''allocated'' dec_int pool_stats_pool_stats_store_stats_allocated (\<lambda>v r. r\<lparr>pool_stats_pool_stats_store_stats_allocated := v\<rparr>),
     field ''data_stored'' dec_int pool_stats_pool_stats_store_stats_data_stored (\<lambda>v r. r\<lparr>pool_stats_pool_stats_store_stats_data_stored := v\<rparr>),
     field ''data_compressed'' dec_int pool_stats_pool_stats_store_stats_data_compressed (\<lambda>v r. r\<lparr>pool_stats_pool_stats_store_stats_data_compressed := v\<rparr>),
     field ''data_compressed_allocated'' dec_int pool_stats_pool_stats_store_stats_data_compressed_allocated (\<lambda>v r. r\<lparr>pool_stats_pool_stats_store_stats_data_compressed_allocated := v\<rparr>),
     field ''data_compressed_original'' dec_int pool_stats_pool_stats_store_stats_data_compressed_original (\<lambda>v r. r\<lparr>pool_stats_pool_stats_store_stats_data_compressed_original := v\<rparr>),
     field ''omap_allocated'' dec_int pool_stats_pool_stats_store_stats_omap_allocated (\<lambda>v r. r\<lparr>pool_stats_pool_stats_store_stats_omap_allocated := v\<rparr>),
     field ''internal_metadata'' dec_int pool_stats_pool_stats_store_stats_internal_metadata (\<lambda>v r. r\<lparr>pool_stats_pool_stats_store_stats_internal_metadata := v\<rparr>)]"

definition dec_pool_stats_pool_stats_store_stats :: "json \<Rightarrow> pool_stats_pool_stats_store_stats \<Rightarrow> pool_stats_pool_stats_store_stats res" where
  "dec_pool_stats_pool_stats_store_stats = dec_struct pool_stats_pool_stats_store_stats_fields"

record pool_stats =
  pool_stats_poolid :: int
  pool_stats_num_pg :: int
  pool_stats_stat_sum :: "pool_stats_pool_stats_stat_sum option"
  pool_stats_store_stats :: "pool_stats_pool_stats_store_stats option"
  pool_stats_log_size :: int
  pool_stats_ondisk_log_size :: int
  pool_stats_up :: int
  pool_stats_acting :: int
  pool_stats_num_store_stats :: int

definition zero_pool_stats :: pool_stats where
  "zero_pool_stats =
    \<lparr>pool_stats_poolid = 0, pool_stats_num_pg = 0, pool_stats_stat_sum = None,
      pool_stats_store_stats = None, pool_stats_log_size = 0, pool_stats_ondisk_log_size = 0,
      pool_stats_up = 0, pool_stats_acting = 0, pool_stats_num_store_stats = 0\<rparr>"

definition pool_stats_fields :: "pool_stats field list" where
  "pool_stats_fields =
    [field ''poolid'' dec_int pool_stats_poolid (\<lambda>v r. r\<lparr>pool_stats_poolid := v\<rparr>),
     field ''num_pg'' dec_int pool_stats_num_pg (\<lambda>v r. r\<lparr>pool_stats_num_pg := v\<rparr>),
     field ''stat_sum'' (dec_ptr dec_pool_stats_pool_stats_stat_sum zero_pool_stats_pool_stats_stat_sum) pool_stats_stat_sum (\<lambda>v r. r\<lparr>pool_stats_stat_sum := v\<rparr>),
     field ''store_stats'' (dec_ptr dec_pool_stats_pool_stats_store_stats zero_pool_stats_pool_stats_store_stats) pool_stats_store_stats (\<lambda>v r. r\<lparr>pool_stats_store_stats := v\<rparr>),
     field ''log_size'' dec_int pool_stats_log_size (\<lambda>v r. r\<lparr>pool_stats_log_size := v\<rparr>),
     field ''ondisk_log_size'' dec_int pool_stats_ondisk_log_size (\<lambda>v r. r\<lparr>pool_stats_ondisk_log_size := v\<rparr>),
     field ''up'' dec_int pool_stats_up (\<lambda>v r. r\<lparr>pool_stats_up := v\<rparr>),
     field ''acting'' dec_int pool_stats_acting (\<lambda>v r. r\<lparr>pool_stats_acting := v\<rparr>),
     field ''num_store_stats'' dec_int pool_stats_num_store_stats (\<lambda>v r. r\<lparr>pool_stats_num_store_stats := v\<rparr>)]"

definition dec_pool_stats :: "json \<Rightarrow> pool_stats \<Rightarrow> pool_stats res" where
  "dec_pool_stats = dec_struct pool_stats_fields"

record osd_stats_stat_fs =
  osd_stats_stat_fs_total :: int
  osd_stats_stat_fs_available :: int
  osd_stats_stat_fs_internally_reserved :: int
  osd_stats_stat_fs_allocated :: int
  osd_stats_stat_fs_data_stored :: int
  osd_stats_stat_fs_data_compressed :: int
  osd_stats_stat_fs_data_compressed_allocated :: int
  osd_stats_stat_fs_data_compressed_original :: int
  osd_stats_stat_fs_omap_allocated :: int
  osd_stats_stat_fs_internal_metadata :: int

definition zero_osd_stats_stat_fs :: osd_stats_stat_fs where
  "zero_osd_stats_stat_fs =
    \<lparr>osd_stats_stat_fs_total = 0, osd_stats_stat_fs_available = 0,
      osd_stats_stat_fs_internally_reserved = 0, osd_stats_stat_fs_allocated = 0,
      osd_stats_stat_fs_data_stored = 0, osd_stats_stat_fs_data_compressed = 0,
      osd_stats_stat_fs_data_compressed_allocated = 0, osd_stats_stat_fs_data_compressed_original = 0,
      osd_stats_stat_fs_omap_allocated = 0, osd_stats_stat_fs_internal_metadata = 0\<rparr>"

definition osd_stats_stat_fs_fields :: "osd_stats_stat_fs field list" where
  "osd_stats_stat_fs_fields =
    [field ''total'' dec_int osd_stats_stat_fs_total (\<lambda>v r. r\<lparr>osd_stats_stat_fs_total := v\<rparr>),
     field ''available'' dec_int osd_stats_stat_fs_available (\<lambda>v r. r\<lparr>osd_stats_stat_fs_available := v\<rparr>),
     field ''internally_reserved'' dec_int osd_stats_stat_fs_internally_reserved (\<lambda>v r. r\<lparr>osd_stats_stat_fs_internally_reserved := v\<rparr>),
     field ''allocated'' dec_int osd_stats_stat_fs_allocated (\<lambda>v r. r\<lparr>osd_stats_stat_fs_allocated := v\<rparr>),
     field ''data_stored'' dec_int osd_stats_stat_fs_data_stored (\<lambda>v r. r\<lparr>osd_stats_stat_fs_data_stored := v\<rparr>),
     field ''data_compressed'' dec_int osd_stats_stat_fs_data_compressed (\<lambda>v r. r\<lparr>osd_stats_stat_fs_data_compressed := v\<rparr>),
     field ''data_compressed_allocated'' dec_int osd_stats_stat_fs_data_compressed_allocated (\<lambda>v r. r\<lparr>osd_stats_stat_fs_data_compressed_allocated := v\<rparr>),
     field ''data_compressed_original'' dec_int osd_stats_stat_fs_data_compressed_original (\<lambda>v r. r\<lparr>osd_stats_stat_fs_data_compressed_original := v\<rparr>),
     field ''omap_allocated'' dec_int osd_stats_stat_fs_omap_allocated (\<lambda>v r. r\<lparr>osd_stats_stat_fs_omap_allocated := v\<rparr>),
     field ''internal_metadata'' dec_int osd_stats_stat_fs_internal_metadata (\<lambda>v r. r\<lparr>osd_stats_stat_fs_internal_metadata := v\<rparr>)]"

definition dec_osd_stats_stat_fs :: "json \<Rightarrow> osd_stats_stat_fs \<Rightarrow> osd_stats_stat_fs res" where
  "dec_osd_stats_stat_fs = dec_struct osd_stats_stat_fs_fields"

record osd_stats_op_queue_age_hist =
  osd_stats_op_queue_age_hist_histogram :: "int slice"
  osd_stats_op_queue_age_hist_upper_bound :: int

definition zero_osd_stats_op_queue_age_hist :: osd_stats_op_queue_age_hist where
  "zero_osd_stats_op_queue_age_hist =
    \<lparr>osd_stats_op_queue_age_hist_histogram = None,
      osd_stats_op_queue_age_hist_upper_bound = 0\<rparr>"

definition osd_stats_op_queue_age_hist_fields :: "osd_stats_op_queue_age_hist field list" where
  "osd_stats_op_queue_age_hist_fields =
    [field ''histogram'' (dec_slice dec_int 0) osd_stats_op_queue_age_hist_histogram (\<lambda>v r. r\<lparr>osd_stats_op_queue_age_hist_histogram := v\<rparr>),
     field ''upper_bound'' dec_int osd_stats_op_queue_age_hist_upper_bound (\<lambda>v r. r\<lparr>osd_stats_op_queue_age_hist_upper_bound := v\<rparr>)]"

definition dec_osd_stats_op_queue_age_hist :: "json \<Rightarrow> osd_stats_op_queue_age_hist \<Rightarrow> osd_stats_op_queue_age_hist res" where
  "dec_osd_stats_op_queue_age_hist = dec_struct osd_stats_op_queue_age_hist_fields"

record osd_stats_perf_stat =
  osd_stats_perf_stat_commit_latency_ms :: int
  osd_stats_perf_stat_apply_latency_ms :: int
  osd_stats_perf_stat_commit_latency_ns :: int
  osd_stats_perf_stat_apply_latency_ns :: int

definition zero_osd_stats_perf_stat :: osd_stats_perf_stat where
  "zero_osd_stats_perf_stat =
    \<lparr>osd_stats_perf_stat_commit_latency_ms = 0, osd_stats_perf_stat_apply_latency_ms = 0,
      osd_stats_perf_stat_commit_latency_ns = 0, osd_stats_perf_stat_apply_latency_ns = 0\<rparr>"

definition osd_stats_perf_stat_fields :: "osd_stats_perf_stat field list" where
  "osd_stats_perf_stat_fields =
    [field ''commit_latency_ms'' dec_int osd_stats_perf_stat_commit_latency_ms (\<lambda>v r. r\<lparr>osd_stats_perf_stat_commit_latency_ms := v\<rparr>),
     field ''apply_latency_ms'' dec_int osd_stats_perf_stat_apply_latency_ms (\<lambda>v r. r\<lparr>osd_stats_perf_stat_apply_latency_ms := v\<rparr>),
     field ''commit_latency_ns'' dec_int osd_stats_perf_stat_commit_latency_ns (\<lambda>v r. r\<lparr>osd_stats_perf_stat_commit_latency_ns := v\<rparr>),
     field ''apply_latency_ns'' dec_int osd_stats_perf_stat_apply_latency_ns (\<lambda>v r. r\<lparr>osd_stats_perf_stat_apply_latency_ns := v\<rparr>)]"

definition dec_osd_stats_perf_stat :: "json \<Rightarrow> osd_stats_perf_stat \<Rightarrow> osd_stats_perf_stat res" where
  "dec_osd_stats_perf_stat = dec_struct osd_stats_perf_stat_fields"

record osd_stats_network_ping_time_interface_average =
  osd_stats_network_ping_time_interface_average_min1 :: string
  osd_stats_network_ping_time_interface_average_min5 :: string
  osd_stats_network_ping_time_interface_average_min15 :: string

definition zero_osd_stats_network_ping_time_interface_average :: osd_stats_network_ping_time_interface_average where
  "zero_osd_stats_network_ping_time_interface_average =
    \<lparr>osd_stats_network_ping_time_interface_average_min1 = ''0'',
      osd_stats_network_ping_time_interface_average_min5 = ''0'',
      osd_stats_network_ping_time_interface_average_min15 = ''0''\<rparr>"

definition osd_stats_network_ping_time_interface_average_fields :: "osd_stats_network_ping_time_interface_average field list" where
  "osd_stats_network_ping_time_interface_average_fields =
    [field ''min1'' dec_float osd_stats_network_ping_time_interface_average_min1 (\<lambda>v r. r\<lparr>osd_stats_network_ping_time_interface_average_min1 := v\<rparr>),
     field ''min5'' dec_float osd_stats_network_ping_time_interface_average_min5 (\<lambda>v r. r\<lparr>osd_stats_network_ping_time_interface_average_min5 := v\<rparr>),
     field ''min15'' dec_float osd_stats_network_ping_time_interface_average_min15 (\<lambda>v r. r\<lparr>osd_stats_network_ping_time_interface_average_min15 := v\<rparr>)]"

definition dec_osd_stats_network_ping_time_interface_average :: "json \<Rightarrow> osd_stats_network_ping_time_interface_average \<Rightarrow> osd_stats_network_ping_time_interface_average res" where
  "dec_osd_stats_network_ping_time_interface_average = dec_struct osd_stats_network_ping_time_interface_average_fields"

record osd_stats_network_ping_time_interface_min =
  osd_stats_network_ping_time_interface_min_min1 :: string
  osd_stats_network_ping_time_interface_min_min5 :: string
  osd_stats_network_ping_time_interface_min_min15 :: string

definition zero_osd_stats_network_ping_time_interface_min :: osd_stats_network_ping_time_interface_min where
  "zero_osd_stats_network_ping_time_interface_min =
    \<lparr>osd_stats_network_ping_time_interface_min_min1 = ''0'',
      osd_stats_network_ping_time_interface_min_min5 = ''0'',
      osd_stats_network_ping_time_interface_min_min15 = ''0''\<rparr>"

definition osd_stats_network_ping_time_interface_min_fields :: "osd_stats_network_ping_time_interface_min field list" where
  "osd_stats_network_ping_time_interface_min_fields =
    [field ''min1'' dec_float osd_stats_network_ping_time_interface_min_min1 (\<lambda>v r. r\<lparr>osd_stats_network_ping_time_interface_min_min1 := v\<rparr>),
     field ''min5'' dec_float osd_stats_network_ping_time_interface_min_min5 (\<lambda>v r. r\<lparr>osd_stats_network_ping_time_interface_min_min5 := v\<rparr>),
     field ''min15'' dec_float osd_stats_network_ping_time_interface_min_min15 (\<lambda>v r. r\<lparr>osd_stats_network_ping_time_interface_min_min15 := v\<rparr>)]"

definition dec_osd_stats_network_ping_time_interface_min :: "json \<Rightarrow> osd_stats_network_ping_time_interface_min \<Rightarrow> osd_stats_network_ping_time_interface_min res" where
  "dec_osd_stats_network_ping_time_interface_min = dec_struct osd_stats_network_ping_time_interface_min_fields"

record osd_stats_network_ping_time_interface_max =
  osd_stats_network_ping_time_interface_max_min1 :: string
  osd_stats_network_ping_time_interface_max_min5 :: string
  osd_stats_network_ping_time_interface_max_min15 :: string

definition zero_osd_stats_network_ping_time_interface_max :: osd_stats_network_ping_time_interface_max where
  "zero_osd_stats_network_ping_time_interface_max =
    \<lparr>osd_stats_network_ping_time_interface_max_min1 = ''0'',
      osd_stats_network_ping_time_interface_max_min5 = ''0'',
      osd_stats_network_ping_time_interface_max_min15 = ''0''\<rparr>"

definition osd_stats_network_ping_time_interface_max_fields :: "osd_stats_network_ping_time_interface_max field list" where
  "osd_stats_network_ping_time_interface_max_fields =
    [field ''min1'' dec_float osd_stats_network_ping_time_interface_max_min1 (\<lambda>v r. r\<lparr>osd_stats_network_ping_time_interface_max_min1 := v\<rparr>),
     field ''min5'' dec_float osd_stats_network_ping_time_interface_max_min5 (\<lambda>v r. r\<lparr>osd_stats_network_ping_time_interface_max_min5 := v\<rparr>),
     field ''min15'' dec_float osd_stats_network_ping_time_interface_max_min15 (\<lambda>v r. r\<lparr>osd_stats_network_ping_time_interface_max_min15 := v\<rparr>)]"

definition dec_osd_stats_network_ping_time_interface_max :: "json \<Rightarrow> osd_stats_network_ping_time_interface_max \<Rightarrow> osd_stats_network_ping_time_interface_max res" where
  "dec_osd_stats_network_ping_time_interface_max = dec_struct osd_stats_network_ping_time_interface_max_fields"

record osd_stats_network_ping_time_interface =
  osd_stats_network_ping_time_interface_interface_name :: string
  osd_stats_network_ping_time_interface_average :: "osd_stats_network_ping_time_interface_average option"
  osd_stats_network_ping_time_interface_min :: "osd_stats_network_ping_time_interface_min option"
  osd_stats_network_ping_time_interface_max :: "osd_stats_network_ping_time_interface_max option"
  osd_stats_network_ping_time_interface_last :: string

definition zero_osd_stats_network_ping_time_interface :: osd_stats_network_ping_time_interface where
  "zero_osd_stats_network_ping_time_interface =
    \<lparr>osd_stats_network_ping_time_interface_interface_name = [],
      osd_stats_network_ping_time_interface_average = None,
      osd_stats_network_ping_time_interface_min = None, osd_stats_network_ping_time_interface_max = None,
      osd_stats_network_ping_time_interface_last = ''0''\<rparr>"

definition osd_stats_network_ping_time_interface_fields :: "osd_stats_network_ping_time_interface field list" where
  "osd_stats_network_ping_time_interface_fields =
    [field ''interface_name'' dec_string osd_stats_network_ping_time_interface_interface_name (\<lambda>v r. r\<lparr>osd_stats_network_ping_time_interface_interface_name := v\<rparr>),
     field ''average'' (dec_ptr dec_osd_stats_network_ping_time_interface_average zero_osd_stats_network_ping_time_interface_average) osd_stats_network_ping_time_interface_average (\<lambda>v r. r\<lparr>osd_stats_network_ping_time_interface_average := v\<rparr>),
     field ''min'' (dec_ptr dec_osd_stats_network_ping_time_interface_min zero_osd_stats_network_ping_time_interface_min) osd_stats_network_ping_time_interface_min (\<lambda>v r. r\<lparr>osd_stats_network_ping_time_interface_min := v\<rparr>),
     field ''max'' (dec_ptr dec_osd_stats_network_ping_time_interface_max zero_osd_stats_network_ping_time_interface_max) osd_stats_network_ping_time_interface_max (\<lambda>v r. r\<lparr>osd_stats_network_ping_time_interface_max := v\<rparr>),
     field ''last'' dec_float osd_stats_network_ping_time_interface_last (\<lambda>v r. r\<lparr>osd_stats_network_ping_time_interface_last := v\<rparr>)]"

definition dec_osd_stats_network_ping_time_interface :: "json \<Rightarrow> osd_stats_network_ping_time_interface \<Rightarrow> osd_stats_network_ping_time_interface res" where
  "dec_osd_stats_network_ping_time_interface = dec_struct osd_stats_network_ping_time_interface_fields"

record osd_stats_network_ping_time =
  osd_stats_network_ping_time_osd :: int
  osd_stats_network_ping_time_last_update :: string
  osd_stats_network_ping_time_interfaces :: "osd_stats_network_ping_time_interface option slice"

definition zero_osd_stats_network_ping_time :: osd_stats_network_ping_time where
  "zero_osd_stats_network_ping_time =
    \<lparr>osd_stats_network_ping_time_osd = 0, osd_stats_network_ping_time_last_update = [],
      osd_stats_network_ping_time_interfaces = None\<rparr>"

definition osd_stats_network_ping_time_fields :: "osd_stats_network_ping_time field list" where
  "osd_stats_network_ping_time_fields =
    [field ''osd'' dec_int osd_stats_network_ping_time_osd (\<lambda>v r. r\<lparr>osd_stats_network_ping_time_osd := v\<rparr>),
     field ''last_update'' dec_string osd_stats_network_ping_time_last_update (\<lambda>v r. r\<lparr>osd_stats_network_ping_time_last_update := v\<rparr>),
     field ''interfaces'' (dec_slice (dec_ptr dec_osd_stats_network_ping_time_interface zero_osd_stats_network_ping_time_interface) None) osd_stats_network_ping_time_interfaces (\<lambda>v r. r\<lparr>osd_stats_network_ping_time_interfaces := v\<rparr>)]"

definition dec_osd_stats_network_ping_time :: "json \<Rightarrow> osd_stats_network_ping_time \<Rightarrow> osd_stats_network_ping_time res" where
  "dec_osd_stats_network_ping_time = dec_struct osd_stats_network_ping_time_fields"

record osd_stats =
  osd_stats_osd :: int
  osd_stats_up_from :: int
  osd_stats_seq :: int
  osd_stats_num_pgs :: int
  osd_stats_num_osds :: int
  osd_stats_num_per_pool_osds :: int
  osd_stats_num_per_pool_omap_osds :: int
  osd_stats_kb :: int
  osd_stats_kb_used :: int
  osd_stats_kb_used_data :: int
  osd_stats_kb_used_omap :: int
  osd_stats_kb_used_meta :: int
  osd_stats_kb_avail :: int
  osd_stats_statfs :: "osd_stats_stat_fs option"
  osd_stats_hb_peers :: "int slice"
  osd_stats_snap_trim_queue_len :: int
  osd_stats_num_snap_trimming :: int
  osd_stats_num_shards_repaired :: int
  osd_stats_op_queue_age_hist :: "osd_stats_op_queue_age_hist option"
  osd_stats_perf_stat :: "osd_stats_perf_stat option"
  osd_stats_alerts :: "string slice"
  osd_stats_network_ping_times :: "osd_stats_network_ping_time option slice"

definition zero_osd_stats :: osd_stats where
  "zero_osd_stats =
    \<lparr>osd_stats_osd = 0, osd_stats_up_from = 0, osd_stats_seq = 0, osd_stats_num_pgs = 0,
      osd_stats_num_osds = 0, osd_stats_num_per_pool_osds = 0, osd_stats_num_per_pool_omap_osds = 0,
      osd_stats_kb = 0, osd_stats_kb_used = 0, osd_stats_kb_used_data = 0, osd_stats_kb_used_omap = 0,
      osd_stats_kb_used_meta = 0, osd_stats_kb_avail = 0, osd_stats_statfs = None,
      osd_stats_hb_peers = None, osd_stats_snap_trim_queue_len = 0, osd_stats_num_snap_trimming = 0,
      osd_stats_num_shards_repaired = 0, osd_stats_op_queue_age_hist = None, osd_stats_perf_stat = None,
      osd_stats_alerts = None, osd_stats_network_ping_times = None\<rparr>"

definition osd_stats_fields :: "osd_stats field list" where
  "osd_stats_fields =
    [field ''osd'' dec_int osd_stats_osd (\<lambda>v r. r\<lparr>osd_stats_osd := v\<rparr>),
     field ''up_from'' dec_int osd_stats_up_from (\<lambda>v r. r\<lparr>osd_stats_up_from := v\<rparr>),
     field ''seq'' dec_int osd_stats_seq (\<lambda>v r. r\<lparr>osd_stats_seq := v\<rparr>),
     field ''num_pgs'' dec_int osd_stats_num_pgs (\<lambda>v r. r\<lparr>osd_stats_num_pgs := v\<rparr>),
     field ''num_osds'' dec_int osd_stats_num_osds (\<lambda>v r. r\<lparr>osd_stats_num_osds := v\<rparr>),
     field ''num_per_pool_osds'' dec_int osd_stats_num_per_pool_osds (\<lambda>v r. r\<lparr>osd_stats_num_per_pool_osds := v\<rparr>),
     field ''num_per_pool_omap_osds'' dec_int osd_stats_num_per_pool_omap_osds (\<lambda>v r. r\<lparr>osd_stats_num_per_pool_omap_osds := v\<rparr>),
     field ''kb'' dec_int osd_stats_kb (\<lambda>v r. r\<lparr>osd_stats_kb := v\<rparr>),
     field ''kb_used'' dec_int osd_stats_kb_used (\<lambda>v r. r\<lparr>osd_stats_kb_used := v\<rparr>),
     field ''kb_used_data'' dec_int osd_stats_kb_used_data (\<lambda>v r. r\<lparr>osd_stats_kb_used_data := v\<rparr>),
     field ''kb_used_omap'' dec_int osd_stats_kb_used_omap (\<lambda>v r. r\<lparr>osd_stats_kb_used_omap := v\<rparr>),
     field ''kb_used_meta'' dec_int osd_stats_kb_used_meta (\<lambda>v r. r\<lparr>osd_stats_kb_used_meta := v\<rparr>),
     field ''kb_avail'' dec_int osd_stats_kb_avail (\<lambda>v r. r\<lparr>osd_stats_kb_avail := v\<rparr>),
     field ''statfs'' (dec_ptr dec_osd_stats_stat_fs zero_osd_stats_stat_fs) osd_stats_statfs (\<lambda>v r. r\<lparr>osd_stats_statfs := v\<rparr>),
     field ''hb_peers'' (dec_slice dec_int 0) osd_stats_hb_peers (\<lambda>v r. r\<lparr>osd_stats_hb_peers := v\<rparr>),
     field ''snap_trim_queue_len'' dec_int osd_stats_snap_trim_queue_len (\<lambda>v r. r\<lparr>osd_stats_snap_trim_queue_len := v\<rparr>),
     field ''num_snap_trimming'' dec_int osd_stats_num_snap_trimming (\<lambda>v r. r\<lparr>osd_stats_num_snap_trimming := v\<rparr>),
     field ''num_shards_repaired'' dec_int osd_stats_num_shards_repaired (\<lambda>v r. r\<lparr>osd_stats_num_shards_repaired := v\<rparr>),
     field ''op_queue_age_hist'' (dec_ptr dec_osd_stats_op_queue_age_hist zero_osd_stats_op_queue_age_hist) osd_stats_op_queue_age_hist (\<lambda>v r. r\<lparr>osd_stats_op_queue_age_hist := v\<rparr>),
     field ''perf_stat'' (dec_ptr dec_osd_stats_perf_stat zero_osd_stats_perf_stat) osd_stats_perf_stat (\<lambda>v r. r\<lparr>osd_stats_perf_stat := v\<rparr>),
     field ''alerts'' (dec_slice dec_string []) osd_stats_alerts (\<lambda>v r. r\<lparr>osd_stats_alerts := v\<rparr>),
     field ''network_ping_times'' (dec_slice (dec_ptr dec_osd_stats_network_ping_time zero_osd_stats_network_ping_time) None) osd_stats_network_ping_times (\<lambda>v r. r\<lparr>osd_stats_network_ping_times := v\<rparr>)]"

definition dec_osd_stats :: "json \<Rightarrow> osd_stats \<Rightarrow> osd_stats res" where
  "dec_osd_stats = dec_struct osd_stats_fields"

record pool_stat_fs =
  pool_stat_fs_poolid :: int
  pool_stat_fs_osd :: int
  pool_stat_fs_total :: int
  pool_stat_fs_available :: int
  pool_stat_fs_internally_reserved :: int
  pool_stat_fs_allocated :: int
  pool_stat_fs_data_stored :: int
  pool_stat_fs_data_compressed :: int
  pool_stat_fs_data_compressed_allocated :: int
  pool_stat_fs_data_compressed_original :: int
  pool_stat_fs_omap_allocated :: int
  pool_stat_fs_internal_metadata :: int

definition zero_pool_stat_fs :: pool_stat_fs where
  "zero_pool_stat_fs =
    \<lparr>pool_stat_fs_poolid = 0, pool_stat_fs_osd = 0, pool_stat_fs_total = 0,
      pool_stat_fs_available = 0, pool_stat_fs_internally_reserved = 0, pool_stat_fs_allocated = 0,
      pool_stat_fs_data_stored = 0, pool_stat_fs_data_compressed = 0,
      pool_stat_fs_data_compressed_allocated = 0, pool_stat_fs_data_compressed_original = 0,
      pool_stat_fs_omap_allocated = 0, pool_stat_fs_internal_metadata = 0\<rparr>"

definition pool_stat_fs_fields :: "pool_stat_fs field list" where
  "pool_stat_fs_fields =
    [field ''poolid'' dec_int pool_stat_fs_poolid (\<lambda>v r. r\<lparr>pool_stat_fs_poolid := v\<rparr>),
     field ''osd'' dec_int pool_stat_fs_osd (\<lambda>v r. r\<lparr>pool_stat_fs_osd := v\<rparr>),
     field ''total'' dec_int pool_stat_fs_total (\<lambda>v r. r\<lparr>pool_stat_fs_total := v\<rparr>),
     field ''available'' dec_int pool_stat_fs_available (\<lambda>v r. r\<lparr>pool_stat_fs_available := v\<rparr>),
     field ''internally_reserved'' dec_int pool_stat_fs_internally_reserved (\<lambda>v r. r\<lparr>pool_stat_fs_internally_reserved := v\<rparr>),
     field ''allocated'' dec_int pool_stat_fs_allocated (\<lambda>v r. r\<lparr>pool_stat_fs_allocated := v\<rparr>),
     field ''data_stored'' dec_int pool_stat_fs_data_stored (\<lambda>v r. r\<lparr>pool_stat_fs_data_stored := v\<rparr>),
     field ''data_compressed'' dec_int pool_stat_fs_data_compressed (\<lambda>v r. r\<lparr>pool_stat_fs_data_compressed := v\<rparr>),
     field ''data_compressed_allocated'' dec_int pool_stat_fs_data_compressed_allocated (\<lambda>v r. r\<lparr>pool_stat_fs_data_compressed_allocated := v\<rparr>),
     field ''data_compressed_original'' dec_int pool_stat_fs_data_compressed_original (\<lambda>v r. r\<lparr>pool_stat_fs_data_compressed_original := v\<rparr>),
     field ''omap_allocated'' dec_int pool_stat_fs_omap_allocated (\<lambda>v r. r\<lparr>pool_stat_fs_omap_allocated := v\<rparr>),
     field ''internal_metadata'' dec_int pool_stat_fs_internal_metadata (\<lambda>v r. r\<lparr>pool_stat_fs_internal_metadata := v\<rparr>)]"

definition dec_pool_stat_fs :: "json \<Rightarrow> pool_stat_fs \<Rightarrow> pool_stat_fs res" where
  "dec_pool_stat_fs = dec_struct pool_stat_fs_fields"

record pg_map =
  pg_map_version :: int
  pg_map_stamp :: "timestamp option"
  pg_map_last_osdmap_epoch :: int
  pg_map_last_pg_scan :: int
  pg_map_pg_stats_sum :: "pg_stats_sum option"
  pg_map_osd_stats_sum :: "osd_stats_sum option"
  pg_map_pg_stats_delta :: "pg_stats_delta option"
  pg_map_pg_stats :: "pg_stat option slice"
  pg_map_pool_stats :: "pool_stats option slice"
  pg_map_osd_stats :: "osd_stats option slice"
  pg_map_pool_statfs :: "pool_stat_fs option slice"

definition zero_pg_map :: pg_map where
  "zero_pg_map =
    \<lparr>pg_map_version = 0, pg_map_stamp = None, pg_map_last_osdmap_epoch = 0, pg_map_last_pg_scan = 0,
      pg_map_pg_stats_sum = None, pg_map_osd_stats_sum = None, pg_map_pg_stats_delta = None,
      pg_map_pg_stats = None, pg_map_pool_stats = None, pg_map_osd_stats = None,
      pg_map_pool_statfs = None\<rparr>"

definition pg_map_fields :: "pg_map field list" where
  "pg_map_fields =
    [field ''version'' dec_int pg_map_version (\<lambda>v r. r\<lparr>pg_map_version := v\<rparr>),
     field ''stamp'' dec_ceph_timestamp pg_map_stamp (\<lambda>v r. r\<lparr>pg_map_stamp := v\<rparr>),
     field ''last_osdmap_epoch'' dec_int pg_map_last_osdmap_epoch (\<lambda>v r. r\<lparr>pg_map_last_osdmap_epoch := v\<rparr>),
     field ''last_pg_scan'' dec_int pg_map_last_pg_scan (\<lambda>v r. r\<lparr>pg_map_last_pg_scan := v\<rparr>),
     field ''pg_stats_sum'' (dec_ptr dec_pg_stats_sum zero_pg_stats_sum) pg_map_pg_stats_sum (\<lambda>v r. r\<lparr>pg_map_pg_stats_sum := v\<rparr>),
     field ''osd_stats_sum'' (dec_ptr dec_osd_stats_sum zero_osd_stats_sum) pg_map_osd_stats_sum (\<lambda>v r. r\<lparr>pg_map_osd_stats_sum := v\<rparr>),
     field ''pg_stats_delta'' (dec_ptr dec_pg_stats_delta zero_pg_stats_delta) pg_map_pg_stats_delta (\<lambda>v r. r\<lparr>pg_map_pg_stats_delta := v\<rparr>),
     field ''pg_stats'' (dec_slice (dec_ptr dec_pg_stat zero_pg_stat) None) pg_map_pg_stats (\<lambda>v r. r\<lparr>pg_map_pg_stats := v\<rparr>),
     field ''pool_stats'' (dec_slice (dec_ptr dec_pool_stats zero_pool_stats) None) pg_map_pool_stats (\<lambda>v r. r\<lparr>pg_map_pool_stats := v\<rparr>),
     field ''osd_stats'' (dec_slice (dec_ptr dec_osd_stats zero_osd_stats) None) pg_map_osd_stats (\<lambda>v r. r\<lparr>pg_map_osd_stats := v\<rparr>),
     field ''pool_statfs'' (dec_slice (dec_ptr dec_pool_stat_fs zero_pool_stat_fs) None) pg_map_pool_statfs (\<lambda>v r. r\<lparr>pg_map_pool_statfs := v\<rparr>)]"

definition dec_pg_map :: "json \<Rightarrow> pg_map \<Rightarrow> pg_map res" where
  "dec_pg_map = dec_struct pg_map_fields"

record pg_dump_response =
  pg_dump_pg_ready :: bool
  pg_dump_pg_map :: "pg_map option"

definition zero_pg_dump_response :: pg_dump_response where
  "zero_pg_dump_response =
    \<lparr>pg_dump_pg_ready = False, pg_dump_pg_map = None\<rparr>"

definition pg_dump_response_fields :: "pg_dump_response field list" where
  "pg_dump_response_fields =
    [field ''pg_ready'' dec_bool pg_dump_pg_ready (\<lambda>v r. r\<lparr>pg_dump_pg_ready := v\<rparr>),
     field ''pg_map'' (dec_ptr dec_pg_map zero_pg_map) pg_dump_pg_map (\<lambda>v r. r\<lparr>pg_dump_pg_map := v\<rparr>)]"

definition dec_pg_dump_response :: "json \<Rightarrow> pg_dump_response \<Rightarrow> pg_dump_response res" where
  "dec_pg_dump_response = dec_struct pg_dump_response_fields"

record pb_pg_stat =
  pb_pg_stat_pgid :: string
  pb_pg_stat_version :: string
  pb_pg_stat_reported_seq :: int
  pb_pg_stat_reported_epoch :: int
  pb_pg_stat_state :: string
  pb_pg_stat_last_fresh :: "timestamp option"
  pb_pg_stat_last_change :: "timestamp option"
  pb_pg_stat_last_active :: "timestamp option"
  pb_pg_stat_last_peered :: "timestamp option"
  pb_pg_stat_last_clean :: "timestamp option"
  pb_pg_stat_last_became_active :: "timestamp option"
  pb_pg_stat_last_became_peered :: "timestamp option"
  pb_pg_stat_last_unstale :: "timestamp option"
  pb_pg_stat_last_undegraded :: "timestamp option"
  pb_pg_stat_last_fullsized :: "timestamp option"
  pb_pg_stat_mapping_epoch :: int
  pb_pg_stat_log_start :: string
  pb_pg_stat_ondisk_log_start :: string
  pb_pg_stat_created :: int
  pb_pg_stat_last_epoch_clean :: int
  pb_pg_stat_parent :: string
  pb_pg_stat_parent_split_bits :: int
  pb_pg_stat_last_scrub :: string
  pb_pg_stat_last_scrub_stamp :: "timestamp option"
  pb_pg_stat_last_deep_scrub :: string
  pb_pg_stat_last_deep_scrub_stamp :: "timestamp option"
  pb_pg_stat_last_clean_scrub_stamp :: "timestamp option"
  pb_pg_stat_objects_scrubbed :: int
  pb_pg_stat_log_size :: int
  pb_pg_stat_log_dups_size :: int
  pb_pg_stat_ondisk_log_size :: int
  pb_pg_stat_stats_invalid :: bool
  pb_pg_stat_dirty_stats_invalid :: bool
  pb_pg_stat_omap_stats_invalid :: bool
  pb_pg_stat_hitset_stats_invalid :: bool
  pb_pg_stat_hitset_bytes_stats_invalid :: bool
  pb_pg_stat_pin_stats_invalid :: bool
  pb_pg_stat_manifest_stats_invalid :: bool
  pb_pg_stat_snaptrimq_len :: int
  pb_pg_stat_last_scrub_duration :: int
  pb_pg_stat_scrub_schedule :: string
  pb_pg_stat_scrub_duration :: string
  pb_pg_stat_objects_trimmed :: int
  pb_pg_stat_snaptrim_duration :: string
  pb_pg_stat_stat_sum :: "pg_stat_pg_stat_stat_sum option"
  pb_pg_stat_up :: "int slice"
  pb_pg_stat_acting :: "int slice"
  pb_pg_stat_avail_no_missing :: "int slice"
  pb_pg_stat_object_location_counts :: "int slice"
  pb_pg_stat_blocked_by :: "int slice"
  pb_pg_stat_up_primary :: int
  pb_pg_stat_acting_primary :: int
  pb_pg_stat_purged_snaps :: "int slice"

record pb_pg_map =
  pb_pg_map_version :: int
  pb_pg_map_stamp :: "timestamp option"
  pb_pg_map_last_osdmap_epoch :: int
  pb_pg_map_last_pg_scan :: int
  pb_pg_map_pg_stats_sum :: "pg_stats_sum option"
  pb_pg_map_osd_stats_sum :: "osd_stats_sum option"
  pb_pg_map_pg_stats_delta :: "pg_stats_delta option"
  pb_pg_map_pg_stats :: "pb_pg_stat option slice"
  pb_pg_map_pool_stats :: "pool_stats option slice"
  pb_pg_map_osd_stats :: "osd_stats option slice"
  pb_pg_map_pool_statfs :: "pool_stat_fs option slice"

record get_ceph_pg_dump_response =
  pb_pg_dump_pg_ready :: bool
  pb_pg_dump_pg_map :: "pb_pg_map option"

end
