(* ===== verification/Wildcard.thy ===== *)
theory Wildcard
  imports Go_Text "HOL-Library.Sublist"
begin

text \<open>
  \<open>filepath.Match\<close> as \<open>matchWildcard\<close> of \<open>pkg/cephconfig/config.go\<close> uses it: the chunk-by-chunk
  algorithm of Go's library on a Unix system, without its error value. A malformed pattern makes
  every call answer false, so a failed and a malformed chunk are both \<open>None\<close>. The facts relate the
  algorithm to the meaning of a pattern.
\<close>

definition sep :: char where
  "sep = CHR ''/''"

subsection \<open>The algorithm\<close>

text \<open>One bound of a character class: a rune, possibly escaped, that does not end the chunk.\<close>

definition class_rune :: "string \<Rightarrow> (nat \<times> string) option" where
  "class_rune s =
    (case decode_rune s of (r, n) \<Rightarrow>
      if (r = rune_error \<and> n = 1) \<or> drop n s = [] then None else Some (r, drop n s))"

definition get_esc :: "string \<Rightarrow> (nat \<times> string) option" where
  "get_esc chunk =
    (case chunk of
       [] \<Rightarrow> None
     | c # cs \<Rightarrow>
         if c = CHR ''-'' \<or> c = CHR '']'' then None
         else if c = CHR 0x5C then (if cs = [] then None else class_rune cs)
         else class_rune chunk)"

lemma class_rune_length: "class_rune s = Some (r, t) \<Longrightarrow> length t < length s"
  using decode_rune_width_pos [of s] by (cases s) (auto simp: class_rune_def split: prod.splits if_splits)

lemma get_esc_length: "get_esc s = Some (r, t) \<Longrightarrow> length t < length s"
  by (auto simp: get_esc_def dest: class_rune_length split: list.splits if_splits)

function class_ranges :: "nat \<Rightarrow> bool \<Rightarrow> string \<Rightarrow> (bool \<times> string) option" where
  "class_ranges r first chunk =
    (if \<not> first \<and> take 1 chunk = '']'' then Some (False, tl chunk)
     else (case get_esc chunk of None \<Rightarrow> None
       | Some (lo, ch1) \<Rightarrow>
          (case (if take 1 ch1 = ''-'' then get_esc (tl ch1) else Some (lo, ch1)) of None \<Rightarrow> None
            | Some (hi, ch2) \<Rightarrow>
                map_option (\<lambda>(m, rest). (lo \<le> r \<and> r \<le> hi \<or> m, rest)) (class_ranges r False ch2))))"
  by pat_completeness auto
termination
  by (relation "measure (\<lambda>(r, first, chunk). length chunk)")
    (auto dest!: get_esc_length split: if_splits)

declare class_ranges.simps [simp del]

lemma class_ranges_length: "class_ranges r first chunk = Some (m, rest) \<Longrightarrow> length rest \<le> length chunk"
proof (induction r first chunk arbitrary: m rest rule: class_ranges.induct)
  case (1 r first chunk)
  show ?case
  proof (cases "\<not> first \<and> take 1 chunk = '']''")
    case True
    then show ?thesis using "1.prems" by (auto simp: class_ranges.simps [of r False chunk])
  next
    case False
    then obtain lo ch1 where e1: "get_esc chunk = Some (lo, ch1)"
      using "1.prems" by (auto simp: class_ranges.simps [of r first] split: option.splits)
    obtain hi ch2 where e2: "(if take 1 ch1 = ''-'' then get_esc (tl ch1) else Some (lo, ch1)) = Some (hi, ch2)"
      using "1.prems" False e1 by (auto simp: class_ranges.simps [of r first] split: option.splits)
    have "class_ranges r first chunk
        = map_option (\<lambda>(m, rest). (lo \<le> r \<and> r \<le> hi \<or> m, rest)) (class_ranges r False ch2)"
      by (subst class_ranges.simps) (simp only: e1 e2 False if_False option.case prod.case)
    then have "map_option (\<lambda>(m, rest). (lo \<le> r \<and> r \<le> hi \<or> m, rest)) (class_ranges r False ch2) = Some (m, rest)"
      using "1.prems" by (simp only:)
    then obtain m' where "class_ranges r False ch2 = Some (m', rest)"
      unfolding map_option_eq_Some by (metis case_prod_conv prod.collapse snd_conv)
    then have "length rest \<le> length ch2" using "1.IH" [OF False e1 refl e2 refl] by simp
    moreover have "length ch2 < length chunk"
      using get_esc_length [OF e1] e2 by (auto dest!: get_esc_length split: if_splits)
    ultimately show ?thesis by simp
  qed
qed

function match_chunk :: "string \<Rightarrow> string \<Rightarrow> string option" where
  "match_chunk [] s = Some s"
| "match_chunk (c # ch) s =
    (if s = [] then None
     else if c = CHR ''['' then
       (let negated = (take 1 ch = ''^'') in
        case class_ranges (fst (decode_rune s)) True (if negated then tl ch else ch) of
          None \<Rightarrow> None
        | Some (m, rest) \<Rightarrow>
            if m = negated then None else match_chunk rest (drop (snd (decode_rune s)) s))
     else if c = CHR ''?'' then
       (if hd s = sep then None else match_chunk ch (drop (snd (decode_rune s)) s))
     else if c = CHR 0x5C then
       (case ch of [] \<Rightarrow> None | d # ch' \<Rightarrow> if d \<noteq> hd s then None else match_chunk ch' (tl s))
     else if c \<noteq> hd s then None else match_chunk ch (tl s))"
  by pat_completeness auto
termination
proof (relation "measure (\<lambda>(chunk, s). length chunk)", goal_cases)
  case (2 c ch s negated p m rest)
  then have "length rest \<le> length ch" by (auto dest!: class_ranges_length split: if_splits)
  then show ?case by simp
qed auto

fun scan_split :: "bool \<Rightarrow> string \<Rightarrow> string \<times> string" where
  "scan_split in_range [] = ([], [])"
| "scan_split in_range (c # p) =
    (if c = CHR 0x5C then
       (case p of [] \<Rightarrow> ([c], [])
        | d # p' \<Rightarrow> (case scan_split in_range p' of (a, b) \<Rightarrow> (c # d # a, b)))
     else if c = CHR ''*'' \<and> \<not> in_range then ([], c # p)
     else (case scan_split (if c = CHR ''['' then True else if c = CHR '']'' then False else in_range) p of
             (a, b) \<Rightarrow> (c # a, b)))"

fun skip_match :: "string \<Rightarrow> bool \<Rightarrow> string \<Rightarrow> string option" where
  "skip_match chunk final [] = None"
| "skip_match chunk final (c # s) =
    (if c = sep then None
     else (case match_chunk chunk s of
             Some t \<Rightarrow> if final \<and> t \<noteq> [] then skip_match chunk final s else Some t
           | None \<Rightarrow> skip_match chunk final s))"

definition find_chunk :: "bool \<Rightarrow> string \<Rightarrow> bool \<Rightarrow> string \<Rightarrow> string option" where
  "find_chunk star chunk final name =
    (case match_chunk chunk name of
       Some t \<Rightarrow> if t = [] \<or> \<not> final then Some t
                 else if star then skip_match chunk final name else None
     | None \<Rightarrow> if star then skip_match chunk final name else None)"

lemma scan_split_length: "scan_split r p = (a, b) \<Longrightarrow> length b \<le> length p"
  by (induction r p arbitrary: a b rule: scan_split.induct)
    (fastforce split: if_splits list.splits prod.splits)+

lemma scan_split_progress:
  assumes "p \<noteq> []" and "hd p \<noteq> CHR ''*''" and "scan_split False p = (a, b)"
  shows "length b < length p"
  using assms by (cases p) (auto dest!: scan_split_length split: if_splits list.splits prod.splits)

lemma scan_rest_length:
  assumes "pattern \<noteq> []"
  shows "length (snd (scan_split False (dropWhile (\<lambda>c. c = CHR ''*'') pattern))) < length pattern"
proof -
  let ?p = "dropWhile (\<lambda>c. c = CHR ''*'') pattern"
  have len: "length ?p \<le> length pattern" by (rule length_dropWhile_le)
  obtain a b where ab: "scan_split False ?p = (a, b)" by (cases "scan_split False ?p")
  show ?thesis
  proof (cases "?p = []")
    case True
    then show ?thesis using assms by (simp add: True)
  next
    case False
    then have "hd ?p \<noteq> CHR ''*''" using hd_dropWhile by blast
    then show ?thesis using scan_split_progress [OF False _ ab] ab len by simp
  qed
qed

function filepath_match :: "string \<Rightarrow> string \<Rightarrow> bool" where
  "filepath_match pattern name =
    (if pattern = [] then name = []
     else
       let star = (hd pattern = CHR ''*'');
           chunk = fst (scan_split False (dropWhile (\<lambda>c. c = CHR ''*'') pattern));
           rest = snd (scan_split False (dropWhile (\<lambda>c. c = CHR ''*'') pattern));
           final = (rest = [])
       in
       if star \<and> chunk = [] then sep \<notin> set name
       else (case find_chunk star chunk final name of
               None \<Rightarrow> False
             | Some t \<Rightarrow> filepath_match rest t))"
  by pat_completeness auto

termination
  by (relation "measure (\<lambda>(pattern, name). length pattern)") (simp_all add: scan_rest_length)

declare filepath_match.simps [simp del]

definition match_wildcard :: "string \<Rightarrow> string \<Rightarrow> bool" where
  "match_wildcard s pattern = filepath_match pattern s"

subsection \<open>What a pattern without classes and escapes means\<close>

definition simple_pattern :: "string \<Rightarrow> bool" where
  "simple_pattern p \<longleftrightarrow> CHR ''['' \<notin> set p \<and> CHR 0x5C \<notin> set p"

fun glob :: "string \<Rightarrow> string \<Rightarrow> bool" where
  "glob [] s \<longleftrightarrow> s = []"
| "glob (c # p) s \<longleftrightarrow>
    (if c = CHR ''*'' then list_ex (glob p) (suffixes s)
     else (case s of [] \<Rightarrow> False | d # s' \<Rightarrow> (c = CHR ''?'' \<or> c = d) \<and> glob p s'))"

subsection \<open>The algorithm agrees\<close>

lemma glob_star: "glob (CHR ''*'' # p) s \<longleftrightarrow> (\<exists>u t. s = u @ t \<and> glob p t)"
  by (simp add: list_ex_iff suffix_def Bex_def) blast

lemma glob_star_mono: "glob (CHR ''*'' # p) t \<Longrightarrow> glob (CHR ''*'' # p) (u @ t)"
  unfolding glob_star by (metis append.assoc)

definition fits :: "char \<Rightarrow> char \<Rightarrow> bool" where
  "fits c d \<longleftrightarrow> c = CHR ''?'' \<or> c = d"

lemma glob_chunk:
  "CHR ''*'' \<notin> set chunk \<Longrightarrow>
    glob (chunk @ p) s \<longleftrightarrow> (\<exists>u t. s = u @ t \<and> list_all2 fits chunk u \<and> glob p t)"
proof (induction chunk arbitrary: s)
  case Nil
  then show ?case by simp
next
  case (Cons c chunk)
  show ?case
  proof (cases s)
    case Nil
    then show ?thesis using Cons.prems by auto
  next
    case s: (Cons d s')
    have "glob ((c # chunk) @ p) s \<longleftrightarrow> fits c d \<and> glob (chunk @ p) s'"
      using Cons.prems s by (auto simp: fits_def)
    also have "\<dots> \<longleftrightarrow> (\<exists>u t. s = u @ t \<and> list_all2 fits (c # chunk) u \<and> glob p t)"
      using Cons.IH [of s'] Cons.prems s by (auto simp: list_all2_Cons1 Cons_eq_append_conv)
    finally show ?thesis .
  qed
qed

lemma match_chunk_simple:
  assumes "simple_pattern chunk" and "CHR ''*'' \<notin> set chunk" and "ascii s" and "sep \<notin> set s"
  shows "match_chunk chunk s = Some t \<longleftrightarrow> (\<exists>u. s = u @ t \<and> list_all2 fits chunk u)"
  using assms
proof (induction chunk arbitrary: s)
  case Nil
  then show ?case by auto
next
  case (Cons c chunk)
  show ?case
  proof (cases s)
    case Nil
    then show ?thesis using Cons.prems by auto
  next
    case s: (Cons d s')
    have d: "d < CHR 0x80" "d \<noteq> sep" using Cons.prems s by auto
    have cn: "c \<noteq> CHR ''[''" "c \<noteq> CHR 0x5C" using Cons.prems(1) by (auto simp: simple_pattern_def)
    have "match_chunk (c # chunk) s = (if fits c d then match_chunk chunk s' else None)"
      using cn s d by (simp add: fits_def decode_rune_ascii)
    moreover have "match_chunk chunk s' = Some t \<longleftrightarrow> (\<exists>u. s' = u @ t \<and> list_all2 fits chunk u)"
      using Cons.prems s by (intro Cons.IH) (simp_all add: simple_pattern_def)
    moreover have "(\<exists>u. s = u @ t \<and> list_all2 fits (c # chunk) u)
        \<longleftrightarrow> fits c d \<and> (\<exists>u. s' = u @ t \<and> list_all2 fits chunk u)"
      by (auto simp: s list_all2_Cons1)
    ultimately show ?thesis by simp
  qed
qed

lemma scan_split_simple:
  assumes "simple_pattern p" and "scan_split False p = (a, b)"
  shows "p = a @ b \<and> CHR ''*'' \<notin> set a \<and> (b = [] \<or> hd b = CHR ''*'')"
  using assms
proof (induction p arbitrary: a b)
  case Nil
  then show ?case by simp
next
  case (Cons c p)
  obtain a' b' where ab: "scan_split False p = (a', b')" by (cases "scan_split False p")
  have "scan_split False (c # p) = (if c = CHR ''*'' then ([], c # p) else (c # a', b'))"
    using Cons.prems(1) ab by (auto simp: simple_pattern_def)
  then show ?case using Cons.IH [OF _ ab] Cons.prems by (auto simp: simple_pattern_def split: if_splits)
qed

text \<open>Skipping finds the leftmost place, unless this is the last chunk, when it must end the name.\<close>

lemma skip_match_sound:
  assumes "simple_pattern chunk" and "CHR ''*'' \<notin> set chunk"
  shows "ascii s \<Longrightarrow> sep \<notin> set s \<Longrightarrow> skip_match chunk final s = Some t \<Longrightarrow>
    (\<exists>u v. s = u @ v @ t \<and> list_all2 fits chunk v) \<and> (final \<longrightarrow> t = [])"
proof (induction s arbitrary: t)
  case (Cons c s)
  have as: "ascii s" "sep \<notin> set s" using Cons.prems by simp_all
  show ?case
  proof (cases "match_chunk chunk s = Some t \<and> \<not> (final \<and> t \<noteq> [])")
    case True
    then obtain v where "s = v @ t" "list_all2 fits chunk v"
      using match_chunk_simple [OF assms as] by blast
    then have "c # s = [c] @ v @ t \<and> list_all2 fits chunk v" by simp
    then show ?thesis using True by blast
  next
    case False
    then have "skip_match chunk final s = Some t"
      using Cons.prems by (auto split: if_splits option.splits)
    then obtain u v where "s = u @ v @ t" "list_all2 fits chunk v" "final \<longrightarrow> t = []"
      using Cons.IH as by blast
    then have "c # s = (c # u) @ v @ t \<and> list_all2 fits chunk v" by simp
    then show ?thesis using \<open>final \<longrightarrow> t = []\<close> by blast
  qed
qed simp

text \<open>If a place at least one byte further on would do, one is found, and no later than that.\<close>

lemma skip_match_complete:
  assumes "simple_pattern chunk" and "CHR ''*'' \<notin> set chunk"
    and "list_all2 fits chunk v" and "final \<Longrightarrow> t = []"
  shows "ascii s \<Longrightarrow> sep \<notin> set s \<Longrightarrow> s = u @ v @ t \<Longrightarrow> u \<noteq> [] \<Longrightarrow>
    \<exists>w. skip_match chunk final s = Some (w @ t)"
proof (induction s arbitrary: u)
  case (Cons c s)
  obtain u' where u: "u = c # u'" "s = u' @ v @ t" using Cons.prems by (cases u) auto
  have as: "ascii s" "sep \<notin> set s" "c \<noteq> sep" using Cons.prems(1,2) by auto
  note mc = match_chunk_simple [OF assms(1,2) as(1,2)]
  have len: "length v = length chunk" using assms(3) by (simp add: list_all2_lengthD)
  show ?case
  proof (cases "\<exists>t'. match_chunk chunk s = Some t' \<and> \<not> (final \<and> t' \<noteq> [])")
    case True
    then obtain t' where t': "match_chunk chunk s = Some t'" "\<not> (final \<and> t' \<noteq> [])" by blast
    then obtain v' where v': "s = v' @ t'" "list_all2 fits chunk v'" using mc by blast
    then have "length v' = length v" using len by (simp add: list_all2_lengthD)
    then have "t' = drop (length v) (u' @ v @ t)" using v'(1) u(2) by (metis append_eq_conv_conj)
    then have "\<exists>w. t' = w @ t"
      by (cases "length v \<le> length u'") (auto simp: drop_append)
    then show ?thesis using t' as(3) by auto
  next
    case False
    have "u' \<noteq> []"
    proof
      assume "u' = []"
      then have "match_chunk chunk s = Some t" using mc u(2) assms(3) by auto
      then show False using False assms(4) by auto
    qed
    then have "\<exists>w. skip_match chunk final s = Some (w @ t)" using Cons.IH as u(2) by blast
    then show ?thesis using False as(3) by (auto split: option.split)
  qed
qed simp

lemma find_chunk_sound:
  assumes "simple_pattern chunk" and "CHR ''*'' \<notin> set chunk" and "ascii s" and "sep \<notin> set s"
    and "find_chunk star chunk final s = Some t"
  shows "(\<exists>u v. s = u @ v @ t \<and> list_all2 fits chunk v \<and> (star \<or> u = [])) \<and> (final \<longrightarrow> t = [])"
proof (cases "match_chunk chunk s = Some t \<and> (t = [] \<or> \<not> final)")
  case True
  then obtain v where "s = v @ t" "list_all2 fits chunk v"
    using match_chunk_simple [OF assms(1-4)] by blast
  then have "s = [] @ v @ t \<and> list_all2 fits chunk v" by simp
  then show ?thesis using True by blast
next
  case False
  then have st: "star" "skip_match chunk final s = Some t"
    using assms(5) by (auto simp: find_chunk_def split: option.splits if_splits)
  then show ?thesis using skip_match_sound [OF assms(1,2,3,4) st(2)] by blast
qed

lemma find_chunk_complete:
  assumes "simple_pattern chunk" and "CHR ''*'' \<notin> set chunk" and "ascii s" and "sep \<notin> set s"
    and "list_all2 fits chunk v" and "final \<Longrightarrow> t = []" and "s = u @ v @ t" and "star \<or> u = []"
  shows "\<exists>w. find_chunk star chunk final s = Some (w @ t)"
proof -
  note mc = match_chunk_simple [OF assms(1-4)]
  have len: "length v = length chunk" using assms(5) by (simp add: list_all2_lengthD)
  show ?thesis
  proof (cases "\<exists>t'. match_chunk chunk s = Some t' \<and> (t' = [] \<or> \<not> final)")
    case True
    then obtain t' where t': "match_chunk chunk s = Some t'" "t' = [] \<or> \<not> final" by blast
    then obtain v' where v': "s = v' @ t'" "list_all2 fits chunk v'" using mc by blast
    then have "length v' = length v" using len by (simp add: list_all2_lengthD)
    then have "t' = drop (length v) (u @ v @ t)" using v'(1) assms(7) by (metis append_eq_conv_conj)
    then have "\<exists>w. t' = w @ t" by (cases "length v \<le> length u") (auto simp: drop_append)
    then show ?thesis using t' by (auto simp: find_chunk_def)
  next
    case False
    have "u \<noteq> []"
    proof
      assume "u = []"
      then have "match_chunk chunk s = Some t" using mc assms(5,7) by auto
      then show False using False assms(6) by auto
    qed
    then have "star" "\<exists>w. skip_match chunk final s = Some (w @ t)"
      using skip_match_complete [OF assms(1,2,5,6) assms(3,4,7)] assms(8) by auto
    then show ?thesis using False by (auto simp: find_chunk_def split: option.split)
  qed
qed

lemma glob_stars:
  "p \<noteq> [] \<Longrightarrow> hd p = CHR ''*'' \<Longrightarrow>
    glob p s \<longleftrightarrow> (\<exists>u t. s = u @ t \<and> glob (dropWhile (\<lambda>c. c = CHR ''*'') p) t)"
proof (induction p arbitrary: s)
  case (Cons c p)
  then have c: "c = CHR ''*''" by simp
  show ?case
  proof (cases "p \<noteq> [] \<and> hd p = CHR ''*''")
    case True
    then have "glob (c # p) s \<longleftrightarrow> (\<exists>u t. s = u @ t \<and> (\<exists>u' t'. t = u' @ t'
        \<and> glob (dropWhile (\<lambda>c. c = CHR ''*'') p) t'))"
      using Cons.IH [OF conjunct1 [OF True] conjunct2 [OF True]] by (simp only: c glob_star)
    also have "\<dots> \<longleftrightarrow> (\<exists>u t. s = u @ t \<and> glob (dropWhile (\<lambda>c. c = CHR ''*'') p) t)"
      by (metis append.assoc append_Nil)
    finally show ?thesis using c by simp
  next
    case False
    then have "dropWhile (\<lambda>c. c = CHR ''*'') p = p" by (cases p) simp_all
    then show ?thesis using c by (simp only: glob_star dropWhile.simps if_True simp_thms)
  qed
qed simp

lemma filepath_match_glob:
  "simple_pattern p \<Longrightarrow> ascii s \<Longrightarrow> sep \<notin> set s \<Longrightarrow> filepath_match p s = glob p s"
proof (induction p s rule: filepath_match.induct)
  case (1 p s)
  show ?case
  proof (cases "p = []")
    case True
    then show ?thesis by (simp add: filepath_match.simps)
  next
    case False
    let ?d = "dropWhile (\<lambda>c. c = CHR ''*'') p" and ?star = "hd p = CHR ''*''"
    obtain chunk rest where cr: "scan_split False ?d = (chunk, rest)" by (cases "scan_split False ?d")
    have simple_d: "simple_pattern ?d"
      using "1.prems"(1) by (auto simp: simple_pattern_def dest: set_dropWhileD)
    have d: "?d = chunk @ rest" "CHR ''*'' \<notin> set chunk" "rest = [] \<or> hd rest = CHR ''*''"
      using scan_split_simple [OF simple_d cr] by simp_all
    have sc: "simple_pattern chunk" "simple_pattern rest"
      using simple_d by (simp_all add: d(1) simple_pattern_def)
    have globp: "glob p s \<longleftrightarrow> (\<exists>u v t. s = u @ v @ t \<and> list_all2 fits chunk v \<and> glob rest t \<and> (?star \<or> u = []))"
    proof (cases ?star)
      case True
      then show ?thesis using glob_stars [OF False True, of s] glob_chunk [OF d(2), of rest] d(1) by auto
    next
      case ns: False
      then have "?d = p" using False by (cases p) simp_all
      then show ?thesis using ns glob_chunk [OF d(2), of rest s] d(1) by auto
    qed
    show ?thesis
    proof (cases "?star \<and> chunk = []")
      case True
      have "?d = []"
      proof (rule ccontr)
        assume "?d \<noteq> []"
        then show False using hd_dropWhile [of "\<lambda>c. c = CHR ''*''" p] d True by auto
      qed
      then have "rest = []" using d(1) by simp
      then have "glob p s" using globp True by auto
      then show ?thesis using True False cr "1.prems"(3) by (simp add: filepath_match.simps [of p])
    next
      case nt: False
      have eq: "filepath_match p s = (case find_chunk ?star chunk (rest = []) s of
          None \<Rightarrow> False | Some t \<Rightarrow> filepath_match rest t)"
        using False nt cr by (auto simp: filepath_match.simps [of p] Let_def)
      note snd = find_chunk_sound [OF sc(1) d(2) "1.prems"(2,3)]
      show ?thesis
      proof (cases "find_chunk ?star chunk (rest = []) s")
        case None
        have "\<not> glob p s"
        proof
          assume "glob p s"
          then obtain u v t where w: "s = u @ v @ t" "list_all2 fits chunk v" "glob rest t" "?star \<or> u = []"
            using globp by blast
          have e: "rest = [] \<Longrightarrow> t = []" using w(3) by simp
          show False
            using find_chunk_complete [where final = "rest = []", OF sc(1) d(2) "1.prems"(2,3) w(2) e w(1,4)] None by simp
        qed
        then show ?thesis using eq None by simp
      next
        case (Some t)
        obtain u v where uv: "s = u @ v @ t" "list_all2 fits chunk v" "?star \<or> u = []"
          and fin: "rest = [] \<longrightarrow> t = []" using snd [OF Some] by blast
        have "ascii t" "sep \<notin> set t" using "1.prems"(2,3) uv(1) by simp_all
        then have ih: "filepath_match rest t = glob rest t"
          using "1.IH" [OF False refl refl refl refl] nt Some sc(2) cr by simp
        have "glob p s \<longleftrightarrow> glob rest t"
        proof
          assume "glob rest t"
          then show "glob p s" using globp uv by blast
        next
          assume "glob p s"
          then obtain u' v' t' where w: "s = u' @ v' @ t'" "list_all2 fits chunk v'" "glob rest t'"
              "?star \<or> u' = []" using globp by blast
          have e: "rest = [] \<Longrightarrow> t' = []" using w(3) by simp
          obtain x where x: "t = x @ t'"
            using find_chunk_complete [where final = "rest = []", OF sc(1) d(2) "1.prems"(2,3) w(2) e w(1,4)] Some by auto
          show "glob rest t"
          proof (cases rest)
            case Nil
            then show ?thesis using fin by simp
          next
            case (Cons c r)
            then show ?thesis using d(3) w(3) glob_star_mono [of r t' x] x by simp
          qed
        qed
        then show ?thesis using eq Some ih by simp
      qed
    qed
  qed
qed

subsection \<open>A pattern without wildcards\<close>

fun strip_escapes :: "string \<Rightarrow> string" where
  "strip_escapes [] = []"
| "strip_escapes (c # p) =
    (if c = CHR 0x5C then (case p of [] \<Rightarrow> [] | d # p' \<Rightarrow> d # strip_escapes p') else c # strip_escapes p)"

lemma scan_split_no_star: "CHR ''*'' \<notin> set p \<Longrightarrow> scan_split r p = (p, [])"
  by (induction r p rule: scan_split.induct) (auto split: list.split)

lemma match_chunk_literal:
  assumes "\<not> contains_any p ''*?[]''" and "match_chunk p s = Some t"
  shows "s = strip_escapes p @ t"
  using assms
proof (induction p arbitrary: s rule: strip_escapes.induct)
  case 1
  then show ?case by simp
next
  case (2 c p)
  have c: "c \<noteq> CHR ''[''" "c \<noteq> CHR ''?''" "\<not> contains_any p ''*?[]''"
    using "2.prems"(1) by (auto simp: contains_any_def)
  obtain d s' where s: "s = d # s'" using "2.prems"(2) by (cases s) simp_all
  show ?case
  proof (cases "c = CHR 0x5C")
    case True
    then obtain e p' where p: "p = e # p'" using "2.prems"(2) s by (cases p) simp_all
    have "\<not> contains_any p' ''*?[]''" using c(3) p by (auto simp: contains_any_def)
    then show ?thesis using "2.IH"(1) [OF True p] "2.prems"(2) s True p by (auto split: if_splits)
  next
    case False
    then show ?thesis using "2.IH"(2) [OF False c(3)] "2.prems"(2) s c by (auto split: if_splits)
  qed
qed

lemma filepath_match_literal:
  assumes "\<not> contains_any p ''*?[]''" and "filepath_match p s"
  shows "s = strip_escapes p"
proof (cases "p = []")
  case True
  then show ?thesis using assms(2) by (simp add: filepath_match.simps)
next
  case False
  have st: "CHR ''*'' \<notin> set p" using assms(1) by (auto simp: contains_any_def list_ex_iff)
  with False have ns: "hd p \<noteq> CHR ''*''" "CHR ''*'' \<notin> set p" by (metis hd_in_set)+
  then have d: "dropWhile (\<lambda>c. c = CHR ''*'') p = p" by (cases p) simp_all
  have "find_chunk False p True s = Some []"
    using assms(2) False ns d scan_split_no_star [OF ns(2)]
    by (auto simp: filepath_match.simps [of p] filepath_match.simps [of "[]"] split: option.splits)
  then have "match_chunk p s = Some []" by (auto simp: find_chunk_def split: option.splits if_splits)
  then show ?thesis using match_chunk_literal [OF assms(1)] by fastforce
qed

end
