(* ===== verification/Ceph_Config.thy ===== *)
theory Ceph_Config
  imports Wildcard Rados Go_Decode Go_Sort
begin

text \<open>
  The configuration parameters of the cluster (\<open>pkg/cephconfig/config.go\<close>): loading the embedded
  index, merging it with the parameters the cluster lists, and searching. The library functions
  that are not spelled out here are arguments: \<open>ul\<close> (lower case beyond ASCII), \<open>sprint\<close> (\<open>fmt.Sprint\<close>
  of a decoded JSON value) and \<open>parse_float\<close>; a number is kept as its literal.
\<close>

subsection \<open>Enumerations (cluster.pb.go)\<close>

text \<open>A protobuf enumeration is an open set of 32-bit numbers, some of which have names.\<close>

definition enum_string :: "(int \<times> string) list \<Rightarrow> int \<Rightarrow> string" where
  "enum_string names i = (case map_of names i of Some s \<Rightarrow> s | None \<Rightarrow> itoa i)"

definition enum_value :: "(int \<times> string) list \<Rightarrow> string \<Rightarrow> int" where
  "enum_value names s = (case map_of (map prod.swap names) s of Some i \<Rightarrow> i | None \<Rightarrow> 0)"

definition sort_field_name :: "(int \<times> string) list" where
  "sort_field_name = [(0, ''NAME''), (1, ''TYPE''), (2, ''LEVEL'')]"

definition sort_order_name :: "(int \<times> string) list" where
  "sort_order_name = [(0, ''ASC''), (1, ''DESC'')]"

definition service_type_name :: "(int \<times> string) list" where
  "service_type_name =
    [(0, ''common''), (1, ''mon''), (2, ''mds''), (3, ''osd''), (4, ''mgr''), (5, ''rgw''), (6, ''rbd''),
     (7, ''rbd_mirror''), (8, ''immutable_object_cache''), (9, ''mds_client''), (10, ''cephfs_mirror''),
     (11, ''ceph_exporter'')]"

definition config_level_name :: "(int \<times> string) list" where
  "config_level_name = [(0, ''basic''), (1, ''advanced''), (2, ''dev'')]"

definition param_type_name :: "(int \<times> string) list" where
  "param_type_name =
    [(0, ''str''), (1, ''uuid''), (2, ''addr''), (3, ''addrvec''), (4, ''bool''), (5, ''int''), (6, ''float''),
     (7, ''uint''), (8, ''size''), (9, ''secs''), (10, ''millisecs'')]"

text \<open>The names the parameters themselves use for services.\<close>

definition service_type_map :: "(int \<times> string) list" where
  "service_type_map =
    [(0, ''common''), (1, ''mon''), (2, ''mds''), (3, ''osd''), (4, ''mgr''), (5, ''rgw''), (6, ''rbd''),
     (7, ''rbd-mirror''), (8, ''immutable-object-cache''), (9, ''mds_client''), (10, ''cephfs-mirror''),
     (11, ''ceph-exporter'')]"

definition service_string_to_enum :: "string \<Rightarrow> int" where
  "service_string_to_enum = enum_value service_type_map"

subsection \<open>Parameters\<close>

record config_param_info =
  cpi_name :: string
  cpi_type :: string
  cpi_level :: string
  cpi_desc :: string
  cpi_long_desc :: string
  cpi_default :: json
  cpi_daemon_default :: json
  cpi_tags :: "string slice"
  cpi_services :: "string slice"
  cpi_see_also :: "string slice"
  cpi_enum_values :: "string slice"
  cpi_min :: json
  cpi_max :: json
  cpi_can_update_at_runtime :: bool
  cpi_flags :: "string slice"

definition zero_param :: config_param_info where
  "zero_param =
    \<lparr>cpi_name = [], cpi_type = [], cpi_level = [], cpi_desc = [], cpi_long_desc = [],
     cpi_default = JNull, cpi_daemon_default = JNull, cpi_tags = None, cpi_services = None,
     cpi_see_also = None, cpi_enum_values = None, cpi_min = JNull, cpi_max = JNull,
     cpi_can_update_at_runtime = False, cpi_flags = None\<rparr>"

definition dec_any :: "json \<Rightarrow> json \<Rightarrow> json res" where
  "dec_any j old = Inr j"

definition config_param_fields :: "config_param_info field list" where
  "config_param_fields =
    [field ''name'' dec_string cpi_name (\<lambda>v p. p\<lparr>cpi_name := v\<rparr>),
     field ''type'' dec_string cpi_type (\<lambda>v p. p\<lparr>cpi_type := v\<rparr>),
     field ''level'' dec_string cpi_level (\<lambda>v p. p\<lparr>cpi_level := v\<rparr>),
     field ''desc'' dec_string cpi_desc (\<lambda>v p. p\<lparr>cpi_desc := v\<rparr>),
     field ''long_desc'' dec_string cpi_long_desc (\<lambda>v p. p\<lparr>cpi_long_desc := v\<rparr>),
     field ''default'' dec_any cpi_default (\<lambda>v p. p\<lparr>cpi_default := v\<rparr>),
     field ''daemon_default'' dec_any cpi_daemon_default (\<lambda>v p. p\<lparr>cpi_daemon_default := v\<rparr>),
     field ''tags'' (dec_slice dec_string []) cpi_tags (\<lambda>v p. p\<lparr>cpi_tags := v\<rparr>),
     field ''services'' (dec_slice dec_string []) cpi_services (\<lambda>v p. p\<lparr>cpi_services := v\<rparr>),
     field ''see_also'' (dec_slice dec_string []) cpi_see_also (\<lambda>v p. p\<lparr>cpi_see_also := v\<rparr>),
     field ''enum_values'' (dec_slice dec_string []) cpi_enum_values (\<lambda>v p. p\<lparr>cpi_enum_values := v\<rparr>),
     field ''min'' dec_any cpi_min (\<lambda>v p. p\<lparr>cpi_min := v\<rparr>),
     field ''max'' dec_any cpi_max (\<lambda>v p. p\<lparr>cpi_max := v\<rparr>),
     field ''can_update_at_runtime'' dec_bool cpi_can_update_at_runtime
       (\<lambda>v p. p\<lparr>cpi_can_update_at_runtime := v\<rparr>),
     field ''flags'' (dec_slice dec_string []) cpi_flags (\<lambda>v p. p\<lparr>cpi_flags := v\<rparr>)]"

definition dec_param :: "json \<Rightarrow> config_param_info \<Rightarrow> config_param_info res" where
  "dec_param = dec_struct config_param_fields"

subsection \<open>Loading\<close>

definition wrap_error :: "string \<Rightarrow> 'a res \<Rightarrow> 'a res" where
  "wrap_error msg r = (case r of Inl err \<Rightarrow> Inl (Wrapped msg err []) | Inr a \<Rightarrow> Inr a)"

text \<open>\<open>data\<close> is the embedded \<open>config-index.json\<close>.\<close>

definition load_params_slice :: "string \<Rightarrow> config_param_info list res" where
  "load_params_slice data =
    wrap_error ''failed to unmarshal config index JSON: ''
      (and_then (unmarshal (dec_slice dec_param zero_param) None data) (\<lambda>ps. Inr (elems ps)))"

definition config_help_cmd :: "string \<Rightarrow> string" where
  "config_help_cmd param_name =
    ''{\"prefix\": \"config help\", \"key\": \"'' @ param_name @ ''\", \"format\": \"json\"}''"

definition fetch_param_detail ::
  "'w rados_conn \<Rightarrow> string \<Rightarrow> 'w \<Rightarrow> config_param_info res \<times> 'w" where
  "fetch_param_detail C param_name w =
    (case exec_mon C (config_help_cmd param_name) w of
       (Inl err, w') \<Rightarrow> (Inl (Wrapped ''failed to execute 'config help' command: '' err []), w')
     | (Inr cmd_res, w') \<Rightarrow>
         (wrap_error ''failed to parse config help response: '' (unmarshal dec_param zero_param cmd_res), w'))"

definition cons_result :: "'a \<Rightarrow> 'a list res \<times> 'w \<Rightarrow> 'a list res \<times> 'w" where
  "cons_result p r = (case r of (Inl err, w) \<Rightarrow> (Inl err, w) | (Inr ps, w) \<Rightarrow> (Inr (p # ps), w))"

fun merge_params ::
  "(string \<Rightarrow> 'w \<Rightarrow> config_param_info res \<times> 'w) \<Rightarrow> config_param_info list \<Rightarrow> string list \<Rightarrow> 'w
    \<Rightarrow> config_param_info list res \<times> 'w" where
  "merge_params fetch base [] w = (Inr [], w)"
| "merge_params fetch [] (b # cluster) w =
    (case fetch b w of
       (Inl err, w') \<Rightarrow> (Inl err, w')
     | (Inr p, w') \<Rightarrow> cons_result p (merge_params fetch [] cluster w'))"
| "merge_params fetch (a # base) (b # cluster) w =
    (if cpi_name a = b then cons_result a (merge_params fetch base cluster w)
     else if b < cpi_name a then
       (case fetch b w of
          (Inl err, w') \<Rightarrow> (Inl err, w')
        | (Inr p, w') \<Rightarrow> cons_result p (merge_params fetch (a # base) cluster w'))
     else merge_params fetch base (b # cluster) w)"

definition config_ls_cmd :: string where
  "config_ls_cmd = ''{\"prefix\": \"config ls\", \"format\": \"json\"}''"

definition new_config ::
  "'w rados_conn \<Rightarrow> string \<Rightarrow> bool \<Rightarrow> 'w \<Rightarrow> config_param_info list res \<times> 'w" where
  "new_config C data skip_update w =
    (case load_params_slice data of
       Inl err \<Rightarrow> (Inl err, w)
     | Inr sorted_base \<Rightarrow>
         if skip_update then (Inr sorted_base, w)
         else (case exec_mon C config_ls_cmd w of
                 (Inl err, w') \<Rightarrow> (Inl err, w')
               | (Inr cmd_res, w') \<Rightarrow>
                   (case unmarshal (dec_slice dec_string []) None cmd_res of
                      Inl err \<Rightarrow> (Inl err, w')
                    | Inr cluster_params \<Rightarrow>
                        merge_params (fetch_param_detail C) sorted_base (sort (elems cluster_params)) w')))"

subsection \<open>Searching\<close>

record query_params =
  q_service :: "int option"
  q_level :: "int option"
  q_name :: "string option"
  q_full_text :: "string option"
  q_sort :: "int option"
  q_order :: "int option"
  q_type :: "int option"

definition matches_service :: "config_param_info \<Rightarrow> int option \<Rightarrow> bool" where
  "matches_service info service =
    (case service of None \<Rightarrow> True
     | Some sv \<Rightarrow>
         let service_str = (case map_of service_type_map sv of Some s \<Rightarrow> s
                            | None \<Rightarrow> enum_string service_type_name sv)
         in list_ex (\<lambda>svc. equal_fold svc service_str) (elems (cpi_services info)))"

definition matches_level :: "config_param_info \<Rightarrow> int option \<Rightarrow> bool" where
  "matches_level info level =
    (case level of None \<Rightarrow> True | Some l \<Rightarrow> equal_fold (cpi_level info) (enum_string config_level_name l))"

definition matches_name :: "config_param_info \<Rightarrow> string option \<Rightarrow> bool" where
  "matches_name info name =
    (case name of None \<Rightarrow> True | Some n \<Rightarrow> if n = [] then True else match_wildcard (cpi_name info) n)"

definition matches_type :: "(string \<Rightarrow> string) \<Rightarrow> config_param_info \<Rightarrow> int option \<Rightarrow> bool" where
  "matches_type ul info param_type =
    (case param_type of None \<Rightarrow> True
     | Some t \<Rightarrow> equal_fold (cpi_type info) (to_lower ul (enum_string param_type_name t)))"

definition matches_full_text ::
  "(string \<Rightarrow> string) \<Rightarrow> (json \<Rightarrow> string) \<Rightarrow> config_param_info \<Rightarrow> string \<Rightarrow> bool" where
  "matches_full_text ul sprint info full_text_lower =
    (full_text_lower = []
     \<or> list_ex (\<lambda>t. contains (to_lower ul t) full_text_lower)
         [cpi_name info, cpi_type info, cpi_level info, cpi_desc info, cpi_long_desc info,
          sprint (cpi_default info), sprint (cpi_daemon_default info)]
     \<or> list_ex (\<lambda>tag. contains (to_lower ul tag) full_text_lower) (elems (cpi_tags info))
     \<or> list_ex (\<lambda>svc. contains (to_lower ul svc) full_text_lower) (elems (cpi_services info)))"

definition info_less :: "int \<Rightarrow> int \<Rightarrow> config_param_info \<Rightarrow> config_param_info \<Rightarrow> bool" where
  "info_less fld order a b =
    (if fld = 0 then (if order = 0 then cpi_name a < cpi_name b else cpi_name b < cpi_name a)
     else if fld = 1 then (if order = 0 then cpi_type a < cpi_type b else cpi_type b < cpi_type a)
     else if fld = 2 then (if order = 0 then cpi_level a < cpi_level b else cpi_level b < cpi_level a)
     else False)"

type_synonym param_sort =
  "(config_param_info \<Rightarrow> config_param_info \<Rightarrow> bool) \<Rightarrow> config_param_info list \<Rightarrow> config_param_info list"

definition sort_results :: "param_sort \<Rightarrow> config_param_info list \<Rightarrow> int \<Rightarrow> int \<Rightarrow> config_param_info list" where
  "sort_results srt results fld order =
    (if length results \<le> 1 then results else srt (info_less fld order) results)"

text \<open>The loop stops at its first hit when the name has no wildcard.\<close>

fun search_loop :: "(config_param_info \<Rightarrow> bool) \<Rightarrow> bool \<Rightarrow> config_param_info list \<Rightarrow> config_param_info list" where
  "search_loop matches unique_name [] = []"
| "search_loop matches unique_name (info # params) =
    (if matches info then info # (if unique_name then [] else search_loop matches unique_name params)
     else search_loop matches unique_name params)"

definition query_matches ::
  "(string \<Rightarrow> string) \<Rightarrow> (json \<Rightarrow> string) \<Rightarrow> query_params \<Rightarrow> config_param_info \<Rightarrow> bool" where
  "query_matches ul sprint q info =
    (let full_text_lower = (case q_full_text q of None \<Rightarrow> [] | Some t \<Rightarrow> to_lower ul t) in
     matches_service info (q_service q) \<and> matches_level info (q_level q) \<and> matches_name info (q_name q)
     \<and> matches_type ul info (q_type q) \<and> matches_full_text ul sprint info full_text_lower)"

definition unique_name :: "query_params \<Rightarrow> bool" where
  "unique_name q =
    (case q_name q of None \<Rightarrow> False | Some n \<Rightarrow> n \<noteq> [] \<and> \<not> contains_any n ''*?[]'')"

definition search ::
  "param_sort \<Rightarrow> (string \<Rightarrow> string) \<Rightarrow> (json \<Rightarrow> string) \<Rightarrow> config_param_info list \<Rightarrow> query_params
    \<Rightarrow> config_param_info list" where
  "search srt ul sprint params q =
    sort_results srt (search_loop (query_matches ul sprint q) (unique_name q) params)
      (case q_sort q of None \<Rightarrow> 0 | Some f \<Rightarrow> f) (case q_order q of None \<Rightarrow> 0 | Some d \<Rightarrow> d)"

definition parse_min_max :: "(string \<Rightarrow> string option) \<Rightarrow> json \<Rightarrow> string option" where
  "parse_min_max parse_float v =
    (case v of
       JNum n \<Rightarrow> Some n
     | JStr s \<Rightarrow> if s = [] then None else parse_float s
     | _ \<Rightarrow> None)"

end
