(* ===== verification/Cluster_Api.thy ===== *)
theory Cluster_Api
  imports Ceph_Config Users_Api
begin

text \<open>
  The gRPC handlers of the \<open>Cluster\<close> service (\<open>pkg/api/cluster_api_handlers.go\<close>) on its messages
  (\<open>cluster.pb.go\<close>). Their state is the cluster; commands are JSON texts put together by hand.
\<close>

subsection \<open>Messages\<close>

record delete_cluster_user_req =
  dcu_user_entity :: string

record export_cluster_user_req =
  ecu_entities :: "string list"

record create_cluster_user_req =
  ccu_capabilities :: "string gomap"
  ccu_user_entity :: string
  ccu_import_data :: string

record update_cluster_user_req =
  ucu_capabilities :: "string gomap"
  ucu_user_entity :: string

record cluster_user =
  clu_entity :: string
  clu_caps :: "string nmap"
  clu_key :: string

record search_config_req =
  sc_service :: "int option"
  sc_name :: "string option"
  sc_full_text :: "string option"
  sc_level :: "int option"
  sc_sort :: "int option"
  sc_order :: "int option"
  sc_type :: "int option"

record pb_config_param =
  pcp_name :: string
  pcp_type :: int
  pcp_level :: int
  pcp_desc :: string
  pcp_long_desc :: string
  pcp_default_value :: string
  pcp_daemon_default :: string
  pcp_tags :: "string slice"
  pcp_services :: "int list"
  pcp_see_also :: "string slice"
  pcp_enum_values :: "string slice"
  pcp_min :: "string option"
  pcp_max :: "string option"
  pcp_can_update_at_runtime :: bool
  pcp_flags :: "string slice"

definition cluster_status_name :: "(int \<times> string) list" where
  "cluster_status_name = [(0, ''INSTALLED''), (1, ''POST_INSTALLED'')]"

subsection \<open>Users of the cluster\<close>

definition exec_reply :: "'a res \<times> 'w \<Rightarrow> unit reply \<times> 'w" where
  "exec_reply r = (case r of (Inl err, w) \<Rightarrow> (Failed err, w) | (Inr _, w) \<Rightarrow> (Reply (), w))"

definition auth_del_cmd :: "string \<Rightarrow> string" where
  "auth_del_cmd entity = ''{\"prefix\": \"auth del\", \"entity\": \"'' @ entity @ ''\"}''"

definition cluster_delete_user ::
  "'w rados_conn \<Rightarrow> delete_cluster_user_req \<Rightarrow> req_ctx \<Rightarrow> 'w \<Rightarrow> unit reply \<times> 'w" where
  "cluster_delete_user C req ctx = with_permissions ctx ScopeConfigOpt [PermDelete]
    (\<lambda>w. exec_reply (exec_mon C (auth_del_cmd (dcu_user_entity req)) w))"

definition auth_export_cmd :: "string \<Rightarrow> string" where
  "auth_export_cmd entity = ''{\"prefix\": \"auth export\", \"entity\": \"'' @ entity @ ''\"}''"

text \<open>An entity that cannot be exported is logged and skipped.\<close>

fun export_loop :: "'w rados_conn \<Rightarrow> string list \<Rightarrow> string \<Rightarrow> 'w \<Rightarrow> string \<times> 'w" where
  "export_loop C [] buf w = (buf, w)"
| "export_loop C (entity # entities) buf w =
    (case exec_mon C (auth_export_cmd entity) w of
       (Inl err, w') \<Rightarrow> export_loop C entities buf w'
     | (Inr res, w') \<Rightarrow> export_loop C entities (buf @ res @ [CHR 0x0A]) w')"

definition cluster_export_user ::
  "'w rados_conn \<Rightarrow> export_cluster_user_req \<Rightarrow> req_ctx \<Rightarrow> 'w \<Rightarrow> string reply \<times> 'w" where
  "cluster_export_user C req ctx = with_permissions ctx ScopeConfigOpt [PermRead]
    (\<lambda>w. case export_loop C (ecu_entities req) [] w of (buf, w') \<Rightarrow> (Reply buf, w'))"

definition caps_text :: "(nat \<Rightarrow> bool) \<Rightarrow> string gomap \<Rightarrow> string" where
  "caps_text isp caps = join '','' (concat (map (\<lambda>(k, v). [strconv_quote isp k, strconv_quote isp v]) caps))"

definition auth_add_cmd :: "(nat \<Rightarrow> bool) \<Rightarrow> string \<Rightarrow> string gomap \<Rightarrow> string" where
  "auth_add_cmd isp entity caps =
    ''{\"prefix\": \"auth add\", \"entity\": \"'' @ entity @ ''\", \"caps\": ['' @ caps_text isp caps @ '']}''"

definition auth_import_cmd :: string where
  "auth_import_cmd = ''{\"prefix\": \"auth import\"}''"

definition cluster_create_user ::
  "'w rados_conn \<Rightarrow> (nat \<Rightarrow> bool) \<Rightarrow> create_cluster_user_req \<Rightarrow> req_ctx \<Rightarrow> 'w \<Rightarrow> unit reply \<times> 'w" where
  "cluster_create_user C isp req ctx = with_permissions ctx ScopeConfigOpt [PermCreate]
    (\<lambda>w. if ccu_import_data req \<noteq> [] then
           exec_reply (exec_mon_with_input_buff C auth_import_cmd (ccu_import_data req) w)
         else exec_reply (exec_mon C (auth_add_cmd isp (ccu_user_entity req) (ccu_capabilities req)) w))"

definition auth_ls_cmd :: string where
  "auth_ls_cmd = ''{\"prefix\": \"auth ls\", \"format\": \"json\"}''"

definition zero_cluster_user :: cluster_user where
  "zero_cluster_user = \<lparr>clu_entity = [], clu_caps = None, clu_key = []\<rparr>"

definition cluster_user_fields :: "cluster_user field list" where
  "cluster_user_fields =
    [field ''entity'' dec_string clu_entity (\<lambda>v u. u\<lparr>clu_entity := v\<rparr>),
     field ''caps'' (dec_map dec_string []) clu_caps (\<lambda>v u. u\<lparr>clu_caps := v\<rparr>),
     field ''key'' dec_string clu_key (\<lambda>v u. u\<lparr>clu_key := v\<rparr>)]"

definition auth_dump_fields :: "cluster_user option slice field list" where
  "auth_dump_fields =
    [field ''auth_dump''
       (dec_slice (dec_ptr (dec_struct cluster_user_fields) zero_cluster_user) None) (\<lambda>d. d) (\<lambda>v d. v)]"

definition cluster_get_users ::
  "'w rados_conn \<Rightarrow> req_ctx \<Rightarrow> 'w \<Rightarrow> cluster_user option slice reply \<times> 'w" where
  "cluster_get_users C ctx = with_permissions ctx ScopeConfigOpt [PermRead]
    (\<lambda>w. case exec_mon C auth_ls_cmd w of
           (Inl err, w') \<Rightarrow> (Failed err, w')
         | (Inr cmd_res, w') \<Rightarrow>
             (case unmarshal (dec_struct auth_dump_fields) None cmd_res of
                Inl err \<Rightarrow> (Failed err, w')
              | Inr users \<Rightarrow> (Reply users, w')))"

definition auth_caps_cmd :: "(nat \<Rightarrow> bool) \<Rightarrow> string \<Rightarrow> string gomap \<Rightarrow> string" where
  "auth_caps_cmd isp entity caps =
    ''{\"prefix\": \"auth caps\", \"entity\": \"'' @ entity @ ''\", \"caps\": ['' @ caps_text isp caps @ '']}''"

definition cluster_update_user ::
  "'w rados_conn \<Rightarrow> (nat \<Rightarrow> bool) \<Rightarrow> update_cluster_user_req \<Rightarrow> req_ctx \<Rightarrow> 'w \<Rightarrow> unit reply \<times> 'w" where
  "cluster_update_user C isp req ctx = with_permissions ctx ScopeConfigOpt [PermUpdate]
    (\<lambda>w. case exec_mon C (auth_caps_cmd isp (ucu_user_entity req) (ucu_capabilities req)) w of
           (Inl err, w') \<Rightarrow>
             if errors_is err RadosErrorNotFound then (Failed ErrNotFound, w') else (Failed err, w')
         | (Inr _, w') \<Rightarrow> (Reply (), w'))"

subsection \<open>Cluster status\<close>

definition status_get_cmd :: string where
  "status_get_cmd = ''{\"prefix\":\"config-key get\", \"key\":\"mgr/dashboard/cluster/status\"}''"

definition cluster_get_status :: "'w rados_conn \<Rightarrow> req_ctx \<Rightarrow> 'w \<Rightarrow> int reply \<times> 'w" where
  "cluster_get_status C ctx = with_permissions ctx ScopeConfigOpt [PermRead]
    (\<lambda>w. case exec_mon C status_get_cmd w of
           (Inl err, w') \<Rightarrow> if errors_is err RadosErrorNotFound then (Reply 1, w') else (Failed err, w')
         | (Inr cmd_res, w') \<Rightarrow> (Reply (enum_value cluster_status_name cmd_res), w'))"

definition status_set_cmd :: "int \<Rightarrow> string" where
  "status_set_cmd status =
    ''{\"prefix\":\"config-key set\", \"key\":\"mgr/dashboard/cluster/status\", \"val\":\"'' @
      enum_string cluster_status_name status @ ''\"}''"

definition cluster_update_status :: "'w rados_conn \<Rightarrow> int \<Rightarrow> req_ctx \<Rightarrow> 'w \<Rightarrow> unit reply \<times> 'w" where
  "cluster_update_status C status ctx = with_permissions ctx ScopeConfigOpt [PermUpdate]
    (\<lambda>w. exec_reply (exec_mon C (status_set_cmd status) w))"

subsection \<open>Searching the configuration\<close>

definition query_of_req :: "search_config_req \<Rightarrow> query_params" where
  "query_of_req req =
    \<lparr>q_service = sc_service req, q_level = sc_level req, q_name = sc_name req,
     q_full_text = sc_full_text req, q_sort = sc_sort req, q_order = sc_order req, q_type = sc_type req\<rparr>"

definition config_param_to_pb ::
  "(json \<Rightarrow> string) \<Rightarrow> (string \<Rightarrow> string option) \<Rightarrow> config_param_info \<Rightarrow> pb_config_param" where
  "config_param_to_pb sprint parse_float p =
    \<lparr>pcp_name = cpi_name p, pcp_type = enum_value param_type_name (cpi_type p),
     pcp_level = enum_value config_level_name (cpi_level p), pcp_desc = cpi_desc p,
     pcp_long_desc = cpi_long_desc p, pcp_default_value = sprint (cpi_default p),
     pcp_daemon_default = sprint (cpi_daemon_default p), pcp_tags = cpi_tags p,
     pcp_services = map service_string_to_enum (elems (cpi_services p)), pcp_see_also = cpi_see_also p,
     pcp_enum_values = cpi_enum_values p, pcp_min = parse_min_max parse_float (cpi_min p),
     pcp_max = parse_min_max parse_float (cpi_max p),
     pcp_can_update_at_runtime = cpi_can_update_at_runtime p, pcp_flags = cpi_flags p\<rparr>"

definition cluster_search_config ::
  "param_sort \<Rightarrow> (string \<Rightarrow> string) \<Rightarrow> (json \<Rightarrow> string) \<Rightarrow> (string \<Rightarrow> string option) \<Rightarrow> config_param_info list
    \<Rightarrow> search_config_req \<Rightarrow> req_ctx \<Rightarrow> 'w \<Rightarrow> pb_config_param list reply \<times> 'w" where
  "cluster_search_config srt ul sprint parse_float params req ctx = with_permissions ctx ScopeConfigOpt [PermRead]
    (\<lambda>w. (Reply (map (config_param_to_pb sprint parse_float) (search srt ul sprint params (query_of_req req))), w))"

subsection \<open>Every handler is guarded\<close>

interpretation cluster_status: guarded_handler "cluster_get_status C" ScopeConfigOpt "[PermRead]" for C
  by unfold_locales (simp add: cluster_get_status_def with_permissions_refuses)

interpretation set_cluster_status: guarded_handler "cluster_update_status C status" ScopeConfigOpt "[PermUpdate]" for C status
  by unfold_locales (simp add: cluster_update_status_def with_permissions_refuses)

interpretation cluster_users: guarded_handler "cluster_get_users C" ScopeConfigOpt "[PermRead]" for C
  by unfold_locales (simp add: cluster_get_users_def with_permissions_refuses)

interpretation set_caps: guarded_handler "cluster_update_user C isp req" ScopeConfigOpt "[PermUpdate]" for C isp req
  by unfold_locales (simp add: cluster_update_user_def with_permissions_refuses)

interpretation add_cluster_user: guarded_handler "cluster_create_user C isp req" ScopeConfigOpt "[PermCreate]" for C isp req
  by unfold_locales (simp add: cluster_create_user_def with_permissions_refuses)

interpretation export_users: guarded_handler "cluster_export_user C req" ScopeConfigOpt "[PermRead]" for C req
  by unfold_locales (simp add: cluster_export_user_def with_permissions_refuses)

interpretation del_cluster_user: guarded_handler "cluster_delete_user C req" ScopeConfigOpt "[PermDelete]" for C req
  by unfold_locales (simp add: cluster_delete_user_def with_permissions_refuses)

interpretation search_config: guarded_handler "cluster_search_config srt ul sprint parse_float params req" ScopeConfigOpt "[PermRead]" for srt ul sprint parse_float params req
  by unfold_locales (simp add: cluster_search_config_def with_permissions_refuses)

end
