(* ===== verification/Status_Api.thy ===== *)
theory Status_Api
  imports Status_Types Mon_Types Osd_Types Pg_Types Cluster_Api
begin

text \<open>
  The gRPC handlers of the \<open>Status\<close> service (\<open>pkg/api/status_api_handlers.go\<close>): each runs one command,
  decodes its answer and converts it to the response message, field by field. A nil pointer that the
  conversion dereferences is a panic.
\<close>

subsection \<open>Commands\<close>

definition report_cmd :: string where
  "report_cmd = ''{\"prefix\": \"report\", \"format\": \"json\"}''"

definition status_cmd :: string where
  "status_cmd = ''{\"prefix\": \"status\", \"format\": \"json\"}''"

definition mon_dump_cmd :: string where
  "mon_dump_cmd = ''{\"prefix\": \"mon dump\", \"format\": \"json\"}''"

definition osd_dump_cmd :: string where
  "osd_dump_cmd = ''{\"prefix\": \"osd dump\", \"format\": \"json\"}''"

definition pg_dump_cmd :: string where
  "pg_dump_cmd = ''{\"prefix\": \"pg dump\", \"format\": \"json\"}''"

text \<open>Run a command, decode its answer, convert it.\<close>

definition run_dump ::
  "'w rados_conn \<Rightarrow> string \<Rightarrow> (string \<Rightarrow> 'd res) \<Rightarrow> ('d \<Rightarrow> 'a reply) \<Rightarrow> 'w \<Rightarrow> 'a reply \<times> 'w" where
  "run_dump C cmd decode convert w =
    (case exec_mon C cmd w of
       (Inl err, w') \<Rightarrow> (Failed err, w')
     | (Inr res, w') \<Rightarrow> (case decode res of Inl err \<Rightarrow> (Failed err, w') | Inr d \<Rightarrow> (convert d, w')))"

definition reply_or_panic :: "'a option \<Rightarrow> 'a reply" where
  "reply_or_panic r = (case r of None \<Rightarrow> Panicked nil_panic | Some a \<Rightarrow> Reply a)"

text \<open>A slice of pointers of which none may be nil.\<close>

fun all_some :: "'a option list \<Rightarrow> 'a list option" where
  "all_some [] = Some []"
| "all_some (None # xs) = None"
| "all_some (Some x # xs) = map_option (\<lambda>ys. x # ys) (all_some xs)"

subsection \<open>Conversions\<close>

definition convert_mon_dump :: "ceph_mon_dump_response \<Rightarrow> pb_ceph_mon_dump_response option" where
  "convert_mon_dump x =
    (case mon_dump_modified x of None \<Rightarrow> None | Some modified \<Rightarrow>
     (case mon_dump_created x of None \<Rightarrow> None | Some created \<Rightarrow> Some
    \<lparr>pb_mon_dump_epoch = mon_dump_epoch x, pb_mon_dump_fsid = mon_dump_fsid x,
      pb_mon_dump_modified = Some modified, pb_mon_dump_created = Some created,
      pb_mon_dump_min_mon_release = mon_dump_min_mon_release x,
      pb_mon_dump_min_mon_release_name = mon_dump_min_mon_release_name x,
      pb_mon_dump_election_strategy = mon_dump_election_strategy x,
      pb_mon_dump_disallowed_leaders = mon_dump_disallowed_leaders x,
      pb_mon_dump_stretch_mode = mon_dump_stretch_mode x,
      pb_mon_dump_tiebreaker_mon = mon_dump_tiebreaker_mon x,
      pb_mon_dump_removed_ranks = mon_dump_removed_ranks x, pb_mon_dump_features = mon_dump_features x,
      pb_mon_dump_mons = mon_dump_mons x, pb_mon_dump_quorum = mon_dump_quorum x\<rparr>))"

definition convert_pool :: "osd_dump_pool \<Rightarrow> pb_osd_dump_pool" where
  "convert_pool x =
    \<lparr>pb_pool_pool = pool_pool x, pb_pool_pool_name = pool_pool_name x,
      pb_pool_create_time = pool_create_time x, pb_pool_flags = pool_flags x,
      pb_pool_flags_names = pool_flags_names x, pb_pool_type = pool_type x, pb_pool_size = pool_size x,
      pb_pool_min_size = pool_min_size x, pb_pool_crush_rule = pool_crush_rule x,
      pb_pool_peering_crush_bucket_count = pool_peering_crush_bucket_count x,
      pb_pool_peering_crush_bucket_target = pool_peering_crush_bucket_target x,
      pb_pool_peering_crush_bucket_barrier = pool_peering_crush_bucket_barrier x,
      pb_pool_peering_crush_bucket_mandatory_member = pool_peering_crush_bucket_mandatory_member x,
      pb_pool_object_hash = pool_object_hash x, pb_pool_pg_autoscale_mode = pool_pg_autoscale_mode x,
      pb_pool_pg_num = pool_pg_num x, pb_pool_pg_placement_num = pool_pg_placement_num x,
      pb_pool_pg_placement_num_target = pool_pg_placement_num_target x,
      pb_pool_pg_num_target = pool_pg_num_target x, pb_pool_pg_num_pending = pool_pg_num_pending x,
      pb_pool_last_pg_merge_meta = pool_last_pg_merge_meta x, pb_pool_last_change = pool_last_change x,
      pb_pool_last_force_op_resend = pool_last_force_op_resend x,
      pb_pool_last_force_op_resend_prenautilus = pool_last_force_op_resend_prenautilus x,
      pb_pool_last_force_op_resend_preluminous = pool_last_force_op_resend_preluminous x,
      pb_pool_auid = pool_auid x, pb_pool_snap_mode = pool_snap_mode x,
      pb_pool_snap_seq = pool_snap_seq x, pb_pool_snap_epoch = pool_snap_epoch x,
      pb_pool_pool_snaps = pool_pool_snaps x, pb_pool_removed_snaps = pool_removed_snaps x,
      pb_pool_quota_max_bytes = pool_quota_max_bytes x,
      pb_pool_quota_max_objects = pool_quota_max_objects x, pb_pool_tiers = pool_tiers x,
      pb_pool_tier_of = pool_tier_of x, pb_pool_read_tier = pool_read_tier x,
      pb_pool_write_tier = pool_write_tier x, pb_pool_cache_mode = pool_cache_mode x,
      pb_pool_target_max_bytes = pool_target_max_bytes x,
      pb_pool_target_max_objects = pool_target_max_objects x,
      pb_pool_cache_target_dirty_ratio_micro = pool_cache_target_dirty_ratio_micro x,
      pb_pool_cache_target_dirty_high_ratio_micro = pool_cache_target_dirty_high_ratio_micro x,
      pb_pool_cache_target_full_ratio_micro = pool_cache_target_full_ratio_micro x,
      pb_pool_cache_min_flush_age = pool_cache_min_flush_age x,
      pb_pool_cache_min_evict_age = pool_cache_min_evict_age x,
      pb_pool_erasure_code_profile = pool_erasure_code_profile x,
      pb_pool_hit_set_params = pool_hit_set_params x, pb_pool_hit_set_period = pool_hit_set_period x,
      pb_pool_hit_set_count = pool_hit_set_count x, pb_pool_use_gmt_hitset = pool_use_gmt_hitset x,
      pb_pool_min_read_recency_for_promote = pool_min_read_recency_for_promote x,
      pb_pool_min_write_recency_for_promote = pool_min_write_recency_for_promote x,
      pb_pool_hit_set_grade_decay_rate = pool_hit_set_grade_decay_rate x,
      pb_pool_hit_set_search_last_n = pool_hit_set_search_last_n x,
      pb_pool_grade_table = pool_grade_table x, pb_pool_stripe_width = pool_stripe_width x,
      pb_pool_expected_num_objects = pool_expected_num_objects x, pb_pool_fast_read = pool_fast_read x,
      pb_pool_options = pool_options x, pb_pool_application_metadata = pool_application_metadata x,
      pb_pool_read_balance = pool_read_balance x\<rparr>"

definition convert_xinfo :: "osd_dump_osd_x_info \<Rightarrow> pb_osd_dump_osd_x_info" where
  "convert_xinfo x =
    \<lparr>pb_xinfo_osd = xinfo_osd x, pb_xinfo_down_stamp = xinfo_down_stamp x,
      pb_xinfo_laggy_probability = xinfo_laggy_probability x,
      pb_xinfo_laggy_interval = xinfo_laggy_interval x, pb_xinfo_features = xinfo_features x,
      pb_xinfo_old_weight = xinfo_old_weight x,
      pb_xinfo_last_purged_snaps_scrub = xinfo_last_purged_snaps_scrub x,
      pb_xinfo_dead_epoch = xinfo_dead_epoch x\<rparr>"

definition convert_osd_dump :: "ceph_osd_dump_response \<Rightarrow> get_ceph_osd_dump_response option" where
  "convert_osd_dump x =
    map_option (\<lambda>xs. let osd_xinfo = map convert_xinfo xs in
    \<lparr>pb_osd_dump_epoch = osd_dump_epoch x, pb_osd_dump_fsid = osd_dump_fsid x,
      pb_osd_dump_created = osd_dump_created x, pb_osd_dump_modified = osd_dump_modified x,
      pb_osd_dump_last_up_change = osd_dump_last_up_change x,
      pb_osd_dump_last_in_change = osd_dump_last_in_change x, pb_osd_dump_flags = osd_dump_flags x,
      pb_osd_dump_flags_num = osd_dump_flags_num x, pb_osd_dump_flags_set = osd_dump_flags_set x,
      pb_osd_dump_crush_version = osd_dump_crush_version x,
      pb_osd_dump_full_ratio = osd_dump_full_ratio x,
      pb_osd_dump_backfillfull_ratio = osd_dump_backfillfull_ratio x,
      pb_osd_dump_nearfull_ratio = osd_dump_nearfull_ratio x,
      pb_osd_dump_cluster_snapshot = osd_dump_cluster_snapshot x,
      pb_osd_dump_pool_max = osd_dump_pool_max x, pb_osd_dump_max_osd = osd_dump_max_osd x,
      pb_osd_dump_require_min_compat_client = osd_dump_require_min_compat_client x,
      pb_osd_dump_min_compat_client = osd_dump_min_compat_client x,
      pb_osd_dump_require_osd_release = osd_dump_require_osd_release x,
      pb_osd_dump_allow_crimson = osd_dump_allow_crimson x,
      pb_osd_dump_pools = (if elems (osd_dump_pools x) = [] then None else Some (map (\<lambda>p. Some (convert_pool p)) (elems (osd_dump_pools x)))),
      pb_osd_dump_osds = osd_dump_osds x,
      pb_osd_dump_osd_xinfo = (if osd_xinfo = [] then None else Some (map Some osd_xinfo)),
      pb_osd_dump_pg_upmap = osd_dump_pg_upmap x, pb_osd_dump_pg_upmap_items = osd_dump_pg_upmap_items x,
      pb_osd_dump_pg_upmap_primaries = osd_dump_pg_upmap_primaries x,
      pb_osd_dump_pg_temp = osd_dump_pg_temp x, pb_osd_dump_primary_temp = osd_dump_primary_temp x,
      pb_osd_dump_blocklist = Some (elems (osd_dump_blocklist x)),
      pb_osd_dump_range_blocklist = osd_dump_range_blocklist x,
      pb_osd_dump_erasure_code_profiles = osd_dump_erasure_code_profiles x,
      pb_osd_dump_removed_snaps_queue = osd_dump_removed_snaps_queue x,
      pb_osd_dump_new_removed_snaps = osd_dump_new_removed_snaps x,
      pb_osd_dump_new_purged_snaps = osd_dump_new_purged_snaps x,
      pb_osd_dump_crush_node_flags = osd_dump_crush_node_flags x,
      pb_osd_dump_device_class_flags = osd_dump_device_class_flags x,
      pb_osd_dump_stretch_mode = osd_dump_stretch_mode x\<rparr>)
    (all_some (elems (osd_dump_osd_xinfo x)))"

definition convert_pg_stat :: "pg_stat \<Rightarrow> pb_pg_stat" where
  "convert_pg_stat x =
    \<lparr>pb_pg_stat_pgid = pg_stat_pgid x, pb_pg_stat_version = pg_stat_version x,
      pb_pg_stat_reported_seq = pg_stat_reported_seq x,
      pb_pg_stat_reported_epoch = pg_stat_reported_epoch x, pb_pg_stat_state = pg_stat_state x,
      pb_pg_stat_last_fresh = pg_stat_last_fresh x, pb_pg_stat_last_change = pg_stat_last_change x,
      pb_pg_stat_last_active = pg_stat_last_active x, pb_pg_stat_last_peered = pg_stat_last_peered x,
      pb_pg_stat_last_clean = pg_stat_last_clean x,
      pb_pg_stat_last_became_active = pg_stat_last_became_active x,
      pb_pg_stat_last_became_peered = pg_stat_last_became_peered x,
      pb_pg_stat_last_unstale = pg_stat_last_unstale x,
      pb_pg_stat_last_undegraded = pg_stat_last_undegraded x,
      pb_pg_stat_last_fullsized = pg_stat_last_fullsized x,
      pb_pg_stat_mapping_epoch = pg_stat_mapping_epoch x, pb_pg_stat_log_start = pg_stat_log_start x,
      pb_pg_stat_ondisk_log_start = pg_stat_ondisk_log_start x, pb_pg_stat_created = pg_stat_created x,
      pb_pg_stat_last_epoch_clean = pg_stat_last_epoch_clean x, pb_pg_stat_parent = pg_stat_parent x,
      pb_pg_stat_parent_split_bits = pg_stat_parent_split_bits x,
      pb_pg_stat_last_scrub = pg_stat_last_scrub x,
      pb_pg_stat_last_scrub_stamp = pg_stat_last_scrub_stamp x,
      pb_pg_stat_last_deep_scrub = pg_stat_last_deep_scrub x,
      pb_pg_stat_last_deep_scrub_stamp = pg_stat_last_deep_scrub_stamp x,
      pb_pg_stat_last_clean_scrub_stamp = pg_stat_last_clean_scrub_stamp x,
      pb_pg_stat_objects_scrubbed = pg_stat_objects_scrubbed x, pb_pg_stat_log_size = pg_stat_log_size x,
      pb_pg_stat_log_dups_size = pg_stat_log_dups_size x,
      pb_pg_stat_ondisk_log_size = pg_stat_ondisk_log_size x,
      pb_pg_stat_stats_invalid = pg_stat_stats_invalid x,
      pb_pg_stat_dirty_stats_invalid = pg_stat_dirty_stats_invalid x,
      pb_pg_stat_omap_stats_invalid = pg_stat_omap_stats_invalid x,
      pb_pg_stat_hitset_stats_invalid = pg_stat_hitset_stats_invalid x,
      pb_pg_stat_hitset_bytes_stats_invalid = pg_stat_hitset_bytes_stats_invalid x,
      pb_pg_stat_pin_stats_invalid = pg_stat_pin_stats_invalid x,
      pb_pg_stat_manifest_stats_invalid = pg_stat_manifest_stats_invalid x,
      pb_pg_stat_snaptrimq_len = pg_stat_snaptrimq_len x,
      pb_pg_stat_last_scrub_duration = pg_stat_last_scrub_duration x,
      pb_pg_stat_scrub_schedule = pg_stat_scrub_schedule x,
      pb_pg_stat_scrub_duration = pg_stat_scrub_duration x,
      pb_pg_stat_objects_trimmed = pg_stat_objects_trimmed x,
      pb_pg_stat_snaptrim_duration = pg_stat_snaptrim_duration x,
      pb_pg_stat_stat_sum = pg_stat_stat_sum x, pb_pg_stat_up = pg_stat_up x,
      pb_pg_stat_acting = pg_stat_acting x, pb_pg_stat_avail_no_missing = pg_stat_avail_no_missing x,
      pb_pg_stat_object_location_counts = pg_stat_object_location_counts x,
      pb_pg_stat_blocked_by = pg_stat_blocked_by x, pb_pg_stat_up_primary = pg_stat_up_primary x,
      pb_pg_stat_acting_primary = pg_stat_acting_primary x,
      pb_pg_stat_purged_snaps = pg_stat_purged_snaps x\<rparr>"

definition convert_pg_map :: "pg_map \<Rightarrow> pb_pg_map option" where
  "convert_pg_map x =
    map_option (\<lambda>xs. let stats = map convert_pg_stat xs in
    \<lparr>pb_pg_map_version = pg_map_version x, pb_pg_map_stamp = pg_map_stamp x,
      pb_pg_map_last_osdmap_epoch = pg_map_last_osdmap_epoch x,
      pb_pg_map_last_pg_scan = pg_map_last_pg_scan x, pb_pg_map_pg_stats_sum = pg_map_pg_stats_sum x,
      pb_pg_map_osd_stats_sum = pg_map_osd_stats_sum x,
      pb_pg_map_pg_stats_delta = pg_map_pg_stats_delta x, pb_pg_map_pg_stats = Some (map Some stats),
      pb_pg_map_pool_stats = pg_map_pool_stats x, pb_pg_map_osd_stats = pg_map_osd_stats x,
      pb_pg_map_pool_statfs = pg_map_pool_statfs x\<rparr>)
    (all_some (elems (pg_map_pg_stats x)))"

definition convert_pg_dump :: "pg_dump_response \<Rightarrow> get_ceph_pg_dump_response option" where
  "convert_pg_dump x =
    (case pg_dump_pg_map x of None \<Rightarrow> None
     | Some m \<Rightarrow> map_option (\<lambda>pm. \<lparr>pb_pg_dump_pg_ready = pg_dump_pg_ready x, pb_pg_dump_pg_map = Some pm\<rparr>)
         (convert_pg_map m))"

subsection \<open>Handlers\<close>

text \<open>
  The report is any JSON object, decoded into nested Go maps, where the last of several members of the
  same name stays; \<open>null\<close> leaves the map nil, which converts to an empty struct.
\<close>

fun go_maps :: "json \<Rightarrow> json" where
  "go_maps (JObj ms) = JObj (foldl (\<lambda>m (k, v). gset k v m) [] (map (\<lambda>(k, v). (k, go_maps v)) ms))"
| "go_maps (JArr js) = JArr (map go_maps js)"
| "go_maps j = j"

definition dec_report :: "string \<Rightarrow> json res" where
  "dec_report text =
    (case json_parse text of
       None \<Rightarrow> Inl syntax_error
     | Some (JObj ms) \<Rightarrow> Inr (go_maps (JObj ms))
     | Some JNull \<Rightarrow> Inr (JObj [])
     | Some _ \<Rightarrow> Inl unmarshal_error)"

definition get_ceph_report :: "'w rados_conn \<Rightarrow> req_ctx \<Rightarrow> 'w \<Rightarrow> json reply \<times> 'w" where
  "get_ceph_report C ctx = with_permissions ctx ScopeMonitor [PermRead]
    (run_dump C report_cmd dec_report Reply)"

definition get_ceph_status :: "'w rados_conn \<Rightarrow> req_ctx \<Rightarrow> 'w \<Rightarrow> get_ceph_status_response reply \<times> 'w" where
  "get_ceph_status C ctx = with_permissions ctx ScopeMonitor [PermRead]
    (run_dump C status_cmd (unmarshal dec_get_ceph_status_response zero_get_ceph_status_response) Reply)"

definition get_ceph_mon_dump :: "'w rados_conn \<Rightarrow> req_ctx \<Rightarrow> 'w \<Rightarrow> pb_ceph_mon_dump_response reply \<times> 'w" where
  "get_ceph_mon_dump C ctx = with_permissions ctx ScopeMonitor [PermRead]
    (run_dump C mon_dump_cmd (unmarshal dec_ceph_mon_dump_response zero_ceph_mon_dump_response)
      (\<lambda>d. reply_or_panic (convert_mon_dump d)))"

definition get_ceph_osd_dump :: "'w rados_conn \<Rightarrow> req_ctx \<Rightarrow> 'w \<Rightarrow> get_ceph_osd_dump_response reply \<times> 'w" where
  "get_ceph_osd_dump C ctx = with_permissions ctx ScopeOsd [PermRead]
    (run_dump C osd_dump_cmd (unmarshal dec_ceph_osd_dump_response zero_ceph_osd_dump_response)
      (\<lambda>d. reply_or_panic (convert_osd_dump d)))"

definition get_ceph_pg_dump :: "'w rados_conn \<Rightarrow> req_ctx \<Rightarrow> 'w \<Rightarrow> get_ceph_pg_dump_response reply \<times> 'w" where
  "get_ceph_pg_dump C ctx = with_permissions ctx ScopeMonitor [PermRead]
    (run_dump C pg_dump_cmd (unmarshal dec_pg_dump_response zero_pg_dump_response)
      (\<lambda>d. reply_or_panic (convert_pg_dump d)))"

subsection \<open>Every handler is guarded\<close>

interpretation report: guarded_handler "get_ceph_report C" ScopeMonitor "[PermRead]" for C
  by unfold_locales (simp add: get_ceph_report_def with_permissions_refuses)

interpretation status: guarded_handler "get_ceph_status C" ScopeMonitor "[PermRead]" for C
  by unfold_locales (simp add: get_ceph_status_def with_permissions_refuses)

interpretation mon_dump: guarded_handler "get_ceph_mon_dump C" ScopeMonitor "[PermRead]" for C
  by unfold_locales (simp add: get_ceph_mon_dump_def with_permissions_refuses)

interpretation osd_dump: guarded_handler "get_ceph_osd_dump C" ScopeOsd "[PermRead]" for C
  by unfold_locales (simp add: get_ceph_osd_dump_def with_permissions_refuses)

interpretation pg_dump: guarded_handler "get_ceph_pg_dump C" ScopeMonitor "[PermRead]" for C
  by unfold_locales (simp add: get_ceph_pg_dump_def with_permissions_refuses)

end
