(* ===== verification/Crush_Api.thy ===== *)
theory Crush_Api
  imports Cluster_Api
begin

text \<open>
  The gRPC handlers of the \<open>CrushRule\<close> service (\<open>pkg/api/crush_rule_api_handlers.go\<close>) on its messages
  (\<open>crush_rule.pb.go\<close>). Commands are marshalled from a map, so every text is escaped.
\<close>

subsection \<open>Messages\<close>

definition pool_type_name :: "(int \<times> string) list" where
  "pool_type_name = [(0, ''replication''), (1, ''erasure'')]"

record create_rule_req =
  crr_device_class :: "string option"
  crr_failure_domain :: string
  crr_name :: string
  crr_pool_type :: int
  crr_profile :: "string option"
  crr_root :: "string option"

record rule_name_req =
  rn_name :: string

record step =
  step_entries :: "string nmap"

record crush_rule =
  rule_id :: int
  rule_name :: string
  rule_ruleset :: int
  rule_type :: int
  rule_min_size :: int
  rule_max_size :: int
  rule_steps :: "step option slice"

definition zero_step :: step where
  "zero_step = \<lparr>step_entries = None\<rparr>"

definition zero_rule :: crush_rule where
  "zero_rule = \<lparr>rule_id = 0, rule_name = [], rule_ruleset = 0, rule_type = 0, rule_min_size = 0,
     rule_max_size = 0, rule_steps = None\<rparr>"

subsection \<open>Decoding the dump\<close>

definition step_fields :: "step field list" where
  "step_fields = [field ''entries'' (dec_map dec_string []) step_entries (\<lambda>v s. s\<lparr>step_entries := v\<rparr>)]"

definition rule_fields :: "crush_rule field list" where
  "rule_fields =
    [field ''rule_id'' dec_int rule_id (\<lambda>v r. r\<lparr>rule_id := v\<rparr>),
     field ''rule_name'' dec_string rule_name (\<lambda>v r. r\<lparr>rule_name := v\<rparr>),
     field ''ruleset'' dec_int rule_ruleset (\<lambda>v r. r\<lparr>rule_ruleset := v\<rparr>),
     field ''type'' dec_int rule_type (\<lambda>v r. r\<lparr>rule_type := v\<rparr>),
     field ''min_size'' dec_int rule_min_size (\<lambda>v r. r\<lparr>rule_min_size := v\<rparr>),
     field ''max_size'' dec_int rule_max_size (\<lambda>v r. r\<lparr>rule_max_size := v\<rparr>),
     field ''steps'' (dec_slice (dec_ptr (dec_struct step_fields) zero_step) None) rule_steps
       (\<lambda>v r. r\<lparr>rule_steps := v\<rparr>)]"

definition crush_dump_fields :: "crush_rule option slice field list" where
  "crush_dump_fields =
    [field ''rules'' (dec_slice (dec_ptr (dec_struct rule_fields) zero_rule) None) (\<lambda>d. d) (\<lambda>v d. v)]"

definition dec_crush_dump :: "string \<Rightarrow> crush_rule option slice res" where
  "dec_crush_dump = unmarshal (dec_struct crush_dump_fields) None"

subsection \<open>Handlers\<close>

text \<open>The command as a map: \<open>json.Marshal\<close> writes its members in the order of their keys.\<close>

definition create_rule_cmd :: "create_rule_req \<Rightarrow> string gomap" where
  "create_rule_cmd req =
    (let m = [(''prefix'', ''osd crush rule create-replicated''), (''name'', crr_name req),
              (''type'', crr_failure_domain req), (''format'', ''json'')];
         m = (case crr_device_class req of None \<Rightarrow> m | Some c \<Rightarrow> gset ''class'' c m)
     in if crr_pool_type req = 1 then
          (let m = gset ''prefix'' ''osd crush rule create-erasure'' m in
           case crr_profile req of None \<Rightarrow> m | Some p \<Rightarrow> gset ''profile'' p m)
        else (case crr_root req of None \<Rightarrow> m | Some r \<Rightarrow> gset ''root'' r m))"

definition marshal_cmd :: "string gomap \<Rightarrow> string" where
  "marshal_cmd m = json_print (enc_entries JStr m)"

definition crush_create_rule ::
  "'w rados_conn \<Rightarrow> create_rule_req \<Rightarrow> req_ctx \<Rightarrow> 'w \<Rightarrow> unit reply \<times> 'w" where
  "crush_create_rule C req ctx = with_permissions ctx ScopeOsd [PermCreate]
    (\<lambda>w. if crr_name req = [] then (Failed (Wrapped [] ErrInvalidArg '': name is required''), w)
         else if crr_failure_domain req = [] then
           (Failed (Wrapped [] ErrInvalidArg '': failure domain is required''), w)
         else exec_reply (exec_mon C (marshal_cmd (create_rule_cmd req)) w))"

definition delete_rule_cmd :: "rule_name_req \<Rightarrow> string gomap" where
  "delete_rule_cmd req = [(''prefix'', ''osd crush rule rm''), (''name'', rn_name req), (''format'', ''json'')]"

definition crush_delete_rule ::
  "'w rados_conn \<Rightarrow> rule_name_req \<Rightarrow> req_ctx \<Rightarrow> 'w \<Rightarrow> unit reply \<times> 'w" where
  "crush_delete_rule C req ctx = with_permissions ctx ScopeOsd [PermDelete]
    (\<lambda>w. exec_reply (exec_mon C (marshal_cmd (delete_rule_cmd req)) w))"

definition crush_dump_cmd :: string where
  "crush_dump_cmd = ''{\"prefix\": \"osd crush dump\", \"format\": \"json\"}''"

text \<open>A \<open>null\<close> among the rules is a nil pointer, which the loop dereferences.\<close>

fun find_rule :: "string \<Rightarrow> crush_rule option list \<Rightarrow> crush_rule reply" where
  "find_rule name [] = Failed ErrNotFound"
| "find_rule name (None # rules) = Panicked nil_panic"
| "find_rule name (Some rule # rules) = (if rule_name rule = name then Reply rule else find_rule name rules)"

definition crush_get_rule ::
  "'w rados_conn \<Rightarrow> rule_name_req \<Rightarrow> req_ctx \<Rightarrow> 'w \<Rightarrow> crush_rule reply \<times> 'w" where
  "crush_get_rule C req ctx = with_permissions ctx ScopeOsd [PermRead]
    (\<lambda>w. case exec_mon C crush_dump_cmd w of
           (Inl err, w') \<Rightarrow> (Failed err, w')
         | (Inr res, w') \<Rightarrow>
             (case dec_crush_dump res of
                Inl err \<Rightarrow> (Failed err, w')
              | Inr rules \<Rightarrow> (find_rule (rn_name req) (elems rules), w')))"

definition crush_list_rules ::
  "'w rados_conn \<Rightarrow> req_ctx \<Rightarrow> 'w \<Rightarrow> crush_rule option slice reply \<times> 'w" where
  "crush_list_rules C ctx = with_permissions ctx ScopeOsd [PermRead]
    (\<lambda>w. case exec_mon C crush_dump_cmd w of
           (Inl err, w') \<Rightarrow> (Failed err, w')
         | (Inr res, w') \<Rightarrow>
             (case dec_crush_dump res of Inl err \<Rightarrow> (Failed err, w') | Inr rules \<Rightarrow> (Reply rules, w')))"

subsection \<open>Every handler is guarded\<close>

interpretation create_rule: guarded_handler "crush_create_rule C req" ScopeOsd "[PermCreate]" for C req
  by unfold_locales (simp add: crush_create_rule_def with_permissions_refuses)

interpretation delete_rule: guarded_handler "crush_delete_rule C req" ScopeOsd "[PermDelete]" for C req
  by unfold_locales (simp add: crush_delete_rule_def with_permissions_refuses)

interpretation get_rule: guarded_handler "crush_get_rule C req" ScopeOsd "[PermRead]" for C req
  by unfold_locales (simp add: crush_get_rule_def with_permissions_refuses)

interpretation list_rules: guarded_handler "crush_list_rules C" ScopeOsd "[PermRead]" for C
  by unfold_locales (simp add: crush_list_rules_def with_permissions_refuses)

end
