(* ===== verification/Api_Server.thy ===== *)
theory Api_Server
  imports Auth_Api Status_Api Crush_Api
begin

text \<open>
  The gRPC server as a whole: the calls of its five services (the \<open>\_grpc.pb.go\<close> files and the
  registrations of \<open>pkg/api/grpc_server.go\<close>), what each is dispatched to, and the permissions each
  handler asks for.
\<close>

subsection \<open>Calls and answers\<close>

datatype rpc =
    Login login_req | Logout | Check
  | ListUsers | GetUser get_user_req | CreateUser create_user_req | DeleteUser get_user_req
  | UpdateUser create_user_req | UserChangePassword change_password_req
  | ListRoles | GetRole get_role_req | CreateRole pb_role | DeleteRole get_role_req
  | UpdateRole pb_role | CloneRole clone_role_req
  | ClusterGetStatus | ClusterUpdateStatus int | ClusterGetUsers
  | ClusterUpdateUser update_cluster_user_req | ClusterCreateUser create_cluster_user_req
  | ClusterExportUser export_cluster_user_req | ClusterDeleteUser delete_cluster_user_req
  | ClusterSearchConfig search_config_req
  | CreateRule create_rule_req | DeleteRule rule_name_req | GetRule rule_name_req | ListRules
  | GetCephStatus | GetCephMonDump | GetCephOsdDump | GetCephPgDump | GetCephReport

datatype answer =
    AnEmpty unit | AnLogin pb_login_resp | AnUsers "pb_user list" | AnUser pb_user
  | AnRoles "pb_role list" | AnRole pb_role | AnClusterStatus int
  | AnClusterUsers "cluster_user option slice" | AnExport string | AnConfig "pb_config_param list"
  | AnRule crush_rule | AnRules "crush_rule option slice"
  | AnStatus get_ceph_status_response | AnMonDump pb_ceph_mon_dump_response
  | AnOsdDump get_ceph_osd_dump_response | AnPgDump get_ceph_pg_dump_response | AnReport json

fun full_method :: "rpc \<Rightarrow> string" where
  "full_method (Login _) = ''/ceph.Auth/Login''"
| "full_method Logout = ''/ceph.Auth/Logout''"
| "full_method Check = ''/ceph.Auth/Check''"
| "full_method ListUsers = ''/ceph.Users/ListUsers''"
| "full_method (GetUser _) = ''/ceph.Users/GetUser''"
| "full_method (CreateUser _) = ''/ceph.Users/CreateUser''"
| "full_method (DeleteUser _) = ''/ceph.Users/DeleteUser''"
| "full_method (UpdateUser _) = ''/ceph.Users/UpdateUser''"
| "full_method (UserChangePassword _) = ''/ceph.Users/UserChangePassword''"
| "full_method ListRoles = ''/ceph.Users/ListRoles''"
| "full_method (GetRole _) = ''/ceph.Users/GetRole''"
| "full_method (CreateRole _) = ''/ceph.Users/CreateRole''"
| "full_method (DeleteRole _) = ''/ceph.Users/DeleteRole''"
| "full_method (UpdateRole _) = ''/ceph.Users/UpdateRole''"
| "full_method (CloneRole _) = ''/ceph.Users/CloneRole''"
| "full_method ClusterGetStatus = ''/ceph.Cluster/GetStatus''"
| "full_method (ClusterUpdateStatus _) = ''/ceph.Cluster/UpdateStatus''"
| "full_method ClusterGetUsers = ''/ceph.Cluster/GetUsers''"
| "full_method (ClusterUpdateUser _) = ''/ceph.Cluster/UpdateUser''"
| "full_method (ClusterCreateUser _) = ''/ceph.Cluster/CreateUser''"
| "full_method (ClusterExportUser _) = ''/ceph.Cluster/ExportUser''"
| "full_method (ClusterDeleteUser _) = ''/ceph.Cluster/DeleteUser''"
| "full_method (ClusterSearchConfig _) = ''/ceph.Cluster/SearchConfig''"
| "full_method (CreateRule _) = ''/ceph.CrushRule/CreateRule''"
| "full_method (DeleteRule _) = ''/ceph.CrushRule/DeleteRule''"
| "full_method (GetRule _) = ''/ceph.CrushRule/GetRule''"
| "full_method ListRules = ''/ceph.CrushRule/ListRules''"
| "full_method GetCephStatus = ''/ceph.Status/GetCephStatus''"
| "full_method GetCephMonDump = ''/ceph.Status/GetCephMonDump''"
| "full_method GetCephOsdDump = ''/ceph.Status/GetCephOsdDump''"
| "full_method GetCephPgDump = ''/ceph.Status/GetCephPgDump''"
| "full_method GetCephReport = ''/ceph.Status/GetCephReport''"

subsection \<open>Dispatch\<close>

text \<open>What the server was built from, and the clock.\<close>

record ('w, 'f) api_env =
  ae_conn :: "'w rados_conn"
  ae_go :: go_env
  ae_oauth :: "'f oauth_lib"
  ae_server :: server
  ae_now :: int
  ae_sort_users :: "(user \<Rightarrow> user \<Rightarrow> bool) \<Rightarrow> user list \<Rightarrow> user list"
  ae_sort_params :: param_sort
  ae_lower :: "string \<Rightarrow> string"
  ae_sprint :: "json \<Rightarrow> string"
  ae_parse_float :: "string \<Rightarrow> string option"
  ae_params :: "config_param_info list"

text \<open>A handler that only talks to the cluster, on the whole state.\<close>

definition on_cluster :: "(req_ctx \<Rightarrow> 'w \<Rightarrow> 'a reply \<times> 'w) \<Rightarrow> ('w, 'f, 'a) handler" where
  "on_cluster h ctx \<sigma> = (case h ctx (sys_cluster \<sigma>) of (r, w) \<Rightarrow> (r, \<sigma>\<lparr>sys_cluster := w\<rparr>))"

definition answering :: "('a \<Rightarrow> 'b) \<Rightarrow> ('w, 'f, 'a) handler \<Rightarrow> ('w, 'f, 'b) handler" where
  "answering g h ctx \<sigma> =
    (case h ctx \<sigma> of
       (Reply a, \<sigma>) \<Rightarrow> (Reply (g a), \<sigma>) | (Failed e, \<sigma>) \<Rightarrow> (Failed e, \<sigma>) | (Panicked p, \<sigma>) \<Rightarrow> (Panicked p, \<sigma>))"

fun dispatch :: "('w, 'f) api_env \<Rightarrow> string res \<Rightarrow> rpc \<Rightarrow> ('w, 'f, answer) handler" where
  "dispatch E b (Login r) = answering AnLogin (api_login (ae_oauth E) (ae_server E) (ae_go E) (ae_now E) r)"
| "dispatch E b Logout = answering AnEmpty (api_logout (ae_oauth E) (ae_server E) b)"
| "dispatch E b Check = answering AnEmpty api_check"
| "dispatch E b ListUsers = answering AnUsers (on_api (api_list_users (ae_sort_users E)))"
| "dispatch E b (GetUser r) = answering AnUser (on_api (api_get_user r))"
| "dispatch E b (CreateUser r) = answering AnEmpty (on_api (api_create_user (ae_conn E) (ae_go E) r))"
| "dispatch E b (DeleteUser r) = answering AnEmpty (on_api (api_delete_user (ae_conn E) r))"
| "dispatch E b (UpdateUser r) = answering AnEmpty (on_api (api_update_user (ae_conn E) (ae_go E) r))"
| "dispatch E b (UserChangePassword r) =
     answering AnEmpty (on_api (api_user_change_password (ae_conn E) (ae_go E) r))"
| "dispatch E b ListRoles = answering AnRoles (on_api api_list_roles)"
| "dispatch E b (GetRole r) = answering AnRole (on_api (api_get_role r))"
| "dispatch E b (CreateRole r) = answering AnEmpty (on_api (api_create_role (ae_conn E) (ae_go E) r))"
| "dispatch E b (DeleteRole r) = answering AnEmpty (on_api (api_delete_role (ae_conn E) r))"
| "dispatch E b (UpdateRole r) = answering AnEmpty (on_api (api_update_role (ae_conn E) (ae_go E) r))"
| "dispatch E b (CloneRole r) = answering AnEmpty (on_api (api_clone_role (ae_conn E) r))"
| "dispatch E b ClusterGetStatus = answering AnClusterStatus (on_cluster (cluster_get_status (ae_conn E)))"
| "dispatch E b (ClusterUpdateStatus n) = answering AnEmpty (on_cluster (cluster_update_status (ae_conn E) n))"
| "dispatch E b ClusterGetUsers = answering AnClusterUsers (on_cluster (cluster_get_users (ae_conn E)))"
| "dispatch E b (ClusterUpdateUser r) =
     answering AnEmpty (on_cluster (cluster_update_user (ae_conn E) (is_print (ae_go E)) r))"
| "dispatch E b (ClusterCreateUser r) =
     answering AnEmpty (on_cluster (cluster_create_user (ae_conn E) (is_print (ae_go E)) r))"
| "dispatch E b (ClusterExportUser r) = answering AnExport (on_cluster (cluster_export_user (ae_conn E) r))"
| "dispatch E b (ClusterDeleteUser r) = answering AnEmpty (on_cluster (cluster_delete_user (ae_conn E) r))"
| "dispatch E b (ClusterSearchConfig r) = answering AnConfig (on_cluster
     (cluster_search_config (ae_sort_params E) (ae_lower E) (ae_sprint E) (ae_parse_float E) (ae_params E) r))"
| "dispatch E b (CreateRule r) = answering AnEmpty (on_cluster (crush_create_rule (ae_conn E) r))"
| "dispatch E b (DeleteRule r) = answering AnEmpty (on_cluster (crush_delete_rule (ae_conn E) r))"
| "dispatch E b (GetRule r) = answering AnRule (on_cluster (crush_get_rule (ae_conn E) r))"
| "dispatch E b ListRules = answering AnRules (on_cluster (crush_list_rules (ae_conn E)))"
| "dispatch E b GetCephStatus = answering AnStatus (on_cluster (get_ceph_status (ae_conn E)))"
| "dispatch E b GetCephMonDump = answering AnMonDump (on_cluster (get_ceph_mon_dump (ae_conn E)))"
| "dispatch E b GetCephOsdDump = answering AnOsdDump (on_cluster (get_ceph_osd_dump (ae_conn E)))"
| "dispatch E b GetCephPgDump = answering AnPgDump (on_cluster (get_ceph_pg_dump (ae_conn E)))"
| "dispatch E b GetCephReport = answering AnReport (on_cluster (get_ceph_report (ae_conn E)))"

text \<open>What arrives: the method, the bearer token, and the identifier of the call's trace span.\<close>

record call =
  call_rpc :: rpc
  call_bearer :: "string res"
  call_trace_id :: string

definition call_env :: "bool \<Rightarrow> string \<Rightarrow> call \<Rightarrow> rpc_env" where
  "call_env access_log nf c =
    \<lparr>re_info = \<lparr>rpc_method = Some (full_method (call_rpc c)), rpc_bearer = call_bearer c\<rparr>,
     re_full_method = full_method (call_rpc c), re_trace_id = call_trace_id c,
     re_access_log = access_log, re_not_found_text = nf\<rparr>"

definition serve_call ::
  "('w, 'f) api_env \<Rightarrow> bool \<Rightarrow> string \<Rightarrow> call \<Rightarrow> ('w, 'f) sys \<Rightarrow> answer reply \<times> ('w, 'f) sys" where
  "serve_call E access_log nf c =
    serve_rpc (ae_oauth E) (call_env access_log nf c) (dispatch E (call_bearer c) (call_rpc c))"

subsection \<open>The permissions a call needs\<close>

definition required :: "rpc \<Rightarrow> (scope \<times> permission list) option" where
  "required r =
    (case r of
       Login _ \<Rightarrow> None | Logout \<Rightarrow> None | Check \<Rightarrow> None | UserChangePassword _ \<Rightarrow> None
     | ListUsers \<Rightarrow> Some (ScopeUser, [PermRead]) | GetUser _ \<Rightarrow> Some (ScopeUser, [PermRead])
     | CreateUser _ \<Rightarrow> Some (ScopeUser, [PermCreate]) | DeleteUser _ \<Rightarrow> Some (ScopeUser, [PermDelete])
     | UpdateUser _ \<Rightarrow> Some (ScopeUser, [PermUpdate])
     | ListRoles \<Rightarrow> Some (ScopeUser, [PermRead]) | GetRole _ \<Rightarrow> Some (ScopeUser, [PermRead])
     | CreateRole _ \<Rightarrow> Some (ScopeUser, [PermCreate]) | DeleteRole _ \<Rightarrow> Some (ScopeUser, [PermDelete])
     | UpdateRole _ \<Rightarrow> Some (ScopeUser, [PermUpdate]) | CloneRole _ \<Rightarrow> Some (ScopeUser, [PermRead, PermCreate])
     | ClusterGetStatus \<Rightarrow> Some (ScopeConfigOpt, [PermRead])
     | ClusterUpdateStatus _ \<Rightarrow> Some (ScopeConfigOpt, [PermUpdate])
     | ClusterGetUsers \<Rightarrow> Some (ScopeConfigOpt, [PermRead])
     | ClusterUpdateUser _ \<Rightarrow> Some (ScopeConfigOpt, [PermUpdate])
     | ClusterCreateUser _ \<Rightarrow> Some (ScopeConfigOpt, [PermCreate])
     | ClusterExportUser _ \<Rightarrow> Some (ScopeConfigOpt, [PermRead])
     | ClusterDeleteUser _ \<Rightarrow> Some (ScopeConfigOpt, [PermDelete])
     | ClusterSearchConfig _ \<Rightarrow> Some (ScopeConfigOpt, [PermRead])
     | CreateRule _ \<Rightarrow> Some (ScopeOsd, [PermCreate]) | DeleteRule _ \<Rightarrow> Some (ScopeOsd, [PermDelete])
     | GetRule _ \<Rightarrow> Some (ScopeOsd, [PermRead]) | ListRules \<Rightarrow> Some (ScopeOsd, [PermRead])
     | GetCephStatus \<Rightarrow> Some (ScopeMonitor, [PermRead]) | GetCephMonDump \<Rightarrow> Some (ScopeMonitor, [PermRead])
     | GetCephOsdDump \<Rightarrow> Some (ScopeOsd, [PermRead]) | GetCephPgDump \<Rightarrow> Some (ScopeMonitor, [PermRead])
     | GetCephReport \<Rightarrow> Some (ScopeMonitor, [PermRead]))"

subsection \<open>The guard survives dispatch\<close>

lemma on_api_guarded: "guarded_handler h sc ps \<Longrightarrow> guarded_handler (on_api h) sc ps"
  by (simp add: guarded_handler_def on_api_def)

lemma on_cluster_guarded: "guarded_handler h sc ps \<Longrightarrow> guarded_handler (on_cluster h) sc ps"
  by (simp add: guarded_handler_def on_cluster_def)

lemma answering_guarded: "guarded_handler h sc ps \<Longrightarrow> guarded_handler (answering g h) sc ps"
  by (simp add: guarded_handler_def answering_def)

lemmas handlers_guarded =
  list_users.guarded_handler_axioms get_user.guarded_handler_axioms create_user.guarded_handler_axioms
  delete_user.guarded_handler_axioms update_user.guarded_handler_axioms list_roles.guarded_handler_axioms
  get_role.guarded_handler_axioms create_role.guarded_handler_axioms delete_role.guarded_handler_axioms
  update_role.guarded_handler_axioms clone_role.guarded_handler_axioms cluster_status.guarded_handler_axioms
  set_cluster_status.guarded_handler_axioms cluster_users.guarded_handler_axioms
  set_caps.guarded_handler_axioms add_cluster_user.guarded_handler_axioms export_users.guarded_handler_axioms
  del_cluster_user.guarded_handler_axioms search_config.guarded_handler_axioms
  create_rule.guarded_handler_axioms delete_rule.guarded_handler_axioms get_rule.guarded_handler_axioms
  list_rules.guarded_handler_axioms report.guarded_handler_axioms status.guarded_handler_axioms
  mon_dump.guarded_handler_axioms osd_dump.guarded_handler_axioms pg_dump.guarded_handler_axioms

lemma dispatch_guarded:
  assumes "required r = Some (sc, ps)"
  shows "guarded_handler (dispatch E b r) sc ps"
  using assms
  by (cases r)
    (auto simp: required_def intro!: answering_guarded on_api_guarded on_cluster_guarded handlers_guarded)

end
