(* ===== verification/User_Properties.thy ===== *)
theory User_Properties
  imports User_Spec
begin

text \<open>
  The properties of the access database service, each with a run on a small concrete cluster: a
  key store that holds one document and fails the commands its script says.
\<close>

subsection \<open>A concrete cluster for the witnesses\<close>

record kv_world =
  kv_doc :: "string option"
  kv_fails :: "bool list"

definition kv_mon :: "string \<Rightarrow> kv_world \<Rightarrow> cmd_result \<times> kv_world" where
  "kv_mon cmd w =
    (let w' = w\<lparr>kv_fails := drop 1 (kv_fails w)\<rparr> in
     if take 1 (kv_fails w) = [True] then (([], [], Some (Foreign ''timed out'')), w')
     else (case kv_doc w of
             None \<Rightarrow> (([], [], Some RadosErrorNotFound), w')
           | Some d \<Rightarrow> ((d, [], None), w')))"

definition kv_mon_buf :: "string \<Rightarrow> string \<Rightarrow> kv_world \<Rightarrow> cmd_result \<times> kv_world" where
  "kv_mon_buf cmd buf w =
    (let w' = w\<lparr>kv_fails := drop 1 (kv_fails w)\<rparr> in
     if take 1 (kv_fails w) = [True] then (([], [], Some (Foreign ''timed out'')), w')
     else (([], [], None), w'\<lparr>kv_doc := Some buf\<rparr>))"

definition kv_conn :: "kv_world rados_conn" where
  "kv_conn = \<lparr>mon_command = kv_mon, mon_command_with_input_buffer = kv_mon_buf,
     mgr_command = (\<lambda>args w. (([], [], None), w)), shutdown = (\<lambda>w. w)\<rparr>"

definition kv_init :: kv_world where
  "kv_init = \<lparr>kv_doc = None, kv_fails = []\<rparr>"

definition test_env :: go_env where
  "test_env = \<lparr>now_unix = 1700000000, bcrypt_generate = (\<lambda>cost pw. Inr ''hash''),
     bcrypt_compare = (\<lambda>h pw. None), is_print = (\<lambda>r. True)\<rparr>"

definition alice :: user where
  "alice = zero_user\<lparr>u_username := ''alice'', u_password := ''secret'', u_roles := Some [''read-only'']\<rparr>"

lemma kv_conn_store: "config_key_store kv_conn kv_doc"
  by (auto simp: config_key_store_def kv_conn_def exec_mon_def exec_mon_with_input_buff_def kv_mon_def
      kv_mon_buf_def Let_def split: option.splits if_splits)

lemma test_env_ok: "env_ok test_env"
  by (simp add: env_ok_def test_env_def in_int64_def)

lemmas kv_eval = kv_conn_def kv_mon_def kv_mon_buf_def kv_init_def exec_mon_def
  exec_mon_with_input_buff_def update_from_db_def new_service_def store_to_db_def commit_def
  mutate_def create_user_def create_user_edit_def test_env_def alice_def user_validate_def
  zero_user_def empty_service_def

definition alice_service :: service where
  "alice_service = \<lparr>svc_users = [(''alice'', alice\<lparr>u_last_update := 1700000000, u_password := ''hash''\<rparr>)],
     svc_roles = []\<rparr>"

lemma alice_created:
  "serve_request kv_conn test_env (CreateUser alice) empty_service kv_init
    = (None, alice_service, kv_init\<lparr>kv_doc := Some (marshal_db alice_service)\<rparr>)"
  by (simp add: kv_eval alice_service_def has_key_def gset_def system_role_map_eq)

lemma alice_service_ok: "service_ok alice_service" "request_text_ok (CreateUser alice)"
  by (simp_all add: service_ok_def svc_wf_def service_text_ok_def wf_map_def user_wf_def alice_service_def
      alice_def zero_user_def user_text_ok_def known_role_def system_role_map_eq has_key_def in_int64_def)

lemma alice_wf: "svc_wf alice_service"
  using alice_service_ok(1) by (simp add: service_ok_def)

subsection \<open>Properties\<close>

text \<open>C2: In every state the service reaches, over any sequence of requests with ASCII texts, failures of
  the cluster and restarts, every user and role is stored under its own name, every user's roles exist,
  every custom role is a non-system role with known scopes and permissions, and so is what a restart
  would read from the cluster.\<close>

theorem reachable_service_ok:
  assumes "config_key_store C doc" and "\<forall>w \<in> W. doc_ok (doc w)" and "reachable C W s w"
  shows "service_ok s \<and> doc_ok (doc w)"
  using assms(3)
proof induction
  case (start w s w')
  then show ?case using update_from_db_ok [OF assms(1), of w] assms(2) by (simp add: new_service_Inr)
next
  case (serve s w env req r s' w')
  then show ?case using serve_request_ok [OF assms(1)] by blast
next
  case (restart s w s' w')
  then show ?case using update_from_db_ok [OF assms(1), of w] by (simp add: new_service_Inr)
qed

lemma kv_init_reachable: "reachable kv_conn {kv_init} empty_service kv_init"
  by (rule reachable.start [of kv_init]) (simp_all add: kv_eval)

lemma alice_reachable:
  "reachable kv_conn {kv_init} alice_service (kv_init\<lparr>kv_doc := Some (marshal_db alice_service)\<rparr>)"
  by (rule reachable.serve [OF kv_init_reachable test_env_ok alice_service_ok(2) alice_created])

lemma kv_init_doc_ok: "\<forall>w \<in> {kv_init}. doc_ok (kv_doc w)"
  by (simp add: kv_init_def doc_ok_def stored_service_def)

theorem reachable_service_ok_witness:
  "service_ok alice_service \<and> doc_ok (Some (marshal_db alice_service))"
  using reachable_service_ok [OF kv_conn_store kv_init_doc_ok alice_reachable] by simp

text \<open>C3: Memory and the stored document stay in step: if they agree before a request (whose texts are
  ASCII), they agree after it, whether the request was refused, stored, or not stored and rolled back,
  and a refused request changes neither. The one exception is a request whose edited state failed to be
  stored and whose reload then failed as well: it is answered with an error, and leaves the service
  with no users and no custom roles.\<close>

theorem serve_request_stays_in_sync:
  assumes "config_key_store C doc" and "service_ok s" and "in_sync (doc w) s"
    and "env_ok env" and "request_text_ok req" and "serve_request C env req s w = (r, s', w')"
  shows "(if failed_twice C env req s w then r \<noteq> None \<and> s' = empty_service else in_sync (doc w') s')
    \<and> (\<forall>e. request_edit env req s = Inl e \<longrightarrow> r = Some e \<and> s' = s \<and> w' = w)"
proof
  show "if failed_twice C env req s w then r \<noteq> None \<and> s' = empty_service else in_sync (doc w') s'"
    by (rule serve_request_in_sync [OF assms])
  show "\<forall>e. request_edit env req s = Inl e \<longrightarrow> r = Some e \<and> s' = s \<and> w' = w"
    using assms(6) by (auto simp: serve_request_eq mutate_def)
qed

theorem serve_request_stays_in_sync_witness:
  "in_sync (Some (marshal_db alice_service)) alice_service"
proof -
  have "in_sync (kv_doc kv_init) empty_service"
    by (simp add: in_sync_def stored_service_def kv_init_def)
  from serve_request_stays_in_sync [OF kv_conn_store service_ok_empty this test_env_ok
      alice_service_ok(2) alice_created]
  show ?thesis by (simp split: if_splits)
qed

text \<open>C8: A request (whose texts are ASCII) that reports success is durable: the cluster then holds the new state, and a
  service started on it has the same users and roles.\<close>

theorem successful_request_survives_restart:
  assumes "config_key_store C doc" and "service_ok s" and "env_ok env" and "request_text_ok req"
    and "serve_request C env req s w = (None, s', w')" and "new_service C w' = (Inr s2, w2)"
  shows "s2 = canon s'"
proof -
  have ok: "service_ok s'" and st: "store_to_db C s' w = (None, w')"
    using serve.success [of s C env req w s' w'] assms(2,3,4,5) request_keeps_text
    by (auto simp: service_ok_def serve_request_eq)
  have "doc w' = Some (marshal_db s')" using store_to_db_doc(1) [OF assms(1) st] by simp
  then show ?thesis
    using update_from_db_result(2) [OF assms(1) assms(6) [unfolded new_service_Inr]] stored_marshal [OF ok]
    by simp
qed

lemma canon_alice: "canon alice_service = alice_service"
  by (simp add: canon_def alice_service_def canon_roles_def)

lemma alice_restart:
  "new_service kv_conn (kv_init\<lparr>kv_doc := Some (marshal_db alice_service)\<rparr>)
    = (Inr alice_service, kv_init\<lparr>kv_doc := Some (marshal_db alice_service)\<rparr>)"
  using unmarshal_marshal_db [of alice_service] alice_service_ok canon_alice
  by (simp add: service_ok_def new_service_def update_from_db_def kv_conn_def exec_mon_def kv_mon_def kv_init_def)

theorem successful_request_survives_restart_witness: "alice_service = canon alice_service"
  by (rule successful_request_survives_restart [OF kv_conn_store service_ok_empty test_env_ok
      alice_service_ok(2) alice_created alice_restart])

text \<open>C15: When the store fails and the reload fails as well, every user and custom role is gone from
  memory, whatever the cluster still holds.\<close>

theorem failed_reload_forgets_everyone:
  assumes "request_edit env req s = Inr s1"
    and "exec_mon_with_input_buff C set_db_mon_cmd (marshal_db s1) w = (Inl e, w1)"
    and "exec_mon C get_db_mon_cmd w1 = (Inl e2, w2)"
  shows "\<exists>s'. serve_request C env req s w = (Some e, s', w2)
    \<and> (\<forall>name. get_user s' name = Inl ErrNotFound) \<and> list_roles s' = system_roles"
  using assms
  by (simp add: serve_request_eq mutate_def commit_def store_to_db_def update_from_db_def
      get_user_def list_roles_def empty_service_def)

definition flaky_world :: kv_world where
  "flaky_world = \<lparr>kv_doc = Some (marshal_db alice_service), kv_fails = [True, True]\<rparr>"

theorem failed_reload_forgets_everyone_witness:
  "\<exists>s'. serve_request kv_conn test_env (DeleteUser ''bob'') alice_service flaky_world
      = (Some (Foreign ''timed out''), s', flaky_world\<lparr>kv_fails := []\<rparr>)
    \<and> (\<forall>name. get_user s' name = Inl ErrNotFound) \<and> list_roles s' = system_roles"
  by (rule failed_reload_forgets_everyone [where ?s1.0 = alice_service and ?w1.0 = "flaky_world\<lparr>kv_fails := [True]\<rparr>"
        and ?e2.0 = "Foreign ''timed out''"])
    (simp_all add: delete_user_edit_def gdel_def alice_service_def kv_conn_def exec_mon_def
      exec_mon_with_input_buff_def kv_mon_def kv_mon_buf_def flaky_world_def)

text \<open>C4: Each request does to the partial functions of users and roles exactly what the
  specification says, and refuses with the specified kind of error exactly when it does.\<close>

theorem request_refines_spec:
  assumes "svc_wf s"
  shows "abs_res (request_edit env req s) = spec_request env req (abs_db s)"
  using assms by (intro refine_request) (simp add: svc_wf_def)

theorem request_refines_spec_witness:
  "abs_res (request_edit test_env (DeleteRole ''none'') alice_service)
    = spec_request test_env (DeleteRole ''none'') (abs_db alice_service)"
  by (rule request_refines_spec) (use alice_service_ok(1) in \<open>simp add: service_ok_def\<close>)

text \<open>C7: The document the service writes reads back as the same service, map entries in key order, when
  the texts in it are ASCII and the numbers fit into 64 bits.\<close>

theorem database_round_trip:
  assumes "service_text_ok s"
  shows "unmarshal_db (marshal_db s) = Inr (canon s)"
  by (rule unmarshal_marshal_db [OF assms])

theorem database_round_trip_witness: "unmarshal_db (marshal_db alice_service) = Inr (canon alice_service)"
  by (rule database_round_trip) (use alice_service_ok(1) in \<open>simp add: service_ok_def\<close>)

lemma get_permissions_order:
  assumes "svc_wf s"
  shows "gslice (get_permissions (canon s) username) sc = gslice (get_permissions s username) sc"
proof -
  have w: "wf_map (svc_users s)" "wf_map (svc_roles s)" using assms by (simp_all add: svc_wf_def)
  show ?thesis
    by (rule strictly_sorted_unique [OF get_permissions_sorted get_permissions_sorted])
      (simp add: set_eq_iff get_permissions_granted user_granted_canon [OF w])
qed

text \<open>C6: A user is granted a permission on a scope exactly when one of the user's roles, custom or
  built-in, lists it there; the list of a scope is strictly sorted; and the answer does not depend
  on the order of the maps.\<close>

theorem get_permissions_correct:
  assumes "svc_wf s"
  shows "(p \<in> set (gslice (get_permissions s username) sc) \<longleftrightarrow> user_granted s username sc p)
    \<and> sorted_wrt (<) (gslice (get_permissions s username) sc)
    \<and> gslice (get_permissions (canon s) username) sc = gslice (get_permissions s username) sc"
  by (simp only: get_permissions_granted get_permissions_sorted get_permissions_order [OF assms] simp_thms)

theorem get_permissions_correct_witness:
  "''read'' \<in> set (gslice (get_permissions alice_service ''alice'') ''osd'')
    \<longleftrightarrow> user_granted alice_service ''alice'' ''osd'' ''read''"
  using get_permissions_correct [of alice_service "''read''" "''alice''" "''osd''"] alice_service_ok(1)
  unfolding service_ok_def by blast

text \<open>The check a handler makes, on the context the interceptor filled from the user's roles,
  passes exactly when the user has some permissions at all and every permission asked for on the
  scope; otherwise it fails with \<open>ErrAccessDenied\<close>.\<close>

theorem has_permissions_correct:
  "has_permissions (set_permissions (Some (get_permissions s username)) ctx) sc perms =
    (if get_permissions s username \<noteq> [] \<and>
        list_all (\<lambda>p. user_granted s username (scope_string sc) (permission_string p)) perms
     then None else Some ErrAccessDenied)"
  using has_permissions_None [of "set_permissions (Some (get_permissions s username)) ctx" sc perms]
    has_permissions_cases [of "set_permissions (Some (get_permissions s username)) ctx" sc perms]
  by (auto simp: get_permissions_granted)

text \<open>No user of a well-formed database, not even an administrator, ever passes a check on the
  dashboard settings: the constant for that scope is spelled differently from the scope of the roles.\<close>

theorem dashboard_settings_always_denied:
  assumes "svc_wf s" and "perms \<noteq> []"
  shows "has_permissions (set_permissions (Some (get_permissions s username)) ctx) ScopeDashboardSettings perms
    = Some ErrAccessDenied"
proof -
  obtain p ps where p: "perms = p # ps" using assms(2) by (cases perms) simp_all
  have "\<not> user_granted s username (scope_string ScopeDashboardSettings) (permission_string p)"
    using user_granted_valid [OF assms(1)] by (auto simp: scope_set_def)
  then have "permission_string p \<notin> set (gslice (get_permissions s username) (scope_string ScopeDashboardSettings))"
    by (simp only: get_permissions_granted not_False_eq_True)
  then show ?thesis by (simp add: has_permissions_def p)
qed

theorem dashboard_settings_always_denied_witness:
  "has_permissions (set_permissions (Some (get_permissions alice_service ''alice'')) background)
    ScopeDashboardSettings [PermRead] = Some ErrAccessDenied"
  by (rule dashboard_settings_always_denied) (use alice_service_ok(1) in \<open>simp_all add: service_ok_def\<close>)

lemma clone_role_escalates_facts:
  assumes "request_edit env (CloneRole src dst) s = Inr s'"
    and "gget (svc_users s) username = Some usr" and "dst \<in> set (elems (u_roles usr))"
    and "is_system_role dst" and "\<not> has_key (svc_roles s) src" and "role_grants system_role_map src sc p"
  shows "p \<in> set (gslice (get_permissions s' username) sc)"
    and "\<exists>e. request_edit env (DeleteRole dst) s' = Inl e \<and> errors_is e ErrInvalidArg"
    and "role_name role = dst \<Longrightarrow> \<exists>e. request_edit env (UpdateRole role) s' = Inl e \<and> errors_is e ErrInvalidArg"
proof -
  have sys: "has_key system_role_map dst" using assms(4) by (simp add: has_key_system)
  obtain r0 where r0: "gget system_role_map src = Some r0"
    and g: "scopes_grant (elems (role_permissions r0)) sc p"
    using assms(6) by (auto simp: role_grants_def split: option.splits)
  have s': "s' = s\<lparr>svc_roles := gset dst (r0\<lparr>role_is_system := False, role_name := dst\<rparr>) (svc_roles s)\<rparr>"
    using assms(1,5) r0 by (simp add: clone_role_edit_def has_key_def Let_def)
  have "role_grants (svc_roles s') dst sc p" using g by (simp add: s' role_grants_def)
  moreover have "gget (svc_users s') username = Some usr" using assms(2) by (simp add: s')
  ultimately show "p \<in> set (gslice (get_permissions s' username) sc)"
    using user_granted_role assms(3) by (simp add: get_permissions_granted)
  show "\<exists>e. request_edit env (DeleteRole dst) s' = Inl e \<and> errors_is e ErrInvalidArg"
    using sys by (simp add: delete_role_edit_def)
  show "\<exists>e. request_edit env (UpdateRole role) s' = Inl e \<and> errors_is e ErrInvalidArg" if "role_name role = dst"
    using sys that by (simp add: update_role_edit_def)
qed

definition escalated_service :: service where
  "escalated_service = alice_service\<lparr>svc_roles :=
    [(''read-only'', administrator_role\<lparr>role_is_system := False, role_name := ''read-only''\<rparr>)]\<rparr>"

text \<open>C16: Cloning a role onto a name that is already in use, a built-in role's included, succeeds and
  gives every holder of that name all the permissions of the cloned role; a clone that shadows a
  built-in role can then be neither changed nor deleted.\<close>

theorem clone_role_escalates:
  assumes "request_edit env (CloneRole src dst) s = Inr s'"
    and "gget (svc_users s) username = Some usr" and "dst \<in> set (elems (u_roles usr))"
    and "is_system_role dst" and "\<not> has_key (svc_roles s) src" and "role_grants system_role_map src sc p"
  shows "p \<in> set (gslice (get_permissions s' username) sc)
    \<and> (\<exists>e. request_edit env (DeleteRole dst) s' = Inl e \<and> errors_is e ErrInvalidArg)
    \<and> (\<forall>role. role_name role = dst \<longrightarrow>
        (\<exists>e. request_edit env (UpdateRole role) s' = Inl e \<and> errors_is e ErrInvalidArg))"
  using clone_role_escalates_facts [OF assms] by blast

theorem clone_role_escalates_witness:
  "''delete'' \<in> set (gslice (get_permissions escalated_service ''alice'') ''user'')"
  by (rule clone_role_escalates [where src = "''administrator''" and dst = "''read-only''"
        and s = alice_service and env = test_env and usr = "alice\<lparr>u_last_update := 1700000000, u_password := ''hash''\<rparr>", THEN conjunct1])
    (simp_all add: clone_role_edit_def escalated_service_def alice_service_def alice_def gset_def
      has_key_def is_system_role_def system_roles_def role_grants_def scopes_grant_def system_role_map_eq system_role_defs)

lemma list_users_facts:
  assumes "sort_slice_ok srt" and "sort_slice_ok srt'" and "svc_wf s" and "svc_wf s'"
    and "map_of (svc_users s) = map_of (svc_users s')"
  shows "list_users srt s = list_users srt' s'"
    and "sorted_wrt (<) (map u_username (list_users srt s))"
    and "u \<in> set (list_users srt s) \<longleftrightarrow> get_user s (u_username u) = Inr u"
proof -
  have wf: "wf_map (svc_users s)" "wf_map (svc_users s')" using assms(3,4) by (simp_all add: svc_wf_def)
  have key: "map u_username (map snd m) = map fst m" if "list_all (user_wf R) m" for R and m :: "user gomap"
    using that by (induction m) (auto simp: user_wf_def)
  have keys: "map u_username (map snd (svc_users s)) = map fst (svc_users s)"
    using assms(3) by (intro key [of "svc_roles s"]) (simp add: svc_wf_def)
  have dist: "distinct (map u_username (map snd (svc_users s)))"
    using keys wf(1) by (simp only: wf_map_def)
  then have inj: "inj_on u_username (set (map snd (svc_users s)))"
    by (simp only: distinct_map)
  have m: "mset (list_users srt s) = mset (map snd (svc_users s))"
    by (simp add: list_users_def sort_slice_mset [OF assms(1)])
  have "mset (map snd (svc_users s)) = mset (map snd (svc_users s'))"
    using wf_map_mset_eqI [OF wf assms(5)] by simp
  then have mm: "mset (list_users srt s) = mset (list_users srt' s')"
    by (simp add: list_users_def sort_slice_mset [OF assms(1)] sort_slice_mset [OF assms(2)])
  have st: "sorted (map u_username (list_users srt s))" "sorted (map u_username (list_users srt' s'))"
    unfolding list_users_def by (rule sort_slice_sorted(1) [OF assms(1)], rule sort_slice_sorted(1) [OF assms(2)])
  have set: "set (list_users srt s) = set (map snd (svc_users s))" using m by (metis set_mset_mset)
  show "list_users srt s = list_users srt' s'"
    by (rule sorted_key_unique [OF mm st]) (use set inj in simp)
  have "mset (map u_username (list_users srt s)) = mset (map u_username (map snd (svc_users s)))"
    using m by (metis mset_map)
  then have "distinct (map u_username (list_users srt s))"
    using dist by (metis mset_eq_imp_distinct_iff)
  then show "sorted_wrt (<) (map u_username (list_users srt s))"
    using st(1) by (simp add: strict_sorted_iff)
  have "u \<in> set (map snd (svc_users s)) \<longleftrightarrow> gget (svc_users s) (u_username u) = Some u"
  proof
    assume "u \<in> set (map snd (svc_users s))"
    then obtain k where k: "(k, u) \<in> set (svc_users s)" by auto
    then have "gget (svc_users s) k = Some u" using wf_map_get_iff [OF wf(1)] by simp
    then show "gget (svc_users s) (u_username u) = Some u"
      using svc_wf_user [OF assms(3)] by (simp add: user_wf_def)
  next
    assume "gget (svc_users s) (u_username u) = Some u"
    then show "u \<in> set (map snd (svc_users s))" by (force dest: gget_in_set)
  qed
  then show "u \<in> set (list_users srt s) \<longleftrightarrow> get_user s (u_username u) = Inr u"
    using set by (simp add: get_user_def split: option.split)
qed

text \<open>Listing the users gives each of them once, in the order of their names, and the same list
  for any sorting routine that keeps its contract and any order of the map.\<close>

theorem list_users_deterministic:
  assumes "sort_slice_ok srt" and "sort_slice_ok srt'" and "svc_wf s" and "svc_wf s'"
    and "map_of (svc_users s) = map_of (svc_users s')"
  shows "list_users srt s = list_users srt' s'
    \<and> sorted_wrt (<) (map u_username (list_users srt s))
    \<and> (\<forall>u. u \<in> set (list_users srt s) \<longleftrightarrow> get_user s (u_username u) = Inr u)"
  using list_users_facts [OF assms] by blast

theorem list_users_deterministic_witness:
  "alice \<in> set (list_users insertion_sort alice_service) \<longleftrightarrow> get_user alice_service (u_username alice) = Inr alice"
  by (rule list_users_deterministic [OF insertion_sort_ok insertion_sort_ok alice_wf alice_wf refl,
        THEN conjunct2, THEN conjunct2, THEN spec])

end
