(* ===== verification/Auth_Properties.thy ===== *)
theory Auth_Properties
  imports Auth_Server User_Properties
begin

text \<open>
  The properties of the OAuth server and of the authentication of gRPC calls, with a small concrete
  OAuth library for the witnesses.
\<close>

subsection \<open>What is relied on of fosite\<close>

text \<open>
  The password grant is refused unless the store's \<open>Authenticate\<close> accepts the posted name and
  password; it keeps the posted form and does not name the session's user. An error is not written
  with a 2xx status.
\<close>

definition password_checked :: "'f oauth_lib \<Rightarrow> bool" where
  "password_checked L \<longleftrightarrow>
    (\<forall>check req sess f ar proto f'.
      new_access_request L check req sess f = (Inr (ar, proto), f') \<longrightarrow>
      form_get (hr_form req) ''grant_type'' = ''password'' \<longrightarrow>
        check (form_get (hr_form req) ''username'') (form_get (hr_form req) ''password'') = None
        \<and> ar_form ar = hr_form req \<and> sess_username proto = sess_username sess)"

definition errors_are_errors :: "'f oauth_lib \<Rightarrow> bool" where
  "errors_are_errors L \<longleftrightarrow> (\<forall>e. \<not> (200 \<le> resp_code (write_access_error L e) \<and> resp_code (write_access_error L e) \<le> 299))"

subsection \<open>A concrete library\<close>

text \<open>
  Its store maps a refresh token to the subject it was issued to. An access token is \<open>for-\<close> followed
  by the subject.
\<close>

definition test_access_request ::
  "(string \<Rightarrow> string \<Rightarrow> go_error option) \<Rightarrow> http_req \<Rightarrow> jwt_session \<Rightarrow> string gomap
    \<Rightarrow> (access_request \<times> jwt_session) res \<times> string gomap" where
  "test_access_request check req sess f =
    (let form = hr_form req;
         ar = \<lparr>ar_form = form, ar_session = sess, ar_requested_scopes = [], ar_granted_scopes = []\<rparr> in
     if form_get form ''grant_type'' = ''password'' then
       (case check (form_get form ''username'') (form_get form ''password'') of
          Some e \<Rightarrow> (Inl e, f) | None \<Rightarrow> (Inr (ar, sess), f))
     else if form_get form ''grant_type'' = ''refresh_token'' then
       (case gget f (form_get form ''refresh_token'') of
          None \<Rightarrow> (Inl (Foreign ''invalid_grant''), f)
        | Some subject \<Rightarrow> (Inr (ar\<lparr>ar_session := sess\<lparr>sess_subject := subject\<rparr>\<rparr>, sess), f))
     else (Inl (Foreign ''unsupported_grant_type''), f))"

definition test_oauth :: "string gomap oauth_lib" where
  "test_oauth =
    \<lparr>new_access_request = test_access_request,
     new_access_response = (\<lambda>ar f. (Inr \<lparr>acc_token = ''for-'' @ sess_subject (ar_session ar), acc_extra = []\<rparr>, f)),
     write_access_error = (\<lambda>e. \<lparr>resp_code = 400, resp_body = []\<rparr>),
     write_access_response = (\<lambda>r. \<lparr>resp_code = 200,
       resp_body = ''{\"access_token\":\"'' @ acc_token r @ ''\"}''\<rparr>),
     new_authorize_request = (\<lambda>req f. (Inl (Foreign ''unsupported_response_type''), f)),
     new_authorize_response = (\<lambda>ar sess f. (Inl (Foreign ''unsupported_response_type''), f)),
     write_authorize_error = (\<lambda>e. \<lparr>resp_code = 400, resp_body = []\<rparr>),
     write_authorize_response = (\<lambda>r. \<lparr>resp_code = 200, resp_body = []\<rparr>),
     new_revocation_request = (\<lambda>req f. (None, f)),
     write_revocation_response = (\<lambda>e. \<lparr>resp_code = 200, resp_body = []\<rparr>),
     new_introspection_request = (\<lambda>req sess f. (Inr [], f)),
     write_introspection_error = (\<lambda>e. \<lparr>resp_code = 400, resp_body = []\<rparr>),
     write_introspection_response = (\<lambda>r. \<lparr>resp_code = 200, resp_body = r\<rparr>),
     introspect_token = (\<lambda>t f. (if take 4 t = ''for-'' then Inr (drop 4 t) else Inl (Foreign ''invalid''), f)),
     jwt_parse = (\<lambda>t. Inr (True, None)),
     format_float = (\<lambda>n. ''3600'')\<rparr>"

definition test_server :: server where
  "test_server = \<lparr>srv_key_id = ''0'', srv_issuer = ''ceph-api'', srv_client_id = ''ceph-api'',
     srv_refresh_token_lifespan = 3600000000000, srv_access_token_lifespan = 60000000000, srv_clients = []\<rparr>"

lemma test_oauth_ok: "password_checked test_oauth" "errors_are_errors test_oauth"
  by (auto simp: password_checked_def errors_are_errors_def test_oauth_def test_access_request_def Let_def
      split: if_splits option.splits)

definition enabled_service :: service where
  "enabled_service = \<lparr>svc_users =
     [(''alice'', alice\<lparr>u_enabled := True\<rparr>),
      (''bob'', alice\<lparr>u_username := ''bob'', u_enabled := True, u_roles := Some [''administrator'']\<rparr>)],
     svc_roles = []\<rparr>"

lemmas test_oauth_eval = test_oauth_def test_access_request_def new_session_def test_server_def
  form_get_def gslice_def authenticate_def enabled_service_def get_user_def alice_def zero_user_def test_env_def

subsection \<open>Tokens\<close>

lemma token_endpoint_full_issued:
  assumes "token_endpoint_full L S env now s req f = (resp, Some issued, f')"
  obtains ar proto f1 usr where
    "new_access_request L (authenticate env s) req (new_session S now []) f = (Inr (ar, proto), f1)"
    and "get_user s (if sess_username proto = [] then form_get (ar_form ar) ''username'' else sess_username proto)
      = Inr usr"
    and "u_enabled usr" and "sess_subject (ar_session issued) = u_username usr"
proof -
  obtain x f1 where x: "new_access_request L (authenticate env s) req (new_session S now []) f = (x, f1)"
    by (cases "new_access_request L (authenticate env s) req (new_session S now []) f")
  obtain ar proto where ap: "x = Inr (ar, proto)"
    using assms x by (cases x) (auto simp: token_endpoint_full_def Let_def)
  let ?u = "if sess_username proto = [] then form_get (ar_form ar) ''username'' else sess_username proto"
  obtain usr where u: "get_user s ?u = Inr usr" "u_enabled usr"
    using assms x ap by (cases "get_user s ?u") (auto simp: token_endpoint_full_def Let_def split: if_splits)
  have "sess_subject (ar_session issued) = u_username usr"
    using assms x ap u by (auto simp: token_endpoint_full_def Let_def split: prod.splits sum.splits)
  then show ?thesis using that x ap u by blast
qed

lemma token_endpoint_full_ok:
  assumes "errors_are_errors L" and "token_endpoint_full L S env now s req f = (resp, None, f')"
  shows "\<not> (200 \<le> resp_code resp \<and> resp_code resp \<le> 299)"
proof -
  have "\<exists>e. resp = write_access_error L e"
    using assms(2) by (auto simp: token_endpoint_full_def Let_def split: prod.splits sum.splits if_splits)
  then show ?thesis using assms(1) by (auto simp: errors_are_errors_def)
qed

lemma login_facts:
  assumes "password_checked L" and "errors_are_errors L"
    and "login L S env now s username password f = (Inr r, f')"
  shows "\<exists>usr. get_user s username = Inr usr \<and> u_enabled usr
    \<and> bcrypt_compare env (u_password usr) password = None
    \<and> lr_user r = usr \<and> lr_permissions r = get_permissions s username \<and> lr_token r \<noteq> []"
proof -
  let ?req = "\<lparr>hr_form = [(''grant_type'', [''password'']), (''username'', [username]),
    (''password'', [password]), (''client_id'', [srv_client_id S])],
    hr_basic_auth = Some (srv_client_id S, [])\<rparr>"
  obtain resp issued f1 where t: "token_endpoint_full L S env now s ?req f = (resp, issued, f1)"
    by (rule prod_cases3)
  have code: "200 \<le> resp_code resp" "resp_code resp \<le> 299" "token_of_body (resp_body resp) \<noteq> []"
    using assms(3) t by (auto simp: login_def token_endpoint_def Let_def split: if_splits)
  then obtain x where x: "issued = Some x"
    using token_endpoint_full_ok [OF assms(2)] t by (cases issued) auto
  obtain ar proto f2 where ar: "new_access_request L (authenticate env s) ?req (new_session S now []) f
      = (Inr (ar, proto), f2)"
    using token_endpoint_full_issued [OF t [unfolded x]] by metis
  have "authenticate env s username password = None"
    using assms(1) ar unfolding password_checked_def by (fastforce simp: form_get_def gslice_def)
  then obtain usr where "get_user s username = Inr usr" "u_enabled usr"
      "bcrypt_compare env (u_password usr) password = None"
    by (auto simp: authenticate_def split: sum.splits if_splits option.splits)
  moreover have "r = \<lparr>lr_token = token_of_body (resp_body resp), lr_user = usr,
      lr_permissions = get_permissions s username\<rparr>"
    using assms(3) t code calculation by (auto simp: login_def token_endpoint_def Let_def)
  ultimately show ?thesis using code by simp
qed

text \<open>A log-in succeeds only for a user that exists, is enabled and whose stored hash matches the
  password; it hands out that user and the user's permissions.\<close>

theorem login_authenticates:
  assumes "password_checked L" and "errors_are_errors L"
    and "login L S env now s username password f = (Inr r, f')"
  shows "\<exists>usr. get_user s username = Inr usr \<and> u_enabled usr
    \<and> bcrypt_compare env (u_password usr) password = None
    \<and> lr_user r = usr \<and> lr_permissions r = get_permissions s username \<and> lr_token r \<noteq> []"
  using assms by (rule login_facts)

lemma alice_token [simp]: "token_of_body ''{\"access_token\":\"for-alice\"}'' = ''for-alice''"
  by code_simp

lemma alice_logs_in:
  "login test_oauth test_server test_env 0 enabled_service ''alice'' ''secret'' []
    = (Inr \<lparr>lr_token = ''for-alice'', lr_user = alice\<lparr>u_enabled := True\<rparr>,
        lr_permissions = get_permissions enabled_service ''alice''\<rparr>, [])"
  by (simp add: login_def token_endpoint_def token_endpoint_full_def test_oauth_eval Let_def)

theorem login_authenticates_witness:
  "\<exists>usr. get_user enabled_service ''alice'' = Inr usr \<and> u_enabled usr
    \<and> bcrypt_compare test_env (u_password usr) ''secret'' = None"
  using login_authenticates [OF test_oauth_ok alice_logs_in] by blast

text \<open>C17: When the session prototype carries no user name, as when a refresh token is redeemed, the token
  endpoint takes the user from the posted form: if that user exists and is enabled, the request for
  which the provider is asked to issue a token has that user as its subject and is otherwise the
  redeemed one, whatever the subject of the redeemed token was. Only a failure of the provider itself
  keeps the token from being issued.\<close>

theorem refresh_token_changes_subject:
  assumes "new_access_request L (authenticate env s) req (new_session S now []) f = (Inr (ar, proto), f1)"
    and "sess_username proto = []" and "form_get (ar_form ar) ''username'' = victim"
    and "get_user s victim = Inr usr" and "u_enabled usr"
  shows "\<exists>issued. sess_subject (ar_session issued) = u_username usr
    \<and> claims_subject (ar_session issued) = u_username usr
    \<and> ar_form issued = ar_form ar \<and> ar_granted_scopes issued = ar_granted_scopes ar
    \<and> (case new_access_response L issued f1 of
         (Inl err, f2) \<Rightarrow> token_endpoint_full L S env now s req f = (write_access_error L err, None, f2)
       | (Inr response, f2) \<Rightarrow>
          \<exists>resp. token_endpoint_full L S env now s req f = (resp, Some issued, f2))"
  by (rule exI [of _ "ar\<lparr>ar_session := (ar_session ar)
      \<lparr>claims_subject := u_username usr, sess_subject := u_username usr\<rparr>\<rparr>"])
    (use assms in \<open>simp add: token_endpoint_full_def split: prod.split sum.split\<close>)

text \<open>Alice's refresh token, redeemed with Bob's name in the form.\<close>

definition takeover_req :: http_req where
  "takeover_req = \<lparr>hr_form = [(''grant_type'', [''refresh_token'']), (''refresh_token'', [''r1'']),
     (''username'', [''bob''])], hr_basic_auth = None\<rparr>"

theorem refresh_token_changes_subject_witness:
  "\<exists>resp issued f'. token_endpoint_full test_oauth test_server test_env 0 enabled_service takeover_req
      [(''r1'', ''alice'')] = (resp, Some issued, f')
    \<and> sess_subject (ar_session issued) = ''bob''"
proof -
  let ?ar = "\<lparr>ar_form = hr_form takeover_req,
    ar_session = (new_session test_server 0 [])\<lparr>sess_subject := ''alice''\<rparr>,
    ar_requested_scopes = [], ar_granted_scopes = []\<rparr>"
  have "new_access_request test_oauth (authenticate test_env enabled_service) takeover_req
      (new_session test_server 0 []) [(''r1'', ''alice'')]
    = (Inr (?ar, new_session test_server 0 []), [(''r1'', ''alice'')])"
    by (simp add: test_oauth_eval takeover_req_def)
  from refresh_token_changes_subject [OF this, where victim = "''bob''"]
  show ?thesis by (auto simp: test_oauth_eval takeover_req_def)
qed

subsection \<open>Authenticated calls\<close>

text \<open>A call to any method but log-in and check is let through only with a bearer token that the
  provider knows, whose JWT is valid, and whose subject is a user; the context then carries that
  user's name and permissions and nothing else changes.\<close>

theorem auth_func_sound:
  assumes "auth_func L s info ctx f = (Inr ctx', f')"
    and "rpc_method info = Some mth" and "mth \<noteq> ''/ceph.Auth/Login''" and "mth \<noteq> ''/ceph.Auth/Check''"
  shows "\<exists>token username usr. rpc_bearer info = Inr token \<and> introspect_token L token f = (Inr username, f')
    \<and> jwt_parse L token = Inr (True, None) \<and> get_user s username = Inr usr
    \<and> ctx' = set_permissions (Some (get_permissions s username)) (log_with_username (u_username usr) ctx)"
proof -
  obtain token where t: "rpc_bearer info = Inr token"
    using assms by (cases "rpc_bearer info") (simp_all add: auth_func_def)
  obtain x f1 where x: "introspect_token L token f = (x, f1)" by (cases "introspect_token L token f")
  obtain username where u: "x = Inr username"
    using assms t x by (cases x) (simp_all add: auth_func_def)
  obtain v c where j: "jwt_parse L token = Inr (v, c)"
    using assms t x u by (cases "jwt_parse L token") (auto simp: auth_func_def)
  have vc: "v" "c = None"
    using assms t x u j by (auto simp: auth_func_def split: if_splits)
  obtain usr where "get_user s username = Inr usr"
    using assms t x u j vc by (cases "get_user s username") (simp_all add: auth_func_def)
  then show ?thesis using assms t x u j vc by (auto simp: auth_func_def)
qed

definition alice_call :: rpc_info where
  "alice_call = \<lparr>rpc_method = Some ''/ceph.Users/ListUsers'', rpc_bearer = Inr ''for-alice''\<rparr>"

theorem auth_func_sound_witness:
  "\<exists>token username usr. rpc_bearer alice_call = Inr token
    \<and> introspect_token test_oauth token [] = (Inr username, [])
    \<and> jwt_parse test_oauth token = Inr (True, None) \<and> get_user enabled_service username = Inr usr
    \<and> set_permissions (Some (get_permissions enabled_service ''alice'')) (log_with_username ''alice'' background)
      = set_permissions (Some (get_permissions enabled_service username))
          (log_with_username (u_username usr) background)"
  by (rule auth_func_sound [where mth = "''/ceph.Users/ListUsers''"])
    (simp_all add: auth_func_def alice_call_def test_oauth_eval)

text \<open>C18: Disabling an account does not invalidate the tokens it holds: a call is authenticated in the
  same way, with the same permissions, whether or not its user is enabled.\<close>

theorem disabled_user_keeps_access:
  assumes "gget (svc_users s) username = Some usr"
  shows "auth_func L (s\<lparr>svc_users := gset username (usr\<lparr>u_enabled := e\<rparr>) (svc_users s)\<rparr>) info ctx f
    = auth_func L s info ctx f"
proof -
  let ?s = "s\<lparr>svc_users := gset username (usr\<lparr>u_enabled := e\<rparr>) (svc_users s)\<rparr>"
  have p: "get_permissions ?s n = get_permissions s n" for n
    using assms by (simp add: get_permissions_eq collect_perms_def split: option.split)
  have g: "get_user ?s n = (case get_user s n of Inl e \<Rightarrow> Inl e
      | Inr u \<Rightarrow> Inr (if n = username then usr\<lparr>u_enabled := e\<rparr> else u))" for n
    using assms by (simp add: get_user_def split: option.split)
  have h: "get_user s username = Inr usr" using assms by (simp add: get_user_def)
  show ?thesis
    by (simp add: auth_func_def p g h split: option.split sum.split prod.split)
qed

theorem disabled_user_keeps_access_witness:
  "auth_func test_oauth (enabled_service\<lparr>svc_users := gset ''alice'' (alice\<lparr>u_enabled := False\<rparr>)
      (svc_users enabled_service)\<rparr>) alice_call background []
    = auth_func test_oauth enabled_service alice_call background []"
  using disabled_user_keeps_access [of enabled_service "''alice''" "alice\<lparr>u_enabled := True\<rparr>" test_oauth False
      alice_call background "[]"]
  by (simp add: enabled_service_def alice_def zero_user_def)

end
