(* ===== verification/Api_Properties.thy ===== *)
theory Api_Properties
  imports Api_Server Auth_Properties
begin

text \<open>
  The properties of the gRPC server end to end: every call, through authentication, permission check,
  handler, error conversion, access log and panic recovery.
\<close>

subsection \<open>A call through the chain\<close>

text \<open>What the handler's answer becomes behind error conversion and recovery.\<close>

definition converted :: "string \<Rightarrow> req_ctx \<Rightarrow> 'a reply \<Rightarrow> 'a reply" where
  "converted nf ctx r =
    (case r of Reply a \<Rightarrow> Reply a | Failed e \<Rightarrow> Failed (convert_api_error nf ctx e)
     | Panicked p \<Rightarrow> Failed (convert_api_error nf ctx (StatusError Internal p [])))"

lemma inner_chain_handler:
  assumes "inner_chain e handler ctx \<sigma> = (r, \<sigma>')"
  obtains \<sigma>1 r2 \<sigma>2 where "handler (log_with_trace_id (re_trace_id e) ctx) \<sigma>1 = (r2, \<sigma>2)"
    and "sys_svc \<sigma>1 = sys_svc \<sigma>" and "sys_cluster \<sigma>1 = sys_cluster \<sigma>" and "sys_tokens \<sigma>1 = sys_tokens \<sigma>"
    and "sys_svc \<sigma>' = sys_svc \<sigma>2" and "sys_cluster \<sigma>' = sys_cluster \<sigma>2" and "sys_tokens \<sigma>' = sys_tokens \<sigma>2"
    and "r = converted (re_not_found_text e) (log_with_trace_id (re_trace_id e) ctx) r2"
proof -
  let ?\<sigma>1 = "if re_access_log e then write_log (AccessLine (re_full_method e)) \<sigma> else \<sigma>"
  obtain r2 \<sigma>2 where h: "handler (log_with_trace_id (re_trace_id e) ctx) ?\<sigma>1 = (r2, \<sigma>2)"
    by (cases "handler (log_with_trace_id (re_trace_id e) ctx) ?\<sigma>1")
  show ?thesis
    by (rule that [OF h]) (use assms h in \<open>auto simp: inner_chain_eq Let_def converted_def split: outcome.splits\<close>)
qed

lemma converted_Reply: "converted nf ctx r = Reply a \<longleftrightarrow> r = Reply a"
  by (simp add: converted_def split: outcome.split)

lemma re_info_call [simp]:
  "rpc_method (re_info (call_env a nf c)) = Some (full_method (call_rpc c))"
  "rpc_bearer (re_info (call_env a nf c)) = call_bearer c"
  "re_trace_id (call_env a nf c) = call_trace_id c" "re_not_found_text (call_env a nf c) = nf"
  "re_full_method (call_env a nf c) = full_method (call_rpc c)"
  by (simp_all add: call_env_def)

text \<open>The token, the user behind it, and the context a call with that token runs in.\<close>

definition authenticated ::
  "'f oauth_lib \<Rightarrow> service \<Rightarrow> 'f \<Rightarrow> string res \<Rightarrow> string \<Rightarrow> user \<Rightarrow> bool" where
  "authenticated L s f bearer username usr \<longleftrightarrow>
    (\<exists>token. bearer = Inr token \<and> fst (introspect_token L token f) = Inr username
       \<and> jwt_parse L token = Inr (True, None) \<and> get_user s username = Inr usr)"

definition user_ctx :: "service \<Rightarrow> string \<Rightarrow> user \<Rightarrow> req_ctx" where
  "user_ctx s username usr =
    set_permissions (Some (get_permissions s username)) (log_with_username (u_username usr) background)"

definition open_methods :: "string set" where
  "open_methods = {''/ceph.Auth/Login'', ''/ceph.Auth/Check''}"

lemma auth_func_cases:
  assumes "rpc_method info = Some m"
  obtains (refused) err f' where "auth_func L s info background f = (Inl err, f')"
      and "\<exists>m. err = StatusError Unauthenticated m [ErrorInfo ''ErrUnauthenticated'']"
  | (opened) "auth_func L s info background f = (Inr background, f)" and "m \<in> open_methods"
  | (user) username usr f' where "auth_func L s info background f = (Inr (user_ctx s username usr), f')"
      and "authenticated L s f (rpc_bearer info) username usr" and "m \<notin> open_methods"
proof (cases "auth_func L s info background f")
  case (Pair r f')
  show ?thesis
  proof (cases r)
    case (Inl err)
    then show ?thesis using refused auth_func_error Pair assms by (metis option.simps(3))
  next
    case (Inr ctx)
    then show ?thesis
      using Pair assms opened user [unfolded authenticated_def user_ctx_def]
      by (auto simp: auth_func_def open_methods_def split: sum.splits prod.splits if_splits)
  qed
qed

lemma serve_call_cases:
  assumes "serve_call E acc nf c \<sigma> = (r, \<sigma>')"
  obtains (refused) m f where "r = Failed (StatusError Unauthenticated m [ErrorInfo ''ErrUnauthenticated''])"
      and "\<sigma>' = \<sigma>\<lparr>sys_tokens := f\<rparr>"
  | (opened) "inner_chain (call_env acc nf c) (dispatch E (call_bearer c) (call_rpc c)) background \<sigma> = (r, \<sigma>')"
      and "full_method (call_rpc c) \<in> open_methods"
  | (user) username usr f where
      "authenticated (ae_oauth E) (sys_svc \<sigma>) (sys_tokens \<sigma>) (call_bearer c) username usr"
      and "inner_chain (call_env acc nf c) (dispatch E (call_bearer c) (call_rpc c))
        (user_ctx (sys_svc \<sigma>) username usr) (\<sigma>\<lparr>sys_tokens := f\<rparr>) = (r, \<sigma>')"
      and "full_method (call_rpc c) \<notin> open_methods"
proof -
  let ?info = "re_info (call_env acc nf c)"
  have m: "rpc_method ?info = Some (full_method (call_rpc c))" by simp
  show ?thesis
  proof (cases rule: auth_func_cases [OF m, of "ae_oauth E" "sys_svc \<sigma>" "sys_tokens \<sigma>",
        case_names refused opened user])
    case (refused err f')
    then show ?thesis using assms that(1) by (auto simp: serve_call_def serve_rpc_def auth_unary_interceptor_def)
  next
    case opened
    moreover have "\<sigma>\<lparr>sys_tokens := sys_tokens \<sigma>\<rparr> = \<sigma>" by simp
    ultimately show ?thesis
      using assms that(2) by (simp add: serve_call_def serve_rpc_def auth_unary_interceptor_def)
  next
    case (user username usr f')
    then show ?thesis
      using assms that(3) [of username usr f'] by (simp add: serve_call_def serve_rpc_def auth_unary_interceptor_def)
  qed
qed

lemma required_not_open: "required r = Some q \<Longrightarrow> full_method r \<notin> open_methods"
  by (cases r) (simp_all add: required_def open_methods_def)

lemma user_ctx_permissions:
  "has_permissions (log_with_trace_id t (user_ctx s username usr)) sc ps = None \<Longrightarrow>
    \<forall>p \<in> set ps. user_granted s username (scope_string sc) (permission_string p)"
  by (simp add: has_permissions_None user_ctx_def get_permissions_granted list_all_iff)

lemma dispatch_allowed:
  assumes "required (call_rpc c) = Some (sc, ps)"
    and "serve_call E acc nf c \<sigma> = (r, \<sigma>')"
    and "(\<exists>a. r = Reply a) \<or> sys_svc \<sigma>' \<noteq> sys_svc \<sigma> \<or> sys_cluster \<sigma>' \<noteq> sys_cluster \<sigma>"
  obtains username usr where
    "authenticated (ae_oauth E) (sys_svc \<sigma>) (sys_tokens \<sigma>) (call_bearer c) username usr"
    and "\<forall>p \<in> set ps. user_granted (sys_svc \<sigma>) username (scope_string sc) (permission_string p)"
proof -
  let ?h = "dispatch E (call_bearer c) (call_rpc c)"
  have g: "guarded_handler ?h sc ps" using assms(1) by (rule dispatch_guarded)
  from assms(2) show ?thesis
  proof (cases rule: serve_call_cases)
    case (refused m f)
    then show ?thesis using assms(3) by simp
  next
    case opened
    then show ?thesis using required_not_open assms(1) by metis
  next
    case (user username usr f)
    from user(2) obtain \<sigma>1 r2 \<sigma>2 where
      h: "?h (log_with_trace_id (re_trace_id (call_env acc nf c)) (user_ctx (sys_svc \<sigma>) username usr)) \<sigma>1 = (r2, \<sigma>2)"
      and st: "sys_svc \<sigma>1 = sys_svc \<sigma>" "sys_cluster \<sigma>1 = sys_cluster \<sigma>" "sys_svc \<sigma>' = sys_svc \<sigma>2"
        "sys_cluster \<sigma>' = sys_cluster \<sigma>2"
      and r: "r = converted (re_not_found_text (call_env acc nf c))
        (log_with_trace_id (re_trace_id (call_env acc nf c)) (user_ctx (sys_svc \<sigma>) username usr)) r2"
      by (rule inner_chain_handler) simp
    have "(\<exists>a. r2 = Reply a) \<or> \<sigma>2 \<noteq> \<sigma>1" using assms(3) r st by (auto simp: converted_Reply)
    then have "has_permissions (log_with_trace_id (re_trace_id (call_env acc nf c))
        (user_ctx (sys_svc \<sigma>) username usr)) sc ps = None"
      using h guarded_handler.answered_granted [OF g] guarded_handler.changed_granted [OF g] by metis
    then show ?thesis using that user(1) user_ctx_permissions by metis
  qed
qed

subsection \<open>What calls do to the users\<close>

definition same_users :: "('w, 'f, 'a) handler \<Rightarrow> bool" where
  "same_users h \<longleftrightarrow> (\<forall>ctx \<sigma> r \<sigma>'. h ctx \<sigma> = (r, \<sigma>') \<longrightarrow> sys_svc \<sigma>' = sys_svc \<sigma>)"

lemma same_users_on_cluster: "same_users (on_cluster h)"
  by (auto simp: same_users_def on_cluster_def split: prod.splits)

lemma same_users_answering: "same_users h \<Longrightarrow> same_users (answering g h)"
  by (auto simp: same_users_def answering_def split: prod.splits outcome.splits)

lemma same_users_reading:
  "same_users (on_api (api_list_users srt))" "same_users (on_api (api_get_user q))"
  "same_users (on_api api_list_roles)" "same_users (on_api (api_get_role n))"
  by (auto simp: same_users_def on_api_def api_list_users_def api_get_user_def api_list_roles_def
      api_get_role_def with_permissions_def split: prod.splits option.splits)

lemma serve_call_same_users:
  assumes "same_users (dispatch E (call_bearer c) (call_rpc c))" and "serve_call E acc nf c \<sigma> = (r, \<sigma>')"
  shows "sys_svc \<sigma>' = sys_svc \<sigma>"
  using assms(2)
proof (cases rule: serve_call_cases)
  case opened
  from opened(1) show ?thesis
    by (rule inner_chain_handler) (use assms(1) in \<open>auto simp: same_users_def\<close>)
next
  case (user username usr f)
  from user(2) show ?thesis
    by (rule inner_chain_handler) (use assms(1) in \<open>auto simp: same_users_def\<close>)
qed simp

lemma same_users_auth:
  "same_users (api_login L S env now q)" "same_users (api_logout L S b)" "same_users api_check"
  by (auto simp: same_users_def api_login_def api_logout_def api_check_def split: prod.splits sum.splits option.splits)

lemma dispatch_same_users:
  "same_users (dispatch E b r) \<or> (\<exists>q. r = UserChangePassword q)
    \<or> (\<exists>ps p. required r = Some (ScopeUser, ps) \<and> p \<in> set ps \<and> p \<in> {PermCreate, PermUpdate, PermDelete})"
  by (cases r)
    (auto simp: required_def same_users_answering same_users_on_cluster same_users_reading same_users_auth)

lemma login_keeps:
  "dispatch E b (Login q) ctx \<sigma> = (r, \<sigma>') \<Longrightarrow> sys_svc \<sigma>' = sys_svc \<sigma> \<and> sys_cluster \<sigma>' = sys_cluster \<sigma>"
  by (auto simp: answering_def api_login_def split: prod.splits sum.splits outcome.splits)

lemma check_fails: "dispatch E b Check ctx \<sigma> = (Failed ErrNotImplemented, \<sigma>)"
  by (simp add: answering_def api_check_def)

subsection \<open>Authorization\<close>

text \<open>The caller of \<open>c\<close> is a user whose roles grant whatever permissions the call needs.\<close>

definition authorized :: "('w, 'f) api_env \<Rightarrow> ('w, 'f) sys \<Rightarrow> call \<Rightarrow> bool" where
  "authorized E \<sigma> c \<longleftrightarrow>
    (\<exists>username usr. authenticated (ae_oauth E) (sys_svc \<sigma>) (sys_tokens \<sigma>) (call_bearer c) username usr
      \<and> (\<forall>sc ps. required (call_rpc c) = Some (sc, ps) \<longrightarrow>
          (\<forall>p \<in> set ps. user_granted (sys_svc \<sigma>) username (scope_string sc) (permission_string p))))"

lemma effect_authorized:
  assumes "serve_call E acc nf c \<sigma> = (r, \<sigma>')"
    and "(\<exists>a. r = Reply a) \<or> sys_svc \<sigma>' \<noteq> sys_svc \<sigma> \<or> sys_cluster \<sigma>' \<noteq> sys_cluster \<sigma>"
  shows "authorized E \<sigma> c
    \<or> (\<exists>q. call_rpc c = Login q) \<and> sys_svc \<sigma>' = sys_svc \<sigma> \<and> sys_cluster \<sigma>' = sys_cluster \<sigma>"
proof (cases "required (call_rpc c)")
  case (Some q)
  then obtain sc ps where q: "required (call_rpc c) = Some (sc, ps)" by (cases q) simp
  then show ?thesis
    using dispatch_allowed [OF q assms] by (auto simp: authorized_def) metis
next
  case None
  from assms(1) show ?thesis
  proof (cases rule: serve_call_cases)
    case (refused m f)
    then show ?thesis using assms(2) by simp
  next
    case opened
    let ?h = "dispatch E (call_bearer c) (call_rpc c)"
    from opened(1) obtain \<sigma>1 r2 \<sigma>2 ctx where h: "?h ctx \<sigma>1 = (r2, \<sigma>2)"
      and st: "sys_svc \<sigma>1 = sys_svc \<sigma>" "sys_cluster \<sigma>1 = sys_cluster \<sigma>" "sys_svc \<sigma>' = sys_svc \<sigma>2"
        "sys_cluster \<sigma>' = sys_cluster \<sigma>2"
      and r: "r = converted nf ctx r2"
      by (rule inner_chain_handler) simp
    have "(\<exists>q. call_rpc c = Login q) \<or> call_rpc c = Check"
      using opened(2) by (cases "call_rpc c") (simp_all add: open_methods_def)
    then show ?thesis
    proof
      assume "\<exists>q. call_rpc c = Login q"
      then show ?thesis using h st login_keeps by fastforce
    next
      assume "call_rpc c = Check"
      then have "r2 = Failed ErrNotImplemented" "\<sigma>2 = \<sigma>1" using h by (simp_all add: check_fails del: dispatch.simps)
      then show ?thesis using assms(2) st r by (simp add: converted_def)
    qed
  next
    case (user username usr f)
    then show ?thesis using None by (auto simp: authorized_def)
  qed
qed

text \<open>C1: Whatever call arrives, if it is answered, or if it changes the access database or the cluster,
  then its caller presented a bearer token that the provider knows and that is a valid JWT, the
  token's subject is a user, and the user's roles grant every permission the call needs. The only
  exception is a log-in, which needs no token, and changes neither the database nor the cluster. (The
  other call that needs no token, the check, is never answered.)\<close>

theorem only_authorized_calls_take_effect:
  assumes "serve_call E acc nf c \<sigma> = (r, \<sigma>')"
    and "(\<exists>a. r = Reply a) \<or> sys_svc \<sigma>' \<noteq> sys_svc \<sigma> \<or> sys_cluster \<sigma>' \<noteq> sys_cluster \<sigma>"
  shows "authorized E \<sigma> c
    \<or> (\<exists>q. call_rpc c = Login q) \<and> sys_svc \<sigma>' = sys_svc \<sigma> \<and> sys_cluster \<sigma>' = sys_cluster \<sigma>"
  by (rule effect_authorized [OF assms])

text \<open>A server whose only role lets its holder read users; Alice holds it, Bob has no role.\<close>

definition viewer_service :: service where
  "viewer_service = \<lparr>svc_users =
     [(''alice'', alice\<lparr>u_enabled := True, u_roles := Some [''viewer'']\<rparr>),
      (''bob'', alice\<lparr>u_username := ''bob'', u_enabled := True, u_roles := None\<rparr>)],
     svc_roles = [(''viewer'', \<lparr>role_name = ''viewer'', role_description = None, role_is_system = False,
        role_permissions = Some [(''user'', Some [''read''])]\<rparr>)]\<rparr>"

definition test_api :: "(kv_world, string gomap) api_env" where
  "test_api =
    \<lparr>ae_conn = kv_conn, ae_go = test_env, ae_oauth = test_oauth, ae_server = test_server, ae_now = 0,
     ae_sort_users = (\<lambda>less xs. xs), ae_sort_params = (\<lambda>less xs. xs), ae_lower = (\<lambda>s. s),
     ae_sprint = (\<lambda>j. []), ae_parse_float = Some, ae_params = []\<rparr>"

definition test_sys :: "(kv_world, string gomap) sys" where
  "test_sys = \<lparr>sys_svc = viewer_service, sys_cluster = kv_init, sys_tokens = [], sys_log = []\<rparr>"

definition get_alice :: "string \<Rightarrow> call" where
  "get_alice token = \<lparr>call_rpc = GetUser \<lparr>gu_username = ''alice''\<rparr>, call_bearer = Inr token, call_trace_id = ''t1''\<rparr>"

lemmas call_eval = test_api_def test_sys_def get_alice_def serve_call_def serve_rpc_def
  auth_unary_interceptor_def auth_func_def call_env_def inner_chain_eq Let_def answering_def on_api_def
  api_get_user_def with_permissions_def viewer_service_def test_oauth_eval log_with_username_def
  log_with_trace_id_def set_permissions_def set_username_def set_trace_id_def background_def write_log_def
  has_permissions_def get_permissions_ctx_def get_permissions_eq role_perms_of_def system_role_map_eq
  no_role_def gset_def

theorem only_authorized_calls_take_effect_witness:
  "\<exists>username usr. authenticated test_oauth viewer_service [] (Inr ''for-alice'') username usr
    \<and> (\<forall>p \<in> set [PermRead]. user_granted viewer_service username (scope_string ScopeUser) (permission_string p))"
proof -
  obtain r \<sigma>' where r: "serve_call test_api False [] (get_alice ''for-alice'') test_sys = (r, \<sigma>')" by fastforce
  then have "\<exists>a. r = Reply a" by (auto simp: call_eval gslice_def)
  then have "authorized test_api test_sys (get_alice ''for-alice'')"
    using only_authorized_calls_take_effect [OF r] by (simp add: get_alice_def)
  then show ?thesis
    by (simp add: authorized_def get_alice_def required_def test_api_def test_sys_def)
qed

lemma authenticated_passes:
  assumes "authenticated L s f (rpc_bearer info) username usr" and "rpc_method info = Some m"
    and "m \<notin> open_methods"
  shows "\<exists>f'. auth_func L s info background f = (Inr (user_ctx s username usr), f')"
proof -
  obtain token where t: "rpc_bearer info = Inr token" "fst (introspect_token L token f) = Inr username"
      "jwt_parse L token = Inr (True, None)" "get_user s username = Inr usr"
    using assms(1) by (auto simp: authenticated_def)
  then show ?thesis
    using assms(2,3)
    by (cases "introspect_token L token f") (simp add: auth_func_def open_methods_def user_ctx_def)
qed

text \<open>C5: An authenticated caller that lacks one of the permissions a call needs gets the status
  \<open>PermissionDenied\<close> with the call's trace identifier, and neither the access database nor the cluster
  changes.\<close>

theorem unpermitted_call_is_denied:
  assumes "required (call_rpc c) = Some (sc, ps)"
    and "authenticated (ae_oauth E) (sys_svc \<sigma>) (sys_tokens \<sigma>) (call_bearer c) username usr"
    and "p \<in> set ps" and "\<not> user_granted (sys_svc \<sigma>) username (scope_string sc) (permission_string p)"
    and "serve_call E acc nf c \<sigma> = (r, \<sigma>')"
  shows "r = Failed (StatusError PermissionDenied ''AccessDenied'' [RequestInfo (call_trace_id c)])
    \<and> sys_svc \<sigma>' = sys_svc \<sigma> \<and> sys_cluster \<sigma>' = sys_cluster \<sigma>"
proof -
  let ?e = "call_env acc nf c" and ?h = "dispatch E (call_bearer c) (call_rpc c)"
  let ?ctx = "log_with_trace_id (call_trace_id c) (user_ctx (sys_svc \<sigma>) username usr)"
  have m: "full_method (call_rpc c) \<notin> open_methods" using required_not_open assms(1) .
  have "\<exists>f. auth_func (ae_oauth E) (sys_svc \<sigma>) (re_info ?e) background (sys_tokens \<sigma>)
      = (Inr (user_ctx (sys_svc \<sigma>) username usr), f)"
    by (rule authenticated_passes [OF _ _ m]) (use assms(2) in simp_all)
  then obtain f where
    "auth_func (ae_oauth E) (sys_svc \<sigma>) (re_info ?e) background (sys_tokens \<sigma>)
      = (Inr (user_ctx (sys_svc \<sigma>) username usr), f)" by blast
  then have "inner_chain ?e ?h (user_ctx (sys_svc \<sigma>) username usr) (\<sigma>\<lparr>sys_tokens := f\<rparr>) = (r, \<sigma>')"
    using assms(5) by (simp add: serve_call_def serve_rpc_def auth_unary_interceptor_def)
  then obtain \<sigma>1 r2 \<sigma>2 where h: "?h ?ctx \<sigma>1 = (r2, \<sigma>2)"
    and st: "sys_svc \<sigma>1 = sys_svc \<sigma>" "sys_cluster \<sigma>1 = sys_cluster \<sigma>" "sys_svc \<sigma>' = sys_svc \<sigma>2"
      "sys_cluster \<sigma>' = sys_cluster \<sigma>2"
    and r: "r = converted nf ?ctx r2"
    by (rule inner_chain_handler) simp
  have "has_permissions ?ctx sc ps = Some ErrAccessDenied"
    using has_permissions_cases [of ?ctx sc ps] user_ctx_permissions assms(3,4) by metis
  then have "?h ?ctx \<sigma>1 = (Failed ErrAccessDenied, \<sigma>1)"
    by (rule guarded_handler.refuses [OF dispatch_guarded [OF assms(1)]])
  moreover have "get_trace_id ?ctx = call_trace_id c"
    by (simp add: log_with_trace_id_def user_ctx_def log_with_username_def get_trace_id_def set_trace_id_def
        set_permissions_def set_username_def background_def)
  ultimately show ?thesis using h st r by (simp add: converted_def convert_api_error_def)
qed

theorem unpermitted_call_is_denied_witness:
  "\<exists>\<sigma>'. serve_call test_api False [] (get_alice ''for-bob'') test_sys
      = (Failed (StatusError PermissionDenied ''AccessDenied'' [RequestInfo ''t1'']), \<sigma>')
    \<and> sys_svc \<sigma>' = viewer_service \<and> sys_cluster \<sigma>' = kv_init"
proof -
  obtain r \<sigma>' where r: "serve_call test_api False [] (get_alice ''for-bob'') test_sys = (r, \<sigma>')" by fastforce
  have "r = Failed (StatusError PermissionDenied ''AccessDenied'' [RequestInfo (call_trace_id (get_alice ''for-bob''))])
    \<and> sys_svc \<sigma>' = sys_svc test_sys \<and> sys_cluster \<sigma>' = sys_cluster test_sys"
    by (rule unpermitted_call_is_denied [OF _ _ _ _ r, of ScopeUser "[PermRead]" "''bob''"
          "alice\<lparr>u_username := ''bob'', u_enabled := True, u_roles := None\<rparr>" PermRead])
      (simp_all add: get_alice_def required_def authenticated_def test_api_def test_sys_def viewer_service_def
        test_oauth_eval user_granted_def)
  then show ?thesis using r by (simp add: get_alice_def test_sys_def)
qed

lemma user_ctx_username [simp]: "get_username (user_ctx s username usr) = u_username usr"
  by (simp add: user_ctx_def log_with_username_def) (simp add: background_def get_username_def)

lemma change_password_effect:
  assumes "api_user_change_password C env req ctx (s, w) = (r, s', w')"
    and "(\<exists>a. r = Reply a) \<or> s' \<noteq> s \<or> w' \<noteq> w"
  shows "get_username ctx = cp_username req \<and> (\<exists>u. gget (svc_users s) (cp_username req) = Some u
    \<and> bcrypt_compare env (u_password u) (cp_old_password req) = None)"
proof -
  let ?edit = "change_password_edit env (cp_username req) (cp_old_password req) (cp_new_password req)"
  have "get_username ctx = cp_username req"
    using assms by (auto simp: api_user_change_password_def split: if_splits)
  moreover obtain s1 where "?edit s = Inr s1"
    using assms
    by (cases "?edit s")
      (auto simp: api_user_change_password_def change_password_def mutate_def empty_reply_def split: if_splits)
  ultimately show ?thesis by (metis change_password_edit_Inr)
qed

lemma change_password_own:
  assumes "call_rpc c = UserChangePassword q" and "serve_call E acc nf c \<sigma> = (r, \<sigma>')"
    and "(\<exists>a. r = Reply a) \<or> sys_svc \<sigma>' \<noteq> sys_svc \<sigma> \<or> sys_cluster \<sigma>' \<noteq> sys_cluster \<sigma>"
  shows "\<exists>username usr u.
    authenticated (ae_oauth E) (sys_svc \<sigma>) (sys_tokens \<sigma>) (call_bearer c) username usr
    \<and> u_username usr = cp_username q \<and> gget (svc_users (sys_svc \<sigma>)) (cp_username q) = Some u
    \<and> bcrypt_compare (ae_go E) (u_password u) (cp_old_password q) = None"
proof -
  from assms(2) show ?thesis
  proof (cases rule: serve_call_cases)
    case (refused m f)
    then show ?thesis using assms(3) by simp
  next
    case opened
    then show ?thesis using assms(1) by (simp add: open_methods_def)
  next
    case (user username usr f)
    let ?ctx = "log_with_trace_id (call_trace_id c) (user_ctx (sys_svc \<sigma>) username usr)"
    from user(2) obtain \<sigma>1 r2 \<sigma>2 where
      h: "dispatch E (call_bearer c) (call_rpc c) ?ctx \<sigma>1 = (r2, \<sigma>2)"
      and st: "sys_svc \<sigma>1 = sys_svc \<sigma>" "sys_cluster \<sigma>1 = sys_cluster \<sigma>" "sys_svc \<sigma>' = sys_svc \<sigma>2"
        "sys_cluster \<sigma>' = sys_cluster \<sigma>2"
      and r: "r = converted nf ?ctx r2"
      by (rule inner_chain_handler) simp
    obtain r3 s' w' where h3: "api_user_change_password (ae_conn E) (ae_go E) q ?ctx
        (sys_svc \<sigma>, sys_cluster \<sigma>) = (r3, s', w')" by (rule prod_cases3)
    then have "sys_svc \<sigma>2 = s'" "sys_cluster \<sigma>2 = w'" "(\<exists>a. r2 = Reply a) \<longleftrightarrow> (\<exists>a. r3 = Reply a)"
      using h st assms(1) by (auto simp: answering_def on_api_def split: outcome.splits)
    then have "(\<exists>a. r3 = Reply a) \<or> s' \<noteq> sys_svc \<sigma> \<or> w' \<noteq> sys_cluster \<sigma>"
      using assms(3) r st by (auto simp: converted_Reply)
    then show ?thesis using change_password_effect [OF h3] user(1) by auto
  qed
qed

text \<open>C9: Users and roles, and so every password, change only over two kinds of calls. One is a change of
  the caller's own password, whose token belongs to the user named in the request and whose old
  password matches that user's stored hash (and no other password change is answered). The other is a
  call of a user who holds the permission to create, update or delete users; an administrator may set
  passwords without knowing the old ones.\<close>

theorem change_password_is_own:
  assumes "serve_call E acc nf c \<sigma> = (r, \<sigma>')"
    and "sys_svc \<sigma>' \<noteq> sys_svc \<sigma> \<or> (\<exists>q a. call_rpc c = UserChangePassword q \<and> r = Reply a)"
  shows "\<exists>username usr.
    authenticated (ae_oauth E) (sys_svc \<sigma>) (sys_tokens \<sigma>) (call_bearer c) username usr
    \<and> (case call_rpc c of
         UserChangePassword q \<Rightarrow> u_username usr = cp_username q
           \<and> (\<exists>u. gget (svc_users (sys_svc \<sigma>)) (cp_username q) = Some u
               \<and> bcrypt_compare (ae_go E) (u_password u) (cp_old_password q) = None)
       | _ \<Rightarrow> \<exists>p \<in> {PermCreate, PermUpdate, PermDelete}.
           user_granted (sys_svc \<sigma>) username ''user'' (permission_string p))"
proof (cases "\<exists>q. call_rpc c = UserChangePassword q")
  case True
  then obtain q where q: "call_rpc c = UserChangePassword q" by blast
  then show ?thesis using change_password_own [OF q assms(1)] assms(2) by auto
next
  case False
  then have ch: "sys_svc \<sigma>' \<noteq> sys_svc \<sigma>" using assms(2) by blast
  then have "\<not> same_users (dispatch E (call_bearer c) (call_rpc c))"
    using serve_call_same_users assms(1) by metis
  then obtain ps p where p: "required (call_rpc c) = Some (ScopeUser, ps)" "p \<in> set ps"
      "p \<in> {PermCreate, PermUpdate, PermDelete}"
    using dispatch_same_users False by metis
  obtain username usr where u: "authenticated (ae_oauth E) (sys_svc \<sigma>) (sys_tokens \<sigma>) (call_bearer c) username usr"
      "\<forall>p \<in> set ps. user_granted (sys_svc \<sigma>) username (scope_string ScopeUser) (permission_string p)"
    using dispatch_allowed [OF p(1) assms(1)] ch by metis
  then have "user_granted (sys_svc \<sigma>) username ''user'' (permission_string p)" using p(2) by auto
  then have "\<exists>p \<in> {PermCreate, PermUpdate, PermDelete}.
      user_granted (sys_svc \<sigma>) username ''user'' (permission_string p)" using p(3) by blast
  then show ?thesis using u(1) False by (cases "call_rpc c") auto
qed

definition alice_changes :: call where
  "alice_changes = \<lparr>call_rpc = UserChangePassword \<lparr>cp_username = ''alice'', cp_old_password = ''secret'',
     cp_new_password = ''new''\<rparr>, call_bearer = Inr ''for-alice'', call_trace_id = []\<rparr>"

theorem change_password_is_own_witness:
  "\<exists>username usr u. authenticated test_oauth viewer_service [] (Inr ''for-alice'') username usr
    \<and> u_username usr = ''alice'' \<and> gget (svc_users viewer_service) ''alice'' = Some u
    \<and> bcrypt_compare test_env (u_password u) ''secret'' = None"
proof -
  obtain r \<sigma>' where r: "serve_call test_api False [] alice_changes test_sys = (r, \<sigma>')" by fastforce
  then have "\<exists>a. r = Reply a"
    by (auto simp: call_eval alice_changes_def api_user_change_password_def change_password_def
        change_password_edit_def get_username_def kv_eval empty_reply_def)
  then show ?thesis
    using change_password_is_own [OF r] by (auto simp: alice_changes_def test_api_def test_sys_def)
qed

subsection \<open>Failures\<close>

lemma inner_chain_ends:
  "inner_chain e h ctx \<sigma> = (r, \<sigma>') \<Longrightarrow>
    (case r of Reply a \<Rightarrow> True | Failed e \<Rightarrow> is_status e | Panicked p \<Rightarrow> False)"
  by (cases r) (auto dest: inner_chain_status(1) simp: inner_chain_status(2))

lemma serve_call_ends:
  "case fst (serve_call E acc nf c \<sigma>) of Reply a \<Rightarrow> True | Failed e \<Rightarrow> is_status e | Panicked p \<Rightarrow> False"
proof -
  obtain r \<sigma>' where r: "serve_call E acc nf c \<sigma> = (r, \<sigma>')" by fastforce
  then show ?thesis
  proof (cases rule: serve_call_cases)
    case (refused m f)
    then show ?thesis using r by simp
  next
    case opened
    then show ?thesis using r inner_chain_ends by auto
  next
    case (user username usr f)
    then show ?thesis using r inner_chain_ends by auto
  qed
qed

text \<open>C12: No call panics: a panic of the handler becomes an error, and every error that leaves the
  server is a gRPC status.\<close>

theorem calls_end_in_a_status:
  "case fst (serve_call E acc nf c \<sigma>) of Reply a \<Rightarrow> True | Failed e \<Rightarrow> is_status e | Panicked p \<Rightarrow> False"
  by (rule serve_call_ends)

text \<open>The status code of an error is decided by the sentinel at its root.\<close>

definition code_of :: "go_error \<Rightarrow> grpc_code" where
  "code_of e =
    (case e of
       ErrNotImplemented \<Rightarrow> Unimplemented | ErrInvalidArg \<Rightarrow> InvalidArgument
     | ErrInvalidConfig \<Rightarrow> InvalidArgument | ErrNotFound \<Rightarrow> NotFound | ErrAlreadyExists \<Rightarrow> AlreadyExists
     | ErrUnauthenticated \<Rightarrow> Unauthenticated | ErrAccessDenied \<Rightarrow> PermissionDenied | _ \<Rightarrow> Internal)"

lemma errors_is_root: "(\<And>p e t. s \<noteq> Wrapped p e t) \<Longrightarrow> errors_is e s \<longleftrightarrow> root_cause e = s"
  by (induction e) auto

text \<open>C13: However often an error was wrapped, its status code is that of the sentinel at its root, or
  \<open>Internal\<close>, and the message is the sentinel's own text. The full text of the wrapped error reaches the
  client for invalid arguments only, as a detail of the status; for every other error it stays inside.\<close>

theorem error_conversion:
  "convert_api_error nf ctx e =
    StatusError (code_of (root_cause e))
      (error_text nf (if code_of (root_cause e) = Internal then ErrInternal else root_cause e))
      (RequestInfo (get_trace_id ctx) #
        (if code_of (root_cause e) = InvalidArgument then [ErrorInfo (error_text nf e)] else []))"
  by (cases "root_cause e") (simp_all add: convert_api_error_def errors_is_root code_of_def)

text \<open>The access log runs before the errors are converted, so it sees a status only in an error that
  already carries one: any other failure, be it a denied permission or a bad argument, is logged at
  level error with the code \<open>Unknown\<close>, whatever code the caller gets.\<close>

theorem failures_are_logged_as_unknown:
  assumes "handler (log_with_trace_id (re_trace_id e) ctx)
      (if re_access_log e then write_log (AccessLine (re_full_method e)) \<sigma> else \<sigma>) = (Failed err, \<sigma>1)"
    and "carried_code err = None"
  shows "inner_chain e handler ctx \<sigma> =
    (Failed (convert_api_error (re_not_found_text e) (log_with_trace_id (re_trace_id e) ctx) err),
     \<sigma>1\<lparr>sys_log := sys_log \<sigma>1 @
       [RpcLine LvlError Unknown (re_full_method e) False (error_text (re_not_found_text e) err),
        ApiErrorLine (error_text (re_not_found_text e) err)]\<rparr>)"
  using assms by (simp add: inner_chain_eq Let_def rpc_log_handler_def status_convert_def write_log_def)

theorem failures_are_logged_as_unknown_witness:
  "inner_chain (call_env False [] (get_alice ''for-bob'')) (dispatch test_api (Inr ''for-bob'') Check) background test_sys =
    (Failed (StatusError Unimplemented ''NotImplemented'' [RequestInfo ''t1'']),
     test_sys\<lparr>sys_log :=
       [RpcLine LvlError Unknown ''/ceph.Users/GetUser'' False ''NotImplemented'', ApiErrorLine ''NotImplemented'']\<rparr>)"
  using failures_are_logged_as_unknown [where handler = "dispatch test_api (Inr ''for-bob'') Check"
      and e = "call_env False [] (get_alice ''for-bob'')" and ctx = background and \<sigma> = test_sys
      and err = ErrNotImplemented and ?\<sigma>1.0 = test_sys]
  by (simp add: answering_def api_check_def call_env_def get_alice_def convert_api_error_def test_sys_def
      log_with_trace_id_def)




end
