(* ===== verification/Command_Text.thy ===== *)
theory Command_Text
  imports Crush_Api
begin

text \<open>
  The JSON texts of the commands: what the monitor's parser reads out of a text put together with
  \<open>%s\<close>, for texts that need no escaping and for texts that do.
\<close>

lemma json_string_literal:
  "list_all json_plain e \<Longrightarrow> json_string (e @ CHR 0x22 # t) = Some (e, t)"
  by (rule json_string_all_plain)

lemmas scan_eval = skip_ws_def is_ws_def eval_nat_numeral json_string_literal

lemma auth_del_parse:
  assumes "list_all json_plain e"
  shows "json_parse (auth_del_cmd e) = Some (JObj [(''prefix'', JStr ''auth del''), (''entity'', JStr e)])"
proof (rule json_parseI)
  show "json_value 6 (auth_del_cmd e)
      = Some (JObj [(''prefix'', JStr ''auth del''), (''entity'', JStr e)], [])"
    using assms by (simp add: auth_del_cmd_def scan_eval)
qed (simp add: skip_ws_def)

text \<open>A quote in the entity ends the text early, and what follows it becomes members of the command.\<close>

lemma auth_del_parse_injected:
  assumes "list_all json_plain e" and "list_all json_plain k" and "list_all json_plain v"
  shows "json_parse (auth_del_cmd (e @ ''\", \"'' @ k @ ''\": \"'' @ v))
    = Some (JObj [(''prefix'', JStr ''auth del''), (''entity'', JStr e), (k, JStr v)])"
proof (rule json_parseI)
  show "json_value 6 (auth_del_cmd (e @ ''\", \"'' @ k @ ''\": \"'' @ v))
      = Some (JObj [(''prefix'', JStr ''auth del''), (''entity'', JStr e), (k, JStr v)], [])"
    using assms by (simp add: auth_del_cmd_def scan_eval)
qed (simp add: skip_ws_def)

lemma auth_export_parse:
  assumes "list_all json_plain e"
  shows "json_parse (auth_export_cmd e) = Some (JObj [(''prefix'', JStr ''auth export''), (''entity'', JStr e)])"
proof (rule json_parseI)
  show "json_value 6 (auth_export_cmd e)
      = Some (JObj [(''prefix'', JStr ''auth export''), (''entity'', JStr e)], [])"
    using assms by (simp add: auth_export_cmd_def scan_eval)
qed (simp add: skip_ws_def)

lemma config_help_parse:
  assumes "list_all json_plain n"
  shows "json_parse (config_help_cmd n)
    = Some (JObj [(''prefix'', JStr ''config help''), (''key'', JStr n), (''format'', JStr ''json'')])"
proof (rule json_parseI)
  show "json_value 8 (config_help_cmd n)
      = Some (JObj [(''prefix'', JStr ''config help''), (''key'', JStr n), (''format'', JStr ''json'')], [])"
    using assms by (simp add: config_help_cmd_def scan_eval)
qed (simp add: skip_ws_def)

subsection \<open>Quoted capabilities\<close>

text \<open>The characters whose Go escape is also a JSON escape.\<close>

definition go_quotable :: "char \<Rightarrow> bool" where
  "go_quotable c \<longleftrightarrow> (CHR 0x20 \<le> c \<and> c < CHR 0x7F) \<or> c \<in> {CHR 0x08, CHR 0x0C, CHR 0x0A, CHR 0x0D, CHR 0x09}"

lemma json_string_control:
  "json_string (CHR 0x5C # CHR ''b'' # s) = prepend [CHR 0x08] (json_string s)"
  "json_string (CHR 0x5C # CHR ''f'' # s) = prepend [CHR 0x0C] (json_string s)"
  "json_string (CHR 0x5C # CHR ''n'' # s) = prepend [CHR 0x0A] (json_string s)"
  "json_string (CHR 0x5C # CHR ''r'' # s) = prepend [CHR 0x0D] (json_string s)"
  "json_string (CHR 0x5C # CHR ''t'' # s) = prepend [CHR 0x09] (json_string s)"
  "json_string (CHR 0x5C # CHR 0x22 # s) = prepend [CHR 0x22] (json_string s)"
  "json_string (CHR 0x5C # CHR 0x5C # s) = prepend [CHR 0x5C] (json_string s)"
  by (simp_all add: Go_Json.unescape_def)

lemma quote_rune_scan:
  assumes "go_quotable c"
  shows "json_string (quote_rune isp (byte c) @ s) = prepend [c] (json_string s)"
proof -
  consider "c \<in> {CHR 0x22, CHR 0x5C, CHR 0x08, CHR 0x0C, CHR 0x0A, CHR 0x0D, CHR 0x09}"
    | "CHR 0x20 \<le> c" "c < CHR 0x7F" "c \<noteq> CHR 0x22" "c \<noteq> CHR 0x5C"
    using assms by (auto simp: go_quotable_def)
  then show ?thesis
  proof cases
    case 1
    have c: "char_of (34::nat) = CHR 0x22" "char_of (92::nat) = CHR 0x5C"
      using char_of_byte [of "CHR 0x22"] char_of_byte [of "CHR 0x5C"] by (simp_all add: byte_def)
    from 1 show ?thesis
      by (elim insertE emptyE)
        (simp_all add: c quote_rune_def byte_def json_string_control del: json_string.simps)
  next
    case 2
    have q: "byte (CHR 0x22) = 0x22" "byte (CHR 0x5C) = 0x5C" by (simp_all add: byte_def)
    have b1: "0x20 \<le> byte c" "byte c < 0x7F" "c < CHR 0x80"
      using 2 by (auto simp: less_char_def less_eq_char_def byte_def)
    have b2: "byte c \<noteq> 0x22" "byte c \<noteq> 0x5C"
      using 2(3,4) byte_inj q by metis+
    from b1 b2 have "quote_rune isp (byte c) = [c]"
      by (simp add: quote_rune_def encode_rune_ascii)
    then show ?thesis using 2 b1(3) by (auto simp: less_char_def less_eq_char_def)
  qed
qed

lemma quote_scan:
  "list_all go_quotable s \<Longrightarrow> json_string (quote_body isp s @ CHR 0x22 # t) = Some (s, t)"
proof (induction s)
  case Nil
  then show ?case by simp
next
  case (Cons c s)
  then have "c < CHR 0x80" by (auto simp: go_quotable_def less_char_def less_eq_char_def)
  then show ?case using Cons quote_rune_scan [of c] by (simp add: quote_body_ascii del: json_string.simps)
qed

lemma json_value_quote:
  "list_all go_quotable s \<Longrightarrow> json_value (Suc n) (strconv_quote isp s @ t) = Some (JStr s, t)"
  using quote_scan [of s isp t]
  by (simp add: strconv_quote_def skip_ws_def is_ws_def del: json_string.simps)

definition caps_strings :: "string gomap \<Rightarrow> string list" where
  "caps_strings caps = concat (map (\<lambda>(k, v). [k, v]) caps)"

lemma caps_text_eq: "caps_text isp caps = join '','' (map (strconv_quote isp) (caps_strings caps))"
proof -
  have "concat (map (\<lambda>(k, v). [strconv_quote isp k, strconv_quote isp v]) caps)
      = map (strconv_quote isp) (caps_strings caps)"
    by (induction caps) (auto simp: caps_strings_def)
  then show ?thesis by (simp add: caps_text_def)
qed

lemma quoted_elems_scan:
  "ss \<noteq> [] \<Longrightarrow> list_all (list_all go_quotable) ss \<Longrightarrow>
    json_elems (Suc (Suc (length ss))) (join '','' (map (strconv_quote isp) ss) @ CHR '']'' # t)
      = Some (map JStr ss, t)"
proof (induction ss)
  case (Cons s ss)
  show ?case
  proof (cases "ss = []")
    case True
    then show ?thesis
      using json_elems_last [OF json_value_quote] Cons.prems by simp
  next
    case False
    let ?r = "join '','' (map (strconv_quote isp) ss) @ CHR '']'' # t"
    have "json_elems (Suc (Suc (length ss))) ?r = Some (map JStr ss, t)"
      using Cons False by simp
    moreover have "json_value (Suc (Suc (length ss))) (strconv_quote isp s @ CHR '','' # ?r)
        = Some (JStr s, CHR '','' # ?r)"
      by (rule json_value_quote) (use Cons.prems in simp)
    ultimately have "json_elems (Suc (Suc (Suc (length ss)))) (strconv_quote isp s @ CHR '','' # ?r)
        = Some (JStr s # map JStr ss, t)"
      by (rule json_elems_cons [rotated])
    then show ?thesis using False by (simp add: join_Cons)
  qed
qed simp

subsection \<open>Commands that carry capabilities\<close>

lemma caps_array_scan:
  assumes "list_all (list_all go_quotable) (caps_strings caps)"
  shows "\<exists>n. json_value n (CHR ''['' # caps_text isp caps @ CHR '']'' # t) = Some (JArr (map JStr (caps_strings caps)), t)"
proof (cases "caps_strings caps")
  case Nil
  then have "json_value 1 (CHR ''['' # caps_text isp caps @ CHR '']'' # t) = Some (JArr (map JStr (caps_strings caps)), t)"
    by (simp add: caps_text_eq skip_ws_def is_ws_def)
  then show ?thesis by blast
next
  case (Cons s ss)
  let ?n = "Suc (Suc (length (caps_strings caps)))"
  have e: "json_elems ?n (caps_text isp caps @ CHR '']'' # t) = Some (map JStr (caps_strings caps), t)"
    unfolding caps_text_eq by (rule quoted_elems_scan) (use assms Cons in simp_all)
  have "\<exists>u. caps_text isp caps = CHR 0x22 # u"
    using Cons by (cases ss) (simp_all add: caps_text_eq strconv_quote_def join_Cons)
  then obtain u where u: "caps_text isp caps = CHR 0x22 # u" by blast
  have "json_value (Suc ?n) (CHR ''['' # caps_text isp caps @ CHR '']'' # t)
      = Some (JArr (map JStr (caps_strings caps)), t)"
    using e by (subst json_value.simps) (simp add: u skip_ws_def is_ws_def del: json_elems.simps)
  then show ?thesis by blast
qed

lemma caps_members_scan:
  assumes "list_all json_plain p" and "list_all json_plain e"
    and "list_all (list_all go_quotable) (caps_strings caps)"
  shows "json_parse (''{\"prefix\": \"'' @ p @ ''\", \"entity\": \"'' @ e @ ''\", \"caps\": ['' @ caps_text isp caps @ '']}'')
    = Some (JObj [(''prefix'', JStr p), (''entity'', JStr e), (''caps'', JArr (map JStr (caps_strings caps)))])"
proof -
  obtain n where n: "json_value n (CHR ''['' # caps_text isp caps @ CHR '']'' # ''}'')
      = Some (JArr (map JStr (caps_strings caps)), ''}'')"
    using caps_array_scan [OF assms(3)] by blast
  then obtain m where m: "n = Suc m" by (cases n) simp_all
  have sp: "json_value n (CHR '' '' # CHR ''['' # caps_text isp caps @ CHR '']'' # ''}'')
      = Some (JArr (map JStr (caps_strings caps)), ''}'')"
    using n by (simp add: m skip_ws_def is_ws_def)
  have "json_members (Suc n) ('' \"caps\": ['' @ caps_text isp caps @ '']}'')
      = Some ([(''caps'', JArr (map JStr (caps_strings caps)))], [])"
    using sp by (simp add: skip_ws_def is_ws_def del: json_value.simps)
  then have "json_members (Suc (Suc n)) ('' \"entity\": \"'' @ e @ ''\", \"caps\": ['' @ caps_text isp caps @ '']}'')
      = Some ([(''entity'', JStr e), (''caps'', JArr (map JStr (caps_strings caps)))], [])"
    using assms(2) by (subst json_members.simps)
      (simp add: skip_ws_def is_ws_def m json_string_literal del: json_members.simps)
  then have "json_members (Suc (Suc (Suc n)))
      (''\"prefix\": \"'' @ p @ ''\", \"entity\": \"'' @ e @ ''\", \"caps\": ['' @ caps_text isp caps @ '']}'')
      = Some ([(''prefix'', JStr p), (''entity'', JStr e), (''caps'', JArr (map JStr (caps_strings caps)))], [])"
    using assms(1) by (subst json_members.simps)
      (simp add: skip_ws_def is_ws_def m json_string_literal del: json_members.simps)
  then have "json_value (Suc (Suc (Suc (Suc n))))
      (''{\"prefix\": \"'' @ p @ ''\", \"entity\": \"'' @ e @ ''\", \"caps\": ['' @ caps_text isp caps @ '']}'')
      = Some (JObj [(''prefix'', JStr p), (''entity'', JStr e), (''caps'', JArr (map JStr (caps_strings caps)))], [])"
    by (subst json_value.simps) (simp add: skip_ws_def is_ws_def del: json_members.simps)
  then show ?thesis by (rule json_parseI) (simp add: skip_ws_def)
qed

lemma auth_caps_parse:
  assumes "list_all json_plain e" and "list_all (list_all go_quotable) (caps_strings caps)"
  shows "json_parse (auth_add_cmd isp e caps)
      = Some (JObj [(''prefix'', JStr ''auth add''), (''entity'', JStr e), (''caps'', JArr (map JStr (caps_strings caps)))])"
    and "json_parse (auth_caps_cmd isp e caps)
      = Some (JObj [(''prefix'', JStr ''auth caps''), (''entity'', JStr e), (''caps'', JArr (map JStr (caps_strings caps)))])"
  using caps_members_scan [of "''auth add''" e caps isp] caps_members_scan [of "''auth caps''" e caps isp] assms
  by (simp_all add: auth_add_cmd_def auth_caps_cmd_def json_plain_def)

subsection \<open>Capabilities that cannot be quoted\<close>

text \<open>Any other ASCII character becomes an escape that JSON does not have.\<close>

lemma json_string_bad_escape:
  "json_string (CHR 0x5C # CHR ''a'' # s) = None" "json_string (CHR 0x5C # CHR ''v'' # s) = None"
  "json_string (CHR 0x5C # CHR ''x'' # s) = None"
  by (simp_all add: Go_Json.unescape_def)

lemma quote_rune_bad:
  assumes "c < CHR 0x80" and "\<not> go_quotable c"
  shows "json_string (quote_rune isp (byte c) @ s) = None"
proof -
  have b: "byte c < 0x80" using assms(1) by (simp add: less_80_iff)
  have e: "byte c = byte d \<Longrightarrow> c = d" for d using byte_inj by metis
  have n: "byte c \<notin> {0x08, 0x0C, 0x0A, 0x0D, 0x09}"
    using assms(2) e [of "CHR 0x08"] e [of "CHR 0x0C"] e [of "CHR 0x0A"] e [of "CHR 0x0D"] e [of "CHR 0x09"]
    by (auto simp: go_quotable_def byte_def)
  have r: "\<not> (0x20 \<le> byte c \<and> byte c < 0x7F)"
    using assms(2) by (auto simp: go_quotable_def less_char_def less_eq_char_def byte_def)
  then have "byte c = 0x7F \<or> byte c < 0x20" using b by auto
  then have q: "byte c \<noteq> 0x22 \<and> byte c \<noteq> 0x5C" by auto
  have "\<exists>x. x \<in> {CHR ''a'', CHR ''v'', CHR ''x''} \<and> (\<exists>t. quote_rune isp (byte c) = CHR 0x5C # x # t)"
    using b n r q by (auto simp: quote_rune_def)
  then show ?thesis using json_string_bad_escape by (auto simp del: json_string.simps)
qed

lemma quote_scan_bad:
  "list_all (\<lambda>c. c < CHR 0x80) s \<Longrightarrow> \<not> list_all go_quotable s \<Longrightarrow> json_string (quote_body isp s @ t) = None"
proof (induction s)
  case (Cons c s)
  then show ?case
    using quote_rune_scan [of c] quote_rune_bad [of c]
    by (cases "go_quotable c") (simp_all add: quote_body_ascii prepend_def del: json_string.simps)
qed simp

lemma json_value_quote_bad:
  "list_all (\<lambda>c. c < CHR 0x80) s \<Longrightarrow> \<not> list_all go_quotable s \<Longrightarrow> json_value n (strconv_quote isp s @ t) = None"
  using quote_scan_bad [of s isp "CHR 0x22 # t"]
  by (cases n) (simp_all add: strconv_quote_def skip_ws_def is_ws_def del: json_string.simps)

lemma quoted_elems_bad:
  "list_all (list_all (\<lambda>c. c < CHR 0x80)) ss \<Longrightarrow> \<not> list_all (list_all go_quotable) ss \<Longrightarrow>
    json_elems n (join '','' (map (strconv_quote isp) ss) @ t) = None"
proof (induction ss arbitrary: n)
  case (Cons s ss)
  let ?r = "(if ss = [] then t else CHR '','' # join '','' (map (strconv_quote isp) ss) @ t)"
  have eq: "join '','' (map (strconv_quote isp) (s # ss)) @ t = strconv_quote isp s @ ?r"
    by (simp add: join_Cons)
  show ?case
  proof (cases n)
    case (Suc m)
    show ?thesis
    proof (cases "list_all go_quotable s")
      case False
      then have "json_value m (strconv_quote isp s @ ?r) = None"
        using Cons.prems(1) by (intro json_value_quote_bad) simp_all
      then show ?thesis unfolding eq Suc by (simp del: json_value.simps)
    next
      case True
      then have bad: "\<not> list_all (list_all go_quotable) ss" "ss \<noteq> []" using Cons.prems(2) by auto
      then have "json_elems m (join '','' (map (strconv_quote isp) ss) @ t) = None"
        using Cons.IH [of m] Cons.prems(1) by simp
      moreover have "json_value m (strconv_quote isp s @ ?r) \<in> {None, Some (JStr s, ?r)}"
        using json_value_quote [OF True] by (cases m) simp_all
      ultimately show ?thesis
        unfolding eq Suc using bad(2) by (auto simp: skip_ws_def is_ws_def simp del: json_value.simps)
    qed
  qed simp
qed simp

lemma json_members_no_value:
  assumes "list_all json_plain k" and "\<And>m. json_value m u = None"
  shows "json_members n (CHR '' '' # CHR 0x22 # k @ CHR 0x22 # CHR '':'' # u) = None"
    and "json_members n (CHR 0x22 # k @ CHR 0x22 # CHR '':'' # u) = None"
  using assms
  by (cases n; simp add: skip_ws_def is_ws_def json_string_literal del: json_value.simps)+

lemma json_members_no_rest:
  assumes "list_all json_plain k" and "list_all json_plain v" and "\<And>m. json_members m u = None"
  shows "json_members n (CHR '' '' # CHR 0x22 # k @ CHR 0x22 # CHR '':'' # CHR '' '' # CHR 0x22 # v @ CHR 0x22 # CHR '','' # u) = None"
    and "json_members n (CHR 0x22 # k @ CHR 0x22 # CHR '':'' # CHR '' '' # CHR 0x22 # v @ CHR 0x22 # CHR '','' # u) = None"
proof -
  have "json_value m (CHR '' '' # CHR 0x22 # v @ CHR 0x22 # CHR '','' # u) \<in> {None, Some (JStr v, CHR '','' # u)}" for m
    using assms(2) by (cases m) (simp_all add: skip_ws_def is_ws_def json_string_literal)
  then have v: "json_value m (CHR '' '' # CHR 0x22 # v @ CHR 0x22 # CHR '','' # u) = None
      \<or> json_value m (CHR '' '' # CHR 0x22 # v @ CHR 0x22 # CHR '','' # u) = Some (JStr v, CHR '','' # u)" for m by simp
  have n: "json_members n (CHR 0x22 # k @ CHR 0x22 # CHR '':'' # CHR '' '' # CHR 0x22 # v @ CHR 0x22 # CHR '','' # u) = None"
  proof (cases n)
    case (Suc m)
    show ?thesis
      using v [of m] assms(1,3) unfolding Suc
      by (auto simp: skip_ws_def is_ws_def json_string_literal simp del: json_value.simps)
  qed simp
  then show "json_members n (CHR 0x22 # k @ CHR 0x22 # CHR '':'' # CHR '' '' # CHR 0x22 # v @ CHR 0x22 # CHR '','' # u) = None" .
  have "json_members n (CHR '' '' # CHR 0x22 # s) = json_members n (CHR 0x22 # s)" for s
    by (cases n) (simp_all add: skip_ws_def is_ws_def del: json_value.simps)
  then show "json_members n (CHR '' '' # CHR 0x22 # k @ CHR 0x22 # CHR '':'' # CHR '' '' # CHR 0x22 # v @ CHR 0x22 # CHR '','' # u) = None"
    using n by simp
qed

lemma caps_members_bad:
  assumes "list_all json_plain p" and "list_all json_plain e"
    and "list_all (list_all (\<lambda>c. c < CHR 0x80)) (caps_strings caps)"
    and "\<not> list_all (list_all go_quotable) (caps_strings caps)"
  shows "json_parse (''{\"prefix\": \"'' @ p @ ''\", \"entity\": \"'' @ e @ ''\", \"caps\": ['' @ caps_text isp caps @ '']}'') = None"
proof -
  obtain s ss where "caps_strings caps = s # ss" using assms(4) by (cases "caps_strings caps") simp_all
  then have q: "\<exists>u. caps_text isp caps = CHR 0x22 # u"
    by (cases ss) (simp_all add: caps_text_eq strconv_quote_def join_Cons)
  have "json_elems m (caps_text isp caps @ '']}'') = None" for m
    unfolding caps_text_eq by (rule quoted_elems_bad [OF assms(3,4)])
  then have arr: "json_value m (CHR '' '' # CHR ''['' # caps_text isp caps @ '']}'') = None" for m
    using q by (cases m) (auto simp: skip_ws_def is_ws_def simp del: json_elems.simps)
  have "json_members m (CHR '' '' # CHR 0x22 # ''caps'' @ CHR 0x22 # CHR '':'' # CHR '' '' # CHR ''['' # caps_text isp caps @ '']}'') = None" for m
    by (rule json_members_no_value(1) [OF _ arr]) (simp add: json_plain_def)
  then have "json_members m (CHR '' '' # CHR 0x22 # ''entity'' @ CHR 0x22 # CHR '':'' # CHR '' '' # CHR 0x22 # e @ CHR 0x22 # CHR '','' #
      CHR '' '' # CHR 0x22 # ''caps'' @ CHR 0x22 # CHR '':'' # CHR '' '' # CHR ''['' # caps_text isp caps @ '']}'') = None" for m
    by (rule json_members_no_rest(1) [OF _ assms(2), rotated]) (simp add: json_plain_def)
  then have "json_members m (CHR 0x22 # ''prefix'' @ CHR 0x22 # CHR '':'' # CHR '' '' # CHR 0x22 # p @ CHR 0x22 # CHR '','' #
      CHR '' '' # CHR 0x22 # ''entity'' @ CHR 0x22 # CHR '':'' # CHR '' '' # CHR 0x22 # e @ CHR 0x22 # CHR '','' #
      CHR '' '' # CHR 0x22 # ''caps'' @ CHR 0x22 # CHR '':'' # CHR '' '' # CHR ''['' # caps_text isp caps @ '']}'') = None" for m
    by (rule json_members_no_rest(2) [OF _ assms(1), rotated]) (simp add: json_plain_def)
  then show ?thesis
    by (simp add: json_parse_def skip_ws_def is_ws_def del: json_members.simps)
qed

lemma auth_caps_bad:
  assumes "list_all json_plain e" and "list_all (list_all (\<lambda>c. c < CHR 0x80)) (caps_strings caps)"
    and "\<not> list_all (list_all go_quotable) (caps_strings caps)"
  shows "json_parse (auth_add_cmd isp e caps) = None" and "json_parse (auth_caps_cmd isp e caps) = None"
  using caps_members_bad [of "''auth add''" e caps isp] caps_members_bad [of "''auth caps''" e caps isp] assms
  by (simp_all add: auth_add_cmd_def auth_caps_cmd_def json_plain_def)

subsection \<open>Marshalled commands and the status command\<close>

lemma marshal_cmd_parse:
  assumes "list_all (\<lambda>(k, v). ascii k \<and> ascii v) m"
  shows "json_parse (marshal_cmd m) = Some (JObj (map (\<lambda>(k, v). (k, JStr v)) (sort_key fst m)))"
proof -
  have "json_ok (enc_entries JStr m)"
    by (rule json_ok_enc_entries) (use assms in \<open>auto simp: list_all_iff\<close>)
  then show ?thesis by (simp add: marshal_cmd_def json_parse_print) (simp add: enc_entries_def)
qed

lemma itoa_plain: "list_all json_plain (itoa i)"
proof -
  have "list_all is_digit s \<Longrightarrow> list_all json_plain s" for s
    by (auto simp: list_all_iff is_digit_def json_plain_def less_char_def less_eq_char_def of_char_eq_iff [symmetric])
  then show ?thesis using nat_digits_digits by (simp add: itoa_def) (simp add: json_plain_def)
qed

lemma status_name_plain: "list_all json_plain (enum_string cluster_status_name s)"
  by (simp add: enum_string_def cluster_status_name_def itoa_plain) (simp add: json_plain_def)

lemma status_set_parse:
  "json_parse (status_set_cmd s)
    = Some (JObj [(''prefix'', JStr ''config-key set''), (''key'', JStr ''mgr/dashboard/cluster/status''),
        (''val'', JStr (enum_string cluster_status_name s))])"
proof (rule json_parseI)
  show "json_value 8 (status_set_cmd s)
      = Some (JObj [(''prefix'', JStr ''config-key set''), (''key'', JStr ''mgr/dashboard/cluster/status''),
        (''val'', JStr (enum_string cluster_status_name s))], [])"
    using status_name_plain [of s] by (simp add: status_set_cmd_def scan_eval)
qed (simp add: skip_ws_def)

lemma status_get_parse:
  "json_parse status_get_cmd
    = Some (JObj [(''prefix'', JStr ''config-key get''), (''key'', JStr ''mgr/dashboard/cluster/status'')])"
proof (rule json_parseI)
  show "json_value 6 status_get_cmd
      = Some (JObj [(''prefix'', JStr ''config-key get''), (''key'', JStr ''mgr/dashboard/cluster/status'')], [])"
    by (simp add: status_get_cmd_def scan_eval)
qed (simp add: skip_ws_def)

end
