(* ===== verification/Config_Facts.thy ===== *)
theory Config_Facts
  imports Ceph_Config
begin

text \<open>
  What merging and searching the configuration parameters compute: the merge of two sorted lists is
  a lookup of every listed name, and a search is the sorted list of the parameters that match.
\<close>

subsection \<open>Merging\<close>

text \<open>The reference: each name of the cluster is looked up in the base, and fetched if it is not there.\<close>

fun lookup_params ::
  "(string \<Rightarrow> 'w \<Rightarrow> config_param_info res \<times> 'w) \<Rightarrow> config_param_info list \<Rightarrow> string list \<Rightarrow> 'w
    \<Rightarrow> config_param_info list res \<times> 'w" where
  "lookup_params fetch base [] w = (Inr [], w)"
| "lookup_params fetch base (b # cluster) w =
    (case List.find (\<lambda>p. cpi_name p = b) base of
       Some p \<Rightarrow> cons_result p (lookup_params fetch base cluster w)
     | None \<Rightarrow>
         (case fetch b w of
            (Inl err, w') \<Rightarrow> (Inl err, w')
          | (Inr p, w') \<Rightarrow> cons_result p (lookup_params fetch base cluster w')))"

lemma find_None_greater:
  "\<forall>p \<in> set base. b < cpi_name p \<Longrightarrow> List.find (\<lambda>p. cpi_name p = b) base = None"
  by (auto simp: find_None_iff)

lemma lookup_params_drop:
  "\<forall>c \<in> set cluster. cpi_name a \<noteq> c \<Longrightarrow>
    lookup_params fetch (a # base) cluster w = lookup_params fetch base cluster w"
  by (induction fetch base cluster w rule: lookup_params.induct)
    (auto split: option.split sum.split prod.split)

lemma merge_params_lookup:
  "sorted_wrt (<) (map cpi_name base) \<Longrightarrow> sorted_wrt (<) cluster \<Longrightarrow>
    merge_params fetch base cluster w = lookup_params fetch base cluster w"
proof (induction fetch base cluster w rule: merge_params.induct)
  case (3 fetch a base b cluster w)
  consider "cpi_name a = b" | "b < cpi_name a" | "cpi_name a < b" by (rule linorder_cases)
  then show ?case
  proof cases
    case 1
    then have "\<forall>c \<in> set cluster. cpi_name a \<noteq> c" using 3 by auto
    then show ?thesis using 1 3 by (simp add: lookup_params_drop)
  next
    case 2
    then have "List.find (\<lambda>p. cpi_name p = b) (a # base) = None"
      using 3 by (intro find_None_greater) auto
    then show ?thesis using 2 3 by (auto split: sum.split prod.split)
  next
    case 3
    then have "\<forall>c \<in> set (b # cluster). cpi_name a \<noteq> c" using "3.prems" by auto
    then have "lookup_params fetch (a # base) (b # cluster) w = lookup_params fetch base (b # cluster) w"
      by (rule lookup_params_drop)
    moreover have "\<not> cpi_name a = b" "\<not> b < cpi_name a" using 3 by auto
    ultimately show ?thesis using "3.IH"(3) "3.prems" by simp
  qed
qed (auto split: sum.split prod.split)

lemma lookup_params_names:
  assumes "\<And>b w p w'. fetch b w = (Inr p, w') \<Longrightarrow> cpi_name p = b"
  shows "lookup_params fetch base cluster w = (Inr ps, w') \<Longrightarrow> map cpi_name ps = cluster"
proof (induction cluster arbitrary: w ps)
  case (Cons b cluster)
  show ?case
  proof (cases "List.find (\<lambda>p. cpi_name p = b) base")
    case None
    then obtain p w1 where f: "fetch b w = (Inr p, w1)"
      using Cons.prems by (cases "fetch b w", cases "fst (fetch b w)") auto
    obtain qs w2 where q: "lookup_params fetch base cluster w1 = (Inr qs, w2)"
      using Cons.prems None f by (cases "lookup_params fetch base cluster w1",
        cases "fst (lookup_params fetch base cluster w1)") (auto simp: cons_result_def)
    then have "ps = p # qs" "w' = w2" using Cons.prems None f by (auto simp: cons_result_def)
    then show ?thesis using Cons.IH [of w1 qs] q assms [OF f] by simp
  next
    case (Some p)
    obtain qs w2 where q: "lookup_params fetch base cluster w = (Inr qs, w2)"
      using Cons.prems Some by (cases "lookup_params fetch base cluster w",
        cases "fst (lookup_params fetch base cluster w)") (auto simp: cons_result_def)
    then have "ps = p # qs" "w' = w2" using Cons.prems Some by (auto simp: cons_result_def)
    moreover have "cpi_name p = b" using Some by (auto simp: find_Some_iff)
    ultimately show ?thesis using Cons.IH [of w qs] q by simp
  qed
qed simp

subsection \<open>Searching\<close>

lemma search_loop_filter:
  assumes "unique_name q" and "distinct (map cpi_name params)"
  shows "search_loop (query_matches ul sprint q) (unique_name q) params = filter (query_matches ul sprint q) params"
  using assms(2)
proof (induction params)
  case (Cons info params)
  show ?case
  proof (cases "query_matches ul sprint q info")
    case True
    obtain n where n: "q_name q = Some n" "n \<noteq> []" "\<not> contains_any n ''*?[]''"
      using assms(1) by (auto simp: unique_name_def split: option.splits)
    have name: "cpi_name i = strip_escapes n" if "query_matches ul sprint q i" for i
      using that n filepath_match_literal [OF n(3)]
      by (simp add: query_matches_def matches_name_def match_wildcard_def)
    have "\<not> query_matches ul sprint q i" if "i \<in> set params" for i
      using Cons.prems that name [OF True] name by force
    then have "filter (query_matches ul sprint q) params = []" by simp
    then show ?thesis using True assms(1) by simp
  next
    case False
    then show ?thesis using Cons by simp
  qed
qed simp

lemma search_loop_all: "\<not> u \<Longrightarrow> search_loop m u params = filter m params"
  by (induction params) simp_all

lemma search_loop_eq:
  "distinct (map cpi_name params) \<Longrightarrow>
    search_loop (query_matches ul sprint q) (unique_name q) params = filter (query_matches ul sprint q) params"
  using search_loop_filter search_loop_all by (cases "unique_name q") simp_all

definition field_key :: "int \<Rightarrow> config_param_info \<Rightarrow> string" where
  "field_key fld p = (if fld = 0 then cpi_name p else if fld = 1 then cpi_type p else cpi_level p)"

lemma info_less_key:
  "fld \<in> {0, 1, 2} \<Longrightarrow> info_less fld order =
    (if order = 0 then (\<lambda>a b. field_key fld a < field_key fld b) else (\<lambda>a b. field_key fld b < field_key fld a))"
  by (rule ext)+ (auto simp: info_less_def field_key_def)

lemma sort_results_mset: "sort_slice_ok srt \<Longrightarrow> mset (sort_results srt rs fld order) = mset rs"
  by (simp add: sort_results_def sort_slice_mset)

lemma sort_results_sorted:
  assumes "sort_slice_ok srt" and "fld \<in> {0, 1, 2}"
  shows "if order = 0 then sorted (map (field_key fld) (sort_results srt rs fld order))
    else sorted (rev (map (field_key fld) (sort_results srt rs fld order)))"
proof (cases "length rs \<le> 1")
  case True
  then obtain "rs = [] \<or> (\<exists>r. rs = [r])" by (cases rs) auto
  then show ?thesis by (auto simp: sort_results_def)
next
  case False
  then show ?thesis
    using sort_slice_sorted [OF assms(1), of "field_key fld" rs]
    by (simp add: sort_results_def info_less_key [OF assms(2)])
qed

end
