(* ===== verification/Cluster_Properties.thy ===== *)
theory Cluster_Properties
  imports Command_Text Config_Facts Users_Api
begin

text \<open>
  The properties of the \<open>Cluster\<close> and \<open>CrushRule\<close> handlers and of the configuration parameters behind
  them.
\<close>

subsection \<open>A concrete cluster for the witnesses\<close>

text \<open>It keeps the value of its one configuration key, and reads its commands as JSON.\<close>

definition ck_mon :: "string \<Rightarrow> string option \<Rightarrow> cmd_result \<times> string option" where
  "ck_mon cmd w =
    (case json_parse cmd of
       Some (JObj [(p, JStr c), (k, JStr key), (v, JStr val)]) \<Rightarrow>
         if c = ''config-key set'' then (([], [], None), Some val) else (([], [], None), w)
     | Some (JObj [(p, JStr c), (k, JStr key)]) \<Rightarrow>
         (case w of None \<Rightarrow> (([], [], Some RadosErrorNotFound), w) | Some val \<Rightarrow> ((val, [], None), w))
     | _ \<Rightarrow> (([], [], Some (Foreign ''bad command'')), w))"

definition ck_conn :: "string option rados_conn" where
  "ck_conn = \<lparr>mon_command = ck_mon, mon_command_with_input_buffer = (\<lambda>cmd. ck_mon),
     mgr_command = (\<lambda>args w. (([], [], None), w)), shutdown = (\<lambda>w. w)\<rparr>"

text \<open>A context with one permission.\<close>

definition ctx_with :: "scope \<Rightarrow> permission \<Rightarrow> req_ctx" where
  "ctx_with sc p = set_permissions (Some [(scope_string sc, [permission_string p])]) background"

lemma ctx_with_ok [simp]: "has_permissions (ctx_with sc p) sc [p] = None"
  by (simp add: has_permissions_def ctx_with_def gslice_def)

subsection \<open>Commands the cluster gets\<close>

text \<open>C20: Deleting a user of the cluster sends the monitor a command that reads as \<open>auth del\<close> of exactly
  that entity, when the entity's name needs no escaping; but a name with a quote in it ends the text
  early, and puts any further member into the command.\<close>

theorem delete_user_command_text:
  assumes "list_all json_plain e" and "list_all json_plain k" and "list_all json_plain v"
  shows "json_parse (auth_del_cmd e) = Some (JObj [(''prefix'', JStr ''auth del''), (''entity'', JStr e)])
    \<and> json_parse (auth_del_cmd (e @ ''\", \"'' @ k @ ''\": \"'' @ v))
      = Some (JObj [(''prefix'', JStr ''auth del''), (''entity'', JStr e), (k, JStr v)])"
  using auth_del_parse [OF assms(1)] auth_del_parse_injected [OF assms] by (rule conjI)

theorem delete_user_command_text_witness:
  "json_parse (auth_del_cmd ''client.x'')
      = Some (JObj [(''prefix'', JStr ''auth del''), (''entity'', JStr ''client.x'')])
    \<and> json_parse (auth_del_cmd (''client.x'' @ ''\", \"'' @ ''entity'' @ ''\": \"'' @ ''client.admin''))
      = Some (JObj [(''prefix'', JStr ''auth del''), (''entity'', JStr ''client.x''),
          (''entity'', JStr ''client.admin'')])"
  by (rule delete_user_command_text) (simp_all add: json_plain_def)

text \<open>C19: For an entity that needs no escaping and capabilities of ASCII text, the commands \<open>auth add\<close> and
  \<open>auth caps\<close> read as the list of the capabilities' names and values in turn, whatever quotes,
  backslashes and line breaks these hold, exactly as long as every character is printable or one of
  the five control characters that JSON can escape by a letter. Any other character (a bell, a
  vertical tab, a delete, \<dots>) is quoted by Go in a way JSON does not know, and the whole command cannot
  be read.\<close>

theorem capabilities_survive_quoting:
  assumes "list_all json_plain e" and "list_all (\<lambda>(k, v). ascii k \<and> ascii v) caps"
  shows "json_parse (auth_add_cmd isp e caps)
      = (if list_all (\<lambda>(k, v). list_all go_quotable k \<and> list_all go_quotable v) caps
         then Some (JObj [(''prefix'', JStr ''auth add''), (''entity'', JStr e),
           (''caps'', JArr (concat (map (\<lambda>(k, v). [JStr k, JStr v]) caps)))])
         else None)
    \<and> json_parse (auth_caps_cmd isp e caps)
      = (if list_all (\<lambda>(k, v). list_all go_quotable k \<and> list_all go_quotable v) caps
         then Some (JObj [(''prefix'', JStr ''auth caps''), (''entity'', JStr e),
           (''caps'', JArr (concat (map (\<lambda>(k, v). [JStr k, JStr v]) caps)))])
         else None)"
proof -
  have "map JStr (caps_strings caps) = concat (map (\<lambda>(k, v). [JStr k, JStr v]) caps)"
    by (induction caps) (auto simp: caps_strings_def)
  moreover have "list_all (list_all go_quotable) (caps_strings caps)
      \<longleftrightarrow> list_all (\<lambda>(k, v). list_all go_quotable k \<and> list_all go_quotable v) caps"
    by (induction caps) (auto simp: caps_strings_def)
  moreover have "list_all (list_all (\<lambda>c. c < CHR 0x80)) (caps_strings caps)"
    using assms(2) by (induction caps) (auto simp: caps_strings_def ascii_def list_all_iff)
  ultimately show ?thesis
    using auth_caps_parse [OF assms(1), of caps isp] auth_caps_bad [OF assms(1), of caps isp] by auto
qed

theorem capabilities_survive_quoting_witness:
  "json_parse (auth_add_cmd (\<lambda>r. True) ''client.x'' [(''mon'', ''allow \"r\"'')])
      = Some (JObj [(''prefix'', JStr ''auth add''), (''entity'', JStr ''client.x''),
          (''caps'', JArr [JStr ''mon'', JStr ''allow \"r\"''])])
    \<and> json_parse (auth_caps_cmd (\<lambda>r. True) ''client.x'' [(''mon'', [CHR 0x07])]) = None"
  using capabilities_survive_quoting [of "''client.x''" "[(''mon'', ''allow \"r\"'')]" "\<lambda>r. True"]
    capabilities_survive_quoting [of "''client.x''" "[(''mon'', [CHR 0x07])]" "\<lambda>r. True"]
  by (simp add: json_plain_def go_quotable_def ascii_def)

definition rule_member :: "create_rule_req \<Rightarrow> string \<Rightarrow> string option" where
  "rule_member req k =
    (if k = ''prefix'' then
       Some (if crr_pool_type req = 1 then ''osd crush rule create-erasure'' else ''osd crush rule create-replicated'')
     else if k = ''name'' then Some (crr_name req)
     else if k = ''type'' then Some (crr_failure_domain req)
     else if k = ''format'' then Some ''json''
     else if k = ''class'' then crr_device_class req
     else if k = ''profile'' \<and> crr_pool_type req = 1 then crr_profile req
     else if k = ''root'' \<and> crr_pool_type req \<noteq> 1 then crr_root req
     else None)"

lemma create_rule_cmd_members: "gget (create_rule_cmd req) k = rule_member req k"
proof (cases "k \<in> {''prefix'', ''name'', ''type'', ''format'', ''class'', ''profile'', ''root''}")
  case True
  then show ?thesis
    by (elim insertE emptyE)
      (simp_all add: create_rule_cmd_def rule_member_def Let_def split: option.split)
next
  case False
  then show ?thesis by (simp add: create_rule_cmd_def rule_member_def Let_def split: option.split)
qed

definition rule_req_ascii :: "create_rule_req \<Rightarrow> bool" where
  "rule_req_ascii req \<longleftrightarrow>
    list_all ascii (crr_name req # crr_failure_domain req #
      List.map_filter (\<lambda>x. x) [crr_device_class req, crr_profile req, crr_root req])"

lemma create_rule_cmd_wf: "wf_map (create_rule_cmd req)"
proof -
  have "wf_map [(''prefix'', a), (''name'', b), (''type'', c), (''format'', d)]" for a b c d :: string
    by (simp add: wf_map_def)
  then show ?thesis by (simp add: create_rule_cmd_def Let_def split: option.split)
qed

lemma create_rule_cmd_ascii:
  assumes "rule_req_ascii req"
  shows "list_all (\<lambda>(k, v). ascii k \<and> ascii v) (create_rule_cmd req)"
proof -
  show ?thesis
    using assms
    by (auto simp: create_rule_cmd_def Let_def rule_req_ascii_def map_filter_def ascii_def split: option.splits
        intro!: list_all_gset)
qed

text \<open>C21: Creating a replicated or erasure-coded rule (with ASCII texts) needs a name and a failure domain, and then sends
  a command whose members are exactly: the prefix of the kind of pool, the name, the failure domain
  as type, the format, the device class when given, the profile of an erasure-coded pool and the root
  of a replicated one.\<close>

theorem create_rule_command:
  assumes "has_permissions ctx ScopeOsd [PermCreate] = None" and "rule_req_ascii req"
  shows "crush_create_rule C req ctx w =
      (if crr_name req = [] then (Failed (Wrapped [] ErrInvalidArg '': name is required''), w)
       else if crr_failure_domain req = [] then
         (Failed (Wrapped [] ErrInvalidArg '': failure domain is required''), w)
       else exec_reply (exec_mon C (marshal_cmd (create_rule_cmd req)) w))
    \<and> (\<exists>ms. json_parse (marshal_cmd (create_rule_cmd req)) = Some (JObj ms) \<and> distinct (map fst ms)
         \<and> (\<forall>k. map_of ms k = map_option JStr (rule_member req k)))"
proof -
  let ?ms = "map (\<lambda>(k, v). (k, JStr v)) (sort_key fst (create_rule_cmd req))"
  have "json_parse (marshal_cmd (create_rule_cmd req)) = Some (JObj ?ms)"
    by (rule marshal_cmd_parse) (rule create_rule_cmd_ascii [OF assms(2)])
  moreover have "distinct (map fst ?ms)"
    using wf_map_sort_key [OF create_rule_cmd_wf] by (simp add: wf_map_def comp_def case_prod_unfold)
  moreover have "map_of ?ms k = map_option JStr (rule_member req k)" for k
    using create_rule_cmd_wf [of req]
    by (simp add: map_of_map map_of_sort_key flip: create_rule_cmd_members)
  ultimately show ?thesis using assms(1) by (auto simp: crush_create_rule_def with_permissions_def)
qed

definition ssd_rule :: create_rule_req where
  "ssd_rule = \<lparr>crr_device_class = Some ''ssd'', crr_failure_domain = ''host'', crr_name = ''fast'',
     crr_pool_type = 0, crr_profile = None, crr_root = Some ''default''\<rparr>"

theorem create_rule_command_witness:
  "crush_create_rule ck_conn ssd_rule (ctx_with ScopeOsd PermCreate) None
      = exec_reply (exec_mon ck_conn (marshal_cmd (create_rule_cmd ssd_rule)) None)
    \<and> (\<exists>ms. json_parse (marshal_cmd (create_rule_cmd ssd_rule)) = Some (JObj ms)
         \<and> map_of ms ''root'' = Some (JStr ''default'') \<and> map_of ms ''class'' = Some (JStr ''ssd'')
         \<and> map_of ms ''profile'' = None)"
proof -
  have "rule_req_ascii ssd_rule" by (simp add: rule_req_ascii_def ssd_rule_def map_filter_def ascii_def)
  from create_rule_command [OF ctx_with_ok this, of ck_conn None] show ?thesis
    by (auto simp: ssd_rule_def rule_member_def)
qed

subsection \<open>CRUSH rules\<close>

lemma find_rule_find:
  "None \<notin> set rules \<Longrightarrow> find_rule name rules =
    (case List.find (\<lambda>r. rule_name r = name) (map the rules) of None \<Rightarrow> Failed ErrNotFound | Some r \<Rightarrow> Reply r)"
  by (induction name rules rule: find_rule.induct) auto

text \<open>A CRUSH rule is looked up by its exact name in the cluster's dump: the first rule of that name
  is returned, \<open>ErrNotFound\<close> if there is none; a \<open>null\<close> before it would be dereferenced.\<close>

theorem get_rule_looks_up:
  assumes "has_permissions ctx ScopeOsd [PermRead] = None" and "exec_mon C crush_dump_cmd w = (Inr text, w')"
    and "dec_crush_dump text = Inr rules" and "None \<notin> set (elems rules)"
  shows "crush_get_rule C req ctx w =
    ((case List.find (\<lambda>r. rule_name r = rn_name req) (map the (elems rules)) of
        None \<Rightarrow> Failed ErrNotFound | Some r \<Rightarrow> Reply r), w')"
  using assms by (simp add: crush_get_rule_def with_permissions_def find_rule_find)

definition dump_conn :: "string \<Rightarrow> unit rados_conn" where
  "dump_conn text = \<lparr>mon_command = (\<lambda>cmd w. ((text, [], None), w)),
     mon_command_with_input_buffer = (\<lambda>cmd buf w. ((text, [], None), w)),
     mgr_command = (\<lambda>args w. ((text, [], None), w)), shutdown = (\<lambda>w. w)\<rparr>"

lemma dump_conn_mon [simp]: "exec_mon (dump_conn text) cmd w = (Inr text, w)"
  by (simp add: exec_mon_def dump_conn_def)

definition one_rule_dump :: string where
  "one_rule_dump = ''{\"rules\":[{\"rule_id\":7,\"rule_name\":\"fast\"}]}''"

lemma one_rule_decoded: "dec_crush_dump one_rule_dump = Inr (Some [Some (zero_rule\<lparr>rule_id := 7, rule_name := ''fast''\<rparr>)])"
  by code_simp

theorem get_rule_looks_up_witness:
  "crush_get_rule (dump_conn one_rule_dump) \<lparr>rn_name = ''fast''\<rparr> (ctx_with ScopeOsd PermRead) ()
      = (Reply (zero_rule\<lparr>rule_id := 7, rule_name := ''fast''\<rparr>), ())
    \<and> crush_get_rule (dump_conn one_rule_dump) \<lparr>rn_name = ''slow''\<rparr> (ctx_with ScopeOsd PermRead) ()
      = (Failed ErrNotFound, ())"
  using get_rule_looks_up [OF ctx_with_ok dump_conn_mon one_rule_decoded, of "\<lparr>rn_name = ''fast''\<rparr>" "()"]
    get_rule_looks_up [OF ctx_with_ok dump_conn_mon one_rule_decoded, of "\<lparr>rn_name = ''slow''\<rparr>" "()"]
  by simp

text \<open>The steps of a CRUSH rule are lost: whatever members a step of the dump has, unless one of them
  is called \<open>entries\<close>, it decodes to an empty step, since that is the message's only field.\<close>

theorem rule_steps_decode_empty:
  assumes "list_all (\<lambda>(k, j). \<not> equal_fold k ''entries'') ms"
  shows "dec_struct step_fields (JObj ms) zero_step = Inr zero_step"
proof -
  have "dec_members step_fields ms r = Inr r" for r
    using assms
  proof (induction ms)
    case (Cons m ms)
    obtain k j where m: "m = (k, j)" by fastforce
    have "\<not> equal_fold k ''entries''" using Cons.prems m by simp
    then have "find_field step_fields k = None"
      by (auto simp: find_field_def step_fields_def field_def)
    then show ?case using Cons m by simp
  qed simp
  then show ?thesis by (simp add: dec_struct_def)
qed

theorem rule_steps_decode_empty_witness:
  "dec_struct step_fields (JObj [(''op'', JStr ''take''), (''item'', JNum ''-1'')]) zero_step = Inr zero_step"
  by (rule rule_steps_decode_empty) (simp add: equal_fold_def)

subsection \<open>Cluster status\<close>

text \<open>What \<open>config-key set\<close> and \<open>config-key get\<close> promise: the one stores the value, the other returns
  what is stored and reports \<open>not found\<close> only when nothing is.\<close>

definition config_keys :: "'w rados_conn \<Rightarrow> ('w \<Rightarrow> string \<Rightarrow> string option) \<Rightarrow> bool" where
  "config_keys C keys \<longleftrightarrow>
    (\<forall>cmd w r w' k v.
      json_parse cmd = Some (JObj [(''prefix'', JStr ''config-key set''), (''key'', JStr k), (''val'', JStr v)]) \<longrightarrow>
      exec_mon C cmd w = (Inr r, w') \<longrightarrow> keys w' k = Some v) \<and>
    (\<forall>cmd w r w' k v.
      json_parse cmd = Some (JObj [(''prefix'', JStr ''config-key get''), (''key'', JStr k)]) \<longrightarrow>
      exec_mon C cmd w = (r, w') \<longrightarrow> keys w k = Some v \<longrightarrow>
      (case r of Inr x \<Rightarrow> x = v | Inl e \<Rightarrow> \<not> errors_is e RadosErrorNotFound))"

lemma itoa_not_status: "itoa i \<noteq> ''INSTALLED'' \<and> itoa i \<noteq> ''POST_INSTALLED''"
proof -
  have "\<not> is_digit CHR ''I''" "\<not> is_digit CHR ''P''" by (simp_all add: is_digit_def)
  then have "nat_digits n \<noteq> CHR ''I'' # s \<and> nat_digits n \<noteq> CHR ''P'' # s" for n s
    using nat_digits_digits [of n] by auto
  then show ?thesis by (simp add: itoa_def)
qed

lemma status_name_value:
  "enum_value cluster_status_name (enum_string cluster_status_name s) = (if s \<in> {0, 1} then s else 0)"
  using itoa_not_status [of s] by (auto simp: enum_value_def enum_string_def cluster_status_name_def)

lemma get_status_value:
  assumes "config_keys C keys" and "keys w ''mgr/dashboard/cluster/status'' = Some v"
    and "cluster_get_status C ctx w = (Reply s, w')"
  shows "s = enum_value cluster_status_name v"
proof -
  obtain r w1 where r: "exec_mon C status_get_cmd w = (r, w1)" by fastforce
  then have "case r of Inr x \<Rightarrow> x = v | Inl e \<Rightarrow> \<not> errors_is e RadosErrorNotFound"
    using assms(1,2) status_get_parse unfolding config_keys_def by blast
  then show ?thesis
    using assms(3) r
    by (auto simp: cluster_get_status_def with_permissions_def split: sum.splits option.splits if_splits)
qed

text \<open>C22: A cluster status that was set is read back, by the same caller or another; a number that names
  no status is stored as digits and read back as \<open>INSTALLED\<close>.\<close>

theorem cluster_status_round_trip:
  assumes "config_keys C keys" and "cluster_update_status C s ctx w = (Reply (), w')"
    and "cluster_get_status C ctx' w' = (Reply s', w'')"
  shows "s' = (if s \<in> {0, 1} then s else 0)"
proof -
  obtain r where "exec_mon C (status_set_cmd s) w = (Inr r, w')"
    using assms(2)
    by (auto simp: cluster_update_status_def with_permissions_def exec_reply_def split: option.splits sum.splits prod.splits)
  then have "keys w' ''mgr/dashboard/cluster/status'' = Some (enum_string cluster_status_name s)"
    using assms(1) status_set_parse [of s] unfolding config_keys_def by blast
  then show ?thesis using get_status_value [OF assms(1) _ assms(3)] status_name_value by simp
qed

lemma ck_conn_keys: "config_keys ck_conn (\<lambda>w k. w)"
  by (auto simp: config_keys_def exec_mon_def ck_conn_def ck_mon_def split: option.splits)

theorem cluster_status_round_trip_witness:
  "cluster_get_status ck_conn (ctx_with ScopeConfigOpt PermRead)
      (snd (cluster_update_status ck_conn 1 (ctx_with ScopeConfigOpt PermUpdate) None))
    = (Reply 1, Some ''POST_INSTALLED'')"
proof -
  have u: "cluster_update_status ck_conn 1 (ctx_with ScopeConfigOpt PermUpdate) None = (Reply (), Some ''POST_INSTALLED'')"
    by (simp add: cluster_update_status_def with_permissions_def exec_reply_def exec_mon_def ck_conn_def
        ck_mon_def status_set_parse enum_string_def cluster_status_name_def)
  obtain s w where g: "cluster_get_status ck_conn (ctx_with ScopeConfigOpt PermRead) (Some ''POST_INSTALLED'')
      = (Reply s, w)" and "w = Some ''POST_INSTALLED''"
    by (simp add: cluster_get_status_def with_permissions_def exec_mon_def ck_conn_def ck_mon_def status_get_parse)
  then show ?thesis using cluster_status_round_trip [OF ck_conn_keys u g] u by simp
qed

end
