(* ===== verification/Config_Properties.thy ===== *)
theory Config_Properties
  imports Config_Facts
begin

text \<open>
  The properties of the configuration parameters: what merging with the cluster's parameters and what
  a search compute, and what a name with wildcards means.
\<close>

subsection \<open>Wildcards\<close>

text \<open>On names of plain characters without a path separator and patterns without classes and escapes, Go's
  matcher with its chunks and backtracking decides exactly the usual meaning of a pattern: a star is
  any text, a question mark any character, every other character itself.\<close>

theorem wildcard_is_glob:
  assumes "simple_pattern p" and "ascii s" and "sep \<notin> set s"
  shows "match_wildcard s p \<longleftrightarrow> glob p s"
  using filepath_match_glob [OF assms] by (simp add: match_wildcard_def)

theorem wildcard_is_glob_witness:
  "(match_wildcard ''osd_max_backfills'' ''osd_*_back?ills'' \<longleftrightarrow> glob ''osd_*_back?ills'' ''osd_max_backfills'')
    \<and> glob ''osd_*_back?ills'' ''osd_max_backfills''"
  using wildcard_is_glob [of "''osd_*_back?ills''" "''osd_max_backfills''"]
  by (simp add: simple_pattern_def ascii_def sep_def)

subsection \<open>Merging with the cluster\<close>

text \<open>C24: When the embedded index is sorted by name without duplicates and the cluster lists each parameter
  once, the merge computes a lookup: for each of the cluster's names, in order, the index's own entry, or else what
  \<open>config help\<close> says of it; parameters the cluster does not know are dropped.\<close>

theorem new_config_looks_up:
  assumes "load_params_slice data = Inr base" and "sorted_wrt (<) (map cpi_name base)"
    and "exec_mon C config_ls_cmd w = (Inr text, w1)"
    and "unmarshal (dec_slice dec_string []) None text = Inr names" and "distinct (elems names)"
  shows "new_config C data False w = lookup_params (fetch_param_detail C) base (sort (elems names)) w1"
proof -
  have "sorted_wrt (<) (sort (elems names))" using assms(5) by (simp add: strict_sorted_iff)
  then show ?thesis using assms(1,3,4) merge_params_lookup [OF assms(2)] by (simp add: new_config_def)
qed

text \<open>A cluster that knows two parameters, one of which is in the index.\<close>

definition params_mon :: "string \<Rightarrow> unit \<Rightarrow> cmd_result \<times> unit" where
  "params_mon cmd w =
    (((if cmd = config_ls_cmd then ''[\"new\",\"b\"]'' else ''{\"name\":\"new\",\"type\":\"bool\"}''), [], None), w)"

definition params_conn :: "unit rados_conn" where
  "params_conn = \<lparr>mon_command = params_mon, mon_command_with_input_buffer = (\<lambda>cmd buf. params_mon cmd),
     mgr_command = (\<lambda>args w. (([], [], None), w)), shutdown = (\<lambda>w. w)\<rparr>"

definition test_index :: string where
  "test_index = ''[{\"name\":\"a\"},{\"name\":\"b\",\"type\":\"int\"}]''"

lemma test_index_loaded:
  "load_params_slice test_index = Inr [zero_param\<lparr>cpi_name := ''a''\<rparr>, zero_param\<lparr>cpi_name := ''b'', cpi_type := ''int''\<rparr>]"
  by code_simp

lemma params_listed:
  "exec_mon params_conn config_ls_cmd () = (Inr ''[\"new\",\"b\"]'', ())"
  "unmarshal (dec_slice dec_string []) None ''[\"new\",\"b\"]'' = Inr (Some [''new'', ''b''])"
  by (simp add: exec_mon_def params_conn_def params_mon_def) code_simp

theorem new_config_looks_up_witness:
  "new_config params_conn test_index False ()
    = (Inr [zero_param\<lparr>cpi_name := ''b'', cpi_type := ''int''\<rparr>, zero_param\<lparr>cpi_name := ''new'', cpi_type := ''bool''\<rparr>], ())"
proof -
  have fetch: "fetch_param_detail params_conn ''new'' () = (Inr (zero_param\<lparr>cpi_name := ''new'', cpi_type := ''bool''\<rparr>), ())"
    by code_simp
  have "new_config params_conn test_index False ()
      = lookup_params (fetch_param_detail params_conn)
          [zero_param\<lparr>cpi_name := ''a''\<rparr>, zero_param\<lparr>cpi_name := ''b'', cpi_type := ''int''\<rparr>]
          (sort [''new'', ''b'']) ()"
    using new_config_looks_up [OF test_index_loaded _ params_listed] by (simp add: zero_param_def)
  then show ?thesis by (simp add: fetch zero_param_def cons_result_def)
qed

subsection \<open>Searching\<close>

text \<open>C25: A search returns exactly the parameters that match every given criterion, each once, in the
  order of the field asked for; that the loop stops at its first hit when the name has no wildcard
  loses nothing.\<close>

theorem search_correct:
  assumes "sort_slice_ok srt" and "distinct (map cpi_name params)"
    and "(case q_sort q of None \<Rightarrow> 0 | Some f \<Rightarrow> f) \<in> {0, 1, 2}"
  shows "mset (search srt ul sprint params q) = filter_mset (query_matches ul sprint q) (mset params)
    \<and> (let keys = map (field_key (case q_sort q of None \<Rightarrow> 0 | Some f \<Rightarrow> f)) (search srt ul sprint params q)
       in sorted (if (case q_order q of None \<Rightarrow> 0 | Some d \<Rightarrow> d) = 0 then keys else rev keys))"
  using sort_results_mset [OF assms(1)] sort_results_sorted [OF assms(1,3)] search_loop_eq [OF assms(2)]
  by (simp add: search_def Let_def)

definition all_params :: query_params where
  "all_params = \<lparr>q_service = None, q_level = None, q_name = Some ''a'', q_full_text = None, q_sort = None,
     q_order = Some 1, q_type = None\<rparr>"

theorem search_correct_witness:
  "mset (search insertion_sort (\<lambda>s. s) (\<lambda>j. []) [zero_param\<lparr>cpi_name := ''a''\<rparr>, zero_param\<lparr>cpi_name := ''b''\<rparr>] all_params)
    = filter_mset (query_matches (\<lambda>s. s) (\<lambda>j. []) all_params)
        {# zero_param\<lparr>cpi_name := ''a''\<rparr>, zero_param\<lparr>cpi_name := ''b''\<rparr> #}"
  using search_correct [OF insertion_sort_ok, of "[zero_param\<lparr>cpi_name := ''a''\<rparr>, zero_param\<lparr>cpi_name := ''b''\<rparr>]"
      all_params "\<lambda>s. s" "\<lambda>j. []"]
  by (simp add: all_params_def zero_param_def)

text \<open>C23: Searching by a pattern with stars and question marks (but neither classes nor escapes), among
  parameters with distinct names of ASCII characters without slashes: the result is exactly the
  parameters whose names have the form of the pattern, a star being any text and a question mark any
  character, and that match the other criteria of the query.\<close>

theorem pattern_search_is_glob:
  assumes "sort_slice_ok srt" and "distinct (map cpi_name params)"
    and "list_all (\<lambda>i. ascii (cpi_name i) \<and> CHR ''/'' \<notin> set (cpi_name i)) params"
    and "q_name q = Some p" and "p \<noteq> []" and "CHR ''['' \<notin> set p" and "CHR 0x5C \<notin> set p"
  shows "mset (search srt ul sprint params q) =
    filter_mset (\<lambda>i. glob p (cpi_name i) \<and> query_matches ul sprint (q\<lparr>q_name := None\<rparr>) i) (mset params)"
proof -
  have m: "query_matches ul sprint q i \<longleftrightarrow> glob p (cpi_name i) \<and> query_matches ul sprint (q\<lparr>q_name := None\<rparr>) i"
    if "i \<in> set params" for i
  proof -
    have "match_wildcard (cpi_name i) p \<longleftrightarrow> glob p (cpi_name i)"
      using filepath_match_glob [of p "cpi_name i"] assms(3,6,7) that
      by (auto simp: match_wildcard_def simple_pattern_def sep_def list_all_iff)
    then show ?thesis using assms(4,5) by (auto simp: query_matches_def matches_name_def Let_def)
  qed
  have "mset (search srt ul sprint params q) = filter_mset (query_matches ul sprint q) (mset params)"
    using sort_results_mset [OF assms(1)] search_loop_eq [OF assms(2)] by (simp add: search_def Let_def)
  also have "\<dots> = filter_mset (\<lambda>i. glob p (cpi_name i) \<and> query_matches ul sprint (q\<lparr>q_name := None\<rparr>) i) (mset params)"
    by (rule filter_mset_cong) (use m in auto)
  finally show ?thesis .
qed

definition backfills :: query_params where
  "backfills = all_params\<lparr>q_name := Some ''osd_*_back?ills''\<rparr>"

theorem pattern_search_is_glob_witness:
  "mset (search insertion_sort (\<lambda>s. s) (\<lambda>j. [])
      [zero_param\<lparr>cpi_name := ''osd_max_backfills''\<rparr>, zero_param\<lparr>cpi_name := ''osd_max_scrubs''\<rparr>] backfills)
    = {# zero_param\<lparr>cpi_name := ''osd_max_backfills''\<rparr> #}"
proof -
  let ?ps = "[zero_param\<lparr>cpi_name := ''osd_max_backfills''\<rparr>, zero_param\<lparr>cpi_name := ''osd_max_scrubs''\<rparr>]"
  have g: "glob ''osd_*_back?ills'' ''osd_max_backfills''" "\<not> glob ''osd_*_back?ills'' ''osd_max_scrubs''"
    by code_simp+
  have r: "query_matches (\<lambda>s. s) (\<lambda>j. []) (backfills\<lparr>q_name := None\<rparr>) i" for i
    by (simp add: query_matches_def backfills_def all_params_def matches_service_def matches_level_def
        matches_name_def matches_type_def matches_full_text_def Let_def)
  have "mset (search insertion_sort (\<lambda>s. s) (\<lambda>j. []) ?ps backfills) =
      filter_mset (\<lambda>i. glob ''osd_*_back?ills'' (cpi_name i)
        \<and> query_matches (\<lambda>s. s) (\<lambda>j. []) (backfills\<lparr>q_name := None\<rparr>) i) (mset ?ps)"
    by (rule pattern_search_is_glob [OF insertion_sort_ok])
      (simp_all add: zero_param_def ascii_def backfills_def all_params_def)
  then show ?thesis using g r by (simp add: zero_param_def)
qed

end
