(* ===== verification/Status_Properties.thy ===== *)
theory Status_Properties
  imports Status_Api Cluster_Properties
begin

text \<open>
  The properties of the status handlers: times in Ceph's layout, and what the conversion of the dumps
  keeps and where it panics.
\<close>

subsection \<open>Printing a time\<close>

fun pad :: "nat \<Rightarrow> nat \<Rightarrow> string" where
  "pad 0 v = []"
| "pad (Suc n) v = pad n (v div 10) @ [digit_char (v mod 10)]"

lemma length_pad [simp]: "length (pad n v) = n"
  by (induction n arbitrary: v) auto

lemma pad_digits: "list_all is_digit (pad n v)"
  by (induction n arbitrary: v) (auto simp: digit_char_props)

lemma digit_value: "d < 10 \<Longrightarrow> int (byte (digit_char d)) - 48 = int d"
proof -
  assume "d < 10"
  then have "d \<in> {0, 1, 2, 3, 4, 5, 6, 7, 8, 9}" by auto
  then show ?thesis by (elim insertE emptyE) (simp_all add: digit_char_def byte_def of_char_def)
qed

lemma pad_value: "v < 10 ^ n \<Longrightarrow> Go_Time.digits_val (pad n v) = int v"
proof (induction n arbitrary: v)
  case (Suc n)
  then have "Go_Time.digits_val (pad n (v div 10)) = int (v div 10)" by simp
  then have "Go_Time.digits_val (pad (Suc n) v) = int (v div 10) * 10 + int (v mod 10)"
    by (simp add: Go_Time.digits_val_def digit_value)
  also have "\<dots> = int (v div 10 * 10 + v mod 10)" by (simp only: of_nat_add of_nat_mult of_nat_numeral)
  also have "\<dots> = int v" by simp
  finally show ?case .
qed (simp add: Go_Time.digits_val_def)

lemma fixed_num_pad [simp]: "v < 10 ^ n \<Longrightarrow> fixed_num n (pad n v @ t) = Some (int v, t)"
  by (simp add: fixed_num_def pad_digits pad_value)

definition ceph_time_text ::
  "nat \<Rightarrow> nat \<Rightarrow> nat \<Rightarrow> nat \<Rightarrow> nat \<Rightarrow> nat \<Rightarrow> nat \<Rightarrow> bool \<Rightarrow> nat \<Rightarrow> nat \<Rightarrow> string" where
  "ceph_time_text y m d hh mm ss us west oh om =
    pad 4 y @ CHR ''-'' # pad 2 m @ CHR ''-'' # pad 2 d @ CHR ''T'' # pad 2 hh @ CHR '':'' # pad 2 mm @ CHR '':'' #
    pad 2 ss @ CHR ''.'' # pad 6 us @ (if west then CHR ''-'' else CHR ''+'') # pad 2 oh @ pad 2 om"

lemma literal_hit [simp]: "literal c (c # t) = Some t"
  by (simp add: literal_def)

lemma frac6_pad [simp]: "us < 10 ^ 6 \<Longrightarrow> frac6 (CHR ''.'' # pad 6 us @ t) = Some (int us * 1000, t)"
proof -
  assume us: "us < 10 ^ 6"
  obtain c s where p: "pad 6 us = c # s" by (metis length_pad length_0_conv neq_Nil_conv numeral_eq_Suc nat.distinct(1))
  then have "is_digit c" using pad_digits [of 6 us] by simp
  then have "c \<noteq> CHR ''-''" "c \<noteq> CHR ''+''" by (auto simp: is_digit_def)
  moreover have "length s = 5" using length_pad [of 6 us] p by simp
  ultimately show ?thesis
    using pad_digits [of 6 us] pad_value [OF us] p by (simp add: frac6_def Let_def)
qed

lemma zone_pad [simp]:
  assumes "oh \<le> 24" and "om \<le> 60"
  shows "zone_hhmm ((if west then CHR ''-'' else CHR ''+'') # pad 2 oh @ pad 2 om)
    = Some (if west then - ((int oh * 60 + int om) * 60) else (int oh * 60 + int om) * 60, [])"
  using assms fixed_num_pad [of om 2 "[]"] by (simp add: zone_hhmm_def del: pad.simps)

lemma parse_ceph_time:
  assumes "y < 10000" and "us < 10 ^ 6" and "oh \<le> 24" and "om \<le> 60"
    and ok: "civil_ok (int y) (int m) (int d) (int hh) (int mm) (int ss)"
  shows "parse_custom (ceph_time_text y m d hh mm ss us west oh om) =
    Some \<lparr>ts_seconds = unix_of_civil (int y) (int m) (int d) (int hh) (int mm) (int ss)
        - (if west then - ((int oh * 60 + int om) * 60) else (int oh * 60 + int om) * 60),
      ts_nanos = int us * 1000\<rparr>"
proof -
  have "int d \<le> 31" using ok by (auto simp: civil_ok_def days_in_def split: if_splits)
  then have b: "m < 10 ^ 2" "d < 10 ^ 2" "hh < 10 ^ 2" "mm < 10 ^ 2" "ss < 10 ^ 2"
    using ok by (simp_all add: civil_ok_def)
  show ?thesis
    using assms b
    by (simp add: parse_custom_def parse_date_def ceph_time_text_def loose_num_def del: pad.simps)
qed

lemma digit_plain: "is_digit c \<Longrightarrow> json_plain c"
  by (auto simp: is_digit_def json_plain_def less_char_def less_eq_char_def of_char_eq_iff [symmetric])

lemma ceph_time_plain: "list_all json_plain (ceph_time_text y m d hh mm ss us west oh om)"
proof -
  have "list_all json_plain (pad n v)" for n v
    using pad_digits [of n v] digit_plain by (auto simp: list_all_iff)
  then show ?thesis by (simp add: ceph_time_text_def json_plain_def del: pad.simps)
qed

lemma trim_quotes: "list_all json_plain s \<Longrightarrow> trim_char CHR 0x22 (CHR 0x22 # s @ [CHR 0x22]) = s"
proof -
  assume s: "list_all json_plain s"
  then have q: "c \<noteq> CHR 0x22" if "c \<in> set s" for c
    using that by (auto simp: list_all_iff json_plain_def)
  have "dropWhile (\<lambda>d. d = CHR 0x22) t = t" if "set t \<subseteq> set s" for t
    using that q by (cases t) auto
  note drop = this
  show ?thesis
  proof (cases s)
    case Nil
    then show ?thesis by (simp add: trim_char_def)
  next
    case (Cons c t)
    then have "dropWhile (\<lambda>d. d = CHR 0x22) (s @ [CHR 0x22]) = s @ [CHR 0x22]" using q by simp
    then show ?thesis using drop [of "rev s"] by (simp add: trim_char_def)
  qed
qed

text \<open>C26: Any valid instant of the years 0 to 9999, printed in Ceph's layout with microseconds and any
  zone offset up to 24 hours, decodes to that instant: the seconds since 1970 of its civil time less
  the offset, and the microseconds.\<close>

theorem ceph_time_round_trip:
  assumes "y < 10000" and "us < 10 ^ 6" and "oh \<le> 24" and "om \<le> 60"
    and "civil_ok (int y) (int m) (int d) (int hh) (int mm) (int ss)"
  shows "dec_ceph_timestamp (JStr (ceph_time_text y m d hh mm ss us west oh om)) old =
    Inr (Some \<lparr>ts_seconds = unix_of_civil (int y) (int m) (int d) (int hh) (int mm) (int ss)
        - (if west then - ((int oh * 60 + int om) * 60) else (int oh * 60 + int om) * 60),
      ts_nanos = int us * 1000\<rparr>)"
proof -
  let ?t = "ceph_time_text y m d hh mm ss us west oh om"
  have "?t \<noteq> []" "length ?t \<noteq> length ''0.000000''" by (simp_all add: ceph_time_text_def del: pad.simps)
  then have t: "?t \<noteq> []" "?t \<noteq> ''0.000000''" by metis+
  have "json_print (JStr ?t) = CHR 0x22 # ?t @ [CHR 0x22]"
    by (simp add: json_quote_def json_plain_quote [OF ceph_time_plain])
  then have "dec_ceph_timestamp (JStr ?t) old
      = (case parse_custom ?t of None \<Rightarrow> Inl (Foreign ''parsing time'') | Some t \<Rightarrow> Inr (Some t))"
    using t by (simp add: dec_ceph_timestamp_def unmarshal_ceph_timestamp_def trim_quotes [OF ceph_time_plain])
  then show ?thesis by (simp only: parse_ceph_time [OF assms] option.case)
qed

theorem ceph_time_round_trip_witness:
  "dec_ceph_timestamp (JStr (ceph_time_text 1970 1 2 0 0 1 500000 True 2 0)) None
    = Inr (Some \<lparr>ts_seconds = 93601, ts_nanos = 500000000\<rparr>)"
  using ceph_time_round_trip [of 1970 500000 2 0 1 2 0 0 1 True None]
  by (simp add: civil_ok_def days_in_def unix_of_civil_def days_before_year_def del: pad.simps)

subsection \<open>Dumps\<close>

text \<open>C27: The monitor dump is answered when the cluster reports both the time of its creation and that
  of its last change, and keeps what it reported; without either, the handler dereferences a nil
  pointer and panics, although the change time is declared optional.\<close>

theorem mon_dump_needs_both_times:
  assumes "has_permissions ctx ScopeMonitor [PermRead] = None" and "exec_mon C mon_dump_cmd w = (Inr ans, w')"
    and "unmarshal dec_ceph_mon_dump_response zero_ceph_mon_dump_response ans = Inr d"
  shows "if mon_dump_modified d = None \<or> mon_dump_created d = None
    then get_ceph_mon_dump C ctx w = (Panicked nil_panic, w')
    else \<exists>r. get_ceph_mon_dump C ctx w = (Reply r, w')
      \<and> pb_mon_dump_modified r = mon_dump_modified d \<and> pb_mon_dump_created r = mon_dump_created d
      \<and> pb_mon_dump_epoch r = mon_dump_epoch d \<and> pb_mon_dump_fsid r = mon_dump_fsid d
      \<and> pb_mon_dump_mons r = mon_dump_mons d \<and> pb_mon_dump_quorum r = mon_dump_quorum d"
  using assms
  by (cases "mon_dump_modified d"; cases "mon_dump_created d")
    (simp_all add: get_ceph_mon_dump_def with_permissions_def run_dump_def convert_mon_dump_def reply_or_panic_def)

definition created_only :: string where
  "created_only = ''{\"fsid\":\"f\",\"created\":\"2024-02-29T00:00:00Z\"}''"

lemma created_only_decoded:
  "\<exists>d. unmarshal dec_ceph_mon_dump_response zero_ceph_mon_dump_response created_only = Inr d
    \<and> mon_dump_modified d = None"
  by (rule exI [of _ "zero_ceph_mon_dump_response\<lparr>mon_dump_fsid := ''f'',
      mon_dump_created := Some \<lparr>ts_seconds = 1709164800, ts_nanos = 0\<rparr>\<rparr>"]) code_simp

theorem mon_dump_needs_both_times_witness:
  "get_ceph_mon_dump (dump_conn created_only) (ctx_with ScopeMonitor PermRead) () = (Panicked nil_panic, ())"
proof -
  obtain d where "unmarshal dec_ceph_mon_dump_response zero_ceph_mon_dump_response created_only = Inr d"
    and "mon_dump_modified d = None" using created_only_decoded by blast
  then show ?thesis using mon_dump_needs_both_times [OF ctx_with_ok dump_conn_mon, of created_only d "()"] by simp
qed

lemma all_some_iff: "all_some xs = Some ys \<longleftrightarrow> xs = map Some ys"
  by (induction xs arbitrary: ys rule: all_some.induct) auto

text \<open>C28: A placement group dump that is answered reports every placement group the cluster listed, in
  its order, with its identifier, state and members.\<close>

theorem pg_dump_keeps_groups:
  assumes "get_ceph_pg_dump C ctx w = (Reply r, w')"
  shows "\<exists>ans d m pgs pm. exec_mon C pg_dump_cmd w = (Inr ans, w')
    \<and> unmarshal dec_pg_dump_response zero_pg_dump_response ans = Inr d
    \<and> pg_dump_pg_map d = Some m \<and> elems (pg_map_pg_stats m) = map Some pgs
    \<and> pb_pg_dump_pg_map r = Some pm
    \<and> map (map_option (\<lambda>p. (pb_pg_stat_pgid p, pb_pg_stat_state p, pb_pg_stat_up p, pb_pg_stat_acting p)))
        (elems (pb_pg_map_pg_stats pm))
      = map (\<lambda>p. Some (pg_stat_pgid p, pg_stat_state p, pg_stat_up p, pg_stat_acting p)) pgs"
proof -
  obtain ans where x: "exec_mon C pg_dump_cmd w = (Inr ans, w')"
    using assms by (auto simp: get_ceph_pg_dump_def with_permissions_def run_dump_def split: option.splits sum.splits prod.splits)
  obtain d where d: "unmarshal dec_pg_dump_response zero_pg_dump_response ans = Inr d"
    using assms x by (cases "unmarshal dec_pg_dump_response zero_pg_dump_response ans")
      (auto simp: get_ceph_pg_dump_def with_permissions_def run_dump_def split: option.splits)
  have c: "convert_pg_dump d = Some r"
    using assms x d by (auto simp: get_ceph_pg_dump_def with_permissions_def run_dump_def reply_or_panic_def split: option.splits)
  then obtain m pm where m: "pg_dump_pg_map d = Some m" "convert_pg_map m = Some pm" "pb_pg_dump_pg_map r = Some pm"
    by (auto simp: convert_pg_dump_def split: option.splits)
  then obtain pgs where "elems (pg_map_pg_stats m) = map Some pgs"
      "pb_pg_map_pg_stats pm = Some (map Some (map convert_pg_stat pgs))"
    by (auto simp: convert_pg_map_def all_some_iff Let_def)
  then show ?thesis using x d m by (fastforce simp: convert_pg_stat_def)
qed

definition one_pg :: string where
  "one_pg = ''{\"pg_ready\":true,\"pg_map\":{\"pg_stats\":[{\"pgid\":\"1.0\",\"state\":\"active\"}]}}''"

lemma one_pg_answered:
  "\<exists>r. get_ceph_pg_dump (dump_conn one_pg) (ctx_with ScopeMonitor PermRead) () = (Reply r, ())"
proof -
  have "\<not> Option.is_none (case unmarshal dec_pg_dump_response zero_pg_dump_response one_pg of
      Inl e \<Rightarrow> None | Inr d \<Rightarrow> convert_pg_dump d)"
    by code_simp
  then show ?thesis
    by (auto simp: get_ceph_pg_dump_def with_permissions_def run_dump_def reply_or_panic_def
        Option.is_none_def split: sum.splits)
qed

theorem pg_dump_keeps_groups_witness:
  "\<exists>ans d m pgs. exec_mon (dump_conn one_pg) pg_dump_cmd () = (Inr ans, ())
    \<and> unmarshal dec_pg_dump_response zero_pg_dump_response ans = Inr d
    \<and> pg_dump_pg_map d = Some m \<and> elems (pg_map_pg_stats m) = map Some pgs"
proof -
  obtain r where "get_ceph_pg_dump (dump_conn one_pg) (ctx_with ScopeMonitor PermRead) () = (Reply r, ())"
    using one_pg_answered by blast
  from pg_dump_keeps_groups [OF this] show ?thesis by metis
qed

end
