(* ===== verification/Serve.thy ===== *)
theory Serve
  imports Go_Errors
begin

text \<open>
  The worker group that runs the application (\<open>pkg/util/serve.go\<close>). \<open>Start\<close> runs every worker in its own
  goroutine of an error group, starts one clean-up goroutine per worker that has a clean-up function,
  waits for the group and then for the clean-ups. The goroutines interleave, so the run is a step
  relation: one step is the return of one goroutine, the start of a clean-up, or a step of \<open>Start\<close>
  itself. That the goroutines are spawned one by one is not visible: a goroutine that has not been
  spawned is one that has not made its first step.
\<close>

subsection \<open>Workers\<close>

record 'f worker =
  wk_name :: string
  wk_work :: 'f
  wk_clean_up :: "'f option"

text \<open>A nil function is \<open>None\<close>.\<close>

definition server_add ::
  "string \<Rightarrow> 'f option \<Rightarrow> 'f option \<Rightarrow> 'f worker list \<Rightarrow> go_error option \<times> 'f worker list" where
  "server_add name wrk clean_up workers =
    (case wrk of
       None \<Rightarrow> (Some (Wrapped [] ErrInvalidArg '': work func is nil''), workers)
     | Some w \<Rightarrow>
         if name = [] then (Some (Wrapped [] ErrInvalidArg '': worker name is empty''), workers)
         else (None, workers @ [\<lparr>wk_name = name, wk_work = w, wk_clean_up = clean_up\<rparr>]))"

subsection \<open>A run\<close>

datatype work_state = Working | Returned "go_error option"

datatype clean_state = NoCleanUp | WaitingForCancel | CleaningUp | CleanedUp "go_error option"

record group_state =
  gs_work :: "work_state list"
  gs_clean :: "clean_state list"
  gs_cancelled :: bool
  gs_err :: "go_error option"
  gs_waited :: bool
  gs_result :: "go_error option option"

definition start_state :: "'f worker list \<Rightarrow> group_state" where
  "start_state ws =
    \<lparr>gs_work = map (\<lambda>w. Working) ws,
     gs_clean = map (\<lambda>w. if wk_clean_up w = None then NoCleanUp else WaitingForCancel) ws,
     gs_cancelled = False, gs_err = None, gs_waited = False, gs_result = None\<rparr>"

text \<open>Without workers \<open>Start\<close> refuses to run.\<close>

definition server_start :: "'f worker list \<Rightarrow> group_state res" where
  "server_start ws =
    (if ws = [] then Inl (Wrapped [] ErrInvalidArg '': no workers registered'') else Inr (start_state ws))"

datatype group_event =
    ParentCancelled | WorkReturns nat "go_error option" | WaitReturns
  | CleanUpStarts nat | CleanUpEnds nat "go_error option" | StartReturns

fun cleaned :: "clean_state \<Rightarrow> bool" where
  "cleaned NoCleanUp = True"
| "cleaned (CleanedUp e) = True"
| "cleaned c = False"

text \<open>
  The first error of a worker becomes the group's error and cancels the group's context; so do the
  return of \<open>Wait\<close> and the cancellation of the context \<open>Start\<close> was called with.
\<close>

inductive group_step :: "group_state \<Rightarrow> group_event \<Rightarrow> group_state \<Rightarrow> bool" where
  parent_cancelled: "\<not> gs_cancelled s \<Longrightarrow> group_step s ParentCancelled (s\<lparr>gs_cancelled := True\<rparr>)"
| work_returns: "i < length (gs_work s) \<Longrightarrow> gs_work s ! i = Working \<Longrightarrow>
    group_step s (WorkReturns i e)
      (s\<lparr>gs_work := (gs_work s)[i := Returned e], gs_err := (if gs_err s = None then e else gs_err s),
         gs_cancelled := (gs_cancelled s \<or> e \<noteq> None)\<rparr>)"
| wait_returns: "\<not> gs_waited s \<Longrightarrow> Working \<notin> set (gs_work s) \<Longrightarrow>
    group_step s WaitReturns (s\<lparr>gs_waited := True, gs_cancelled := True\<rparr>)"
| clean_up_starts: "gs_cancelled s \<Longrightarrow> i < length (gs_clean s) \<Longrightarrow> gs_clean s ! i = WaitingForCancel \<Longrightarrow>
    group_step s (CleanUpStarts i) (s\<lparr>gs_clean := (gs_clean s)[i := CleaningUp]\<rparr>)"
| clean_up_ends: "i < length (gs_clean s) \<Longrightarrow> gs_clean s ! i = CleaningUp \<Longrightarrow>
    group_step s (CleanUpEnds i e) (s\<lparr>gs_clean := (gs_clean s)[i := CleanedUp e]\<rparr>)"
| start_returns: "gs_waited s \<Longrightarrow> list_all cleaned (gs_clean s) \<Longrightarrow> gs_result s = None \<Longrightarrow>
    group_step s StartReturns (s\<lparr>gs_result := Some (gs_err s)\<rparr>)"

inductive_cases group_stepE: "group_step s ev s'"

inductive group_run :: "'f worker list \<Rightarrow> group_event list \<Rightarrow> group_state \<Rightarrow> bool" for ws where
  spawned: "group_run ws [] (start_state ws)"
| steps: "group_run ws es s \<Longrightarrow> group_step s ev s' \<Longrightarrow> group_run ws (es @ [ev]) s'"

subsection \<open>The invariant\<close>

fun first_error :: "group_event list \<Rightarrow> go_error option" where
  "first_error [] = None"
| "first_error (WorkReturns i (Some e) # es) = Some e"
| "first_error (ev # es) = first_error es"

lemma first_error_append:
  "first_error (es @ es') = (if first_error es = None then first_error es' else first_error es)"
  by (induction es rule: first_error.induct) auto

text \<open>How far a clean-up has come, by the events of the run.\<close>

definition clean_ok :: "group_event list \<Rightarrow> nat \<Rightarrow> 'f worker \<Rightarrow> clean_state \<Rightarrow> bool" where
  "clean_ok es i w c \<longleftrightarrow>
    (c = NoCleanUp \<longleftrightarrow> wk_clean_up w = None)
    \<and> count_list es (CleanUpStarts i) = (if c = NoCleanUp \<or> c = WaitingForCancel then 0 else 1)"

definition work_inv :: "'f worker list \<Rightarrow> group_event list \<Rightarrow> work_state list \<Rightarrow> go_error option \<Rightarrow> bool" where
  "work_inv ws es wk err \<longleftrightarrow>
    length wk = length ws \<and> err = first_error es
    \<and> (case first_error es of None \<Rightarrow> set wk \<subseteq> {Working, Returned None} | Some e \<Rightarrow> Returned (Some e) \<in> set wk)"

definition flag_inv :: "group_event list \<Rightarrow> work_state list \<Rightarrow> bool \<Rightarrow> bool \<Rightarrow> bool" where
  "flag_inv es wk cancelled waited \<longleftrightarrow>
    (cancelled \<longleftrightarrow> ParentCancelled \<in> set es \<or> WaitReturns \<in> set es \<or> first_error es \<noteq> None)
    \<and> (waited \<longleftrightarrow> WaitReturns \<in> set es) \<and> (waited \<longrightarrow> Working \<notin> set wk)"

definition clean_inv :: "'f worker list \<Rightarrow> group_event list \<Rightarrow> clean_state list \<Rightarrow> bool" where
  "clean_inv ws es cs \<longleftrightarrow> length cs = length ws \<and> (\<forall>i < length ws. clean_ok es i (ws ! i) (cs ! i))"

definition result_inv :: "group_state \<Rightarrow> bool" where
  "result_inv s \<longleftrightarrow>
    (case gs_result s of None \<Rightarrow> True | Some r \<Rightarrow> r = gs_err s \<and> gs_waited s \<and> list_all cleaned (gs_clean s))"

definition group_inv :: "'f worker list \<Rightarrow> group_event list \<Rightarrow> group_state \<Rightarrow> bool" where
  "group_inv ws es s \<longleftrightarrow>
    work_inv ws es (gs_work s) (gs_err s) \<and> flag_inv es (gs_work s) (gs_cancelled s) (gs_waited s)
    \<and> clean_inv ws es (gs_clean s) \<and> result_inv s"

lemma group_inv_start: "group_inv ws [] (start_state ws)"
  by (auto simp: group_inv_def work_inv_def flag_inv_def clean_inv_def result_inv_def start_state_def clean_ok_def)

lemma set_update_other: "x \<in> set xs \<Longrightarrow> xs ! i \<noteq> x \<Longrightarrow> x \<in> set (xs[i := y])"
  by (metis in_set_conv_nth length_list_update nth_list_update_neq)

lemma clean_inv_skip: "clean_inv ws es cs \<Longrightarrow> (\<And>i. ev \<noteq> CleanUpStarts i) \<Longrightarrow> clean_inv ws (es @ [ev]) cs"
  by (simp add: clean_inv_def clean_ok_def)

lemma work_inv_skip:
  "work_inv ws es wk err \<Longrightarrow> first_error [ev] = None \<Longrightarrow> work_inv ws (es @ [ev]) wk err"
  by (cases "first_error es") (simp_all add: work_inv_def first_error_append)

lemma flag_inv_skip:
  "flag_inv es wk c w \<Longrightarrow> first_error [ev] = None \<Longrightarrow> ev \<noteq> ParentCancelled \<Longrightarrow> ev \<noteq> WaitReturns \<Longrightarrow>
    flag_inv (es @ [ev]) wk c w"
  by (auto simp: flag_inv_def first_error_append)

lemma work_inv_return:
  assumes "work_inv ws es wk err" and "i < length wk" and "wk ! i = Working"
  shows "work_inv ws (es @ [WorkReturns i e]) (wk[i := Returned e]) (if err = None then e else err)"
proof (cases "first_error es")
  case None
  then have "set (wk[i := Returned e]) \<subseteq> {Working, Returned None, Returned e}"
    using assms(1) set_update_subset_insert [of wk i "Returned e"] by (auto simp: work_inv_def)
  then show ?thesis
    using assms None by (cases e) (auto simp: work_inv_def first_error_append intro: set_update_memI)
next
  case (Some x)
  then have "Returned (Some x) \<in> set (wk[i := Returned e])"
    using assms set_update_other by (fastforce simp: work_inv_def)
  then show ?thesis using assms(1) Some by (simp add: work_inv_def first_error_append)
qed

lemma result_inv_working: "result_inv s \<Longrightarrow> \<not> gs_waited s \<Longrightarrow> gs_result s = None"
  by (simp add: result_inv_def split: option.splits)

lemma result_inv_cleaning:
  "result_inv s \<Longrightarrow> i < length (gs_clean s) \<Longrightarrow> \<not> cleaned (gs_clean s ! i) \<Longrightarrow> gs_result s = None"
  by (auto simp: result_inv_def list_all_length split: option.splits)

lemma result_inv_None: "gs_result s = None \<Longrightarrow> result_inv s"
  by (simp add: result_inv_def)

lemma clean_inv_starts:
  "clean_inv ws es cs \<Longrightarrow> i < length cs \<Longrightarrow> cs ! i = WaitingForCancel \<Longrightarrow>
    clean_inv ws (es @ [CleanUpStarts i]) (cs[i := CleaningUp])"
  by (auto simp: clean_inv_def clean_ok_def nth_list_update)

lemma clean_inv_ends:
  "clean_inv ws es cs \<Longrightarrow> i < length cs \<Longrightarrow> cs ! i = CleaningUp \<Longrightarrow>
    clean_inv ws (es @ [CleanUpEnds i e]) (cs[i := CleanedUp e])"
  by (auto simp: clean_inv_def clean_ok_def nth_list_update)

lemma flag_inv_return:
  "flag_inv es wk c w \<Longrightarrow> i < length wk \<Longrightarrow> wk ! i = Working \<Longrightarrow>
    flag_inv (es @ [WorkReturns i e]) (wk[i := Returned e]) (c \<or> e \<noteq> None) w \<and> \<not> w"
  by (cases e) (auto simp: flag_inv_def first_error_append in_set_conv_nth)

lemma group_inv_step:
  assumes "group_step s ev s'" and inv: "group_inv ws es s"
  shows "group_inv ws (es @ [ev]) s'"
proof -
  have w: "work_inv ws es (gs_work s) (gs_err s)" and f: "flag_inv es (gs_work s) (gs_cancelled s) (gs_waited s)"
    and c: "clean_inv ws es (gs_clean s)" and r: "result_inv s"
    using inv by (simp_all add: group_inv_def)
  from assms(1) show ?thesis
  proof cases
    case parent_cancelled
    have "flag_inv (es @ [ParentCancelled]) (gs_work s) True (gs_waited s)"
      using f parent_cancelled by (simp add: flag_inv_def)
    moreover have "result_inv s'"
      using r parent_cancelled by (cases "gs_result s") (simp_all add: result_inv_def)
    ultimately show ?thesis
      using parent_cancelled work_inv_skip [OF w] clean_inv_skip [OF c] by (simp add: group_inv_def)
  next
    case (work_returns i e)
    have fl: "flag_inv (es @ [WorkReturns i e]) ((gs_work s)[i := Returned e]) (gs_cancelled s \<or> e \<noteq> None) (gs_waited s)"
      and nw: "\<not> gs_waited s"
      using flag_inv_return [OF f work_returns(3,4)] by blast+
    have "result_inv s'"
      using result_inv_working [OF r nw] work_returns by (intro result_inv_None) simp
    then show ?thesis
      using fl work_returns work_inv_return [OF w] clean_inv_skip [OF c] by (simp add: group_inv_def)
  next
    case wait_returns
    then have "result_inv s'" "flag_inv (es @ [ev]) (gs_work s') True True"
      using result_inv_working [OF r] by (simp_all add: result_inv_def flag_inv_def)
    then show ?thesis
      using wait_returns work_inv_skip [OF w] clean_inv_skip [OF c] by (simp add: group_inv_def)
  next
    case (clean_up_starts i)
    then have "result_inv s'" using result_inv_cleaning [OF r, of i] by (intro result_inv_None) simp
    then show ?thesis
      using clean_up_starts work_inv_skip [OF w] flag_inv_skip [OF f] clean_inv_starts [OF c] by (simp add: group_inv_def)
  next
    case (clean_up_ends i e)
    then have "result_inv s'" using result_inv_cleaning [OF r, of i] by (intro result_inv_None) simp
    then show ?thesis
      using clean_up_ends work_inv_skip [OF w] flag_inv_skip [OF f] clean_inv_ends [OF c] by (simp add: group_inv_def)
  next
    case start_returns
    then have "result_inv s'" by (simp add: result_inv_def)
    then show ?thesis
      using start_returns work_inv_skip [OF w] flag_inv_skip [OF f] clean_inv_skip [OF c] by (simp add: group_inv_def)
  qed
qed

lemma group_run_inv: "group_run ws es s \<Longrightarrow> group_inv ws es s"
  by (induction rule: group_run.induct) (auto intro: group_inv_start group_inv_step)

subsection \<open>Progress\<close>

text \<open>Steps left: two for each clean-up that is still to come, one for each worker and flag.\<close>

fun clean_left :: "clean_state \<Rightarrow> nat" where
  "clean_left WaitingForCancel = 2"
| "clean_left CleaningUp = 1"
| "clean_left c = 0"

definition steps_left :: "group_state \<Rightarrow> nat" where
  "steps_left s =
    sum_list (map (\<lambda>w. if w = Working then 1 else 0) (gs_work s)) + sum_list (map clean_left (gs_clean s))
    + (if gs_cancelled s then 0 else 1) + (if gs_waited s then 0 else 1) + (if gs_result s = None then 1 else 0)"

lemma sum_list_update_less:
  fixes f :: "'a \<Rightarrow> nat"
  shows "i < length xs \<Longrightarrow> f y < f (xs ! i) \<Longrightarrow> sum_list (map f (xs[i := y])) < sum_list (map f xs)"
  by (induction xs arbitrary: i) (auto split: nat.split)

lemma group_step_decreases: "group_step s ev s' \<Longrightarrow> steps_left s' < steps_left s"
proof (induction rule: group_step.induct)
  case (work_returns i s e)
  then have "sum_list (map (\<lambda>w. if w = Working then 1 else 0) ((gs_work s)[i := Returned e]))
      < (sum_list (map (\<lambda>w. if w = Working then 1 else 0) (gs_work s)) :: nat)"
    by (intro sum_list_update_less) simp_all
  then show ?case by (cases e) (simp_all add: steps_left_def)
next
  case (clean_up_starts s i)
  then have "sum_list (map clean_left ((gs_clean s)[i := CleaningUp])) < sum_list (map clean_left (gs_clean s))"
    by (intro sum_list_update_less) simp_all
  then show ?case by (simp add: steps_left_def)
next
  case (clean_up_ends i s e)
  then have "sum_list (map clean_left ((gs_clean s)[i := CleanedUp e])) < sum_list (map clean_left (gs_clean s))"
    by (intro sum_list_update_less) simp_all
  then show ?case by (simp add: steps_left_def)
qed (simp_all add: steps_left_def)

lemma group_run_bound: "group_run ws es s \<Longrightarrow> length es + steps_left s \<le> steps_left (start_state ws)"
  by (induction rule: group_run.induct) (use group_step_decreases in fastforce)+

lemma steps_left_start: "steps_left (start_state ws) \<le> 3 * length ws + 3"
proof -
  have "sum_list (map clean_left (gs_clean (start_state ws))) \<le> 2 * length ws"
    by (induction ws) (auto simp: start_state_def)
  moreover have "sum_list (map (\<lambda>w. if w = Working then 1 else 0) (gs_work (start_state ws))) = length ws"
    by (induction ws) (auto simp: start_state_def)
  ultimately show ?thesis by (simp add: steps_left_def start_state_def)
qed

lemma group_progress:
  assumes "group_inv ws es s" and "gs_result s = None" and "Working \<notin> set (gs_work s)"
  shows "\<exists>ev s'. ev \<noteq> ParentCancelled \<and> group_step s ev s'"
proof (cases "gs_waited s")
  case False
  then show ?thesis using group_step.wait_returns assms(3) by blast
next
  case True
  then have c: "gs_cancelled s" using assms(1) by (auto simp: group_inv_def flag_inv_def)
  show ?thesis
  proof (cases "list_all cleaned (gs_clean s)")
    case True
    then show ?thesis using \<open>gs_waited s\<close> assms(2) group_step.start_returns by blast
  next
    case False
    then obtain i where i: "i < length (gs_clean s)" "\<not> cleaned (gs_clean s ! i)"
      by (auto simp: list_all_length)
    then have "gs_clean s ! i = WaitingForCancel \<or> gs_clean s ! i = CleaningUp"
      by (cases "gs_clean s ! i") simp_all
    then show ?thesis using c i group_step.clean_up_starts group_step.clean_up_ends by blast
  qed
qed

end
