(* ===== verification/Serve_Properties.thy ===== *)
theory Serve_Properties
  imports Serve
begin

text \<open>
  The properties of the worker group: what a finished run guarantees, when clean-ups start, and that
  every run ends once its workers return.
\<close>

subsection \<open>A run for the witnesses\<close>

text \<open>Two workers, one with a clean-up; the first fails, the second returns during the clean-up.\<close>

definition two_workers :: "unit worker list" where
  "two_workers = [\<lparr>wk_name = ''api'', wk_work = (), wk_clean_up = Some ()\<rparr>,
     \<lparr>wk_name = ''metrics'', wk_work = (), wk_clean_up = None\<rparr>]"

definition failing_run :: "group_event list" where
  "failing_run = [WorkReturns 0 (Some (Foreign ''closed'')), CleanUpStarts 0, WorkReturns 1 None, CleanUpEnds 0 None,
     WaitReturns, StartReturns]"

definition failed_state :: group_state where
  "failed_state = \<lparr>gs_work = [Returned (Some (Foreign ''closed'')), Returned None],
     gs_clean = [CleanedUp None, NoCleanUp], gs_cancelled = True, gs_err = Some (Foreign ''closed''),
     gs_waited = True, gs_result = Some (Some (Foreign ''closed''))\<rparr>"

lemma group_run_step: "group_run ws es s \<Longrightarrow> group_step s ev s' \<Longrightarrow> es' = es @ [ev] \<Longrightarrow> group_run ws es' s'"
  using group_run.steps by simp

lemma failing_run_runs: "group_run two_workers failing_run failed_state"
proof -
  let ?w1 = "[Returned (Some (Foreign ''closed'')), Working]" and ?err = "Some (Foreign ''closed'')"
  let ?s = "\<lambda>w c wt r. \<lparr>gs_work = w, gs_clean = c, gs_cancelled = True, gs_err = ?err, gs_waited = wt, gs_result = r\<rparr>"
  let ?w2 = "[Returned (Some (Foreign ''closed'')), Returned None]"
  have 1: "group_run two_workers [WorkReturns 0 ?err] (?s ?w1 [WaitingForCancel, NoCleanUp] False None)"
    using group_run.steps [OF group_run.spawned group_step.work_returns [of 0 "start_state two_workers" ?err]]
    by (simp add: start_state_def two_workers_def)
  have 2: "group_run two_workers [WorkReturns 0 ?err, CleanUpStarts 0] (?s ?w1 [CleaningUp, NoCleanUp] False None)"
    using group_run.steps [OF 1 group_step.clean_up_starts [of _ 0]] by simp
  have 3: "group_run two_workers [WorkReturns 0 ?err, CleanUpStarts 0, WorkReturns 1 None]
      (?s ?w2 [CleaningUp, NoCleanUp] False None)"
    using group_run.steps [OF 2 group_step.work_returns [of 1 _ None]] by simp
  have 4: "group_run two_workers [WorkReturns 0 ?err, CleanUpStarts 0, WorkReturns 1 None, CleanUpEnds 0 None]
      (?s ?w2 [CleanedUp None, NoCleanUp] False None)"
    using group_run.steps [OF 3 group_step.clean_up_ends [of 0 _ None]] by simp
  have 5: "group_run two_workers [WorkReturns 0 ?err, CleanUpStarts 0, WorkReturns 1 None, CleanUpEnds 0 None, WaitReturns]
      (?s ?w2 [CleanedUp None, NoCleanUp] True None)"
    using group_run.steps [OF 4 group_step.wait_returns] by simp
  show ?thesis
    using group_run.steps [OF 5 group_step.start_returns] by (simp add: failing_run_def failed_state_def)
qed

subsection \<open>Properties\<close>

text \<open>C29: When \<open>Start\<close> has returned, every worker has returned, every clean-up function has run exactly
  once and finished, and the result is the first error a worker returned, or nil if none did.\<close>

theorem finished_run_cleaned_up:
  assumes "group_run ws es s" and "gs_result s = Some r"
  shows "r = first_error es \<and> Working \<notin> set (gs_work s)
    \<and> (\<forall>i < length ws. wk_clean_up (ws ! i) \<noteq> None \<longrightarrow>
         (\<exists>e. gs_clean s ! i = CleanedUp e) \<and> count_list es (CleanUpStarts i) = 1)"
proof -
  have inv: "group_inv ws es s" using assms(1) by (rule group_run_inv)
  then have r: "r = gs_err s" "gs_waited s" "list_all cleaned (gs_clean s)"
    using assms(2) by (simp_all add: group_inv_def result_inv_def)
  have "(\<exists>e. gs_clean s ! i = CleanedUp e) \<and> count_list es (CleanUpStarts i) = 1"
    if "i < length ws" "wk_clean_up (ws ! i) \<noteq> None" for i
  proof -
    have "cleaned (gs_clean s ! i)" "clean_ok es i (ws ! i) (gs_clean s ! i)"
      using that inv r(3) by (simp_all add: group_inv_def clean_inv_def list_all_length)
    then show ?thesis using that by (cases "gs_clean s ! i") (simp_all add: clean_ok_def)
  qed
  then show ?thesis using inv r by (simp add: group_inv_def work_inv_def flag_inv_def)
qed

theorem finished_run_cleaned_up_witness:
  "Some (Foreign ''closed'') = first_error failing_run \<and> count_list failing_run (CleanUpStarts 0) = 1"
  using finished_run_cleaned_up [OF failing_run_runs, of "Some (Foreign ''closed'')"]
  by (simp add: failed_state_def two_workers_def)

text \<open>A clean-up starts only after its reason: the context was cancelled, a worker failed, or all
  workers have returned and the group's wait is over.\<close>

theorem clean_up_has_a_reason:
  assumes "group_run ws (es @ [CleanUpStarts i]) s"
  shows "ParentCancelled \<in> set es \<or> WaitReturns \<in> set es \<or> (\<exists>j e. WorkReturns j (Some e) \<in> set es)"
proof -
  obtain s0 where s0: "group_run ws es s0" "group_step s0 (CleanUpStarts i) s"
    using assms by (cases rule: group_run.cases) auto
  then have "gs_cancelled s0" by (auto elim: group_stepE)
  moreover have "first_error es \<noteq> None \<Longrightarrow> \<exists>j e. WorkReturns j (Some e) \<in> set es"
    by (induction es rule: first_error.induct) auto
  ultimately show ?thesis using group_run_inv [OF s0(1)] by (auto simp: group_inv_def flag_inv_def)
qed

theorem clean_up_has_a_reason_witness:
  "\<exists>j e. WorkReturns j (Some e) \<in> set [WorkReturns 0 (Some (Foreign ''closed''))]"
proof -
  have "group_run two_workers [WorkReturns 0 (Some (Foreign ''closed''))]
      (start_state two_workers\<lparr>gs_work := [Returned (Some (Foreign ''closed'')), Working],
        gs_err := Some (Foreign ''closed''), gs_cancelled := True\<rparr>)"
    using group_run.steps [OF group_run.spawned group_step.work_returns [of 0 "start_state two_workers" "Some (Foreign ''closed'')"]]
    by (simp add: start_state_def two_workers_def)
  from group_run.steps [OF this group_step.clean_up_starts [of _ 0]]
  obtain s where "group_run two_workers ([WorkReturns 0 (Some (Foreign ''closed''))] @ [CleanUpStarts 0]) s"
    by (auto simp: start_state_def two_workers_def)
  from clean_up_has_a_reason [OF this] show ?thesis by simp
qed

text \<open>C30: The group never hangs on its own: every run is at most three steps per worker and three more
  long, and one that cannot go on without the outside has returned from \<open>Start\<close> or still waits for a
  worker to return.\<close>

theorem runs_end:
  assumes "group_run ws es s"
  shows "length es \<le> 3 * length ws + 3
    \<and> ((\<nexists>ev s'. ev \<noteq> ParentCancelled \<and> group_step s ev s') \<longrightarrow> gs_result s \<noteq> None \<or> Working \<in> set (gs_work s))"
  using group_run_bound [OF assms] steps_left_start [of ws] group_progress [OF group_run_inv [OF assms]]
  by fastforce

theorem runs_end_witness: "length failing_run \<le> 3 * length two_workers + 3"
  using runs_end [OF failing_run_runs] by (rule conjunct1)

end
