(* ===== verification/Http_Gateway.thy ===== *)
theory Http_Gateway
  imports Api_Server
begin

text \<open>
  The HTTP side of the API: the handlers grpc-gateway generated for the five services
  (\<open>api/gen/grpc/go/*.pb.gw.go\<close>) and \<open>pkg/api/grpc_http_gateway.go\<close>, which registers them. A request
  is turned into the message of one gRPC call. Each generated handler comes twice, once for a client
  connection (\<open>request_X\<close>) and once for a server in the same process (\<open>local_request_X\<close>); the two
  differ only in whom they call, which is the argument \<open>call\<close> of one definition here.
\<close>

subsection \<open>Requests and the runtime\<close>

datatype http_method = MethodGet | MethodPost | MethodPut | MethodDelete | OtherMethod string

text \<open>
  The form is what \<open>ParseForm\<close> makes of the query string: an error or the values of each key. An upgrade
  is a request whose headers ask for a websocket.
\<close>

record gw_request =
  gq_method :: http_method
  gq_path :: string
  gq_form :: "string list gomap res"
  gq_body :: string
  gq_upgrade :: bool

type_synonym path_params = "string gomap"

text \<open>
  The grpc-gateway runtime: its marshaler's decoder, one function per message type, which hands back
  what it decoded and an error, if any; \<open>runtime.String\<close>; \<open>PopulateQueryParameters\<close>, given the names
  the filter keeps it from setting; and \<open>AnnotateContext\<close>, whose result matters here for the bearer
  token the call's metadata carries.
\<close>

type_synonym 'm body_decoder = "string \<Rightarrow> 'm \<times> go_error option"

record gw_lib =
  gw_dec_login :: "login_req body_decoder"
  gw_dec_empty :: "unit body_decoder"
  gw_dec_token_check :: "unit body_decoder"
  gw_dec_create_user :: "create_user_req body_decoder"
  gw_dec_change_password :: "change_password_req body_decoder"
  gw_dec_role :: "pb_role body_decoder"
  gw_dec_cluster_status :: "int body_decoder"
  gw_dec_update_cluster_user :: "update_cluster_user_req body_decoder"
  gw_dec_create_cluster_user :: "create_cluster_user_req body_decoder"
  gw_dec_export_cluster_user :: "export_cluster_user_req body_decoder"
  gw_dec_create_rule :: "create_rule_req body_decoder"
  gw_query_search_config :: "string list \<Rightarrow> string list gomap \<Rightarrow> search_config_req res"
  gw_query_clone_role :: "string list \<Rightarrow> string list gomap \<Rightarrow> clone_role_req \<Rightarrow> clone_role_req res"
  gw_string :: "string \<Rightarrow> string res"
  gw_annotate :: "gw_request \<Rightarrow> string \<Rightarrow> string res res"

definition io_eof :: go_error where
  "io_eof = Foreign ''EOF''"

definition invalid_argument :: "string \<Rightarrow> go_error" where
  "invalid_argument msg = StatusError InvalidArgument msg []"

subsection \<open>The parts of a generated handler\<close>

type_synonym 's grpc_client = "rpc \<Rightarrow> 's \<Rightarrow> answer reply \<times> 's"
type_synonym 's request_fn =
  "gw_lib \<Rightarrow> 's grpc_client \<Rightarrow> gw_request \<Rightarrow> path_params \<Rightarrow> 's \<Rightarrow> answer reply \<times> 's"

text \<open>Decoding the body: an empty one (\<open>io.EOF\<close>) is no error.\<close>

definition with_body ::
  "'m body_decoder \<Rightarrow> gw_request \<Rightarrow> ('m \<Rightarrow> 's \<Rightarrow> answer reply \<times> 's) \<Rightarrow> 's \<Rightarrow> answer reply \<times> 's" where
  "with_body dec req k st =
    (case dec (gq_body req) of
       (m, Some err) \<Rightarrow> if \<not> errors_is err io_eof then (Failed (invalid_argument (error_text [] err)), st) else k m st
     | (m, None) \<Rightarrow> k m st)"

text \<open>Reading a path parameter.\<close>

definition with_param ::
  "gw_lib \<Rightarrow> path_params \<Rightarrow> string \<Rightarrow> (string \<Rightarrow> 's \<Rightarrow> answer reply \<times> 's) \<Rightarrow> 's \<Rightarrow> answer reply \<times> 's" where
  "with_param L params name k st =
    (case gget params name of
       None \<Rightarrow> (Failed (invalid_argument (''missing parameter '' @ name)), st)
     | Some val \<Rightarrow>
        (case gw_string L val of
           Inl err \<Rightarrow> (Failed (invalid_argument
             (''type mismatch, parameter: '' @ name @ '', error: '' @ error_text [] err)), st)
         | Inr v \<Rightarrow> k v st))"

text \<open>Parsing the form and filling the message from it.\<close>

definition with_query ::
  "(string list gomap \<Rightarrow> 'm res) \<Rightarrow> gw_request \<Rightarrow> ('m \<Rightarrow> 's \<Rightarrow> answer reply \<times> 's) \<Rightarrow> 's \<Rightarrow> answer reply \<times> 's" where
  "with_query populate req k st =
    (case gq_form req of
       Inl err \<Rightarrow> (Failed (invalid_argument (error_text [] err)), st)
     | Inr form \<Rightarrow>
        (case populate form of
           Inl err \<Rightarrow> (Failed (invalid_argument (error_text [] err)), st)
         | Inr m \<Rightarrow> k m st))"

subsection \<open>The generated handlers: Auth\<close>

definition request_Auth_Login_0 :: "'s request_fn" where
  "request_Auth_Login_0 L call req params = with_body (gw_dec_login L) req (\<lambda>m. call (Login m))"

definition request_Auth_Logout_0 :: "'s request_fn" where
  "request_Auth_Logout_0 L call req params = with_body (gw_dec_empty L) req (\<lambda>m. call Logout)"

definition request_Auth_Check_0 :: "'s request_fn" where
  "request_Auth_Check_0 L call req params = with_body (gw_dec_token_check L) req (\<lambda>m. call Check)"

subsection \<open>Users\<close>

definition request_Users_ListUsers_0 :: "'s request_fn" where
  "request_Users_ListUsers_0 L call req params = call ListUsers"

definition request_Users_GetUser_0 :: "'s request_fn" where
  "request_Users_GetUser_0 L call req params =
    with_param L params ''username'' (\<lambda>v. call (GetUser \<lparr>gu_username = v\<rparr>))"

definition request_Users_CreateUser_0 :: "'s request_fn" where
  "request_Users_CreateUser_0 L call req params = with_body (gw_dec_create_user L) req (\<lambda>m. call (CreateUser m))"

definition request_Users_DeleteUser_0 :: "'s request_fn" where
  "request_Users_DeleteUser_0 L call req params =
    with_param L params ''username'' (\<lambda>v. call (DeleteUser \<lparr>gu_username = v\<rparr>))"

definition request_Users_UpdateUser_0 :: "'s request_fn" where
  "request_Users_UpdateUser_0 L call req params = with_body (gw_dec_create_user L) req (\<lambda>m.
    with_param L params ''username'' (\<lambda>v. call (UpdateUser (m\<lparr>cu_username := v\<rparr>))))"

definition request_Users_UserChangePassword_0 :: "'s request_fn" where
  "request_Users_UserChangePassword_0 L call req params = with_body (gw_dec_change_password L) req (\<lambda>m.
    with_param L params ''username'' (\<lambda>v. call (UserChangePassword (m\<lparr>cp_username := v\<rparr>))))"

definition request_Users_ListRoles_0 :: "'s request_fn" where
  "request_Users_ListRoles_0 L call req params = call ListRoles"

definition request_Users_GetRole_0 :: "'s request_fn" where
  "request_Users_GetRole_0 L call req params =
    with_param L params ''name'' (\<lambda>v. call (GetRole \<lparr>gr_name = v\<rparr>))"

definition request_Users_CreateRole_0 :: "'s request_fn" where
  "request_Users_CreateRole_0 L call req params = with_body (gw_dec_role L) req (\<lambda>m. call (CreateRole m))"

definition request_Users_DeleteRole_0 :: "'s request_fn" where
  "request_Users_DeleteRole_0 L call req params =
    with_param L params ''name'' (\<lambda>v. call (DeleteRole \<lparr>gr_name = v\<rparr>))"

definition request_Users_UpdateRole_0 :: "'s request_fn" where
  "request_Users_UpdateRole_0 L call req params = with_body (gw_dec_role L) req (\<lambda>m.
    with_param L params ''name'' (\<lambda>v. call (UpdateRole (m\<lparr>pb_role_name := v\<rparr>))))"

definition request_Users_CloneRole_0 :: "'s request_fn" where
  "request_Users_CloneRole_0 L call req params = with_param L params ''name'' (\<lambda>v.
    with_query (\<lambda>form. gw_query_clone_role L [''name''] form \<lparr>cr_name = v, cr_new_name = []\<rparr>) req
      (\<lambda>m. call (CloneRole m)))"

subsection \<open>Cluster\<close>

definition request_Cluster_GetStatus_0 :: "'s request_fn" where
  "request_Cluster_GetStatus_0 L call req params = call ClusterGetStatus"

definition request_Cluster_UpdateStatus_0 :: "'s request_fn" where
  "request_Cluster_UpdateStatus_0 L call req params =
    with_body (gw_dec_cluster_status L) req (\<lambda>m. call (ClusterUpdateStatus m))"

definition request_Cluster_GetUsers_0 :: "'s request_fn" where
  "request_Cluster_GetUsers_0 L call req params = call ClusterGetUsers"

definition request_Cluster_UpdateUser_0 :: "'s request_fn" where
  "request_Cluster_UpdateUser_0 L call req params =
    with_body (gw_dec_update_cluster_user L) req (\<lambda>m. call (ClusterUpdateUser m))"

definition request_Cluster_CreateUser_0 :: "'s request_fn" where
  "request_Cluster_CreateUser_0 L call req params =
    with_body (gw_dec_create_cluster_user L) req (\<lambda>m. call (ClusterCreateUser m))"

definition request_Cluster_ExportUser_0 :: "'s request_fn" where
  "request_Cluster_ExportUser_0 L call req params =
    with_body (gw_dec_export_cluster_user L) req (\<lambda>m. call (ClusterExportUser m))"

definition request_Cluster_DeleteUser_0 :: "'s request_fn" where
  "request_Cluster_DeleteUser_0 L call req params =
    with_param L params ''user_entity'' (\<lambda>v. call (ClusterDeleteUser \<lparr>dcu_user_entity = v\<rparr>))"

definition request_Cluster_SearchConfig_0 :: "'s request_fn" where
  "request_Cluster_SearchConfig_0 L call req params =
    with_query (gw_query_search_config L []) req (\<lambda>m. call (ClusterSearchConfig m))"

subsection \<open>CrushRule\<close>

definition request_CrushRule_CreateRule_0 :: "'s request_fn" where
  "request_CrushRule_CreateRule_0 L call req params = with_body (gw_dec_create_rule L) req (\<lambda>m. call (CreateRule m))"

definition request_CrushRule_DeleteRule_0 :: "'s request_fn" where
  "request_CrushRule_DeleteRule_0 L call req params =
    with_param L params ''name'' (\<lambda>v. call (DeleteRule \<lparr>rn_name = v\<rparr>))"

definition request_CrushRule_GetRule_0 :: "'s request_fn" where
  "request_CrushRule_GetRule_0 L call req params =
    with_param L params ''name'' (\<lambda>v. call (GetRule \<lparr>rn_name = v\<rparr>))"

definition request_CrushRule_ListRules_0 :: "'s request_fn" where
  "request_CrushRule_ListRules_0 L call req params = call ListRules"

subsection \<open>Status\<close>

definition request_Status_GetCephStatus_0 :: "'s request_fn" where
  "request_Status_GetCephStatus_0 L call req params = call GetCephStatus"

definition request_Status_GetCephMonDump_0 :: "'s request_fn" where
  "request_Status_GetCephMonDump_0 L call req params = call GetCephMonDump"

definition request_Status_GetCephOsdDump_0 :: "'s request_fn" where
  "request_Status_GetCephOsdDump_0 L call req params = call GetCephOsdDump"

definition request_Status_GetCephReport_0 :: "'s request_fn" where
  "request_Status_GetCephReport_0 L call req params = call GetCephReport"


subsection \<open>Routes\<close>

text \<open>
  A pattern is a sequence of literal segments and parameters, each of which captures one segment of
  the path (the operations of \<open>runtime.NewPattern\<close> say no more in these files). A route may name the
  field of the answer that becomes the body of the response (\<open>XXX_ResponseBody\<close>); otherwise the
  whole message does.
\<close>

datatype path_segment = Lit string | Param string

record 's route =
  rt_method :: http_method
  rt_pattern :: "path_segment list"
  rt_full_method :: string
  rt_request :: "'s request_fn"
  rt_field :: "string option"

definition route ::
  "http_method \<Rightarrow> path_segment list \<Rightarrow> string \<Rightarrow> 's request_fn \<Rightarrow> string option \<Rightarrow> 's route" where
  "route m pat full f fld =
    \<lparr>rt_method = m, rt_pattern = pat, rt_full_method = full, rt_request = f, rt_field = fld\<rparr>"

definition register_cluster_handler :: "'s route list" where
  "register_cluster_handler =
    [route MethodGet [Lit ''api'', Lit ''cluster'']
       ''/ceph.Cluster/GetStatus'' request_Cluster_GetStatus_0 None,
     route MethodPut [Lit ''api'', Lit ''cluster'']
       ''/ceph.Cluster/UpdateStatus'' request_Cluster_UpdateStatus_0 None,
     route MethodGet [Lit ''api'', Lit ''cluster'', Lit ''user'']
       ''/ceph.Cluster/GetUsers'' request_Cluster_GetUsers_0 (Some ''users''),
     route MethodPut [Lit ''api'', Lit ''cluster'', Lit ''user'']
       ''/ceph.Cluster/UpdateUser'' request_Cluster_UpdateUser_0 None,
     route MethodPost [Lit ''api'', Lit ''cluster'', Lit ''user'']
       ''/ceph.Cluster/CreateUser'' request_Cluster_CreateUser_0 None,
     route MethodPost [Lit ''api'', Lit ''cluster'', Lit ''user'', Lit ''export'']
       ''/ceph.Cluster/ExportUser'' request_Cluster_ExportUser_0 (Some ''data''),
     route MethodDelete [Lit ''api'', Lit ''cluster'', Lit ''user'', Param ''user_entity'']
       ''/ceph.Cluster/DeleteUser'' request_Cluster_DeleteUser_0 None,
     route MethodGet [Lit ''api'', Lit ''cluster'', Lit ''config'', Lit ''search'']
       ''/ceph.Cluster/SearchConfig'' request_Cluster_SearchConfig_0 None]"

definition register_users_handler :: "'s route list" where
  "register_users_handler =
    [route MethodGet [Lit ''api'', Lit ''user'']
       ''/ceph.Users/ListUsers'' request_Users_ListUsers_0 (Some ''users''),
     route MethodGet [Lit ''api'', Lit ''user'', Param ''username'']
       ''/ceph.Users/GetUser'' request_Users_GetUser_0 None,
     route MethodPost [Lit ''api'', Lit ''user'']
       ''/ceph.Users/CreateUser'' request_Users_CreateUser_0 None,
     route MethodDelete [Lit ''api'', Lit ''user'', Param ''username'']
       ''/ceph.Users/DeleteUser'' request_Users_DeleteUser_0 None,
     route MethodPut [Lit ''api'', Lit ''user'', Param ''username'']
       ''/ceph.Users/UpdateUser'' request_Users_UpdateUser_0 None,
     route MethodPost [Lit ''api'', Lit ''user'', Param ''username'', Lit ''change_password'']
       ''/ceph.Users/UserChangePassword'' request_Users_UserChangePassword_0 None,
     route MethodGet [Lit ''api'', Lit ''role'']
       ''/ceph.Users/ListRoles'' request_Users_ListRoles_0 (Some ''roles''),
     route MethodGet [Lit ''api'', Lit ''role'', Param ''name'']
       ''/ceph.Users/GetRole'' request_Users_GetRole_0 None,
     route MethodPost [Lit ''api'', Lit ''role'']
       ''/ceph.Users/CreateRole'' request_Users_CreateRole_0 None,
     route MethodDelete [Lit ''api'', Lit ''role'', Param ''name'']
       ''/ceph.Users/DeleteRole'' request_Users_DeleteRole_0 None,
     route MethodPut [Lit ''api'', Lit ''role'', Param ''name'']
       ''/ceph.Users/UpdateRole'' request_Users_UpdateRole_0 None,
     route MethodGet [Lit ''api'', Lit ''user'', Param ''name'', Lit ''clone'']
       ''/ceph.Users/CloneRole'' request_Users_CloneRole_0 None]"

definition register_auth_handler :: "'s route list" where
  "register_auth_handler =
    [route MethodPost [Lit ''api'', Lit ''auth'']
       ''/ceph.Auth/Login'' request_Auth_Login_0 None,
     route MethodPost [Lit ''api'', Lit ''auth'', Lit ''logout'']
       ''/ceph.Auth/Logout'' request_Auth_Logout_0 None,
     route MethodPost [Lit ''api'', Lit ''auth'', Lit ''check'']
       ''/ceph.Auth/Check'' request_Auth_Check_0 None]"

definition register_crush_rule_handler :: "'s route list" where
  "register_crush_rule_handler =
    [route MethodPost [Lit ''api'', Lit ''crush_rule'']
       ''/ceph.CrushRule/CreateRule'' request_CrushRule_CreateRule_0 None,
     route MethodDelete [Lit ''api'', Lit ''crush_rule'', Param ''name'']
       ''/ceph.CrushRule/DeleteRule'' request_CrushRule_DeleteRule_0 None,
     route MethodGet [Lit ''api'', Lit ''crush_rule'', Param ''name'']
       ''/ceph.CrushRule/GetRule'' request_CrushRule_GetRule_0 None,
     route MethodGet [Lit ''api'', Lit ''crush_rule'']
       ''/ceph.CrushRule/ListRules'' request_CrushRule_ListRules_0 (Some ''rules'')]"

definition register_status_handler :: "'s route list" where
  "register_status_handler =
    [route MethodGet [Lit ''api'', Lit ''status'', Lit ''ceph'']
       ''/ceph.Status/GetCephStatus'' request_Status_GetCephStatus_0 None,
     route MethodGet [Lit ''api'', Lit ''status'', Lit ''mon_dump'']
       ''/ceph.Status/GetCephMonDump'' request_Status_GetCephMonDump_0 None,
     route MethodGet [Lit ''api'', Lit ''status'', Lit ''osd_dump'']
       ''/ceph.Status/GetCephOsdDump'' request_Status_GetCephOsdDump_0 None,
     route MethodGet [Lit ''api'', Lit ''status'', Lit ''report'']
       ''/ceph.Status/GetCephReport'' request_Status_GetCephReport_0 None]"

definition api_routes :: "'s route list" where
  "api_routes = register_cluster_handler @ register_users_handler @ register_auth_handler
     @ register_crush_rule_handler @ register_status_handler"

text \<open>
  The closure each route is registered with. An answer that is not one of a route is that of another
  handler, or none because no handler was found or the websocket could not be opened.
\<close>

datatype http_answer =
    Forwarded "string option" answer | HttpError go_error | HttpPanic string
  | PathAnswer http_resp | NotRouted | NotUpgraded

definition handle_route ::
  "gw_lib \<Rightarrow> (string res \<Rightarrow> 's grpc_client) \<Rightarrow> 's route \<Rightarrow> gw_request \<Rightarrow> path_params \<Rightarrow> 's \<Rightarrow> http_answer \<times> 's" where
  "handle_route L client rt req params st =
    (case gw_annotate L req (rt_full_method rt) of
       Inl err \<Rightarrow> (HttpError err, st)
     | Inr bearer \<Rightarrow>
        (case rt_request rt L (client bearer) req params st of
           (Failed err, st) \<Rightarrow> (HttpError err, st)
         | (Panicked p, st) \<Rightarrow> (HttpPanic p, st)
         | (Reply resp, st) \<Rightarrow> (Forwarded (rt_field rt) resp, st)))"

end
