(* ===== verification/Gateway_Mux.thy ===== *)
theory Gateway_Mux
  imports Http_Gateway
begin

text \<open>
  The HTTP handler the application serves (\<open>pkg/api/grpc_http_gateway.go\<close>): the routes of the five
  services, the metrics, OAuth and debug paths, the websocket proxy in front of them, and what a request
  that arrives is handed to.
\<close>

subsection \<open>Configuration (config.go)\<close>

record api_config =
  apc_http_port :: int
  apc_grpc_port :: int
  apc_grpc_reflection :: bool
  apc_secure :: bool
  apc_serve_debug :: bool
  apc_access_log :: bool

subsection \<open>Building the handler\<close>

text \<open>\<open>TlsCredentials skip\<close> dials with TLS and checks the server's certificate unless \<open>skip\<close>.\<close>

datatype transport_credentials = TlsCredentials bool | InsecureCredentials

datatype oauth_endpoint = TokenEndpoint | AuthEndpoint | RevokeEndpoint | IntrospectionEndpoint

datatype path_handler = MetricsHandler | OAuthHandler oauth_endpoint | PprofHandler string

record 's gateway =
  gwy_routes :: "'s route list"
  gwy_paths :: "(http_method \<times> string \<times> path_handler) list"

type_synonym 'a built = "(go_error, 'a) outcome"

definition then_built :: "'a built \<Rightarrow> ('a \<Rightarrow> 'b built) \<Rightarrow> 'b built" where
  "then_built r f = (case r of Reply a \<Rightarrow> f a | Failed e \<Rightarrow> Failed e | Panicked p \<Rightarrow> Panicked p)"

text \<open>
  \<open>Register\<dots>HandlerFromEndpoint\<close>: \<open>new_client\<close> is \<open>grpc.NewClient\<close>, called once for each service. The
  connection is closed when the context is done, which is not modelled.
\<close>

type_synonym new_client = "string \<Rightarrow> string \<Rightarrow> transport_credentials \<Rightarrow> go_error option"

definition register_from_endpoint ::
  "new_client \<Rightarrow> string \<Rightarrow> string \<Rightarrow> transport_credentials \<Rightarrow> 's route list \<Rightarrow> 's gateway \<Rightarrow> 's gateway built" where
  "register_from_endpoint new_client service endpoint creds routes g =
    (case new_client service endpoint creds of
       Some err \<Rightarrow> Failed err
     | None \<Rightarrow> Reply (g\<lparr>gwy_routes := gwy_routes g @ routes\<rparr>))"

text \<open>\<open>compile\<close> is the runtime's check of a path template; a path it refuses is a panic.\<close>

definition handle_get ::
  "(string \<Rightarrow> go_error option) \<Rightarrow> string \<Rightarrow> path_handler \<Rightarrow> 's gateway \<Rightarrow> 's gateway built" where
  "handle_get compile path h g =
    (case compile path of
       Some err \<Rightarrow> Panicked (error_text [] err @ '': unable to register http handler '' @ path)
     | None \<Rightarrow> Reply (g\<lparr>gwy_paths := gwy_paths g @ [(MethodGet, path, h)]\<rparr>))"

definition handle_post ::
  "(string \<Rightarrow> go_error option) \<Rightarrow> string \<Rightarrow> path_handler \<Rightarrow> 's gateway \<Rightarrow> 's gateway built" where
  "handle_post compile path h g =
    (case compile path of
       Some err \<Rightarrow> Panicked (error_text [] err @ '': unable to register http handler '' @ path)
     | None \<Rightarrow> Reply (g\<lparr>gwy_paths := gwy_paths g @ [(MethodPost, path, h)]\<rparr>))"

fun handle_all ::
  "(string \<Rightarrow> path_handler \<Rightarrow> 's gateway \<Rightarrow> 's gateway built) \<Rightarrow> (string \<times> path_handler) list
    \<Rightarrow> 's gateway \<Rightarrow> 's gateway built" where
  "handle_all handle [] g = Reply g"
| "handle_all handle ((path, h) # ps) g = then_built (handle path h g) (handle_all handle ps)"

definition debug_paths :: "string list" where
  "debug_paths =
    [''/debug/pprof/'', ''/debug/pprof/cmdline'', ''/debug/pprof/profile'', ''/debug/pprof/symbol'',
     ''/debug/pprof/trace'', ''/debug/pprof/threadcreate'', ''/debug/pprof/heap'', ''/debug/pprof/goroutine'',
     ''/debug/pprof/block'', ''/debug/pprof/allocs'', ''/debug/pprof/mutex'']"

definition dial_credentials :: "api_config \<Rightarrow> transport_credentials" where
  "dial_credentials conf = (if apc_secure conf then TlsCredentials False else InsecureCredentials)"

text \<open>
  The OAuth handlers are a map, which is ranged over in any order. What is returned is the multiplexer
  behind the websocket proxy (\<open>websocket_proxy\<close> below).
\<close>

definition grpc_gateway ::
  "new_client \<Rightarrow> (string \<Rightarrow> go_error option) \<Rightarrow> api_config \<Rightarrow> bool \<Rightarrow> (string \<times> oauth_endpoint) list
    \<Rightarrow> 's gateway built" where
  "grpc_gateway new_client compile conf metrics oauth_handlers =
    (let endpoint = '':'' @ itoa (apc_grpc_port conf);
         register = (\<lambda>service. register_from_endpoint new_client service endpoint (dial_credentials conf)) in
     then_built (register ''Cluster'' register_cluster_handler \<lparr>gwy_routes = [], gwy_paths = []\<rparr>) (\<lambda>g.
     then_built (register ''Users'' register_users_handler g) (\<lambda>g.
     then_built (register ''Auth'' register_auth_handler g) (\<lambda>g.
     then_built (register ''CrushRule'' register_crush_rule_handler g) (\<lambda>g.
     then_built (register ''Status'' register_status_handler g) (\<lambda>g.
     then_built (if metrics then handle_get compile ''/metrics'' MetricsHandler g else Reply g) (\<lambda>g.
     then_built (handle_all (handle_post compile) (map (\<lambda>(p, h). (p, OAuthHandler h)) oauth_handlers) g) (\<lambda>g.
     if apc_serve_debug conf
     then handle_all (handle_get compile) (map (\<lambda>p. (p, PprofHandler p)) debug_paths) g
     else Reply g))))))))"

subsection \<open>Serving a request\<close>

text \<open>
  The multiplexer of the runtime picks one of the registered routes, and hands over the parameters it
  found in the path, or one of the registered paths. A \<open>GET\<close> is never taken for another method (the
  runtime lets only a \<open>POST\<close> be treated as something else). \<open>template_match\<close> is the documented meaning
  of a pattern. The path is split at its slashes.
\<close>

fun template_match :: "path_segment list \<Rightarrow> string list \<Rightarrow> path_params option" where
  "template_match [] [] = Some []"
| "template_match (Lit l # ss) (c # cs) = (if l = c then template_match ss cs else None)"
| "template_match (Param p # ss) (c # cs) = map_option (\<lambda>m. (p, c) # m) (template_match ss cs)"
| "template_match ss cs = None"

datatype 's target = ToRoute "'s route" path_params | ToPath path_handler

type_synonym 's picker = "'s gateway \<Rightarrow> gw_request \<Rightarrow> 's target option"

definition picks_registered :: "'s picker \<Rightarrow> bool" where
  "picks_registered pick \<longleftrightarrow>
    (\<forall>g req rt params. pick g req = Some (ToRoute rt params) \<longrightarrow>
      rt \<in> set (gwy_routes g) \<and> (gq_method req = MethodGet \<longrightarrow> rt_method rt = MethodGet))
    \<and> (\<forall>g req h. pick g req = Some (ToPath h) \<longrightarrow> (\<exists>m path. (m, path, h) \<in> set (gwy_paths g)))"

definition serve_mux ::
  "gw_lib \<Rightarrow> 's picker \<Rightarrow> (path_handler \<Rightarrow> gw_request \<Rightarrow> 's \<Rightarrow> http_resp \<times> 's) \<Rightarrow> (string res \<Rightarrow> 's grpc_client)
    \<Rightarrow> 's gateway \<Rightarrow> gw_request \<Rightarrow> 's \<Rightarrow> http_answer \<times> 's" where
  "serve_mux L pick path_serve client g req st =
    (case pick g req of
       None \<Rightarrow> (NotRouted, st)
     | Some (ToRoute rt params) \<Rightarrow> handle_route L client rt req params st
     | Some (ToPath h) \<Rightarrow> (case path_serve h req st of (resp, st) \<Rightarrow> (PathAnswer resp, st)))"

text \<open>
  \<open>wsproxy.WebsocketProxy\<close>: a request that asks for a websocket is replaced by the one that \<open>ws\<close> makes of
  it (its method may be named in the query, its body is what comes through the websocket), if the
  websocket can be opened; any other request is passed on.
\<close>

type_synonym ws_proxy = "gw_request \<Rightarrow> gw_request option"

definition inner_request :: "ws_proxy \<Rightarrow> gw_request \<Rightarrow> gw_request option" where
  "inner_request ws req = (if gq_upgrade req then ws req else Some req)"

definition websocket_proxy ::
  "ws_proxy \<Rightarrow> (gw_request \<Rightarrow> 's \<Rightarrow> http_answer \<times> 's) \<Rightarrow> gw_request \<Rightarrow> 's \<Rightarrow> http_answer \<times> 's" where
  "websocket_proxy ws handler req st =
    (case inner_request ws req of None \<Rightarrow> (NotUpgraded, st) | Some req' \<Rightarrow> handler req' st)"

definition serve_http ::
  "ws_proxy \<Rightarrow> gw_lib \<Rightarrow> 's picker \<Rightarrow> (path_handler \<Rightarrow> gw_request \<Rightarrow> 's \<Rightarrow> http_resp \<times> 's)
    \<Rightarrow> (string res \<Rightarrow> 's grpc_client) \<Rightarrow> 's gateway \<Rightarrow> gw_request \<Rightarrow> 's \<Rightarrow> http_answer \<times> 's" where
  "serve_http ws L pick path_serve client g = websocket_proxy ws (serve_mux L pick path_serve client g)"

text \<open>
  The handlers behind the paths: the OAuth endpoints of the server, which read the posted form and the
  basic authentication of the request, and those of the Prometheus and pprof libraries, which do not
  touch the state.
\<close>

record web_lib =
  web_request :: "gw_request \<Rightarrow> http_req"
  web_metrics :: "gw_request \<Rightarrow> http_resp"
  web_pprof :: "string \<Rightarrow> gw_request \<Rightarrow> http_resp"

fun oauth_serve :: "('w, 'f) api_env \<Rightarrow> oauth_endpoint \<Rightarrow> http_req \<Rightarrow> service \<Rightarrow> 'f \<Rightarrow> http_resp \<times> 'f" where
  "oauth_serve E TokenEndpoint req s = token_endpoint (ae_oauth E) (ae_server E) (ae_go E) (ae_now E) s req"
| "oauth_serve E AuthEndpoint req s = auth_endpoint (ae_oauth E) (ae_server E) (ae_go E) (ae_now E) s req"
| "oauth_serve E RevokeEndpoint req s = revoke_endpoint (ae_oauth E) req"
| "oauth_serve E IntrospectionEndpoint req s = introspection_endpoint (ae_oauth E) (ae_server E) (ae_now E) req"

fun path_serve ::
  "('w, 'f) api_env \<Rightarrow> web_lib \<Rightarrow> path_handler \<Rightarrow> gw_request \<Rightarrow> ('w, 'f) sys \<Rightarrow> http_resp \<times> ('w, 'f) sys" where
  "path_serve E W MetricsHandler req \<sigma> = (web_metrics W req, \<sigma>)"
| "path_serve E W (PprofHandler p) req \<sigma> = (web_pprof W p req, \<sigma>)"
| "path_serve E W (OAuthHandler h) req \<sigma> =
    (case oauth_serve E h (web_request W req) (sys_svc \<sigma>) (sys_tokens \<sigma>) of
       (resp, f) \<Rightarrow> (resp, \<sigma>\<lparr>sys_tokens := f\<rparr>))"

text \<open>The connection of the gateway to the gRPC server: a call goes through the server's whole chain.\<close>

definition server_client ::
  "('w, 'f) api_env \<Rightarrow> bool \<Rightarrow> string \<Rightarrow> string \<Rightarrow> string res \<Rightarrow> ('w, 'f) sys grpc_client" where
  "server_client E access_log nf trace_id bearer r =
    serve_call E access_log nf \<lparr>call_rpc = r, call_bearer = bearer, call_trace_id = trace_id\<rparr>"

subsection \<open>A request is one call or none\<close>

text \<open>
  \<open>forwards P call g\<close>: \<open>g\<close> either refuses the request as an invalid argument and changes nothing, or is
  one call, of which \<open>P\<close> holds.
\<close>

definition forwards :: "(rpc \<Rightarrow> bool) \<Rightarrow> 's grpc_client \<Rightarrow> ('s \<Rightarrow> answer reply \<times> 's) \<Rightarrow> bool" where
  "forwards P call g \<longleftrightarrow>
    (\<exists>msg. g = (\<lambda>st. (Failed (invalid_argument msg), st))) \<or> (\<exists>r. P r \<and> g = call r)"

lemma forwards_call: "P r \<Longrightarrow> forwards P call (call r)"
  by (auto simp: forwards_def)

lemma forwards_refuse: "forwards P call (\<lambda>st. (Failed (invalid_argument msg), st))"
  by (auto simp: forwards_def)

lemma forwards_body:
  assumes "\<And>x. forwards P call (k x)"
  shows "forwards P call (with_body dec req k)"
proof (cases "dec (gq_body req)")
  case (Pair x e)
  have "with_body dec req k = k x \<or> (\<exists>msg. with_body dec req k = (\<lambda>st. (Failed (invalid_argument msg), st)))"
    using Pair by (cases e) (auto simp: with_body_def fun_eq_iff)
  then show ?thesis using assms [of x] forwards_refuse by metis
qed

lemma forwards_param:
  assumes "\<And>x. gget params name = Some v \<Longrightarrow> gw_string L v = Inr x \<Longrightarrow> forwards P call (k x)"
    and "gget params name = None \<or> gget params name = Some v"
  shows "forwards P call (with_param L params name k)"
proof -
  have "(\<exists>x. gget params name = Some v \<and> gw_string L v = Inr x \<and> with_param L params name k = k x)
      \<or> (\<exists>msg. with_param L params name k = (\<lambda>st. (Failed (invalid_argument msg), st)))"
    using assms(2) by (cases "gw_string L v") (auto simp: with_param_def fun_eq_iff)
  then show ?thesis using assms(1) forwards_refuse by metis
qed

lemma forwards_any_param:
  assumes "\<And>x. forwards P call (k x)"
  shows "forwards P call (with_param L params name k)"
  by (cases "gget params name"; rule forwards_param [where v = "the (gget params name)"]) (simp_all add: assms)

lemma forwards_query:
  assumes "\<And>form x. pop form = Inr x \<Longrightarrow> forwards P call (k x)"
  shows "forwards P call (with_query pop req k)"
proof -
  have "(\<exists>form v. pop form = Inr v \<and> with_query pop req k = k v)
      \<or> (\<exists>msg. with_query pop req k = (\<lambda>st. (Failed (invalid_argument msg), st)))"
    by (cases "gq_form req"; cases "pop (projr (gq_form req))") (auto simp: with_query_def fun_eq_iff)
  then show ?thesis using assms forwards_refuse by metis
qed

lemmas forwards_intros = forwards_body forwards_any_param forwards_query forwards_call

lemmas request_defs =
  request_Auth_Login_0_def request_Auth_Logout_0_def request_Auth_Check_0_def
  request_Users_ListUsers_0_def request_Users_GetUser_0_def request_Users_CreateUser_0_def
  request_Users_DeleteUser_0_def request_Users_UpdateUser_0_def request_Users_UserChangePassword_0_def
  request_Users_ListRoles_0_def request_Users_GetRole_0_def request_Users_CreateRole_0_def
  request_Users_DeleteRole_0_def request_Users_UpdateRole_0_def request_Users_CloneRole_0_def
  request_Cluster_GetStatus_0_def request_Cluster_UpdateStatus_0_def request_Cluster_GetUsers_0_def
  request_Cluster_UpdateUser_0_def request_Cluster_CreateUser_0_def request_Cluster_ExportUser_0_def
  request_Cluster_DeleteUser_0_def request_Cluster_SearchConfig_0_def
  request_CrushRule_CreateRule_0_def request_CrushRule_DeleteRule_0_def request_CrushRule_GetRule_0_def
  request_CrushRule_ListRules_0_def request_Status_GetCephStatus_0_def request_Status_GetCephMonDump_0_def
  request_Status_GetCephOsdDump_0_def request_Status_GetCephReport_0_def

lemmas register_defs = register_cluster_handler_def register_users_handler_def register_auth_handler_def
  register_crush_rule_handler_def register_status_handler_def

definition route_forwards :: "'s route \<Rightarrow> bool" where
  "route_forwards rt \<longleftrightarrow> (\<forall>L call req params.
     forwards (\<lambda>r. full_method r = rt_full_method rt) call (rt_request rt L call req params))"

lemma routes_forward:
  "list_all route_forwards register_cluster_handler" "list_all route_forwards register_users_handler"
  "list_all route_forwards register_auth_handler" "list_all route_forwards register_crush_rule_handler"
  "list_all route_forwards register_status_handler"
  by (auto simp: register_defs route_def route_forwards_def request_defs intro!: forwards_intros)

lemma api_route_forwards:
  "rt \<in> set api_routes \<Longrightarrow>
    forwards (\<lambda>r. full_method r = rt_full_method rt) call (rt_request rt L call req params)"
  using routes_forward unfolding api_routes_def route_forwards_def list_all_iff by (auto simp del: split_paired_All)

text \<open>The routes and the paths of a gateway that was built.\<close>

lemma then_built_Reply: "then_built r f = Reply b \<longleftrightarrow> (\<exists>a. r = Reply a \<and> f a = Reply b)"
  by (simp add: then_built_def split: outcome.split)

lemma register_Reply:
  "register_from_endpoint nc service endpoint creds routes g = Reply g' \<longleftrightarrow>
    nc service endpoint creds = None \<and> g' = g\<lparr>gwy_routes := gwy_routes g @ routes\<rparr>"
  by (auto simp: register_from_endpoint_def split: option.split)

lemma handle_Reply:
  "handle_get compile path h g = Reply g' \<longleftrightarrow>
    compile path = None \<and> g' = g\<lparr>gwy_paths := gwy_paths g @ [(MethodGet, path, h)]\<rparr>"
  "handle_post compile path h g = Reply g' \<longleftrightarrow>
    compile path = None \<and> g' = g\<lparr>gwy_paths := gwy_paths g @ [(MethodPost, path, h)]\<rparr>"
  by (auto simp: handle_get_def handle_post_def split: option.split)

lemma handle_all_get:
  "handle_all (handle_get compile) ps g = Reply g' \<Longrightarrow>
    g' = g\<lparr>gwy_paths := gwy_paths g @ map (\<lambda>(p, h). (MethodGet, p, h)) ps\<rparr>"
  by (induction ps arbitrary: g) (fastforce simp: then_built_Reply handle_Reply)+

lemma handle_all_post:
  "handle_all (handle_post compile) ps g = Reply g' \<Longrightarrow>
    g' = g\<lparr>gwy_paths := gwy_paths g @ map (\<lambda>(p, h). (MethodPost, p, h)) ps\<rparr>"
  by (induction ps arbitrary: g) (fastforce simp: then_built_Reply handle_Reply)+

lemma gateway_built:
  assumes "grpc_gateway nc compile conf metrics oauth = Reply g"
  shows "gwy_routes g = api_routes"
    and "gwy_paths g = (if metrics then [(MethodGet, ''/metrics'', MetricsHandler)] else [])
      @ map (\<lambda>(p, h). (MethodPost, p, OAuthHandler h)) oauth
      @ (if apc_serve_debug conf then map (\<lambda>p. (MethodGet, p, PprofHandler p)) debug_paths else [])"
  using assms
  by (auto simp: grpc_gateway_def Let_def then_built_Reply register_Reply handle_Reply api_routes_def comp_def
      case_prod_unfold dest!: handle_all_get handle_all_post split: if_splits)

text \<open>The object a call names, where its name comes from the path (and may come from the message).\<close>

fun object_named :: "rpc \<Rightarrow> string option" where
  "object_named (GetUser q) = Some (gu_username q)"
| "object_named (DeleteUser q) = Some (gu_username q)"
| "object_named (UpdateUser m) = Some (cu_username m)"
| "object_named (UserChangePassword m) = Some (cp_username m)"
| "object_named (GetRole q) = Some (gr_name q)"
| "object_named (DeleteRole q) = Some (gr_name q)"
| "object_named (UpdateRole m) = Some (pb_role_name m)"
| "object_named (CloneRole m) = Some (cr_name m)"
| "object_named (ClusterDeleteUser q) = Some (dcu_user_entity q)"
| "object_named (GetRule q) = Some (rn_name q)"
| "object_named (DeleteRule q) = Some (rn_name q)"
| "object_named r = None"

end
