(* ===== verification/Config.thy ===== *)
theory Config
  imports Gateway_Mux
begin

text \<open>
  The application's configuration (\<open>pkg/config/config.go\<close>), the logger and the tracer it configures
  (\<open>pkg/log/log.go\<close>, \<open>pkg/trace/trace.go\<close>). viper, zerolog and OpenTelemetry are libraries.
\<close>

subsection \<open>The structs\<close>

record log_config =
  lcf_json :: bool
  lcf_level :: string

record trace_config =
  tcf_enabled :: bool
  tcf_insecure :: bool
  tcf_endpoint :: string

record app_config =
  acf_create_admin :: bool
  acf_admin_username :: string
  acf_admin_password :: string
  acf_bcrypt_pwd_cost :: int

record config =
  cfg_log :: log_config
  cfg_metrics_enabled :: bool
  cfg_trace :: trace_config
  cfg_api :: api_config
  cfg_rados :: rados_config
  cfg_auth :: auth_config
  cfg_app :: app_config

subsection \<open>Reading the configuration\<close>

datatype config_src = PathOpt string | ReaderOpt string string

text \<open>
  viper, on a state of type \<open>'v\<close>: reading the embedded defaults, merging a file or a reader over what
  is there, letting the environment override it, and decoding the result into the struct.
\<close>

record 'v viper_lib =
  vp_new :: 'v
  vp_read_config :: "string \<Rightarrow> 'v \<Rightarrow> 'v res"
  vp_stat :: "string \<Rightarrow> go_error option"
  vp_merge_file :: "string \<Rightarrow> 'v \<Rightarrow> 'v res"
  vp_merge_reader :: "string \<Rightarrow> 'v \<Rightarrow> 'v res"
  vp_automatic_env :: "string \<Rightarrow> 'v \<Rightarrow> 'v"
  vp_unmarshal :: "'v \<Rightarrow> config res"

definition wrap_error :: "string \<Rightarrow> 'a res \<Rightarrow> 'a res" where
  "wrap_error msg r = (case r of Inl err \<Rightarrow> Inl (Wrapped [] err msg) | Inr a \<Rightarrow> Inr a)"

text \<open>The file name is quoted by \<open>%q\<close>, for which \<open>quote\<close> stands.\<close>

definition merge_source :: "(string \<Rightarrow> string) \<Rightarrow> 'v viper_lib \<Rightarrow> config_src \<Rightarrow> 'v \<Rightarrow> 'v res" where
  "merge_source quote V src v =
    (case src of
       PathOpt path \<Rightarrow>
         (case vp_stat V path of
            Some err \<Rightarrow> Inl (Wrapped [] err ('': unable read config file '' @ quote path))
          | None \<Rightarrow> wrap_error ('': unable merge config file '' @ quote path) (vp_merge_file V path v))
     | ReaderOpt content name \<Rightarrow> wrap_error '': unable merge config reader'' (vp_merge_reader V content v))"

fun merge_sources :: "(string \<Rightarrow> string) \<Rightarrow> 'v viper_lib \<Rightarrow> config_src list \<Rightarrow> 'v \<Rightarrow> 'v res" where
  "merge_sources quote V [] v = Inr v"
| "merge_sources quote V (src # srcs) v = and_then (merge_source quote V src v) (merge_sources quote V srcs)"

definition config_get ::
  "(string \<Rightarrow> string) \<Rightarrow> 'v viper_lib \<Rightarrow> string res \<Rightarrow> config_src list \<Rightarrow> config res" where
  "config_get quote V embedded sources =
    and_then (wrap_error '': unable to read default config.yaml'' embedded) (\<lambda>data.
    and_then (vp_read_config V data (vp_new V)) (\<lambda>v.
    and_then (merge_sources quote V sources v) (\<lambda>v.
    wrap_error '': unable to unmarshal config'' (vp_unmarshal V (vp_automatic_env V ''CFG'' v)))))"

subsection \<open>Logger and tracer\<close>

datatype log_writer = JsonStdout | ConsoleStdout

text \<open>The writer of the logger and the global level it sets; an unknown level is \<open>info\<close>.\<close>

definition create_logger :: "(string \<Rightarrow> 'l res) \<Rightarrow> 'l \<Rightarrow> log_config \<Rightarrow> log_writer \<times> 'l" where
  "create_logger parse_level info_level cfg =
    (let logger = (if lcf_json cfg then JsonStdout else ConsoleStdout);
         lvl = (case parse_level (lcf_level cfg) of Inl err \<Rightarrow> info_level | Inr l \<Rightarrow> l)
     in (logger, lvl))"

record 'e tracer_provider =
  tpr_exporter :: "'e option"
  tpr_service_name :: string
  tpr_service_version :: string

definition new_tracer_provider ::
  "(string \<Rightarrow> bool \<Rightarrow> 'e res) \<Rightarrow> trace_config \<Rightarrow> string \<Rightarrow> 'e tracer_provider res" where
  "new_tracer_provider new_exporter conf version =
    (if \<not> tcf_enabled conf then
       Inr \<lparr>tpr_exporter = None, tpr_service_name = ''ceph-api'', tpr_service_version = version\<rparr>
     else
       and_then (new_exporter (tcf_endpoint conf) (tcf_insecure conf)) (\<lambda>exp.
       Inr \<lparr>tpr_exporter = Some exp, tpr_service_name = ''ceph-api'', tpr_service_version = version\<rparr>))"

subsection \<open>Precedence\<close>

text \<open>
  What viper documents, on the value a key reads as: reading the defaults gives the key its default;
  merging a source overrides the keys the source sets and keeps the others; a variable of the
  environment overrides all of them.
\<close>

definition viper_layers ::
  "'v viper_lib \<Rightarrow> ('v \<Rightarrow> string \<Rightarrow> 'a option) \<Rightarrow> (string \<Rightarrow> string \<Rightarrow> 'a option) \<Rightarrow> (string \<Rightarrow> string \<Rightarrow> 'a option)
    \<Rightarrow> (string \<Rightarrow> 'a option) \<Rightarrow> bool" where
  "viper_layers V value_of in_text in_file in_env \<longleftrightarrow>
    (\<forall>data v key. vp_read_config V data (vp_new V) = Inr v \<longrightarrow> value_of v key = in_text data key)
    \<and> (\<forall>path v v' key. vp_merge_file V path v = Inr v' \<longrightarrow>
        value_of v' key = (case in_file path key of Some x \<Rightarrow> Some x | None \<Rightarrow> value_of v key))
    \<and> (\<forall>data v v' key. vp_merge_reader V data v = Inr v' \<longrightarrow>
        value_of v' key = (case in_text data key of Some x \<Rightarrow> Some x | None \<Rightarrow> value_of v key))
    \<and> (\<forall>v key. value_of (vp_automatic_env V ''CFG'' v) key =
        (case in_env key of Some x \<Rightarrow> Some x | None \<Rightarrow> value_of v key))"

definition in_source ::
  "(string \<Rightarrow> string \<Rightarrow> 'a option) \<Rightarrow> (string \<Rightarrow> string \<Rightarrow> 'a option) \<Rightarrow> string \<Rightarrow> config_src \<Rightarrow> 'a option" where
  "in_source in_text in_file key src =
    (case src of PathOpt path \<Rightarrow> in_file path key | ReaderOpt data name \<Rightarrow> in_text data key)"

fun last_set :: "(config_src \<Rightarrow> 'a option) \<Rightarrow> config_src list \<Rightarrow> 'a option" where
  "last_set f [] = None"
| "last_set f (src # srcs) = (case last_set f srcs of Some x \<Rightarrow> Some x | None \<Rightarrow> f src)"

lemma merge_source_value:
  assumes "viper_layers V value_of in_text in_file in_env" and "merge_source quote V src v = Inr v'"
  shows "value_of v' key = (case in_source in_text in_file key src of Some x \<Rightarrow> Some x | None \<Rightarrow> value_of v key)"
proof (cases src)
  case (PathOpt path)
  then have "vp_merge_file V path v = Inr v'"
    using assms(2) by (simp add: merge_source_def wrap_error_def split: option.splits sum.splits)
  then have "value_of v' key = (case in_file path key of Some x \<Rightarrow> Some x | None \<Rightarrow> value_of v key)"
    using assms(1) unfolding viper_layers_def by blast
  then show ?thesis using PathOpt by (simp add: in_source_def)
next
  case (ReaderOpt data name)
  then have "vp_merge_reader V data v = Inr v'"
    using assms(2) by (simp add: merge_source_def wrap_error_def split: sum.splits)
  then have "value_of v' key = (case in_text data key of Some x \<Rightarrow> Some x | None \<Rightarrow> value_of v key)"
    using assms(1) unfolding viper_layers_def by blast
  then show ?thesis using ReaderOpt by (simp add: in_source_def)
qed

lemma merge_sources_value:
  assumes "viper_layers V value_of in_text in_file in_env" and "merge_sources quote V srcs v = Inr v'"
  shows "value_of v' key =
    (case last_set (in_source in_text in_file key) srcs of Some x \<Rightarrow> Some x | None \<Rightarrow> value_of v key)"
  using assms(2)
proof (induction srcs arbitrary: v)
  case (Cons src srcs)
  obtain v1 where v1: "merge_source quote V src v = Inr v1" "merge_sources quote V srcs v1 = Inr v'"
    using Cons.prems by (auto simp: and_then_Inr)
  show ?case
    using Cons.IH [OF v1(2)] merge_source_value [OF assms(1) v1(1), of key] by (simp split: option.splits)
qed simp

end
