(* ===== verification/Api_Serve.thy ===== *)
theory Api_Serve
  imports Gateway_Mux Serve
begin

text \<open>
  Listening and serving (\<open>pkg/api/api_server.go\<close>): how the two servers share a port or use two, the
  self-issued certificate, the function that runs the servers and the one that stops them. Sockets,
  cmux, TLS and the servers themselves are libraries.
\<close>

subsection \<open>The self-issued certificate\<close>

datatype key_usage = KeyEncipherment | DigitalSignature | CertSign

record x509_template =
  xt_serial :: int
  xt_common_name :: string
  xt_country :: "string list"
  xt_organization :: "string list"
  xt_organizational_unit :: "string list"
  xt_not_before :: int
  xt_not_after :: int
  xt_subject_key_id :: "nat list"
  xt_basic_constraints_valid :: bool
  xt_server_auth :: bool
  xt_key_usage :: "key_usage set"

record 'c tls_config =
  tc_insecure_skip_verify :: bool
  tc_certificates :: "'c list"

text \<open>
  What the set-up asks of the libraries: the clock in seconds, the date a year later, a key, a
  certificate for a template (its own issuer) under that key, and the listening socket, which may be
  refused.
\<close>

record ('k, 'c) net_lib =
  net_now :: int
  net_add_year :: "int \<Rightarrow> int"
  net_generate_key :: "nat \<Rightarrow> 'k res"
  net_create_certificate :: "x509_template \<Rightarrow> 'k \<Rightarrow> 'c res"
  net_listen :: "string \<Rightarrow> go_error option"
  net_tls_listen :: "string \<Rightarrow> 'c tls_config \<Rightarrow> go_error option"

definition certificate_template :: "('k, 'c) net_lib \<Rightarrow> x509_template" where
  "certificate_template N =
    \<lparr>xt_serial = net_now N, xt_common_name = ''seaphony.github.com'', xt_country = [''Germany''],
     xt_organization = [''seaphony.io''], xt_organizational_unit = [''ceph''],
     xt_not_before = net_now N, xt_not_after = net_add_year N (net_now N),
     xt_subject_key_id = [113, 117, 105, 99, 107, 115, 101, 114, 118, 101],
     xt_basic_constraints_valid = True, xt_server_auth = True,
     xt_key_usage = {KeyEncipherment, DigitalSignature, CertSign}\<rparr>"

definition gen_x509_key_pair :: "('k, 'c) net_lib \<Rightarrow> ('c \<times> 'k) res" where
  "gen_x509_key_pair N =
    and_then (net_generate_key N 2048) (\<lambda>priv.
    and_then (net_create_certificate N (certificate_template N) priv) (\<lambda>cert.
    Inr (cert, priv)))"

definition self_issued_tls_conf :: "('k, 'c) net_lib \<Rightarrow> 'c tls_config res" where
  "self_issued_tls_conf N =
    and_then (gen_x509_key_pair N) (\<lambda>(cert, priv).
    Inr \<lparr>tc_insecure_skip_verify = True, tc_certificates = [cert]\<rparr>)"

subsection \<open>Serve\<close>

text \<open>A listener, or the nil interface value a failed call to listen leaves behind.\<close>

datatype listener = NilListener | Listening string

datatype api_server = OnePort listener | TwoPorts string listener

text \<open>
  On one port with TLS, the error of \<open>tls.Listen\<close> is assigned to the variable \<open>err\<close> that the
  \<open>:=\<close> two lines above declared for the block, not to the one that is tested after the block.
\<close>

definition api_serve :: "('k, 'c) net_lib \<Rightarrow> api_config \<Rightarrow> api_server res" where
  "api_serve N conf =
    (let http_addr = '':'' @ itoa (apc_http_port conf); grpc_addr = '':'' @ itoa (apc_grpc_port conf) in
     if apc_grpc_port conf = apc_http_port conf then
       (if apc_secure conf then
          and_then (self_issued_tls_conf N) (\<lambda>tls_conf.
          (case net_tls_listen N http_addr tls_conf of
             Some inner_err \<Rightarrow> Inr (OnePort NilListener)
           | None \<Rightarrow> Inr (OnePort (Listening http_addr))))
        else
          (case net_listen N http_addr of
             Some err \<Rightarrow> Inl err
           | None \<Rightarrow> Inr (OnePort (Listening http_addr))))
     else
       (case net_listen N grpc_addr of
          Some err \<Rightarrow> Inl err
        | None \<Rightarrow> Inr (TwoPorts (''0.0.0.0:'' @ itoa (apc_http_port conf)) (Listening grpc_addr))))"

text \<open>
  What \<open>start\<close> runs in the goroutines of an error group: each calls one server, and returns the error of
  that call, after a line in the log. The group's context is only used for logging: nothing stops the
  others when one returns, so \<open>start\<close> returns when all have, with the first error.
\<close>

datatype served = CmuxServe | GrpcServe | HttpServe | HttpListenAndServe

definition err_server_closed :: go_error where
  "err_server_closed = Foreign ''http: Server closed''"

fun served_message :: "served \<Rightarrow> string" where
  "served_message CmuxServe = ''unable to start cmux server''"
| "served_message GrpcServe = ''unable to start grpc server''"
| "served_message HttpServe = ''unable to start http server''"
| "served_message HttpListenAndServe = ''unable to start http server''"

text \<open>The log lines and the result of a goroutine whose server returned \<open>err\<close>.\<close>

definition goroutine :: "served \<Rightarrow> go_error option \<Rightarrow> string list \<times> go_error option" where
  "goroutine p err =
    (case err of
       None \<Rightarrow> ([], err)
     | Some e \<Rightarrow>
         (if p = HttpListenAndServe \<and> errors_is e err_server_closed then [] else [served_message p], err))"

fun start_parts :: "api_server \<Rightarrow> served list" where
  "start_parts (OnePort l) = [CmuxServe, GrpcServe, HttpServe]"
| "start_parts (TwoPorts addr l) = [HttpListenAndServe, GrpcServe]"

text \<open>The multiplexer accepts on its root listener: on a nil one that call is a panic.\<close>

fun panics :: "api_server \<Rightarrow> served \<Rightarrow> bool" where
  "panics (OnePort NilListener) CmuxServe = True"
| "panics srv p = False"

definition start_group :: "api_server \<Rightarrow> served worker list" where
  "start_group srv = map (\<lambda>p. \<lparr>wk_name = [], wk_work = p, wk_clean_up = None\<rparr>) (start_parts srv)"

text \<open>What \<open>stop\<close> does, in order; an error of a step is logged with the step's message and dropped.\<close>

datatype stop_step = ShutdownHttp | CloseHttpListener | GracefulStopGrpc | CloseGrpcListener | CloseMux

fun stop_steps :: "api_server \<Rightarrow> stop_step list" where
  "stop_steps (OnePort l) = [ShutdownHttp, CloseHttpListener, GracefulStopGrpc, CloseGrpcListener, CloseMux]"
| "stop_steps (TwoPorts addr l) = [ShutdownHttp, GracefulStopGrpc]"

fun stop_message :: "stop_step \<Rightarrow> string option" where
  "stop_message ShutdownHttp = Some ''unable to close http server''"
| "stop_message CloseHttpListener = Some ''unable to close http listener''"
| "stop_message CloseGrpcListener = Some ''unable to close grpc listener''"
| "stop_message GracefulStopGrpc = None"
| "stop_message CloseMux = None"

fun run_stop :: "(stop_step \<Rightarrow> 's \<Rightarrow> go_error option \<times> 's) \<Rightarrow> stop_step list \<Rightarrow> 's \<Rightarrow> string list \<times> 's" where
  "run_stop act [] st = ([], st)"
| "run_stop act (p # ps) st =
    (case act p st of (err, st) \<Rightarrow>
      (case run_stop act ps st of (msgs, st) \<Rightarrow>
        ((case (err, stop_message p) of (Some e, Some m) \<Rightarrow> m # msgs | _ \<Rightarrow> msgs), st)))"

definition api_stop ::
  "(stop_step \<Rightarrow> 's \<Rightarrow> go_error option \<times> 's) \<Rightarrow> api_server \<Rightarrow> 's \<Rightarrow> go_error option \<times> string list \<times> 's" where
  "api_stop act srv st = (case run_stop act (stop_steps srv) st of (msgs, st) \<Rightarrow> (None, msgs, st))"

subsection \<open>The application's group and the servers' group\<close>

text \<open>
  The application runs \<open>start\<close> and \<open>stop\<close> as the one worker \<open>api\<close> of the group of \<open>Serve\<close>. A run of
  both groups: a step of the servers' group, whose goroutines return what they make of a return of
  their server that \<open>lib\<close> allows, a step of the application's group, whose worker returns what \<open>start\<close>
  returned, or a panic of a goroutine, which ends the process.
\<close>

datatype api_event = InServers group_event | InApp group_event | ProcessCrashes

definition api_worker :: "api_server \<Rightarrow> api_server worker" where
  "api_worker srv = \<lparr>wk_name = ''api'', wk_work = srv, wk_clean_up = Some srv\<rparr>"

definition allowed_return :: "(served \<Rightarrow> go_error option \<Rightarrow> bool) \<Rightarrow> api_server \<Rightarrow> group_event \<Rightarrow> bool" where
  "allowed_return lib srv ev \<longleftrightarrow>
    (case ev of
       WorkReturns i e \<Rightarrow> i < length (start_parts srv) \<longrightarrow>
         \<not> panics srv (start_parts srv ! i)
         \<and> (\<exists>err. lib (start_parts srv ! i) err \<and> e = snd (goroutine (start_parts srv ! i) err))
     | _ \<Rightarrow> True)"

definition start_returned :: "group_state \<Rightarrow> group_event \<Rightarrow> bool" where
  "start_returned servers ev \<longleftrightarrow> (case ev of WorkReturns i e \<Rightarrow> gs_result servers = Some e | _ \<Rightarrow> True)"

inductive api_run ::
  "(served \<Rightarrow> go_error option \<Rightarrow> bool) \<Rightarrow> api_server \<Rightarrow> api_event list \<Rightarrow> group_state \<Rightarrow> group_state \<Rightarrow> bool"
  for lib srv where
  starts: "api_run lib srv [] (start_state (start_group srv)) (start_state [api_worker srv])"
| servers: "api_run lib srv es sv ag \<Longrightarrow> ProcessCrashes \<notin> set es \<Longrightarrow> group_step sv ev sv' \<Longrightarrow>
    allowed_return lib srv ev \<Longrightarrow> (ev = ParentCancelled \<Longrightarrow> gs_cancelled ag) \<Longrightarrow>
    api_run lib srv (es @ [InServers ev]) sv' ag"
| app: "api_run lib srv es sv ag \<Longrightarrow> ProcessCrashes \<notin> set es \<Longrightarrow> group_step ag ev ag' \<Longrightarrow> start_returned sv ev \<Longrightarrow>
    api_run lib srv (es @ [InApp ev]) sv ag'"
| crash: "api_run lib srv es sv ag \<Longrightarrow> ProcessCrashes \<notin> set es \<Longrightarrow> i < length (start_parts srv) \<Longrightarrow>
    panics srv (start_parts srv ! i) \<Longrightarrow> gs_work sv ! i = Working \<Longrightarrow>
    api_run lib srv (es @ [ProcessCrashes]) sv ag"

text \<open>
  What \<open>net/http\<close> documents: \<open>Serve\<close> and \<open>ListenAndServe\<close> of \<open>http.Server\<close> always return a non-nil
  error, also after a shutdown (\<open>ErrServerClosed\<close>).
\<close>

definition http_always_errors :: "(served \<Rightarrow> go_error option \<Rightarrow> bool) \<Rightarrow> bool" where
  "http_always_errors lib \<longleftrightarrow> \<not> lib HttpServe None \<and> \<not> lib HttpListenAndServe None"

subsection \<open>Facts\<close>

fun servers_events :: "api_event list \<Rightarrow> group_event list" where
  "servers_events [] = []"
| "servers_events (InServers e # es) = e # servers_events es"
| "servers_events (InApp e # es) = servers_events es"
| "servers_events (ProcessCrashes # es) = servers_events es"

fun app_events :: "api_event list \<Rightarrow> group_event list" where
  "app_events [] = []"
| "app_events (InServers e # es) = app_events es"
| "app_events (InApp e # es) = e # app_events es"
| "app_events (ProcessCrashes # es) = app_events es"

lemma servers_events_append [simp]: "servers_events (es @ es') = servers_events es @ servers_events es'"
  by (induction es rule: servers_events.induct) auto

lemma app_events_append [simp]: "app_events (es @ es') = app_events es @ app_events es'"
  by (induction es rule: app_events.induct) auto

lemma app_events_cancelled: "InApp ParentCancelled \<notin> set es \<Longrightarrow> ParentCancelled \<notin> set (app_events es)"
  by (induction es rule: app_events.induct) auto

lemma api_run_servers: "api_run lib srv es sv ag \<Longrightarrow> group_run (start_group srv) (servers_events es) sv"
  by (induction rule: api_run.induct) (auto intro: group_run.intros)

lemma api_run_app: "api_run lib srv es sv ag \<Longrightarrow> group_run [api_worker srv] (app_events es) ag"
  by (induction rule: api_run.induct) (auto intro: group_run.intros)

lemma api_run_servers_inv: "api_run lib srv es sv ag \<Longrightarrow> group_inv (start_group srv) (servers_events es) sv"
  by (rule group_run_inv [OF api_run_servers])

lemma api_run_app_inv: "api_run lib srv es sv ag \<Longrightarrow> group_inv [api_worker srv] (app_events es) ag"
  by (rule group_run_inv [OF api_run_app])

lemma api_run_length: "api_run lib srv es sv ag \<Longrightarrow> length (gs_work sv) = length (start_parts srv)"
  using api_run_servers_inv [of lib srv es sv ag] by (simp add: group_inv_def work_inv_def start_group_def)

lemma api_run_returned:
  "api_run lib srv es sv ag \<Longrightarrow> i < length (start_parts srv) \<Longrightarrow> gs_work sv ! i = Returned e \<Longrightarrow>
    \<not> panics srv (start_parts srv ! i)
    \<and> (\<exists>err. lib (start_parts srv ! i) err \<and> e = snd (goroutine (start_parts srv ! i) err))"
proof (induction arbitrary: e rule: api_run.induct)
  case starts
  then show ?case by (simp add: start_state_def start_group_def)
next
  case (servers es sv ag ev sv')
  have l: "length (gs_work sv) = length (start_parts srv)" by (rule api_run_length [OF servers.hyps(1)])
  from servers.hyps(3) show ?case
  proof cases
    case (work_returns j x)
    then show ?thesis
      using servers l by (cases "i = j") (auto simp: allowed_return_def)
  qed (use servers in auto)
qed

lemma api_run_worker:
  "api_run lib srv es sv ag \<Longrightarrow> gs_work ag = [Working] \<or> (\<exists>e. gs_work ag = [Returned e] \<and> gs_result sv = Some e)"
proof (induction rule: api_run.induct)
  case starts
  then show ?case by (simp add: start_state_def api_worker_def)
next
  case (servers es sv ag ev sv')
  from servers.hyps(3) show ?case
    by cases (use servers.IH in \<open>auto\<close>)
next
  case (app es sv ag ev ag')
  from app.hyps(3) show ?case
    by cases (use app in \<open>auto simp: start_returned_def less_Suc_eq\<close>)
qed

text \<open>A clean-up that has not begun waits for the cancellation.\<close>

lemma clean_up_waits:
  "api_run lib srv es sv ag \<Longrightarrow> \<exists>c. gs_clean ag = [c] \<and> c \<noteq> NoCleanUp \<and> (gs_cancelled ag \<or> c = WaitingForCancel)"
proof (induction rule: api_run.induct)
  case starts
  then show ?case by (simp add: start_state_def api_worker_def)
next
  case (app es sv ag ev ag')
  from app.hyps(3) show ?case
    by cases (use app.IH in \<open>auto simp: less_Suc_eq\<close>)
qed

text \<open>No goroutine of \<open>start\<close> waits for the cancellation of its group.\<close>

lemma servers_no_clean_up: "api_run lib srv es sv ag \<Longrightarrow> set (gs_clean sv) \<subseteq> {NoCleanUp}"
  using api_run_servers_inv [of lib srv es sv ag]
  by (auto simp: group_inv_def clean_inv_def clean_ok_def start_group_def in_set_conv_nth)

text \<open>\<open>start\<close> has not returned while a server works, nor the application's worker before \<open>start\<close> has.\<close>

lemma servers_working:
  assumes "api_run lib srv es sv ag" and "Working \<in> set (gs_work sv)"
  shows "gs_result sv = None" and "gs_work ag = [Working]" and "gs_result ag = None" and "\<not> gs_waited ag"
proof -
  show r: "gs_result sv = None"
    using api_run_servers_inv [OF assms(1)] assms(2)
    by (auto simp: group_inv_def result_inv_def flag_inv_def split: option.splits)
  then show w: "gs_work ag = [Working]" using api_run_worker [OF assms(1)] by simp
  show "gs_result ag = None" "\<not> gs_waited ag"
    using api_run_app_inv [OF assms(1)] w
    by (auto simp: group_inv_def result_inv_def flag_inv_def split: option.splits)
qed

end
