(* ===== verification/Rados_Mock.thy ===== *)
theory Rados_Mock
  imports Rados
begin

text \<open>
  The mock connection of the \<open>mock\<close> build (\<open>pkg/rados/rados_mock.go\<close>): commands are answered from
  tables loaded from embedded JSON files, keyed by the command's \<open>prefix\<close> with blanks turned into
  underscores. The random generator is an argument \<open>intn\<close> on a state of type \<open>'r\<close>;
  \<open>intn_ok\<close> is what \<open>math/rand\<close> documents of \<open>Intn\<close>. The wording of the JSON decoder's own errors
  is not modelled.
\<close>

subsection \<open>Command names\<close>

definition normalize :: "string \<Rightarrow> string res" where
  "normalize cmd =
    (case json_parse cmd of
       None \<Rightarrow> Inl (Wrapped ''failed to parse command JSON: '' (Foreign ''invalid JSON'') [])
     | Some j \<Rightarrow>
        (let fields = (case j of JObj ms \<Rightarrow> Some ms | JNull \<Rightarrow> Some [] | _ \<Rightarrow> None) in
         case fields of
           None \<Rightarrow> Inl (Wrapped ''failed to parse command JSON: '' (Foreign ''json: cannot unmarshal'') [])
         | Some ms \<Rightarrow>
            (case map_of (rev ms) ''prefix'' of
               None \<Rightarrow> Inl (Foreign ''command JSON missing 'prefix' field'')
             | Some (JStr p) \<Rightarrow>
                 if p = [] then Inl (Foreign ''prefix is not a valid string'')
                 else Inr (replace_char (CHR '' '') (CHR ''_'') p)
             | Some _ \<Rightarrow> Inl (Foreign ''prefix is not a valid string''))))"

subsection \<open>Responses\<close>

record mock_conn =
  mon_responses :: "string list gomap"
  mon_input_responses :: "string list gomap"
  mgr_responses :: "string list gomap"

definition intn_ok :: "(nat \<Rightarrow> 'r \<Rightarrow> nat \<times> 'r) \<Rightarrow> bool" where
  "intn_ok intn \<longleftrightarrow> (\<forall>n r. 0 < n \<longrightarrow> fst (intn n r) < n)"

definition select_random_response ::
  "(nat \<Rightarrow> 'r \<Rightarrow> nat \<times> 'r) \<Rightarrow> string list \<Rightarrow> 'r \<Rightarrow> string res \<times> 'r" where
  "select_random_response intn responses r =
    (if responses = [] then (Inl (Foreign ''no responses available''), r)
     else (case intn (length responses) r of (idx, r') \<Rightarrow> (Inr (responses ! idx), r')))"

definition mock_answer ::
  "(nat \<Rightarrow> 'r \<Rightarrow> nat \<times> 'r) \<Rightarrow> string \<Rightarrow> string list gomap \<Rightarrow> string \<Rightarrow> 'r \<Rightarrow> cmd_result \<times> 'r" where
  "mock_answer intn unknown table cmd r =
    (case normalize cmd of
       Inl e \<Rightarrow> (([], [], Some e), r)
     | Inr prefix \<Rightarrow>
        (case gget table prefix of
           None \<Rightarrow> (([], [], Some (Foreign (unknown @ prefix))), r)
         | Some responses \<Rightarrow>
            if responses = [] then (([], [], Some (Foreign (unknown @ prefix))), r)
            else (case select_random_response intn responses r of
                    (Inl e, r') \<Rightarrow> (([], ''OK'', Some e), r')
                  | (Inr resp, r') \<Rightarrow> ((resp, ''OK'', None), r'))))"

definition mock_mon_command ::
  "(nat \<Rightarrow> 'r \<Rightarrow> nat \<times> 'r) \<Rightarrow> mock_conn \<Rightarrow> string \<Rightarrow> 'r \<Rightarrow> cmd_result \<times> 'r" where
  "mock_mon_command intn mc cmd r =
    mock_answer intn ''unknown monitor command prefix: '' (mon_responses mc) cmd r"

definition mock_mon_command_with_input_buffer ::
  "(nat \<Rightarrow> 'r \<Rightarrow> nat \<times> 'r) \<Rightarrow> mock_conn \<Rightarrow> string \<Rightarrow> string \<Rightarrow> 'r \<Rightarrow> cmd_result \<times> 'r" where
  "mock_mon_command_with_input_buffer intn mc cmd buf r =
    mock_answer intn ''unknown monitor command with input prefix: '' (mon_input_responses mc) cmd r"

definition mock_mgr_command ::
  "(nat \<Rightarrow> 'r \<Rightarrow> nat \<times> 'r) \<Rightarrow> mock_conn \<Rightarrow> string list \<Rightarrow> 'r \<Rightarrow> cmd_result \<times> 'r" where
  "mock_mgr_command intn mc cmds r =
    (case cmds of [] \<Rightarrow> (([], [], Some (Foreign ''no command provided'')), r)
     | cmd # _ \<Rightarrow> mock_answer intn ''unknown manager command prefix: '' (mgr_responses mc) cmd r)"

definition mock_rados_conn :: "(nat \<Rightarrow> 'r \<Rightarrow> nat \<times> 'r) \<Rightarrow> mock_conn \<Rightarrow> 'r rados_conn" where
  "mock_rados_conn intn mc =
    \<lparr>mon_command = mock_mon_command intn mc,
     mon_command_with_input_buffer = mock_mon_command_with_input_buffer intn mc,
     mgr_command = mock_mgr_command intn mc,
     shutdown = (\<lambda>r. r)\<rparr>"

subsection \<open>Loading the tables\<close>

text \<open>
  A directory is the list of its entries: name, whether it is itself a directory, and its contents
  (\<open>None\<close> when reading fails). \<open>raw_elems\<close> splits a JSON array into the texts of its elements, as
  decoding into \<open>[]json.RawMessage\<close> does.
\<close>

type_synonym dir_entry = "string \<times> bool \<times> string option"

fun raw_elems :: "nat \<Rightarrow> string \<Rightarrow> string list option" where
  "raw_elems 0 s = None"
| "raw_elems (Suc n) s =
    (case json_value (2 * length s + 2) s of None \<Rightarrow> None
     | Some (j, t) \<Rightarrow>
        (let raw = take (length (skip_ws s) - length t) (skip_ws s) in
         if has_prefix (skip_ws t) '','' then
           map_option (\<lambda>rs. raw # rs) (raw_elems n (drop 1 (skip_ws t)))
         else Some [raw]))"

definition raw_array :: "string \<Rightarrow> string list res" where
  "raw_array s =
    (case json_parse s of
       None \<Rightarrow> Inl (Foreign ''invalid JSON'')
     | Some JNull \<Rightarrow> Inr []
     | Some (JArr js) \<Rightarrow>
        (if js = [] then Inr []
         else case raw_elems (length s) (drop 1 (skip_ws s)) of
                Some rs \<Rightarrow> Inr rs | None \<Rightarrow> Inl (Foreign ''invalid JSON''))
     | Some _ \<Rightarrow> Inl (Foreign ''json: cannot unmarshal''))"

fun load_entries :: "string \<Rightarrow> dir_entry list \<Rightarrow> string list gomap \<Rightarrow> string list gomap res" where
  "load_entries dir [] m = Inr m"
| "load_entries dir ((name, is_dir, data) # es) m =
    (if is_dir \<or> \<not> has_suffix name ''.json'' then load_entries dir es m
     else (case data of
        None \<Rightarrow> Inl (Wrapped (''failed to read file '' @ dir @ ''/'' @ name @ '': '') (Foreign ''read error'') [])
      | Some text \<Rightarrow>
         (case raw_array text of
            Inl e \<Rightarrow> Inl (Wrapped (''failed to unmarshal JSON from file '' @ dir @ ''/'' @ name @ '': '') e [])
          | Inr responses \<Rightarrow> load_entries dir es (gset (trim_suffix name ''.json'') responses m))))"

definition load_responses_from_dir :: "string \<Rightarrow> dir_entry list option \<Rightarrow> string list gomap res" where
  "load_responses_from_dir dir entries =
    (case entries of
       None \<Rightarrow> Inl (Wrapped (''failed to read directory '' @ dir @ '': '') (Foreign ''read error'') [])
     | Some es \<Rightarrow> load_entries dir es [])"

text \<open>The three directories under \<open>mock-data\<close>, in the order they are loaded.\<close>

definition new_mock_conn ::
  "dir_entry list option \<Rightarrow> dir_entry list option \<Rightarrow> dir_entry list option \<Rightarrow> mock_conn res" where
  "new_mock_conn mon_dir mon_input_dir mgr_dir =
    (case load_responses_from_dir ''mock-data/mon'' mon_dir of
       Inl e \<Rightarrow> Inl (Foreign (''error loading mon responses: '' @ error_text mock_rados_not_found_text e))
     | Inr mon \<Rightarrow>
    (case load_responses_from_dir ''mock-data/mon-input'' mon_input_dir of
       Inl e \<Rightarrow> Inl (Foreign (''error loading mon-input responses: '' @ error_text mock_rados_not_found_text e))
     | Inr mon_input \<Rightarrow>
    (case load_responses_from_dir ''mock-data/mgr'' mgr_dir of
       Inl e \<Rightarrow> Inl (Foreign (''error loading mgr responses: '' @ error_text mock_rados_not_found_text e))
     | Inr mgr \<Rightarrow>
        Inr \<lparr>mon_responses = mon, mon_input_responses = mon_input, mgr_responses = mgr\<rparr>)))"

subsection \<open>Facts\<close>

lemma select_random_response_member:
  assumes "intn_ok intn" and "select_random_response intn responses r = (Inr resp, r')"
  shows "resp \<in> set responses"
  using assms by (auto simp: select_random_response_def intn_ok_def split: if_splits prod.splits)
     (metis fst_conv length_greater_0_conv nth_mem)

text \<open>A successful answer is one of the stored responses for the command's prefix.\<close>

lemma mock_answer_member:
  assumes "intn_ok intn" and "mock_answer intn u table cmd r = ((resp, st, None), r')"
  shows "\<exists>p responses. normalize cmd = Inr p \<and> gget table p = Some responses \<and> resp \<in> set responses"
proof -
  obtain p responses where "normalize cmd = Inr p" "gget table p = Some responses"
      "select_random_response intn responses r = (Inr resp, r')"
    using assms(2)
    by (auto simp: mock_answer_def split: sum.splits option.splits if_splits prod.splits)
  then show ?thesis using select_random_response_member [OF assms(1)] by blast
qed

lemma mock_answer_unknown:
  "normalize cmd = Inr p \<Longrightarrow> gget table p = None
    \<Longrightarrow> mock_answer intn u table cmd r = (([], [], Some (Foreign (u @ p))), r)"
  by (simp add: mock_answer_def)

end
