(* ===== verification/App_Start.thy ===== *)
theory App_Start
  imports Config Api_Serve User_Permissions Ceph_Config Rados_Mock
begin

text \<open>
  Starting the application (\<open>pkg/app/start.go\<close>, \<open>pkg/app/rados_conn.go\<close>, \<open>rados_conn_mock.go\<close>,
  \<open>cmd/ceph-api/main.go\<close>): the connection, the services, the default administrator, the servers, and
  what is closed when any of it fails. The events record the order in which the outside sees things
  opened and closed.
\<close>

subsection \<open>State\<close>

datatype app_event = TracerStarted | TracerShutdown | RadosOpened | RadosClosed | Serving

record 'w app_state =
  ast_cluster :: 'w
  ast_events :: "app_event list"

type_synonym 'w app_step = "'w app_state \<Rightarrow> unit built \<times> 'w app_state"

definition emit :: "app_event \<Rightarrow> 'w app_state \<Rightarrow> 'w app_state" where
  "emit ev st = st\<lparr>ast_events := ast_events st @ [ev]\<rparr>"

text \<open>Go's \<open>defer\<close>: run when the rest of the function returns, also when it panics.\<close>

definition deferred :: "('s \<Rightarrow> 's) \<Rightarrow> ('s \<Rightarrow> 'a \<times> 's) \<Rightarrow> 's \<Rightarrow> 'a \<times> 's" where
  "deferred d body st = (case body st of (r, st) \<Rightarrow> (r, d st))"

text \<open>
  What the start-up takes from elsewhere: the libraries, the connection (that of the build), the
  embedded index of configuration parameters, and the run of the worker group (see \<open>Serve\<close>), which
  ends with an error or nil.
\<close>

record ('w, 'k, 'c, 'e) app_lib =
  al_new_exporter :: "string \<Rightarrow> bool \<Rightarrow> 'e res"
  al_get_rados_connection :: "rados_config \<Rightarrow> 'w rados_conn res"
  al_index :: string
  al_go :: go_env
  al_rand_err :: "go_error option"
  al_rsa_err :: "go_error option"
  al_new_client :: new_client
  al_compile_path :: "string \<Rightarrow> go_error option"
  al_net :: "('k, 'c) net_lib"
  al_run :: "api_server worker list \<Rightarrow> 'w \<Rightarrow> go_error option \<times> 'w"

subsection \<open>The connection of the two builds\<close>

definition get_rados_connection ::
  "'h ceph_lib \<Rightarrow> ('h \<Rightarrow> 'w rados_conn) \<Rightarrow> rados_config \<Rightarrow> 'w rados_conn res" where
  "get_rados_connection lib of_handle conf = and_then (new_rados_conn lib conf) (\<lambda>h. Inr (of_handle h))"

definition get_mock_connection ::
  "(nat \<Rightarrow> 'r \<Rightarrow> nat \<times> 'r) \<Rightarrow> dir_entry list option \<Rightarrow> dir_entry list option \<Rightarrow> dir_entry list option
    \<Rightarrow> rados_config \<Rightarrow> 'r rados_conn res" where
  "get_mock_connection intn mon mon_input mgr conf =
    and_then (new_mock_conn mon mon_input mgr) (\<lambda>mc. Inr (mock_rados_conn intn mc))"

subsection \<open>The default administrator\<close>

definition default_admin :: "app_config \<Rightarrow> user" where
  "default_admin conf =
    zero_user\<lparr>u_username := acf_admin_username conf, u_roles := Some [''administrator''],
      u_password := acf_admin_password conf, u_name := Some ''ceph api default administrator'',
      u_enabled := True\<rparr>"

definition ensure_admin ::
  "'w rados_conn \<Rightarrow> go_env \<Rightarrow> app_config \<Rightarrow> service \<Rightarrow> 'w \<Rightarrow> go_error option \<times> service \<times> 'w" where
  "ensure_admin C env conf s w =
    (if acf_create_admin conf then
       (case get_user s (acf_admin_username conf) of
          Inl err \<Rightarrow>
            if errors_is err ErrNotFound then
              (case create_user C env (default_admin conf) s w of
                 (Some err, s, w) \<Rightarrow> (Some (Wrapped [] err '': unable to create admin user''), s, w)
               | (None, s, w) \<Rightarrow> (None, s, w))
            else (None, s, w)
        | Inr _ \<Rightarrow>
            (case update_user C env (default_admin conf) s w of
               (Some err, s, w) \<Rightarrow> (Some (Wrapped [] err '': unable to update admin user''), s, w)
             | (None, s, w) \<Rightarrow> (None, s, w)))
     else (None, s, w))"

subsection \<open>Start\<close>

definition oauth_handlers :: "(string \<times> oauth_endpoint) list" where
  "oauth_handlers =
    [(''/api/oauth/token'', TokenEndpoint), (''/api/oauth/auth'', AuthEndpoint),
     (''/api/oauth/revoke'', RevokeEndpoint), (''/api/oauth/introspect'', IntrospectionEndpoint)]"

definition failing :: "'a res \<Rightarrow> 'a built" where
  "failing r = (case r of Inl err \<Rightarrow> Failed err | Inr a \<Rightarrow> Reply a)"

text \<open>From the authentication server to the worker: what remains to be built once the services exist.\<close>

definition app_workers :: "('w, 'k, 'c, 'e) app_lib \<Rightarrow> config \<Rightarrow> api_server worker list built" where
  "app_workers L conf =
    then_built (failing (new_server (al_rand_err L) (al_rsa_err L) (cfg_auth conf))) (\<lambda>auth_server.
    then_built (grpc_gateway (al_new_client L) (al_compile_path L) (cfg_api conf) (cfg_metrics_enabled conf) oauth_handlers
        :: unit gateway built) (\<lambda>http_server.
    then_built (failing (api_serve (al_net L) (cfg_api conf))) (\<lambda>srv.
    (case server_add ''api'' (Some srv) (Some srv) [] of
       (Some err, workers) \<Rightarrow> Failed err
     | (None, workers) \<Rightarrow> Reply workers))))"

definition app_serve :: "('w, 'k, 'c, 'e) app_lib \<Rightarrow> config \<Rightarrow> 'w app_step" where
  "app_serve L conf st =
    (case app_workers L conf of
       Failed err \<Rightarrow> (Failed err, st)
     | Panicked p \<Rightarrow> (Panicked p, st)
     | Reply workers \<Rightarrow>
        (let st = emit Serving st in
         case al_run L workers (ast_cluster st) of
           (Some err, w) \<Rightarrow> (Failed err, st\<lparr>ast_cluster := w\<rparr>)
         | (None, w) \<Rightarrow> (Reply (), st\<lparr>ast_cluster := w\<rparr>)))"

definition app_services :: "('w, 'k, 'c, 'e) app_lib \<Rightarrow> config \<Rightarrow> 'w rados_conn \<Rightarrow> 'w app_step" where
  "app_services L conf C st =
    (case new_config C (al_index L) False (ast_cluster st) of
       (Inl err, w) \<Rightarrow> (Failed err, st\<lparr>ast_cluster := w\<rparr>)
     | (Inr params, w) \<Rightarrow>
        (case new_service C w of
           (Inl err, w) \<Rightarrow> (Failed err, st\<lparr>ast_cluster := w\<rparr>)
         | (Inr s, w) \<Rightarrow>
            (case ensure_admin C (al_go L) (cfg_app conf) s w of
               (Some err, s, w) \<Rightarrow> (Failed err, st\<lparr>ast_cluster := w\<rparr>)
             | (None, s, w) \<Rightarrow> app_serve L conf (st\<lparr>ast_cluster := w\<rparr>))))"

definition close_rados :: "'w rados_conn \<Rightarrow> 'w app_state \<Rightarrow> 'w app_state" where
  "close_rados C st = emit RadosClosed (st\<lparr>ast_cluster := rados_close C (ast_cluster st)\<rparr>)"

definition app_connected :: "('w, 'k, 'c, 'e) app_lib \<Rightarrow> config \<Rightarrow> 'w app_step" where
  "app_connected L conf st =
    (case al_get_rados_connection L (cfg_rados conf) of
       Inl err \<Rightarrow> (Failed err, st)
     | Inr C \<Rightarrow> deferred (close_rados C) (app_services L conf C) (emit RadosOpened st))"

definition app_start :: "('w, 'k, 'c, 'e) app_lib \<Rightarrow> config \<Rightarrow> string \<Rightarrow> 'w app_step" where
  "app_start L conf version st =
    (case new_tracer_provider (al_new_exporter L) (cfg_trace conf) version of
       Inl err \<Rightarrow> (Failed err, st)
     | Inr tp \<Rightarrow> deferred (emit TracerShutdown) (app_connected L conf) (emit TracerStarted st))"

text \<open>The exit status of \<open>main\<close>: an unreadable configuration is fatal, an error of \<open>Start\<close> exits with 1.\<close>

definition main_sources :: "string option \<Rightarrow> string option \<Rightarrow> config_src list" where
  "main_sources config_path config_override_path =
    (if config_path \<noteq> None \<and> config_path \<noteq> Some [] then [PathOpt (the config_path)] else [])
    @ (if config_override_path \<noteq> None \<and> config_override_path \<noteq> Some []
       then [PathOpt (the config_override_path)] else [])"

definition main_exit :: "config res \<Rightarrow> (config \<Rightarrow> unit built) \<Rightarrow> nat" where
  "main_exit conf start =
    (case conf of Inl err \<Rightarrow> 1
     | Inr c \<Rightarrow> (case start c of Reply _ \<Rightarrow> 0 | Failed err \<Rightarrow> 1 | Panicked p \<Rightarrow> 2))"

end
