(* ===== verification/Gateway_Properties.thy ===== *)
theory Gateway_Properties
  imports Gateway_Mux Api_Properties
begin

text \<open>
  The properties of the HTTP gateway: a request is one gRPC call, one request to a registered path, or
  refused, so that what the gRPC server guarantees holds over HTTP; which route a path belongs to; what
  \<open>GET\<close> may change.
\<close>

subsection \<open>From requests to calls\<close>

definition answer_of :: "string option \<Rightarrow> answer reply \<Rightarrow> http_answer" where
  "answer_of fld r = (case r of Reply a \<Rightarrow> Forwarded fld a | Failed e \<Rightarrow> HttpError e | Panicked p \<Rightarrow> HttpPanic p)"

text \<open>
  \<open>carries rt E \<dots> r bearer a \<sigma> \<sigma>'\<close>: the request was answered with what the call \<open>r\<close> of the route's method
  answers.
\<close>

definition carries ::
  "('w, 'f) sys route \<Rightarrow> ('w, 'f) api_env \<Rightarrow> bool \<Rightarrow> string \<Rightarrow> call \<Rightarrow> http_answer \<Rightarrow> ('w, 'f) sys \<Rightarrow> ('w, 'f) sys \<Rightarrow> bool" where
  "carries rt E acc nf c a \<sigma> \<sigma>' \<longleftrightarrow>
    full_method (call_rpc c) = rt_full_method rt
    \<and> (case serve_call E acc nf c \<sigma> of (r, \<sigma>2) \<Rightarrow> a = answer_of (rt_field rt) r \<and> \<sigma>' = \<sigma>2)"

definition gateway_call :: "rpc \<Rightarrow> string res \<Rightarrow> string \<Rightarrow> call" where
  "gateway_call r bearer trace_id = \<lparr>call_rpc = r, call_bearer = bearer, call_trace_id = trace_id\<rparr>"

lemma handle_route_cases:
  assumes "rt \<in> set api_routes" and "handle_route L (server_client E acc nf tid) rt req params \<sigma> = (a, \<sigma>')"
  obtains (refused) err where "a = HttpError err" and "\<sigma>' = \<sigma>"
  | (called) bearer r where "gw_annotate L req (rt_full_method rt) = Inr bearer"
      and "carries rt E acc nf (gateway_call r bearer tid) a \<sigma> \<sigma>'"
proof (cases "gw_annotate L req (rt_full_method rt)")
  case (Inl err)
  then show ?thesis using assms(2) refused [of err] by (simp add: handle_route_def)
next
  case (Inr bearer)
  let ?call = "server_client E acc nf tid bearer"
  have "forwards (\<lambda>r. full_method r = rt_full_method rt) ?call (rt_request rt L ?call req params)"
    by (rule api_route_forwards [OF assms(1)])
  then consider (no) msg where "rt_request rt L ?call req params \<sigma> = (Failed (invalid_argument msg), \<sigma>)"
    | (yes) r where "full_method r = rt_full_method rt" "rt_request rt L ?call req params \<sigma> = ?call r \<sigma>"
    by (auto simp: forwards_def)
  then show ?thesis
  proof cases
    case no
    then show ?thesis using assms(2) Inr refused [of "invalid_argument msg"] by (simp add: handle_route_def)
  next
    case yes
    then have "carries rt E acc nf (gateway_call r bearer tid) a \<sigma> \<sigma>'"
      using assms(2) Inr
      by (auto simp: handle_route_def carries_def answer_of_def gateway_call_def server_client_def
          split: prod.splits outcome.splits)
    then show ?thesis using Inr called by blast
  qed
qed

lemma oauth_serve_keeps: "path_serve E W h req \<sigma> = (resp, \<sigma>') \<Longrightarrow> sys_svc \<sigma>' = sys_svc \<sigma> \<and> sys_cluster \<sigma>' = sys_cluster \<sigma>"
  by (cases h) (auto split: prod.splits)

text \<open>The gateway as the program sets it up, in front of the gRPC server with the environment \<open>E\<close>.\<close>

definition gateway_serve ::
  "ws_proxy \<Rightarrow> gw_lib \<Rightarrow> ('w, 'f) sys picker \<Rightarrow> web_lib \<Rightarrow> ('w, 'f) api_env \<Rightarrow> bool \<Rightarrow> string \<Rightarrow> string
    \<Rightarrow> ('w, 'f) sys gateway \<Rightarrow> gw_request \<Rightarrow> ('w, 'f) sys \<Rightarrow> http_answer \<times> ('w, 'f) sys" where
  "gateway_serve ws L pick W E acc nf tid g =
    serve_http ws L pick (path_serve E W) (server_client E acc nf tid) g"

lemma serve_http_cases:
  assumes "picks_registered pick" and "gwy_routes g = api_routes"
    and "gateway_serve ws L pick W E acc nf tid g req \<sigma> = (a, \<sigma>')"
  obtains (ignored) "a = NotRouted \<or> a = NotUpgraded \<or> (\<exists>err. a = HttpError err)" and "\<sigma>' = \<sigma>"
  | (called) req' rt params bearer r where "inner_request ws req = Some req'"
      and "pick g req' = Some (ToRoute rt params)" and "rt \<in> set api_routes"
      and "gw_annotate L req' (rt_full_method rt) = Inr bearer"
      and "carries rt E acc nf (gateway_call r bearer tid) a \<sigma> \<sigma>'"
  | (path) req' h resp where "inner_request ws req = Some req'" and "pick g req' = Some (ToPath h)"
      and "a = PathAnswer resp" and "path_serve E W h req' \<sigma> = (resp, \<sigma>')"
proof (cases "inner_request ws req")
  case None
  then have "a = NotUpgraded" "\<sigma>' = \<sigma>"
    using assms(3) by (auto simp: gateway_serve_def serve_http_def websocket_proxy_def)
  then show ?thesis using ignored by blast
next
  case (Some req')
  then have m: "serve_mux L pick (path_serve E W) (server_client E acc nf tid) g req' \<sigma> = (a, \<sigma>')"
    using assms(3) by (simp add: gateway_serve_def serve_http_def websocket_proxy_def)
  consider (none) "pick g req' = None" | (rt) rt params where "pick g req' = Some (ToRoute rt params)"
    | (h) h where "pick g req' = Some (ToPath h)"
    by (metis option.exhaust target.exhaust)
  then show ?thesis
  proof cases
    case none
    then show ?thesis using m ignored by (simp add: serve_mux_def)
  next
    case rt
    then have r: "rt \<in> set api_routes" using assms(1,2) unfolding picks_registered_def by metis
    have h: "handle_route L (server_client E acc nf tid) rt req' params \<sigma> = (a, \<sigma>')"
      using m rt by (simp add: serve_mux_def)
    from r h show ?thesis
    proof (cases rule: handle_route_cases)
      case (refused err)
      then show ?thesis using ignored by blast
    next
      case (called bearer r)
      then show ?thesis using that(2) Some rt r by blast
    qed
  next
    case h
    then show ?thesis using m that(3) [OF Some h] by (auto simp: serve_mux_def split: prod.splits)
  qed
qed

subsection \<open>A concrete gateway for the witnesses\<close>

text \<open>A multiplexer that takes the first route that matches, on paths split at their slashes.\<close>

fun split_path :: "string \<Rightarrow> string list" where
  "split_path [] = [[]]"
| "split_path (c # cs) =
    (if c = CHR ''/'' then [] # split_path cs
     else (case split_path cs of [] \<Rightarrow> [[c]] | p # ps \<Rightarrow> (c # p) # ps))"

fun first_route :: "http_method \<Rightarrow> string list \<Rightarrow> 's route list \<Rightarrow> ('s route \<times> path_params) option" where
  "first_route m cs [] = None"
| "first_route m cs (rt # rts) =
    (if rt_method rt = m then
       (case template_match (rt_pattern rt) cs of Some ps \<Rightarrow> Some (rt, ps) | None \<Rightarrow> first_route m cs rts)
     else first_route m cs rts)"

fun first_path :: "http_method \<Rightarrow> string \<Rightarrow> (http_method \<times> string \<times> path_handler) list \<Rightarrow> path_handler option" where
  "first_path m p [] = None"
| "first_path m p ((m', p', h) # ps) = (if m = m' \<and> p = p' then Some h else first_path m p ps)"

definition first_match :: "'s picker" where
  "first_match g req =
    (case first_path (gq_method req) (gq_path req) (gwy_paths g) of
       Some h \<Rightarrow> Some (ToPath h)
     | None \<Rightarrow> map_option (\<lambda>(rt, params). ToRoute rt params)
         (first_route (gq_method req) (split_path (drop 1 (gq_path req))) (gwy_routes g)))"

lemma first_route_registered: "first_route m cs rts = Some (rt, ps) \<Longrightarrow> rt \<in> set rts \<and> rt_method rt = m"
  by (induction m cs rts rule: first_route.induct) (auto split: if_splits option.splits)

lemma first_path_registered: "first_path m p ps = Some h \<Longrightarrow> (m, p, h) \<in> set ps"
  by (induction m p ps rule: first_path.induct) (auto split: if_splits)

lemma first_match_ok: "picks_registered first_match"
  by (auto simp: picks_registered_def first_match_def split: option.splits
      dest!: first_route_registered first_path_registered)

definition test_gw :: "string \<Rightarrow> gw_lib" where
  "test_gw token =
    \<lparr>gw_dec_login = (\<lambda>b. (\<lparr>lq_username = [], lq_password = []\<rparr>, None)), gw_dec_empty = (\<lambda>b. ((), None)),
     gw_dec_token_check = (\<lambda>b. ((), None)),
     gw_dec_create_user = (\<lambda>b. (\<lparr>cu_email = None, cu_enabled = True, cu_name = None, cu_password = b,
        cu_pwd_expiration = None, cu_pwd_update_required = False, cu_roles = None, cu_username = ''ignored''\<rparr>, None)),
     gw_dec_change_password = (\<lambda>b. (\<lparr>cp_username = [], cp_old_password = [], cp_new_password = []\<rparr>, None)),
     gw_dec_role = (\<lambda>b. (\<lparr>pb_role_name = [], pb_role_description = None, pb_role_scopes = []\<rparr>, Some io_eof)),
     gw_dec_cluster_status = (\<lambda>b. (0, None)),
     gw_dec_update_cluster_user = (\<lambda>b. (\<lparr>ucu_capabilities = [], ucu_user_entity = []\<rparr>, None)),
     gw_dec_create_cluster_user = (\<lambda>b. (\<lparr>ccu_capabilities = [], ccu_user_entity = [], ccu_import_data = []\<rparr>, None)),
     gw_dec_export_cluster_user = (\<lambda>b. (\<lparr>ecu_entities = []\<rparr>, None)),
     gw_dec_create_rule = (\<lambda>b. (\<lparr>crr_device_class = None, crr_failure_domain = [], crr_name = [],
        crr_pool_type = 0, crr_profile = None, crr_root = None\<rparr>, None)),
     gw_query_search_config = (\<lambda>skip form. Inl io_eof),
     gw_query_clone_role = (\<lambda>skip form m. Inr (m\<lparr>cr_new_name := concat (gslice form ''new_name'')\<rparr>)),
     gw_string = Inr, gw_annotate = (\<lambda>req m. Inr (Inr token))\<rparr>"

lemma test_gw_annotate [simp]: "gw_annotate (test_gw token) req m = Inr (Inr token)"
  by (simp add: test_gw_def)

text \<open>Users that may clone roles: Alice holds a role that reads and creates users and roles.\<close>

definition cloner_sys :: "(kv_world, string gomap) sys" where
  "cloner_sys = test_sys\<lparr>sys_svc := viewer_service\<lparr>svc_roles :=
     [(''viewer'', \<lparr>role_name = ''viewer'', role_description = None, role_is_system = False,
        role_permissions = Some [(''user'', Some [''read'', ''create''])]\<rparr>)]\<rparr>\<rparr>"

definition clone_request :: gw_request where
  "clone_request = \<lparr>gq_method = MethodGet, gq_path = ''/api/user/viewer/clone'',
     gq_form = Inr [(''new_name'', [''copy''])], gq_body = [], gq_upgrade = False\<rparr>"

definition get_alice_request :: gw_request where
  "get_alice_request = \<lparr>gq_method = MethodGet, gq_path = ''/api/user/alice'', gq_form = Inr [], gq_body = [],
     gq_upgrade = False\<rparr>"

definition token_request :: gw_request where
  "token_request = \<lparr>gq_method = MethodPost, gq_path = ''/api/oauth/token'', gq_form = Inr [], gq_body = [],
     gq_upgrade = False\<rparr>"

definition test_web :: web_lib where
  "test_web = \<lparr>web_request = (\<lambda>req. takeover_req), web_metrics = (\<lambda>req. \<lparr>resp_code = 200, resp_body = []\<rparr>),
     web_pprof = (\<lambda>p req. \<lparr>resp_code = 200, resp_body = []\<rparr>)\<rparr>"

text \<open>The gateway of a configuration with metrics, one OAuth path and no debug paths.\<close>

definition gw_config :: api_config where
  "gw_config = \<lparr>apc_http_port = 9969, apc_grpc_port = 9970, apc_grpc_reflection = True, apc_secure = False,
     apc_serve_debug = False, apc_access_log = True\<rparr>"

definition built_gateway :: "'s gateway" where
  "built_gateway = \<lparr>gwy_routes = api_routes,
     gwy_paths = [(MethodGet, ''/metrics'', MetricsHandler), (MethodPost, ''/api/oauth/token'', OAuthHandler TokenEndpoint)]\<rparr>"

lemma gateway_is_built:
  "grpc_gateway (\<lambda>s e c. None) (\<lambda>p. None) gw_config True [(''/api/oauth/token'', TokenEndpoint)] = Reply built_gateway"
  by (simp add: grpc_gateway_def Let_def then_built_def register_from_endpoint_def handle_get_def handle_post_def
      gw_config_def built_gateway_def api_routes_def)

text \<open>Its proxy refuses every upgrade.\<close>

abbreviation test_serve :: "gw_request \<Rightarrow> (kv_world, string gomap) sys \<Rightarrow> http_answer \<times> (kv_world, string gomap) sys" where
  "test_serve req \<equiv> gateway_serve (\<lambda>req. None) (test_gw ''for-alice'') first_match test_web test_api False [] ''t1'' built_gateway req"

lemma get_alice_picked:
  "first_match built_gateway get_alice_request =
    Some (ToRoute (route MethodGet [Lit ''api'', Lit ''user'', Param ''username''] ''/ceph.Users/GetUser''
      request_Users_GetUser_0 None) [(''username'', ''alice'')])"
  by (simp add: first_match_def built_gateway_def get_alice_request_def api_routes_def register_defs route_def)

lemma clone_picked:
  "first_match built_gateway clone_request =
    Some (ToRoute (route MethodGet [Lit ''api'', Lit ''user'', Param ''name'', Lit ''clone''] ''/ceph.Users/CloneRole''
      request_Users_CloneRole_0 None) [(''name'', ''viewer'')])"
  by (simp add: first_match_def built_gateway_def clone_request_def api_routes_def register_defs route_def)

lemma plain_requests [simp]:
  "inner_request ws get_alice_request = Some get_alice_request" "inner_request ws clone_request = Some clone_request"
  by (simp_all add: inner_request_def get_alice_request_def clone_request_def)

lemma clone_form: "gq_form clone_request = Inr [(''new_name'', [''copy''])]"
  by (simp add: clone_request_def)

lemma get_alice_served:
  "test_serve get_alice_request test_sys =
    (case serve_call test_api False [] (get_alice ''for-alice'') test_sys of (r, \<sigma>) \<Rightarrow> (answer_of None r, \<sigma>))"
  by (simp add: gateway_serve_def serve_http_def websocket_proxy_def serve_mux_def get_alice_picked handle_route_def
      route_def test_gw_def request_Users_GetUser_0_def with_param_def server_client_def get_alice_def answer_of_def
      split: prod.split outcome.split)

lemma get_alice_answered: "\<exists>x \<sigma>'. test_serve get_alice_request test_sys = (Forwarded None x, \<sigma>')"
  unfolding get_alice_served by (auto simp: call_eval gslice_def answer_of_def)

subsection \<open>Properties\<close>

text \<open>C10: What the gateway does with an HTTP request is one of three things. It refuses it (no handler, no
  websocket, an error of the runtime, an invalid argument) and nothing at all changes; or it makes
  exactly one call of the picked route's method, with the bearer token of the request, through the
  whole chain of the gRPC server, and answers what the call answers, never with a panic; or it hands
  it to one of the registered paths (metrics, the OAuth endpoints, and the debug pages if they are
  configured), which can change the tokens but neither the access database nor the cluster. The
  request that is handled is the one that came in, or what the websocket proxy makes of an upgrade.\<close>

theorem http_request_is_one_call:
  assumes "grpc_gateway new_client compile conf metrics oauth = Reply g" and "picks_registered pick"
    and "gateway_serve ws L pick W E acc nf tid g req \<sigma> = (a, \<sigma>')"
  shows "(\<sigma>' = \<sigma> \<and> (a = NotRouted \<or> a = NotUpgraded \<or> (\<exists>err. a = HttpError err)))
    \<or> (\<exists>req' rt params bearer r. inner_request ws req = Some req' \<and> pick g req' = Some (ToRoute rt params)
        \<and> gw_annotate L req' (rt_full_method rt) = Inr bearer
        \<and> carries rt E acc nf (gateway_call r bearer tid) a \<sigma> \<sigma>' \<and> (\<forall>p. a \<noteq> HttpPanic p))
    \<or> (\<exists>req' h resp. inner_request ws req = Some req' \<and> pick g req' = Some (ToPath h)
        \<and> (case h of MetricsHandler \<Rightarrow> metrics | OAuthHandler e \<Rightarrow> e \<in> snd ` set oauth
           | PprofHandler p \<Rightarrow> apc_serve_debug conf \<and> p \<in> set debug_paths)
        \<and> path_serve E W h req' \<sigma> = (resp, \<sigma>') \<and> a = PathAnswer resp
        \<and> sys_svc \<sigma>' = sys_svc \<sigma> \<and> sys_cluster \<sigma>' = sys_cluster \<sigma>)"
  using assms(2) gateway_built(1) [OF assms(1)] assms(3)
proof (cases rule: serve_http_cases)
  case ignored
  then show ?thesis by blast
next
  case (called req' rt params bearer r)
  have "a \<noteq> HttpPanic p" for p
    using called(5) serve_call_ends [of E acc nf "gateway_call r bearer tid" \<sigma>]
    by (auto simp: carries_def answer_of_def split: prod.splits outcome.splits)
  then show ?thesis using called by blast
next
  case (path req' h resp)
  then obtain m p where "(m, p, h) \<in> set (gwy_paths g)" using assms(2) unfolding picks_registered_def by metis
  then have "case h of MetricsHandler \<Rightarrow> metrics | OAuthHandler e \<Rightarrow> e \<in> snd ` set oauth
      | PprofHandler p \<Rightarrow> apc_serve_debug conf \<and> p \<in> set debug_paths"
    unfolding gateway_built(2) [OF assms(1)] by (force split: if_splits)
  then show ?thesis using path oauth_serve_keeps by blast
qed

theorem http_request_is_one_call_witness:
  "\<exists>(rt :: (kv_world, string gomap) sys route) r. full_method r = rt_full_method rt
    \<and> fst (test_serve get_alice_request test_sys) =
        answer_of (rt_field rt) (fst (serve_call test_api False [] (gateway_call r (Inr ''for-alice'') ''t1'') test_sys))"
proof -
  obtain x \<sigma>' where a: "test_serve get_alice_request test_sys = (Forwarded None x, \<sigma>')"
    using get_alice_answered by blast
  obtain rt r where "carries rt test_api False [] (gateway_call r (Inr ''for-alice'') ''t1'') (Forwarded None x) test_sys \<sigma>'"
    using http_request_is_one_call [OF gateway_is_built first_match_ok a] by auto
  then have "full_method r = rt_full_method rt"
      "Forwarded None x = answer_of (rt_field rt) (fst (serve_call test_api False [] (gateway_call r (Inr ''for-alice'') ''t1'') test_sys))"
    by (auto simp: carries_def gateway_call_def split: prod.splits)
  then show ?thesis unfolding a by auto
qed

text \<open>A token request is one to a path: the endpoint runs, and here it hands out a token.\<close>

lemma token_request_served:
  "\<exists>resp. test_serve token_request (test_sys\<lparr>sys_tokens := [(''r1'', ''alice'')]\<rparr>)
    = (PathAnswer resp, test_sys\<lparr>sys_tokens := [(''r1'', ''alice'')]\<rparr>) \<and> resp_code resp = 200"
  by (simp add: gateway_serve_def serve_http_def websocket_proxy_def serve_mux_def first_match_def built_gateway_def
      token_request_def inner_request_def token_endpoint_def token_endpoint_full_def test_web_def test_api_def test_sys_def
      test_oauth_eval takeover_req_def viewer_service_def Let_def)

text \<open>C11: What only authorized gRPC callers may do, only authorized HTTP requests may. When a request gets
  the answer of an API route, or changes the access database or the cluster, then the route that was
  picked for it made one call, with the request's bearer token, and either the caller is authorized for
  that very call or it is a log-in, which changes neither the database nor the cluster.\<close>

theorem http_requests_are_authorized:
  fixes E :: "('w, 'f) api_env"
  assumes "grpc_gateway new_client compile conf metrics oauth = Reply g" and "picks_registered pick"
    and "gateway_serve ws L pick W E acc nf tid g req \<sigma> = (a, \<sigma>')"
    and "(\<exists>fld x. a = Forwarded fld x) \<or> sys_svc \<sigma>' \<noteq> sys_svc \<sigma> \<or> sys_cluster \<sigma>' \<noteq> sys_cluster \<sigma>"
  shows "\<exists>req' rt params bearer r. inner_request ws req = Some req' \<and> pick g req' = Some (ToRoute rt params)
    \<and> gw_annotate L req' (rt_full_method rt) = Inr bearer \<and> full_method r = rt_full_method rt
    \<and> carries rt E acc nf (gateway_call r bearer tid) a \<sigma> \<sigma>'
    \<and> (authorized E \<sigma> (gateway_call r bearer tid)
       \<or> rt_full_method rt = ''/ceph.Auth/Login'' \<and> sys_svc \<sigma>' = sys_svc \<sigma> \<and> sys_cluster \<sigma>' = sys_cluster \<sigma>)"
  using assms(2) gateway_built(1) [OF assms(1)] assms(3)
proof (cases rule: serve_http_cases)
  case ignored
  then show ?thesis using assms(4) by auto
next
  case (called req' rt params bearer r)
  obtain x \<sigma>2 where x: "serve_call E acc nf (gateway_call r bearer tid) \<sigma> = (x, \<sigma>2)" by fastforce
  then have s: "\<sigma>2 = \<sigma>'" "full_method r = rt_full_method rt" "a = answer_of (rt_field rt) x"
    using called(5) by (simp_all add: carries_def gateway_call_def)
  then have eff: "(\<exists>y. x = Reply y) \<or> sys_svc \<sigma>2 \<noteq> sys_svc \<sigma> \<or> sys_cluster \<sigma>2 \<noteq> sys_cluster \<sigma>"
    using assms(4) by (cases x) (auto simp: answer_of_def)
  have "authorized E \<sigma> (gateway_call r bearer tid)
      \<or> rt_full_method rt = ''/ceph.Auth/Login'' \<and> sys_svc \<sigma>' = sys_svc \<sigma> \<and> sys_cluster \<sigma>' = sys_cluster \<sigma>"
    using effect_authorized [OF x eff] s by (auto simp: gateway_call_def)
  then show ?thesis using called s(2) by blast
next
  case (path req' h resp)
  then show ?thesis using assms(4) oauth_serve_keeps [OF path(4)] by auto
qed

theorem http_requests_are_authorized_witness:
  "\<exists>r. full_method r = ''/ceph.Users/GetUser'' \<and> authorized test_api test_sys (gateway_call r (Inr ''for-alice'') ''t1'')"
proof -
  obtain x \<sigma>' where a: "test_serve get_alice_request test_sys = (Forwarded None x, \<sigma>')"
    using get_alice_answered by blast
  show ?thesis
    using http_requests_are_authorized [OF gateway_is_built first_match_ok a]
    by (auto simp: get_alice_picked route_def)
qed

subsection \<open>Routes\<close>

fun overlap :: "path_segment list \<Rightarrow> path_segment list \<Rightarrow> bool" where
  "overlap [] [] = True"
| "overlap (Lit a # ss) (Lit b # ts) = (a = b \<and> overlap ss ts)"
| "overlap (s # ss) (t # ts) = overlap ss ts"
| "overlap ss ts = False"

lemma template_match_length: "template_match ss cs \<noteq> None \<Longrightarrow> length ss = length cs"
  by (induction ss cs rule: template_match.induct) (auto split: if_splits)

lemma both_match_overlap:
  "template_match ss cs \<noteq> None \<Longrightarrow> template_match ts cs \<noteq> None \<Longrightarrow> overlap ss ts"
proof (induction ss arbitrary: ts cs)
  case Nil
  then show ?case using template_match_length [of "[]" cs] by (cases ts) auto
next
  case (Cons s ss)
  then obtain c cs' where cs: "cs = c # cs'" using template_match_length [of "s # ss" cs] by (cases cs) auto
  then obtain t ts' where ts: "ts = t # ts'" using template_match_length [OF Cons.prems(2)] by (cases ts) auto
  show ?case using Cons unfolding cs ts by (cases s; cases t) (auto split: if_splits)
qed

definition route_key :: "'s route \<Rightarrow> http_method \<times> path_segment list \<times> string" where
  "route_key rt = (rt_method rt, rt_pattern rt, rt_full_method rt)"

fun clash :: "http_method \<times> path_segment list \<times> string \<Rightarrow> http_method \<times> path_segment list \<times> string \<Rightarrow> bool" where
  "clash (m, p, f) (m', p', f') \<longleftrightarrow> m = m' \<and> overlap p p' \<and> f \<noteq> f'"

lemma no_clash: "list_all (\<lambda>a. list_all (\<lambda>b. \<not> clash a b) (map route_key api_routes)) (map route_key api_routes)"
  by (simp add: api_routes_def register_defs route_def route_key_def)

text \<open>C32: No path belongs to two calls: two routes of the same HTTP method whose patterns match the same
  path are routes of the same call.\<close>

theorem routes_are_unambiguous:
  assumes "rt1 \<in> set api_routes" and "rt2 \<in> set api_routes" and "rt_method rt1 = rt_method rt2"
    and "template_match (rt_pattern rt1) cs = Some ps1" and "template_match (rt_pattern rt2) cs = Some ps2"
  shows "rt_full_method rt1 = rt_full_method rt2"
  using no_clash assms(1-3) both_match_overlap [of "rt_pattern rt1" cs "rt_pattern rt2"] assms(4,5)
  by (force simp: list_all_iff route_key_def)

theorem routes_are_unambiguous_witness:
  "rt_full_method (route MethodGet [Lit ''api'', Lit ''user'', Param ''username''] ''/ceph.Users/GetUser''
      request_Users_GetUser_0 None) = ''/ceph.Users/GetUser''"
proof -
  have "route MethodGet [Lit ''api'', Lit ''user'', Param ''username''] ''/ceph.Users/GetUser''
      request_Users_GetUser_0 None \<in> set api_routes"
    by (simp add: api_routes_def register_defs)
  from routes_are_unambiguous [OF this this, of "[''api'', ''user'', ''alice'']"]
  show ?thesis by (simp add: route_def)
qed

lemma api_route_methods:
  "map rt_full_method api_routes =
    map (\<lambda>m. ''/ceph.'' @ m)
      [''Cluster/GetStatus'', ''Cluster/UpdateStatus'', ''Cluster/GetUsers'', ''Cluster/UpdateUser'',
       ''Cluster/CreateUser'', ''Cluster/ExportUser'', ''Cluster/DeleteUser'', ''Cluster/SearchConfig'',
       ''Users/ListUsers'', ''Users/GetUser'', ''Users/CreateUser'', ''Users/DeleteUser'', ''Users/UpdateUser'',
       ''Users/UserChangePassword'', ''Users/ListRoles'', ''Users/GetRole'', ''Users/CreateRole'',
       ''Users/DeleteRole'', ''Users/UpdateRole'', ''Users/CloneRole'', ''Auth/Login'', ''Auth/Logout'',
       ''Auth/Check'', ''CrushRule/CreateRule'', ''CrushRule/DeleteRule'', ''CrushRule/GetRule'',
       ''CrushRule/ListRules'', ''Status/GetCephStatus'', ''Status/GetCephMonDump'', ''Status/GetCephOsdDump'',
       ''Status/GetCephReport'']"
  by (simp add: api_routes_def register_defs route_def)

text \<open>Every call of the API can be made over HTTP, except for the dump of the placement groups.\<close>

theorem only_pg_dump_has_no_route:
  "full_method r \<in> rt_full_method ` set api_routes \<longleftrightarrow> r \<noteq> GetCephPgDump"
proof -
  have "full_method r \<in> set (map rt_full_method api_routes) \<longleftrightarrow> r \<noteq> GetCephPgDump"
    unfolding api_route_methods by (cases r) simp_all
  then show ?thesis by (simp only: set_map)
qed

text \<open>A route whose pattern has the parameter \<open>p\<close>, which \<open>v\<close> is the value of, makes calls that name \<open>v\<close>.\<close>

definition route_names :: "gw_lib \<Rightarrow> 's route \<Rightarrow> bool" where
  "route_names L rt \<longleftrightarrow> (\<forall>p v call req. Param p \<in> set (rt_pattern rt) \<longrightarrow>
     forwards (\<lambda>r. object_named r = Some v) call (rt_request rt L call req [(p, v)]))"

lemma routes_name:
  assumes "\<And>v. gw_string L v = Inr v"
    and "\<And>form m m'. gw_query_clone_role L [''name''] form m = Inr m' \<Longrightarrow> cr_name m' = cr_name m"
  shows "list_all (route_names L) api_routes"
  using assms
  by (simp add: api_routes_def register_defs route_def route_names_def request_defs)
    (auto intro!: forwards_body forwards_query forwards_call forwards_param)

lemma template_match_param:
  "template_match ss cs = Some params \<Longrightarrow> i < length ss \<Longrightarrow> ss ! i = Param p \<Longrightarrow> (p, cs ! i) \<in> set params"
  by (induction ss cs arbitrary: params i rule: template_match.induct)
    (auto simp: nth_Cons split: if_splits nat.splits)

lemma template_match_count:
  "template_match ss cs = Some params \<Longrightarrow> length params = length (filter (\<lambda>s. \<exists>p. s = Param p) ss)"
  by (induction ss cs arbitrary: params rule: template_match.induct) (auto split: if_splits)

lemma one_param: "list_all (\<lambda>rt. length (filter (\<lambda>s. \<exists>p. s = Param p) (rt_pattern rt)) \<le> 1) api_routes"
  by (simp add: api_routes_def register_defs route_def)

lemma captured_param:
  assumes "rt \<in> set api_routes" and "template_match (rt_pattern rt) cs = Some params"
    and "i < length (rt_pattern rt)" and "rt_pattern rt ! i = Param p"
  shows "params = [(p, cs ! i)]"
proof -
  have "length params \<le> 1"
    using one_param assms(1) template_match_count [OF assms(2)] by (auto simp: list_all_iff)
  then show ?thesis using template_match_param [OF assms(2-4)] by (cases params) auto
qed

text \<open>C33: Where a path names an object, the path decides. For every route of the gateway whose pattern
  captures a segment and every path that matches it, the request is refused or makes one call of the
  route's method for the object named by that segment: what the body of an update or a password change,
  or the query of a clone, says about the name is overwritten.\<close>

theorem path_names_the_object:
  assumes "rt \<in> set api_routes" and "template_match (rt_pattern rt) cs = Some params"
    and "i < length (rt_pattern rt)" and "rt_pattern rt ! i = Param p"
    and "\<And>v. gw_string L v = Inr v"
    and "\<And>form m m'. gw_query_clone_role L [''name''] form m = Inr m' \<Longrightarrow> cr_name m' = cr_name m"
  shows "(\<exists>msg. rt_request rt L call req params = (\<lambda>st. (Failed (invalid_argument msg), st)))
    \<or> (\<exists>r. object_named r = Some (cs ! i) \<and> rt_request rt L call req params = call r)"
proof -
  have names: "list_all (route_names L) api_routes"
    by (rule routes_name) (fact assms(5), fact assms(6))
  have "Param p \<in> set (rt_pattern rt)" using assms(3,4) by (metis nth_mem)
  then have "forwards (\<lambda>r. object_named r = Some (cs ! i)) call (rt_request rt L call req params)"
    using names assms(1) captured_param [OF assms(1-4)] by (auto simp: list_all_iff route_names_def)
  then show ?thesis by (simp add: forwards_def)
qed

theorem path_names_the_object_witness:
  "\<exists>r. object_named r = Some ''alice''
    \<and> request_Users_UpdateUser_0 (test_gw []) (\<lambda>r st. (Reply (AnEmpty ()), [r])) get_alice_request
        [(''username'', ''alice'')] [] = (Reply (AnEmpty ()), [r])"
proof -
  let ?rt = "route MethodPut [Lit ''api'', Lit ''user'', Param ''username''] ''/ceph.Users/UpdateUser''
      request_Users_UpdateUser_0 None :: rpc list route"
  let ?f = "request_Users_UpdateUser_0 (test_gw []) (\<lambda>r st. (Reply (AnEmpty ()), [r])) get_alice_request
    [(''username'', ''alice'')]"
  have rt: "?rt \<in> set api_routes" by (simp add: api_routes_def register_defs)
  have "?f [] \<noteq> (Failed (invalid_argument msg), [])" for msg
    by (simp add: request_Users_UpdateUser_0_def with_body_def test_gw_def with_param_def)
  then have ne: "?f \<noteq> (\<lambda>st. (Failed (invalid_argument msg), st))" for msg by metis
  have m: "template_match (rt_pattern ?rt) [''api'', ''user'', ''alice''] = Some [(''username'', ''alice'')]"
      "2 < length (rt_pattern ?rt)" "rt_pattern ?rt ! 2 = Param ''username''"
    by (simp_all add: route_def)
  have g: "gw_string (test_gw []) v = Inr v" for v by (simp add: test_gw_def)
  have q: "gw_query_clone_role (test_gw []) [''name''] form m = Inr m' \<Longrightarrow> cr_name m' = cr_name m" for form m m'
    by (auto simp: test_gw_def)
  have "(\<exists>msg. ?f = (\<lambda>st. (Failed (invalid_argument msg), st)))
      \<or> (\<exists>r. object_named r = Some ([''api'', ''user'', ''alice''] ! 2) \<and> ?f = (\<lambda>st. (Reply (AnEmpty ()), [r])))"
    using path_names_the_object [OF rt m g q, where call = "\<lambda>r st. (Reply (AnEmpty ()), [r])" and req = get_alice_request]
    by (simp only: route_def route.simps)
  then show ?thesis using ne by auto
qed

subsection \<open>What GET may change\<close>

definition get_methods :: "string list" where
  "get_methods = map (\<lambda>m. ''/ceph.'' @ m)
     [''Cluster/GetStatus'', ''Cluster/GetUsers'', ''Cluster/SearchConfig'', ''Users/ListUsers'', ''Users/GetUser'',
      ''Users/ListRoles'', ''Users/GetRole'', ''CrushRule/GetRule'', ''CrushRule/ListRules'',
      ''Status/GetCephStatus'', ''Status/GetCephMonDump'', ''Status/GetCephOsdDump'', ''Status/GetCephReport'']"

lemma get_route_methods:
  "list_all (\<lambda>rt. rt_method rt = MethodGet \<longrightarrow> rt_full_method rt \<in> set (''/ceph.Users/CloneRole'' # get_methods)) api_routes"
  by (simp add: api_routes_def register_defs route_def get_methods_def)

lemma get_methods_keep_users: "full_method r \<in> set get_methods \<Longrightarrow> same_users (dispatch E b r)"
  by (cases r) (simp_all add: get_methods_def same_users_answering same_users_on_cluster same_users_reading)

text \<open>C31: A \<open>GET\<close> request that does not ask for a websocket leaves the users and roles as they are, with
  one exception: cloning a role, which is routed as a \<open>GET\<close> although it creates a role (and under the
  path of a user). An upgrade to a websocket is left out, since the websocket proxy lets its query name
  another method.\<close>

theorem get_only_clones:
  assumes "grpc_gateway new_client compile conf metrics oauth = Reply g" and "picks_registered pick"
    and "gateway_serve ws L pick W E acc nf tid g req \<sigma> = (a, \<sigma>')"
    and "gq_method req = MethodGet" and "\<not> gq_upgrade req" and "sys_svc \<sigma>' \<noteq> sys_svc \<sigma>"
  shows "\<exists>rt params. pick g req = Some (ToRoute rt params) \<and> rt_full_method rt = ''/ceph.Users/CloneRole''"
  using assms(2) gateway_built(1) [OF assms(1)] assms(3)
proof (cases rule: serve_http_cases)
  case ignored
  then show ?thesis using assms(6) by simp
next
  case (called req' rt params bearer r)
  then have req: "req' = req" using assms(5) by (simp add: inner_request_def)
  then have get: "rt_method rt = MethodGet"
    using called(2) assms(2,4) unfolding picks_registered_def by metis
  obtain x \<sigma>2 where x: "serve_call E acc nf (gateway_call r bearer tid) \<sigma> = (x, \<sigma>2)" by fastforce
  then have "\<sigma>2 = \<sigma>'" and m: "full_method r = rt_full_method rt"
    using called(5) by (simp_all add: carries_def gateway_call_def)
  then have "\<not> same_users (dispatch E bearer r)"
    using serve_call_same_users [of E "gateway_call r bearer tid", OF _ x] assms(6) by (auto simp: gateway_call_def)
  then have "rt_full_method rt \<notin> set get_methods" using get_methods_keep_users m by metis
  then have "rt_full_method rt = ''/ceph.Users/CloneRole''"
    using get_route_methods called(3) get by (auto simp: list_all_iff)
  then show ?thesis using called(2) req by blast
next
  case (path req' h resp)
  then show ?thesis using assms(6) oauth_serve_keeps by blast
qed

theorem get_only_clones_witness:
  "sys_svc (snd (test_serve clone_request cloner_sys)) \<noteq> sys_svc cloner_sys
    \<and> (\<exists>(rt :: (kv_world, string gomap) sys route) params. first_match built_gateway clone_request = Some (ToRoute rt params)
        \<and> rt_full_method rt = ''/ceph.Users/CloneRole'')"
proof -
  obtain a \<sigma>' where a: "test_serve clone_request cloner_sys = (a, \<sigma>')" by fastforce
  have "test_serve clone_request cloner_sys =
      (case serve_call test_api False []
         (gateway_call (CloneRole \<lparr>cr_name = ''viewer'', cr_new_name = ''copy''\<rparr>) (Inr ''for-alice'') ''t1'') cloner_sys of
       (r, \<sigma>) \<Rightarrow> (answer_of None r, \<sigma>))"
    by (simp add: gateway_serve_def serve_http_def websocket_proxy_def serve_mux_def clone_picked clone_form
        handle_route_def route_def test_gw_def request_Users_CloneRole_0_def with_param_def with_query_def
        server_client_def answer_of_def gslice_def gateway_call_def split: prod.split outcome.split)
  with a have ch: "sys_svc \<sigma>' \<noteq> sys_svc cloner_sys"
    by (auto simp: call_eval cloner_sys_def gateway_call_def gslice_def api_clone_role_def clone_role_def
        clone_role_edit_def kv_eval empty_reply_def)
  have "\<exists>(rt :: (kv_world, string gomap) sys route) params.
      first_match built_gateway clone_request = Some (ToRoute rt params) \<and> rt_full_method rt = ''/ceph.Users/CloneRole''"
    by (rule get_only_clones [OF gateway_is_built first_match_ok a _ _ ch]) (simp_all add: clone_request_def)
  then show ?thesis using a ch by simp
qed

end
