(* ===== verification/App_Properties.thy ===== *)
theory App_Properties
  imports App_Start Gateway_Properties
begin

text \<open>
  The properties of the application as a whole: what is open and closed at the end of a start, the
  administrator it ensures, the mock build, sharing a port with TLS, and shutting down.
\<close>

subsection \<open>Configuration\<close>

text \<open>A configuration value comes from the environment if it sets the key, else from the last of the
  given sources that sets it, else from the embedded defaults.\<close>

theorem config_precedence:
  assumes "viper_layers V value_of in_text in_file in_env" and "config_get quote V (Inr data) srcs = Inr conf"
    and "\<And>v conf. vp_unmarshal V v = Inr conf \<Longrightarrow> value_of v key = Some (decoded conf)"
  shows "Some (decoded conf) =
    (case in_env key of Some x \<Rightarrow> Some x
     | None \<Rightarrow> (case last_set (in_source in_text in_file key) srcs of Some x \<Rightarrow> Some x | None \<Rightarrow> in_text data key))"
proof -
  obtain v0 v1 where v0: "vp_read_config V data (vp_new V) = Inr v0"
    and v1: "merge_sources quote V srcs v0 = Inr v1"
    and c: "vp_unmarshal V (vp_automatic_env V ''CFG'' v1) = Inr conf"
    using assms(2)
    by (cases "vp_read_config V data (vp_new V)";
        cases "merge_sources quote V srcs (projr (vp_read_config V data (vp_new V)))")
      (auto simp: config_get_def wrap_error_def split: sum.splits)
  have "value_of v0 key = in_text data key"
      "value_of (vp_automatic_env V ''CFG'' v1) key = (case in_env key of Some x \<Rightarrow> Some x | None \<Rightarrow> value_of v1 key)"
    using assms(1) v0 unfolding viper_layers_def by blast+
  then show ?thesis using merge_sources_value [OF assms(1) v1, of key] assms(3) [OF c] by (auto split: option.splits)
qed

text \<open>A configuration store whose state is the administrator's name.\<close>

definition test_config :: "string \<Rightarrow> config" where
  "test_config name =
    \<lparr>cfg_log = \<lparr>lcf_json = True, lcf_level = ''info''\<rparr>, cfg_metrics_enabled = False,
     cfg_trace = \<lparr>tcf_enabled = False, tcf_insecure = False, tcf_endpoint = []\<rparr>,
     cfg_api = \<lparr>apc_http_port = 9969, apc_grpc_port = 9969, apc_grpc_reflection = True, apc_secure = False,
       apc_serve_debug = False, apc_access_log = True\<rparr>,
     cfg_rados = \<lparr>rc_user = ''admin'', rc_user_keyring = [], rc_mon_host = [], rc_rados_timeout = 10000000000\<rparr>,
     cfg_auth = \<lparr>ac_access_token_lifespan = 60000000000, ac_refresh_token_lifespan = 3600000000000,
       ac_client_id = ''ceph-api'', ac_issuer = ''ceph-api''\<rparr>,
     cfg_app = \<lparr>acf_create_admin = True, acf_admin_username = name, acf_admin_password = ''pw'',
       acf_bcrypt_pwd_cost = 0\<rparr>\<rparr>"

definition test_viper :: "string viper_lib" where
  "test_viper = \<lparr>vp_new = [], vp_read_config = (\<lambda>data v. Inr data), vp_stat = (\<lambda>path. None),
     vp_merge_file = (\<lambda>path v. Inr path), vp_merge_reader = (\<lambda>data v. Inr data),
     vp_automatic_env = (\<lambda>prefix v. v), vp_unmarshal = (\<lambda>v. Inr (test_config v))\<rparr>"

theorem config_precedence_witness:
  "acf_admin_username (cfg_app (test_config ''override'')) = ''override''"
proof -
  have "viper_layers test_viper (\<lambda>v k. Some v) (\<lambda>data k. Some data) (\<lambda>path k. Some path) (\<lambda>k. None)"
    by (simp add: viper_layers_def test_viper_def)
  moreover have "config_get (\<lambda>s. s) test_viper (Inr ''default'') [PathOpt ''base'', PathOpt ''override''] =
      Inr (test_config ''override'')"
    by (simp add: config_get_def test_viper_def wrap_error_def merge_source_def)
  ultimately show ?thesis
    using config_precedence [where decoded = "\<lambda>c. acf_admin_username (cfg_app c)" and key = "''app.adminUsername''"]
    by (fastforce simp: test_viper_def test_config_def in_source_def)
qed

subsection \<open>What is closed\<close>

lemma app_serve_events:
  "app_serve L conf st = (r, st') \<Longrightarrow>
    ast_events st' = ast_events st @ [Serving] \<or> (ast_events st' = ast_events st \<and> r \<noteq> Reply ())"
  by (auto simp: app_serve_def emit_def Let_def split: outcome.splits prod.splits option.splits)

lemma app_services_events:
  assumes "app_services L conf C st = (r, st')"
  shows "ast_events st' = ast_events st @ [Serving] \<or> (ast_events st' = ast_events st \<and> r \<noteq> Reply ())"
proof -
  consider (failed) err w where "r = Failed err" "st' = st\<lparr>ast_cluster := w\<rparr>"
    | (served) w where "app_serve L conf (st\<lparr>ast_cluster := w\<rparr>) = (r, st')"
    using assms by (auto simp: app_services_def split: prod.splits sum.splits option.splits)
  then show ?thesis using app_serve_events by cases force+
qed

text \<open>C35: Whatever fails or panics in the start's own goroutine, what was opened is closed in the opposite
  order: the cluster connection first, then the tracer; and nothing is closed that was not opened. The
  start succeeds only if the servers have run. (A panic in a server's goroutine ends the process.)\<close>

theorem start_closes_what_it_opened:
  assumes "app_start L conf version st = (r, st')"
  shows "\<exists>es. ast_events st' = ast_events st @ es
    \<and> (es = [TracerStarted, RadosOpened, Serving, RadosClosed, TracerShutdown]
      \<or> (r \<noteq> Reply () \<and> es \<in> {[], [TracerStarted, TracerShutdown], [TracerStarted, RadosOpened, RadosClosed, TracerShutdown]}))"
proof (cases "new_tracer_provider (al_new_exporter L) (cfg_trace conf) version")
  case (Inl err)
  then show ?thesis using assms by (auto simp: app_start_def)
next
  case (Inr tp)
  show ?thesis
  proof (cases "al_get_rados_connection L (cfg_rados conf)")
    case (Inl err)
    then show ?thesis using assms Inr by (auto simp: app_start_def deferred_def app_connected_def emit_def)
  next
    case C: (Inr C)
    let ?st = "emit RadosOpened (emit TracerStarted st)"
    obtain r2 st2 where s: "app_services L conf C ?st = (r2, st2)" by fastforce
    then have "r2 = r" "ast_events st' = ast_events st2 @ [RadosClosed, TracerShutdown]"
      using assms Inr C by (auto simp: app_start_def deferred_def app_connected_def close_rados_def emit_def)
    then show ?thesis using app_services_events [OF s] by (auto simp: emit_def)
  qed
qed

text \<open>A start on the key store, without the parameter list: the cluster answers no other command.\<close>

definition test_net :: "(unit, unit) net_lib" where
  "test_net = \<lparr>net_now = 0, net_add_year = (\<lambda>t. t + 31536000), net_generate_key = (\<lambda>n. Inr ()),
     net_create_certificate = (\<lambda>t k. Inr ()), net_listen = (\<lambda>a. None),
     net_tls_listen = (\<lambda>a c. Some (Foreign ''address already in use''))\<rparr>"

definition test_app :: "'w rados_conn res \<Rightarrow> ('w, unit, unit, unit) app_lib" where
  "test_app conn = \<lparr>al_new_exporter = (\<lambda>e i. Inr ()), al_get_rados_connection = (\<lambda>c. conn), al_index = ''[]'',
     al_go = test_env, al_rand_err = None, al_rsa_err = None, al_new_client = (\<lambda>s e c. None),
     al_compile_path = (\<lambda>p. None), al_net = test_net, al_run = (\<lambda>ws w. (None, w))\<rparr>"

theorem start_closes_what_it_opened_witness:
  "\<exists>es. ast_events (snd (app_start (test_app (Inl (Foreign ''no monitor'') :: kv_world rados_conn res))
      (test_config ''admin'') [] \<lparr>ast_cluster = kv_init, ast_events = []\<rparr>)) = es
    \<and> es \<in> {[], [TracerStarted, TracerShutdown], [TracerStarted, RadosOpened, RadosClosed, TracerShutdown]}"
proof -
  let ?L = "test_app (Inl (Foreign ''no monitor'') :: kv_world rados_conn res)"
  obtain r st' where r: "app_start ?L (test_config ''admin'') [] \<lparr>ast_cluster = kv_init, ast_events = []\<rparr> = (r, st')"
    by fastforce
  then have "Serving \<notin> set (ast_events st')"
    by (auto simp: app_start_def new_tracer_provider_def test_config_def deferred_def app_connected_def test_app_def emit_def)
  then show ?thesis using start_closes_what_it_opened [OF r] r by auto
qed

subsection \<open>The administrator\<close>

lemma administrator_grants:
  assumes "required r = Some (sc, ps)" and "p \<in> set ps"
  shows "role_grants system_role_map ''administrator'' (scope_string sc) (permission_string p)"
  using assms
  by (cases r; cases p) (auto simp: required_def role_grants_def system_role_map_eq system_role_defs scopes_grant_def)

text \<open>C34: When the start ensured the administrator without an error, the configured user exists, is
  enabled, has just the role \<open>administrator\<close> and a hash of the configured password (the old hash if
  the user existed and the configured password is empty), whatever was stored of that user before;
  the database is still well formed, and no permission check of any call refuses that user.\<close>

theorem admin_is_ensured:
  assumes "svc_wf s" and "acf_create_admin conf" and "ensure_admin C env conf s w = (None, s', w')"
  shows "svc_wf s' \<and> (\<exists>usr. get_user s' (acf_admin_username conf) = Inr usr
      \<and> u_enabled usr \<and> u_roles usr = Some [''administrator'']
      \<and> (bcrypt_generate env pwd_bcrypt_cost (acf_admin_password conf) = Inr (u_password usr)
          \<or> acf_admin_password conf = []
            \<and> (\<exists>old. get_user s (acf_admin_username conf) = Inr old \<and> u_password usr = u_password old))
      \<and> (\<forall>r sc ps. required r = Some (sc, ps) \<longrightarrow>
          has_permissions (user_ctx s' (acf_admin_username conf) usr) sc ps = None))"
proof -
  let ?name = "acf_admin_username conf"
  have perms: "has_permissions (user_ctx s' ?name usr) sc ps = None"
    if u: "get_user s' ?name = Inr usr" "u_roles usr = Some [''administrator'']" and r: "required r = Some (sc, ps)"
    for usr r sc ps
  proof -
    have g: "permission_string p \<in> set (gslice (get_permissions s' ?name) (scope_string sc))" if "p \<in> set ps" for p
      using u administrator_grants [OF r that]
      by (auto simp: get_permissions_granted user_granted_def get_user_def split: option.splits)
    have "ps \<noteq> []" using r by (cases "r") (auto simp: required_def)
    then have "get_permissions s' ?name \<noteq> []" using g [of "hd ps"] by (auto simp: gslice_def)
    then show ?thesis using g by (simp add: has_permissions_None user_ctx_def list_all_iff)
  qed
  show ?thesis
  proof (cases "get_user s ?name")
    case (Inl err)
    then have "err = ErrNotFound" by (simp add: get_user_def split: option.splits)
    then have m: "mutate C (create_user_edit env (default_admin conf)) s w = (None, s', w')"
      using assms(2,3) Inl by (simp add: ensure_admin_def create_user_def split: prod.splits option.splits)
    have wf: "svc_wf s'" and e: "create_user_edit env (default_admin conf) s = Inr s'"
      using create_user.success [OF assms(1) m] by simp_all
    show ?thesis
      by (rule create_user_edit_Inr [OF e]) (use wf perms in \<open>auto simp: default_admin_def get_user_def\<close>)
  next
    case (Inr old)
    then have m: "mutate C (update_user_edit env (default_admin conf)) s w = (None, s', w')"
      using assms(2,3) by (simp add: ensure_admin_def update_user_def split: prod.splits option.splits)
    have wf: "svc_wf s'" and e: "update_user_edit env (default_admin conf) s = Inr s'"
      using update_user.success [OF assms(1) m] by simp_all
    show ?thesis
      by (rule update_user_edit_Inr [OF e])
        (use wf perms Inr in \<open>auto simp: default_admin_def get_user_def split: option.splits\<close>)
  qed
qed

theorem admin_is_ensured_witness:
  "\<exists>usr. get_user (fst (snd (ensure_admin kv_conn test_env (cfg_app (test_config ''alice'')) alice_service kv_init))) ''alice''
      = Inr usr \<and> u_roles usr = Some [''administrator'']"
proof -
  obtain s' w' where e: "ensure_admin kv_conn test_env (cfg_app (test_config ''alice'')) alice_service kv_init = (None, s', w')"
    by (simp add: ensure_admin_def test_config_def get_user_def alice_service_def update_user_def update_user_edit_def
        default_admin_def kv_eval has_key_def system_role_map_eq)
  then show ?thesis
    using admin_is_ensured [OF alice_wf _ e] by (auto simp: test_config_def)
qed

subsection \<open>The mock build\<close>

lemma load_entries_keys:
  assumes "load_entries dir es m = Inr m'" and "has_key m' k"
  shows "has_key m k \<or> (\<exists>name \<in> set (map fst es). k = trim_suffix name ''.json'')"
  using assms(1)
proof (induction es arbitrary: m)
  case Nil
  then show ?case using assms(2) by simp
next
  case (Cons e es)
  obtain name d c where e: "e = (name, d, c)" by (cases e)
  show ?case
  proof (cases "d \<or> \<not> has_suffix name ''.json''")
    case True
    then show ?thesis using Cons.IH [of m] Cons.prems e by auto
  next
    case False
    then obtain rs where "load_entries dir es (gset (trim_suffix name ''.json'') rs m) = Inr m'"
      using Cons.prems e by (auto split: option.splits sum.splits)
    then show ?thesis using Cons.IH [of "gset (trim_suffix name ''.json'') rs m"] e by auto
  qed
qed

text \<open>The names of the files under \<open>mock-data/mon\<close>.\<close>

definition mock_mon_files :: "string list" where
  "mock_mon_files = [''config-key_get.json'', ''mon_dump.json'', ''osd_crush_dump.json'', ''osd_dump.json'',
     ''pg_dump.json'', ''report.json'', ''status.json'']"

lemma mock_mon_no_config_ls: "list_all (\<lambda>n. trim_suffix n ''.json'' \<noteq> ''config_ls'') mock_mon_files"
  by (simp add: mock_mon_files_def trim_suffix_def has_suffix_def)

lemma config_ls_prefix: "normalize config_ls_cmd = Inr ''config_ls''"
  by code_simp

text \<open>C38: The mock build cannot start, whatever the embedded files contain: the start lists the cluster's
  configuration parameters, and there is no canned answer for that command.\<close>

theorem mock_build_cannot_start:
  assumes "al_get_rados_connection L = get_mock_connection intn (Some mon) mon_input mgr"
    and "map fst mon = mock_mon_files"
  shows "\<exists>err. fst (app_start L conf version st) = Failed err"
proof (cases "new_tracer_provider (al_new_exporter L) (cfg_trace conf) version")
  case (Inl err)
  then show ?thesis by (simp add: app_start_def)
next
  case (Inr tp)
  show ?thesis
  proof (cases "new_mock_conn (Some mon) mon_input mgr")
    case (Inl err)
    then show ?thesis using Inr assms(1)
      by (simp add: app_start_def deferred_def app_connected_def get_mock_connection_def)
  next
    case mc: (Inr mc)
    then have l: "load_entries ''mock-data/mon'' mon [] = Inr (mon_responses mc)"
      by (auto simp: new_mock_conn_def load_responses_from_dir_def split: sum.splits)
    have "\<not> has_key (mon_responses mc) ''config_ls''"
    proof
      assume "has_key (mon_responses mc) ''config_ls''"
      then obtain name where "name \<in> set (map fst mon)" "trim_suffix name ''.json'' = ''config_ls''"
        using load_entries_keys [OF l] by (metis has_key_def map_of.simps(1))
      then show False using mock_mon_no_config_ls assms(2) by (simp add: list_all_iff)
    qed
    then have n: "gget (mon_responses mc) ''config_ls'' = None" by (simp add: has_key_def)
    have no_params: "\<exists>err w'. new_config (mock_rados_conn intn mc) (al_index L) False w = (Inl err, w')" for w
      by (cases "load_params_slice (al_index L)")
        (simp_all add: new_config_def exec_mon_def mock_rados_conn_def mock_mon_command_def
          mock_answer_unknown [OF config_ls_prefix n])
    have "\<exists>err. fst (app_services L conf (mock_rados_conn intn mc) st1) = Failed err" for st1
      using no_params [of "ast_cluster st1"] by (auto simp: app_services_def)
    then show ?thesis using Inr mc assms(1)
      by (auto simp: app_start_def deferred_def app_connected_def get_mock_connection_def split: prod.split)
        (metis (no_types) fst_conv)
  qed
qed

theorem mock_build_cannot_start_witness:
  "\<exists>err. fst (app_start (test_app (Inl io_eof)
      \<lparr>al_get_rados_connection := get_mock_connection (\<lambda>n r. (0, r)) (Some (map (\<lambda>n. (n, False, Some ''[]'')) mock_mon_files))
         (Some []) (Some [])\<rparr>) (test_config ''admin'') [] \<lparr>ast_cluster = (), ast_events = []\<rparr>) = Failed err"
  by (rule mock_build_cannot_start [OF _ _, where mon = "map (\<lambda>n. (n, False, Some ''[]'')) mock_mon_files"])
    (simp_all add: comp_def)

subsection \<open>Listening\<close>

text \<open>C39: On one port with TLS, a failure to listen is lost, since its error is assigned to a variable that
  shadows the one that is tested: \<open>Serve\<close> reports success with a nil listener, where without TLS it
  reports the same failure. The application then neither serves nor fails in an orderly way: whatever
  happens, its worker group never returns, so that nothing it opened is ever closed, and until the
  process crashes it can crash at any moment, even before the first step.\<close>

theorem tls_listen_failure_is_missed:
  assumes "apc_grpc_port conf = apc_http_port conf" and "self_issued_tls_conf N = Inr tls_conf"
    and "net_tls_listen N ('':'' @ itoa (apc_http_port conf)) tls_conf = Some err"
    and "net_listen N ('':'' @ itoa (apc_http_port conf)) = Some err"
  shows "api_serve N (conf\<lparr>apc_secure := False\<rparr>) = Inl err
    \<and> (\<exists>srv. api_serve N (conf\<lparr>apc_secure := True\<rparr>) = Inr srv
        \<and> (\<forall>lib es sv ag. api_run lib srv es sv ag \<longrightarrow> gs_result ag = None)
        \<and> (\<forall>lib es sv ag. api_run lib srv es sv ag \<longrightarrow> ProcessCrashes \<notin> set es \<longrightarrow>
            api_run lib srv (es @ [ProcessCrashes]) sv ag))"
proof -
  let ?srv = "OnePort NilListener"
  have w: "gs_work sv ! 0 = Working" if r: "api_run lib ?srv es sv ag" for lib es sv ag
    using api_run_returned [OF r, of 0] by (cases "gs_work sv ! 0") auto
  have "gs_result ag = None" if r: "api_run lib ?srv es sv ag" for lib es sv ag
  proof -
    have "0 < length (gs_work sv)" using api_run_length [OF r] by simp
    then have "Working \<in> set (gs_work sv)" using w [OF r] by (metis nth_mem)
    then show ?thesis by (rule servers_working(3) [OF r])
  qed
  moreover have "api_run lib ?srv (es @ [ProcessCrashes]) sv ag"
    if "api_run lib ?srv es sv ag" "ProcessCrashes \<notin> set es" for lib es sv ag
    by (rule api_run.crash [where i = 0]) (use that w in simp_all)
  ultimately show ?thesis using assms by (auto simp: api_serve_def)
qed

theorem tls_listen_failure_is_missed_witness:
  "api_serve (test_net\<lparr>net_listen := (\<lambda>a. Some (Foreign ''address already in use''))\<rparr>)
      (cfg_api (test_config [])\<lparr>apc_secure := False\<rparr>) = Inl (Foreign ''address already in use'')
    \<and> (\<exists>srv. api_serve (test_net\<lparr>net_listen := (\<lambda>a. Some (Foreign ''address already in use''))\<rparr>)
        (cfg_api (test_config [])\<lparr>apc_secure := True\<rparr>) = Inr srv
        \<and> (\<exists>lib sv ag. api_run lib srv [ProcessCrashes] sv ag))"
proof -
  let ?N = "test_net\<lparr>net_listen := (\<lambda>a. Some (Foreign ''address already in use''))\<rparr>"
  let ?conf = "cfg_api (test_config [])"
  have "api_serve ?N (?conf\<lparr>apc_secure := False\<rparr>) = Inl (Foreign ''address already in use'')
    \<and> (\<exists>srv. api_serve ?N (?conf\<lparr>apc_secure := True\<rparr>) = Inr srv
        \<and> (\<forall>lib es sv ag. api_run lib srv es sv ag \<longrightarrow> gs_result ag = None)
        \<and> (\<forall>lib es sv ag. api_run lib srv es sv ag \<longrightarrow> ProcessCrashes \<notin> set es \<longrightarrow>
            api_run lib srv (es @ [ProcessCrashes]) sv ag))"
    by (rule tls_listen_failure_is_missed [where tls_conf = "\<lparr>tc_insecure_skip_verify = True, tc_certificates = [()]\<rparr>"])
      (simp_all add: test_config_def test_net_def self_issued_tls_conf_def gen_x509_key_pair_def)
  then show ?thesis using api_run.starts by (metis append_Nil empty_iff empty_set)
qed

text \<open>On two ports the option to use TLS is ignored.\<close>

lemma two_ports_ignore_secure:
  "apc_grpc_port conf \<noteq> apc_http_port conf \<Longrightarrow> api_serve N (conf\<lparr>apc_secure := b\<rparr>) = api_serve N conf"
  by (simp add: api_serve_def Let_def split: option.split)

subsection \<open>Shutting down\<close>

text \<open>Every server set has one of the HTTP server's two calls, which does not return without an error.\<close>

lemma http_part:
  "\<exists>i < length (start_parts srv). start_parts srv ! i = HttpServe \<or> start_parts srv ! i = HttpListenAndServe"
proof (cases srv)
  case (OnePort l)
  then show ?thesis by (intro exI [of _ 2]) simp
next
  case (TwoPorts addr l)
  then show ?thesis by (intro exI [of _ 0]) simp
qed

lemma servers_result_error:
  assumes "http_always_errors lib" and "api_run lib srv es sv ag" and "gs_result sv = Some e"
  shows "e \<noteq> None"
proof -
  have inv: "group_inv (start_group srv) (servers_events es) sv" by (rule api_run_servers_inv [OF assms(2)])
  then have e: "e = first_error (servers_events es)" "Working \<notin> set (gs_work sv)"
    using assms(3) by (auto simp: group_inv_def result_inv_def flag_inv_def work_inv_def)
  obtain i where i: "i < length (start_parts srv)"
      "start_parts srv ! i = HttpServe \<or> start_parts srv ! i = HttpListenAndServe"
    using http_part by blast
  have l: "i < length (gs_work sv)" using i(1) api_run_length [OF assms(2)] by simp
  then obtain x where x: "gs_work sv ! i = Returned x"
    using e(2) by (metis nth_mem work_state.exhaust)
  have "x \<noteq> None"
    using api_run_returned [OF assms(2) i(1) x] assms(1) i(2)
    by (cases x) (auto simp: http_always_errors_def goroutine_def split: option.splits)
  then have "\<not> set (gs_work sv) \<subseteq> {Working, Returned None}"
    using x l by (metis insertE nth_mem singletonD subsetD work_state.distinct(1) work_state.inject)
  then show ?thesis using inv e by (auto simp: group_inv_def work_inv_def split: option.splits)
qed

lemma app_result_error:
  assumes "http_always_errors lib" and "api_run lib srv es sv ag" and "gs_result ag = Some r"
  shows "r \<noteq> None"
proof -
  have inv: "group_inv [api_worker srv] (app_events es) ag" by (rule api_run_app_inv [OF assms(2)])
  then have r: "r = first_error (app_events es)" "Working \<notin> set (gs_work ag)"
    using assms(3) by (auto simp: group_inv_def result_inv_def flag_inv_def work_inv_def)
  then obtain e where e: "gs_work ag = [Returned e]" "gs_result sv = Some e"
    using api_run_worker [OF assms(2)] by auto
  have "e \<noteq> None" by (rule servers_result_error [OF assms(1,2) e(2)])
  then show ?thesis using inv r e by (auto simp: group_inv_def work_inv_def split: option.splits)
qed

text \<open>Executable steps, for the runs of the witnesses.\<close>

definition group_exec :: "group_state \<Rightarrow> group_event \<Rightarrow> group_state option" where
  "group_exec s ev =
    (case ev of
       ParentCancelled \<Rightarrow> if gs_cancelled s then None else Some (s\<lparr>gs_cancelled := True\<rparr>)
     | WorkReturns i e \<Rightarrow>
         if i < length (gs_work s) \<and> gs_work s ! i = Working then
           Some (s\<lparr>gs_work := (gs_work s)[i := Returned e], gs_err := (if gs_err s = None then e else gs_err s),
             gs_cancelled := (gs_cancelled s \<or> e \<noteq> None)\<rparr>)
         else None
     | WaitReturns \<Rightarrow>
         if \<not> gs_waited s \<and> Working \<notin> set (gs_work s) then Some (s\<lparr>gs_waited := True, gs_cancelled := True\<rparr>) else None
     | CleanUpStarts i \<Rightarrow>
         if gs_cancelled s \<and> i < length (gs_clean s) \<and> gs_clean s ! i = WaitingForCancel then
           Some (s\<lparr>gs_clean := (gs_clean s)[i := CleaningUp]\<rparr>)
         else None
     | CleanUpEnds i e \<Rightarrow>
         if i < length (gs_clean s) \<and> gs_clean s ! i = CleaningUp then
           Some (s\<lparr>gs_clean := (gs_clean s)[i := CleanedUp e]\<rparr>)
         else None
     | StartReturns \<Rightarrow>
         if gs_waited s \<and> list_all cleaned (gs_clean s) \<and> gs_result s = None then
           Some (s\<lparr>gs_result := Some (gs_err s)\<rparr>)
         else None)"

lemma group_exec_step: "group_exec s ev = Some s' \<longleftrightarrow> group_step s ev s'"
proof
  assume r: "group_exec s ev = Some s'"
  show "group_step s ev s'"
  proof (cases ev)
    case (WorkReturns i e)
    then show ?thesis using r group_step.work_returns [of i s e] by (simp add: group_exec_def split: if_splits)
  qed (use r in \<open>auto simp: group_exec_def intro: group_step.intros split: if_splits\<close>)
qed (auto simp: group_exec_def elim: group_stepE)

fun api_exec ::
  "(served \<Rightarrow> go_error option \<Rightarrow> bool) \<Rightarrow> api_server \<Rightarrow> api_event list \<Rightarrow> group_state \<Rightarrow> group_state
    \<Rightarrow> (group_state \<times> group_state) option" where
  "api_exec lib srv [] sv ag = Some (sv, ag)"
| "api_exec lib srv (InServers ev # es) sv ag =
    (if allowed_return lib srv ev \<and> (ev = ParentCancelled \<longrightarrow> gs_cancelled ag) then
       (case group_exec sv ev of None \<Rightarrow> None | Some sv' \<Rightarrow> api_exec lib srv es sv' ag)
     else None)"
| "api_exec lib srv (InApp ev # es) sv ag =
    (if start_returned sv ev then
       (case group_exec ag ev of None \<Rightarrow> None | Some ag' \<Rightarrow> api_exec lib srv es sv ag')
     else None)"
| "api_exec lib srv (ProcessCrashes # es) sv ag = None"

lemma api_exec_run:
  "api_exec lib srv es sv ag = Some (sv', ag') \<Longrightarrow> api_run lib srv es0 sv ag \<Longrightarrow> ProcessCrashes \<notin> set es0 \<Longrightarrow>
    api_run lib srv (es0 @ es) sv' ag'"
proof (induction lib srv es sv ag arbitrary: es0 rule: api_exec.induct)
  case (2 lib srv ev es sv ag)
  then obtain sv1 where s: "group_step sv ev sv1" "api_exec lib srv es sv1 ag = Some (sv', ag')"
      "allowed_return lib srv ev" "ev = ParentCancelled \<Longrightarrow> gs_cancelled ag"
    by (auto simp: group_exec_step [symmetric] split: if_splits option.splits)
  have "api_run lib srv (es0 @ [InServers ev]) sv1 ag"
    by (rule api_run.servers [OF 2(3,4) s(1,3,4)])
  then show ?case using 2(1) [of sv1 "es0 @ [InServers ev]"] s 2(4) by (simp add: group_exec_step)
next
  case (3 lib srv ev es sv ag)
  then obtain ag1 where s: "group_step ag ev ag1" "api_exec lib srv es sv ag1 = Some (sv', ag')"
      "start_returned sv ev"
    by (auto simp: group_exec_step [symmetric] split: if_splits option.splits)
  have "api_run lib srv (es0 @ [InApp ev]) sv ag1"
    by (rule api_run.app [OF 3(3,4) s(1,3)])
  then show ?case using 3(1) [of ag1 "es0 @ [InApp ev]"] s 3(4) by (simp add: group_exec_step)
qed simp_all

lemma api_exec_starts:
  "api_exec lib srv es (start_state (start_group srv)) (start_state [api_worker srv]) = Some (sv, ag) \<Longrightarrow>
    api_run lib srv es sv ag"
  using api_exec_run [OF _ api_run.starts, of lib srv es sv ag] by simp

lemma allowed_return_simps [simp]:
  "allowed_return lib srv (WorkReturns i e) \<longleftrightarrow>
    (i < length (start_parts srv) \<longrightarrow> \<not> panics srv (start_parts srv ! i) \<and> lib (start_parts srv ! i) e)"
  "allowed_return lib srv ParentCancelled" "allowed_return lib srv WaitReturns" "allowed_return lib srv StartReturns"
  "allowed_return lib srv (CleanUpStarts i)" "allowed_return lib srv (CleanUpEnds i e)"
  by (auto simp: allowed_return_def goroutine_def split: option.split)

text \<open>Servers on two ports, of which the HTTP server never returns without an error.\<close>

definition http_fails :: "served \<Rightarrow> go_error option \<Rightarrow> bool" where
  "http_fails p e \<longleftrightarrow> (p = HttpServe \<or> p = HttpListenAndServe \<longrightarrow> e \<noteq> None)"

definition two_ports :: api_server where
  "two_ports = TwoPorts ''0.0.0.0:80'' (Listening '':81'')"

lemmas run_eval = start_state_def start_group_def api_worker_def group_exec_def start_returned_def http_fails_def

text \<open>A requested shutdown: the servers are stopped, and the HTTP server returns \<open>ErrServerClosed\<close>.\<close>

definition shutdown_run :: "api_event list" where
  "shutdown_run =
    [InApp ParentCancelled, InApp (CleanUpStarts 0), InServers (WorkReturns 0 (Some err_server_closed)),
     InServers (WorkReturns 1 None), InServers WaitReturns, InServers StartReturns,
     InApp (WorkReturns 0 (Some err_server_closed)), InApp (CleanUpEnds 0 None), InApp WaitReturns, InApp StartReturns]"

lemma shutdown_runs:
  "\<exists>sv ag. api_run http_fails (TwoPorts addr l) shutdown_run sv ag \<and> gs_result ag = Some (Some err_server_closed)"
proof -
  let ?srv = "TwoPorts addr l"
  have "\<exists>sv ag. api_exec http_fails ?srv shutdown_run (start_state (start_group ?srv)) (start_state [api_worker ?srv])
      = Some (sv, ag) \<and> gs_result ag = Some (Some err_server_closed)"
    by (simp add: run_eval shutdown_run_def)
  then show ?thesis using api_exec_starts by blast
qed

text \<open>
  What the run of the worker group at the end of the start returns is what the application's group
  returns in some run with its servers.
\<close>

definition runs_servers ::
  "(served \<Rightarrow> go_error option \<Rightarrow> bool) \<Rightarrow> (api_server worker list \<Rightarrow> 'w \<Rightarrow> go_error option \<times> 'w) \<Rightarrow> api_server \<Rightarrow> bool" where
  "runs_servers lib run srv \<longleftrightarrow>
    (\<forall>w r w'. run [api_worker srv] w = (r, w') \<longrightarrow> (\<exists>es sv ag. api_run lib srv es sv ag \<and> gs_result ag = Some r))"

lemma app_workers_shape:
  assumes "app_workers L conf = Reply ws"
  obtains srv where "api_serve (al_net L) (cfg_api conf) = Inr srv" and "ws = [api_worker srv]"
  using assms
  by (auto simp: app_workers_def then_built_Reply failing_def server_add_def api_worker_def split: sum.splits)

lemma app_start_Reply:
  assumes "app_start L conf version st = (Reply (), st')"
  obtains ws w w' where "app_workers L conf = Reply ws" and "al_run L ws w = (None, w')"
  using assms
  by (auto simp: app_start_def deferred_def app_connected_def app_services_def app_serve_def Let_def
      split: sum.splits prod.splits option.splits outcome.splits)

text \<open>C36: The application never ends without an error, not even after a requested shutdown: the HTTP
  server returns an error whenever it returns (\<open>ErrServerClosed\<close> when it was shut down), its goroutine,
  \<open>start\<close>, the worker group and \<open>Start\<close> pass an error on, and the process does not exit with status 0.\<close>

theorem every_shutdown_is_an_error:
  assumes "http_always_errors lib"
    and "\<And>srv. api_serve (al_net L) (cfg_api conf) = Inr srv \<Longrightarrow> runs_servers lib (al_run L) srv"
    and "app_start L conf version st = (r, st')"
  shows "r \<noteq> Reply () \<and> main_exit (Inr conf) (\<lambda>c. fst (app_start L c version st)) \<noteq> 0"
proof -
  have "r \<noteq> Reply ()"
  proof
    assume "r = Reply ()"
    then have "app_start L conf version st = (Reply (), st')" using assms(3) by simp
    then obtain ws w w' where ws: "app_workers L conf = Reply ws" and run: "al_run L ws w = (None, w')"
      by (rule app_start_Reply)
    from ws obtain srv where srv: "api_serve (al_net L) (cfg_api conf) = Inr srv" "ws = [api_worker srv]"
      by (rule app_workers_shape)
    then obtain es sv ag where "api_run lib srv es sv ag" "gs_result ag = Some None"
      using assms(2) run unfolding runs_servers_def by blast
    then show False using app_result_error [OF assms(1)] by blast
  qed
  then show ?thesis using assms(3) by (cases r) (simp_all add: main_exit_def)
qed

text \<open>A start on two ports and a cluster that lists no parameters, shut down later.\<close>

definition quiet_conn :: "unit rados_conn" where
  "quiet_conn = \<lparr>mon_command = (\<lambda>cmd w. (if cmd = config_ls_cmd then (''[]'', [], None)
       else ([], [], Some RadosErrorNotFound), w)),
     mon_command_with_input_buffer = (\<lambda>cmd buf w. (([], [], None), w)),
     mgr_command = (\<lambda>args w. (([], [], None), w)), shutdown = (\<lambda>w. w)\<rparr>"

definition shut_down_app :: "(unit, unit, unit, unit) app_lib" where
  "shut_down_app = (test_app (Inr quiet_conn))\<lparr>al_run := (\<lambda>ws w. (Some err_server_closed, w))\<rparr>"

definition two_ports_config :: config where
  "two_ports_config = (test_config [])\<lparr>cfg_api := gw_config, cfg_app := cfg_app (test_config [])\<lparr>acf_create_admin := False\<rparr>\<rparr>"

lemma quiet_params: "new_config quiet_conn ''[]'' False () = (Inr [], ())"
  by code_simp

lemma quiet_app_simps:
  "cfg_trace two_ports_config = \<lparr>tcf_enabled = False, tcf_insecure = False, tcf_endpoint = []\<rparr>"
  "acf_create_admin (cfg_app two_ports_config) = False" "al_index shut_down_app = ''[]''"
  "al_get_rados_connection shut_down_app conf = Inr quiet_conn"
  by (simp_all add: two_ports_config_def test_config_def shut_down_app_def test_app_def)

lemma quiet_service: "new_service quiet_conn () = (Inr empty_service, ())"
  by code_simp

lemma quiet_workers: "\<exists>ws. app_workers shut_down_app two_ports_config = Reply ws"
  by (simp add: app_workers_def shut_down_app_def test_app_def test_net_def two_ports_config_def test_config_def gw_config_def
      new_server_def then_built_def failing_def grpc_gateway_def Let_def register_from_endpoint_def handle_get_def
      handle_post_def oauth_handlers_def api_serve_def server_add_def)

lemma quiet_serve:
  "app_serve shut_down_app two_ports_config st = (Failed err_server_closed, emit Serving st)"
  using quiet_workers by (auto simp: app_serve_def shut_down_app_def emit_def)

lemma shut_down_app_starts:
  "app_start shut_down_app two_ports_config [] \<lparr>ast_cluster = (), ast_events = []\<rparr>
    = (Failed err_server_closed,
       \<lparr>ast_cluster = (), ast_events = [TracerStarted, RadosOpened, Serving, RadosClosed, TracerShutdown]\<rparr>)"
  by (simp add: app_start_def new_tracer_provider_def deferred_def app_connected_def app_services_def quiet_app_simps
      quiet_params quiet_service ensure_admin_def quiet_serve close_rados_def emit_def)

theorem every_shutdown_is_an_error_witness:
  "fst (app_start shut_down_app two_ports_config [] \<lparr>ast_cluster = (), ast_events = []\<rparr>) = Failed err_server_closed
    \<and> main_exit (Inr two_ports_config) (\<lambda>c. fst (app_start shut_down_app c [] \<lparr>ast_cluster = (), ast_events = []\<rparr>)) \<noteq> 0"
proof -
  have "runs_servers http_fails (al_run shut_down_app) srv"
    if "api_serve (al_net shut_down_app) (cfg_api two_ports_config) = Inr srv" for srv
  proof -
    have "\<exists>addr l. srv = TwoPorts addr l"
      using that by (simp add: api_serve_def shut_down_app_def test_app_def test_net_def two_ports_config_def gw_config_def) blast
    then show ?thesis using shutdown_runs by (fastforce simp: runs_servers_def shut_down_app_def)
  qed
  moreover have "http_always_errors http_fails" by (simp add: http_always_errors_def http_fails_def)
  ultimately show ?thesis
    using every_shutdown_is_an_error [OF _ _ shut_down_app_starts] by (simp add: shut_down_app_starts)
qed

text \<open>C37: A server that fails alone goes unnoticed. Unless a shutdown was requested, as long as one of the
  servers works, whatever happened to the others, the application's worker has not returned, its
  group's context is not cancelled, its clean-up, which is what would stop the servers, has not
  begun, and \<open>Start\<close> has not returned; and in the servers' own group, whose context the failure
  does cancel, nothing waits for that.\<close>

theorem lone_failure_goes_unnoticed:
  assumes "api_run lib srv es sv ag" and "InApp ParentCancelled \<notin> set es" and "Working \<in> set (gs_work sv)"
  shows "gs_work ag = [Working] \<and> \<not> gs_cancelled ag \<and> gs_clean ag = [WaitingForCancel] \<and> gs_result ag = None
    \<and> set (gs_clean sv) \<subseteq> {NoCleanUp}"
proof -
  note w = servers_working [OF assms(1,3)]
  have inv: "group_inv [api_worker srv] (app_events es) ag" by (rule api_run_app_inv [OF assms(1)])
  have fe: "first_error (app_events es) = None"
    using inv w(2) by (auto simp: group_inv_def work_inv_def split: option.splits)
  then have c: "\<not> gs_cancelled ag"
    using inv w(4) app_events_cancelled [OF assms(2)] by (auto simp: group_inv_def flag_inv_def)
  have "gs_clean ag = [WaitingForCancel]" using clean_up_waits [OF assms(1)] c by auto
  then show ?thesis using w c servers_no_clean_up [OF assms(1)] by simp
qed

theorem lone_failure_goes_unnoticed_witness:
  "\<exists>sv ag. api_run http_fails two_ports [InServers (WorkReturns 0 (Some (Foreign ''accept failed'')))] sv ag
    \<and> gs_work sv = [Returned (Some (Foreign ''accept failed'')), Working]
    \<and> gs_cancelled sv \<and> \<not> gs_cancelled ag \<and> gs_clean ag = [WaitingForCancel]"
proof -
  let ?es = "[InServers (WorkReturns 0 (Some (Foreign ''accept failed'')))]"
  have "\<exists>sv ag. api_exec http_fails two_ports ?es (start_state (start_group two_ports)) (start_state [api_worker two_ports])
      = Some (sv, ag) \<and> gs_work sv = [Returned (Some (Foreign ''accept failed'')), Working] \<and> gs_cancelled sv"
    by (simp add: run_eval two_ports_def)
  then obtain sv ag where r: "api_run http_fails two_ports ?es sv ag"
      "gs_work sv = [Returned (Some (Foreign ''accept failed'')), Working]" "gs_cancelled sv"
    using api_exec_starts by blast
  have "gs_work ag = [Working] \<and> \<not> gs_cancelled ag \<and> gs_clean ag = [WaitingForCancel] \<and> gs_result ag = None
      \<and> set (gs_clean sv) \<subseteq> {NoCleanUp}"
    by (rule lone_failure_goes_unnoticed [OF r(1)]) (simp_all add: r(2))
  then show ?thesis using r by blast
qed

end
