(* ===== verification/Gateway_Local.thy ===== *)
theory Gateway_Local
  imports Gateway_Properties
begin

text \<open>
  The other way in which the generated gateways can be registered: \<open>Register\<dots>HandlerServer\<close> calls the
  services in the same process instead of over a connection. The program does not use it. Its routes
  are those of the gateway, but a request reaches the handlers without the interceptors of the gRPC
  server; the theorems show that it then gets nothing that needs a permission.
\<close>

subsection \<open>The registrations\<close>

text \<open>The \<open>local_request\<close> functions are those of \<open>Http_Gateway\<close>, called with the server.\<close>

definition register_cluster_handler_server :: "'s route list" where
  "register_cluster_handler_server =
    [route MethodGet [Lit ''api'', Lit ''cluster'']
       ''/ceph.Cluster/GetStatus'' request_Cluster_GetStatus_0 None,
     route MethodPut [Lit ''api'', Lit ''cluster'']
       ''/ceph.Cluster/UpdateStatus'' request_Cluster_UpdateStatus_0 None,
     route MethodGet [Lit ''api'', Lit ''cluster'', Lit ''user'']
       ''/ceph.Cluster/GetUsers'' request_Cluster_GetUsers_0 (Some ''users''),
     route MethodPut [Lit ''api'', Lit ''cluster'', Lit ''user'']
       ''/ceph.Cluster/UpdateUser'' request_Cluster_UpdateUser_0 None,
     route MethodPost [Lit ''api'', Lit ''cluster'', Lit ''user'']
       ''/ceph.Cluster/CreateUser'' request_Cluster_CreateUser_0 None,
     route MethodPost [Lit ''api'', Lit ''cluster'', Lit ''user'', Lit ''export'']
       ''/ceph.Cluster/ExportUser'' request_Cluster_ExportUser_0 (Some ''data''),
     route MethodDelete [Lit ''api'', Lit ''cluster'', Lit ''user'', Param ''user_entity'']
       ''/ceph.Cluster/DeleteUser'' request_Cluster_DeleteUser_0 None,
     route MethodGet [Lit ''api'', Lit ''cluster'', Lit ''config'', Lit ''search'']
       ''/ceph.Cluster/SearchConfig'' request_Cluster_SearchConfig_0 None]"

definition register_users_handler_server :: "'s route list" where
  "register_users_handler_server =
    [route MethodGet [Lit ''api'', Lit ''user'']
       ''/ceph.Users/ListUsers'' request_Users_ListUsers_0 (Some ''users''),
     route MethodGet [Lit ''api'', Lit ''user'', Param ''username'']
       ''/ceph.Users/GetUser'' request_Users_GetUser_0 None,
     route MethodPost [Lit ''api'', Lit ''user'']
       ''/ceph.Users/CreateUser'' request_Users_CreateUser_0 None,
     route MethodDelete [Lit ''api'', Lit ''user'', Param ''username'']
       ''/ceph.Users/DeleteUser'' request_Users_DeleteUser_0 None,
     route MethodPut [Lit ''api'', Lit ''user'', Param ''username'']
       ''/ceph.Users/UpdateUser'' request_Users_UpdateUser_0 None,
     route MethodPost [Lit ''api'', Lit ''user'', Param ''username'', Lit ''change_password'']
       ''/ceph.Users/UserChangePassword'' request_Users_UserChangePassword_0 None,
     route MethodGet [Lit ''api'', Lit ''role'']
       ''/ceph.Users/ListRoles'' request_Users_ListRoles_0 (Some ''roles''),
     route MethodGet [Lit ''api'', Lit ''role'', Param ''name'']
       ''/ceph.Users/GetRole'' request_Users_GetRole_0 None,
     route MethodPost [Lit ''api'', Lit ''role'']
       ''/ceph.Users/CreateRole'' request_Users_CreateRole_0 None,
     route MethodDelete [Lit ''api'', Lit ''role'', Param ''name'']
       ''/ceph.Users/DeleteRole'' request_Users_DeleteRole_0 None,
     route MethodPut [Lit ''api'', Lit ''role'', Param ''name'']
       ''/ceph.Users/UpdateRole'' request_Users_UpdateRole_0 None,
     route MethodGet [Lit ''api'', Lit ''user'', Param ''name'', Lit ''clone'']
       ''/ceph.Users/CloneRole'' request_Users_CloneRole_0 None]"

definition register_auth_handler_server :: "'s route list" where
  "register_auth_handler_server =
    [route MethodPost [Lit ''api'', Lit ''auth'']
       ''/ceph.Auth/Login'' request_Auth_Login_0 None,
     route MethodPost [Lit ''api'', Lit ''auth'', Lit ''logout'']
       ''/ceph.Auth/Logout'' request_Auth_Logout_0 None,
     route MethodPost [Lit ''api'', Lit ''auth'', Lit ''check'']
       ''/ceph.Auth/Check'' request_Auth_Check_0 None]"

definition register_crush_rule_handler_server :: "'s route list" where
  "register_crush_rule_handler_server =
    [route MethodPost [Lit ''api'', Lit ''crush_rule'']
       ''/ceph.CrushRule/CreateRule'' request_CrushRule_CreateRule_0 None,
     route MethodDelete [Lit ''api'', Lit ''crush_rule'', Param ''name'']
       ''/ceph.CrushRule/DeleteRule'' request_CrushRule_DeleteRule_0 None,
     route MethodGet [Lit ''api'', Lit ''crush_rule'', Param ''name'']
       ''/ceph.CrushRule/GetRule'' request_CrushRule_GetRule_0 None,
     route MethodGet [Lit ''api'', Lit ''crush_rule'']
       ''/ceph.CrushRule/ListRules'' request_CrushRule_ListRules_0 (Some ''rules'')]"

definition register_status_handler_server :: "'s route list" where
  "register_status_handler_server =
    [route MethodGet [Lit ''api'', Lit ''status'', Lit ''ceph'']
       ''/ceph.Status/GetCephStatus'' request_Status_GetCephStatus_0 None,
     route MethodGet [Lit ''api'', Lit ''status'', Lit ''mon_dump'']
       ''/ceph.Status/GetCephMonDump'' request_Status_GetCephMonDump_0 None,
     route MethodGet [Lit ''api'', Lit ''status'', Lit ''osd_dump'']
       ''/ceph.Status/GetCephOsdDump'' request_Status_GetCephOsdDump_0 None,
     route MethodGet [Lit ''api'', Lit ''status'', Lit ''report'']
       ''/ceph.Status/GetCephReport'' request_Status_GetCephReport_0 None]"

definition local_routes :: "'s route list" where
  "local_routes = register_cluster_handler_server @ register_users_handler_server @ register_auth_handler_server
     @ register_crush_rule_handler_server @ register_status_handler_server"

text \<open>
  The closure of each route. \<open>annotate_in\<close> is \<open>runtime.AnnotateIncomingContext\<close>, which puts the metadata
  of the request, and with it the bearer token, into the context of the call.
\<close>

definition handle_route_server ::
  "(gw_request \<Rightarrow> string \<Rightarrow> string res res) \<Rightarrow> gw_lib \<Rightarrow> (string res \<Rightarrow> 's grpc_client) \<Rightarrow> 's route \<Rightarrow>
    gw_request \<Rightarrow> path_params \<Rightarrow> 's \<Rightarrow> http_answer \<times> 's" where
  "handle_route_server annotate_in L server rt req params st =
    (case annotate_in req (rt_full_method rt) of
       Inl err \<Rightarrow> (HttpError err, st)
     | Inr bearer \<Rightarrow>
        (case rt_request rt L (server bearer) req params st of
           (Failed err, st) \<Rightarrow> (HttpError err, st)
         | (Panicked p, st) \<Rightarrow> (HttpPanic p, st)
         | (Reply resp, st) \<Rightarrow> (Forwarded (rt_field rt) resp, st)))"

text \<open>A multiplexer with these routes and no other paths.\<close>

definition local_gateway :: "'s gateway" where
  "local_gateway = \<lparr>gwy_routes = local_routes, gwy_paths = []\<rparr>"

definition serve_local ::
  "(gw_request \<Rightarrow> string \<Rightarrow> string res res) \<Rightarrow> gw_lib \<Rightarrow> 's picker \<Rightarrow> (string res \<Rightarrow> 's grpc_client) \<Rightarrow>
    gw_request \<Rightarrow> 's \<Rightarrow> http_answer \<times> 's" where
  "serve_local annotate_in L pick server req st =
    (case pick local_gateway req of
       Some (ToRoute rt params) \<Rightarrow> handle_route_server annotate_in L server rt req params st
     | _ \<Rightarrow> (NotRouted, st))"

text \<open>The services of the program as such a server: no interceptor has touched the context.\<close>

definition bare_services :: "('w, 'f) api_env \<Rightarrow> string res \<Rightarrow> ('w, 'f) sys grpc_client" where
  "bare_services E bearer r = dispatch E bearer r background"

subsection \<open>Facts\<close>

lemmas server_register_defs = register_cluster_handler_server_def register_users_handler_server_def
  register_auth_handler_server_def register_crush_rule_handler_server_def register_status_handler_server_def

text \<open>Both registrations serve the same routes, and differ only in whom they call.\<close>

theorem local_routes_eq: "local_routes = api_routes"
  by (simp add: local_routes_def api_routes_def server_register_defs register_defs)

theorem serve_local_eq:
  assumes "picks_registered pick"
  shows "serve_local (gw_annotate L) L pick call req st = serve_mux L pick on_path call local_gateway req st"
proof -
  have "pick local_gateway req \<noteq> Some (ToPath h)" for h
    using assms unfolding picks_registered_def local_gateway_def by fastforce
  then show ?thesis
    by (simp add: serve_local_def serve_mux_def handle_route_server_def handle_route_def
        split: option.split target.split)
qed

theorem serve_local_eq_witness:
  "serve_local (gw_annotate (test_gw ''for-alice'')) (test_gw ''for-alice'') first_match (bare_services test_api)
      get_alice_request test_sys
    = serve_mux (test_gw ''for-alice'') first_match (path_serve test_api test_web) (bare_services test_api) local_gateway
        get_alice_request test_sys"
  by (rule serve_local_eq [OF first_match_ok])

lemma background_denied: "has_permissions background sc ps = Some ErrAccessDenied"
  by (simp add: has_permissions_def get_permissions_ctx_def background_def)

lemma bare_services_denied:
  assumes "required r \<noteq> None"
  shows "bare_services E bearer r \<sigma> = (Failed ErrAccessDenied, \<sigma>)"
proof -
  obtain sc ps where "required r = Some (sc, ps)" using assms by auto
  then show ?thesis
    unfolding bare_services_def by (rule guarded_handler.refuses [OF dispatch_guarded background_denied])
qed

text \<open>
  Without the interceptors nobody holds a permission: a request for a method that needs one is refused
  whatever token it carries, and changes nothing.
\<close>

theorem in_process_fails_closed:
  fixes E :: "('w, 'f) api_env"
  assumes "picks_registered pick" and "pick local_gateway req = Some (ToRoute rt params)"
    and "\<And>r. full_method r = rt_full_method rt \<Longrightarrow> required r \<noteq> None"
    and "serve_local annotate_in L pick (bare_services E) req \<sigma> = (a, \<sigma>')"
  shows "\<sigma>' = \<sigma> \<and> (\<exists>err. a = HttpError err)"
proof (cases "annotate_in req (rt_full_method rt)")
  case (Inl err)
  then show ?thesis using assms(2,4) by (auto simp: serve_local_def handle_route_server_def)
next
  case (Inr bearer)
  let ?call = "bare_services E bearer"
  have "rt \<in> set api_routes"
    using assms(1,2) unfolding picks_registered_def by (metis gateway.select_convs(1) local_gateway_def local_routes_eq)
  then have "forwards (\<lambda>r. full_method r = rt_full_method rt) ?call (rt_request rt L ?call req params)"
    by (rule api_route_forwards)
  then have "\<exists>err. rt_request rt L ?call req params \<sigma> = (Failed err, \<sigma>)"
    using assms(3) bare_services_denied unfolding forwards_def by metis
  then show ?thesis using assms(2,4) Inr by (auto simp: serve_local_def handle_route_server_def)
qed

lemma get_alice_local:
  "first_match local_gateway get_alice_request =
    Some (ToRoute (route MethodGet [Lit ''api'', Lit ''user'', Param ''username''] ''/ceph.Users/GetUser''
      request_Users_GetUser_0 None) [(''username'', ''alice'')])"
  by (simp add: first_match_def local_gateway_def local_routes_eq get_alice_request_def api_routes_def register_defs
      route_def)

theorem in_process_fails_closed_witness:
  "\<exists>err. serve_local (\<lambda>req m. Inr (Inr ''for-alice'')) (test_gw ''for-alice'') first_match (bare_services test_api)
    get_alice_request test_sys = (HttpError err, test_sys)"
proof -
  obtain a \<sigma>' where a: "serve_local (\<lambda>req m. Inr (Inr ''for-alice'')) (test_gw ''for-alice'') first_match
      (bare_services test_api) get_alice_request test_sys = (a, \<sigma>')" by fastforce
  have "required r \<noteq> None" if "full_method r = ''/ceph.Users/GetUser''" for r
    using that by (cases r) (simp_all add: required_def)
  then show ?thesis
    using in_process_fails_closed [OF first_match_ok get_alice_local _ a] a by (simp add: route_def)
qed

end
