(* ===== verification/Go_Client.thy ===== *)
theory Go_Client
  imports App_Start
begin

text \<open>
  The Go client of the API (\<open>go_api_client.go\<close>): the addresses and credentials \<open>New\<close> derives from its
  configuration, and \<open>Close\<close>. The HTTP client, the OAuth token source and the gRPC connection are
  libraries.
\<close>

subsection \<open>Configuration and client\<close>

record client_config =
  ccf_grpc_url :: string
  ccf_http_url :: string
  ccf_oauth_client_id :: string
  ccf_tls_skip_verify :: bool
  ccf_secure :: bool
  ccf_login :: string
  ccf_password :: string

text \<open>
  How calls are authenticated: without TLS an interceptor asks for a new token with the password at
  every call, with TLS the connection takes its tokens from the token source.
\<close>

datatype call_credentials = PasswordTokenPerCall | TokenSourceCredentials

record client =
  cl_http_url :: string
  cl_oauth_client_id :: string
  cl_token_url :: string
  cl_grpc_url :: string
  cl_transport :: transport_credentials
  cl_call_credentials :: call_credentials

definition default_oauth_client_id :: string where
  "default_oauth_client_id = ''ceph-api''"

definition default_url :: string where
  "default_url = ''localhost:9969''"

definition client_grpc_url :: "client_config \<Rightarrow> string" where
  "client_grpc_url conf =
    (let http_url = (if ccf_http_url conf \<noteq> [] then ccf_http_url conf else default_url);
         grpc_url = (if ccf_grpc_url conf \<noteq> [] then ccf_grpc_url conf else http_url)
     in if has_prefix grpc_url ''http''
        then trim_prefix (trim_prefix grpc_url ''https://'') ''http://''
        else grpc_url)"

definition client_http_url :: "client_config \<Rightarrow> string" where
  "client_http_url conf =
    (let http_url = (if ccf_http_url conf \<noteq> [] then ccf_http_url conf else default_url)
     in if \<not> has_prefix http_url ''http''
        then (if ccf_secure conf then ''https://'' @ http_url else ''http://'' @ http_url)
        else http_url)"

subsection \<open>New\<close>

text \<open>
  The state is what the libraries keep, and whether \<open>http.DefaultTransport\<close>, which the whole process
  shares, still verifies certificates: the custom transport is a pointer to it, not a copy.
\<close>

record 's client_world =
  cw_lib :: 's
  cw_default_transport_verifies :: bool

record 's client_lib =
  cll_password_token :: "string \<Rightarrow> string \<Rightarrow> string \<Rightarrow> string \<Rightarrow> 's \<Rightarrow> string res \<times> 's"
  cll_dial :: "string \<Rightarrow> transport_credentials \<Rightarrow> 's \<Rightarrow> go_error option \<times> 's"
  cll_close_conn :: "'s \<Rightarrow> go_error option \<times> 's"
  cll_token :: "'s \<Rightarrow> string res \<times> 's"
  cll_post_form :: "string \<Rightarrow> string list gomap \<Rightarrow> 's \<Rightarrow> go_error option \<times> 's"

definition new_api_client ::
  "'s client_lib \<Rightarrow> client_config \<Rightarrow> 's client_world \<Rightarrow> client res \<times> 's client_world" where
  "new_api_client L conf w =
    (let http_url = client_http_url conf;
         client_id = (if ccf_oauth_client_id conf \<noteq> [] then ccf_oauth_client_id conf else default_oauth_client_id);
         token_url = http_url @ ''/api/oauth/token'';
         grpc_url = client_grpc_url conf;
         transport = (if ccf_secure conf then TlsCredentials (ccf_tls_skip_verify conf) else InsecureCredentials);
         w = (if ccf_secure conf \<and> ccf_tls_skip_verify conf then w\<lparr>cw_default_transport_verifies := False\<rparr> else w)
     in
     case cll_password_token L token_url client_id (ccf_login conf) (ccf_password conf) (cw_lib w) of
       (Inl err, s) \<Rightarrow> (Inl err, w\<lparr>cw_lib := s\<rparr>)
     | (Inr token, s) \<Rightarrow>
        (case cll_dial L grpc_url transport s of
           (Some err, s) \<Rightarrow> (Inl err, w\<lparr>cw_lib := s\<rparr>)
         | (None, s) \<Rightarrow>
            (Inr \<lparr>cl_http_url = http_url, cl_oauth_client_id = client_id, cl_token_url = token_url,
                  cl_grpc_url = grpc_url, cl_transport = transport,
                  cl_call_credentials = (if ccf_secure conf then TokenSourceCredentials else PasswordTokenPerCall)\<rparr>,
             w\<lparr>cw_lib := s\<rparr>)))"

subsection \<open>Close\<close>

definition revoke_path :: string where
  "revoke_path = ''/v1/auth/revoke''"

definition client_close :: "'s client_lib \<Rightarrow> client \<Rightarrow> 's \<Rightarrow> go_error option \<times> 's" where
  "client_close L c s =
    (case cll_close_conn L s of
       (Some err, s) \<Rightarrow> (Some err, s)
     | (None, s) \<Rightarrow>
        (case cll_token L s of
           (Inl err, s) \<Rightarrow> (Some err, s)
         | (Inr refresh_token, s) \<Rightarrow>
            cll_post_form L (cl_http_url c @ revoke_path)
              [(''client_id'', [cl_oauth_client_id c]), (''token'', [refresh_token]),
               (''token_type_hint'', [''refresh_token''])] s))"

end
