(* ===== verification/Client_Properties.thy ===== *)
theory Client_Properties
  imports Go_Client Gateway_Properties
begin

text \<open>
  The properties of the Go client, and what its requests meet at the server.
\<close>

text \<open>With one address for both servers, the HTTP URL has a scheme and the gRPC target has none: an
  address without a scheme gets the one the configuration asks for, an address with one keeps it for
  HTTP and loses it for gRPC. (An address that merely starts with \<open>http\<close> gets no scheme.)\<close>

theorem client_addresses:
  assumes "ccf_grpc_url conf = []" and "host \<noteq> []"
  shows "(ccf_http_url conf = host \<and> \<not> has_prefix host ''http'' \<longrightarrow>
      client_grpc_url conf = host
      \<and> client_http_url conf = (if ccf_secure conf then ''https://'' else ''http://'') @ host)
    \<and> (ccf_http_url conf = ''https://'' @ host \<and> \<not> has_prefix host ''http://'' \<or> ccf_http_url conf = ''http://'' @ host \<longrightarrow>
      client_grpc_url conf = host \<and> client_http_url conf = ccf_http_url conf)"
  using assms
  by (auto simp: client_grpc_url_def client_http_url_def Let_def trim_prefix_def)

definition plain_client_config :: client_config where
  "plain_client_config = \<lparr>ccf_grpc_url = [], ccf_http_url = ''api.example.org:9969'', ccf_oauth_client_id = [],
     ccf_tls_skip_verify = False, ccf_secure = True, ccf_login = ''alice'', ccf_password = ''secret''\<rparr>"

theorem client_addresses_witness:
  "client_http_url plain_client_config = ''https://api.example.org:9969''
    \<and> client_grpc_url plain_client_config = ''api.example.org:9969''"
  using client_addresses [of plain_client_config "''api.example.org:9969''"]
  by (simp add: plain_client_config_def)

text \<open>C40: Closing the client revokes nothing at this server: the request goes to a path that none of the
  API's routes matches and that is none of the OAuth paths the server registers.\<close>

theorem close_revokes_nothing:
  assumes "rt \<in> set api_routes" and "client_close L c s = (r, s')"
    and "cll_close_conn L s = (None, s1)" and "cll_token L s1 = (Inr refresh_token, s2)"
  shows "(r, s') = cll_post_form L (cl_http_url c @ ''/v1/auth/revoke'')
      [(''client_id'', [cl_oauth_client_id c]), (''token'', [refresh_token]), (''token_type_hint'', [''refresh_token''])] s2
    \<and> ''/v1/auth/revoke'' \<notin> fst ` set oauth_handlers
    \<and> template_match (rt_pattern rt) (split_path (drop 1 ''/v1/auth/revoke'')) = None"
proof -
  have "list_all (\<lambda>rt. take 1 (rt_pattern rt) = [Lit ''api'']) api_routes"
    by (simp add: api_routes_def register_defs route_def)
  then obtain ss where "rt_pattern rt = Lit ''api'' # ss"
    using assms(1) by (cases "rt_pattern rt") (auto simp: list_all_iff)
  then show ?thesis
    using assms(2-4) by (simp add: client_close_def revoke_path_def oauth_handlers_def)
qed

definition recording_lib :: "string list client_lib" where
  "recording_lib = \<lparr>cll_password_token = (\<lambda>u c l p s. (Inr ''token'', s)), cll_dial = (\<lambda>a t s. (None, s)),
     cll_close_conn = (\<lambda>s. (None, s)), cll_token = (\<lambda>s. (Inr ''refresh'', s)),
     cll_post_form = (\<lambda>url form s. (None, s @ [url]))\<rparr>"

definition plain_client :: client where
  "plain_client = \<lparr>cl_http_url = ''http://api'', cl_oauth_client_id = ''ceph-api'',
     cl_token_url = ''http://api/api/oauth/token'', cl_grpc_url = ''api'', cl_transport = InsecureCredentials,
     cl_call_credentials = PasswordTokenPerCall\<rparr>"

theorem close_revokes_nothing_witness:
  "client_close recording_lib plain_client [] = (None, [''http://api/v1/auth/revoke''])"
proof -
  have "route MethodGet [Lit ''api'', Lit ''user''] ''/ceph.Users/ListUsers'' request_Users_ListUsers_0 (Some ''users'')
      \<in> set api_routes"
    by (simp add: api_routes_def register_defs)
  from close_revokes_nothing [OF this, of recording_lib plain_client "[]" _ _ "[]" "''refresh''" "[]"]
  show ?thesis
    by (cases "client_close recording_lib plain_client []") (simp add: recording_lib_def plain_client_def)
qed

end
