(* ===== verification/Grpc_Streams.thy ===== *)
theory Grpc_Streams
  imports Api_Properties
begin

text \<open>
  The streaming side of the gRPC server (\<open>pkg/api/grpc_server.go\<close> and the stream interceptors of
  \<open>pkg/log\<close> and \<open>pkg/trace\<close>). The API itself has only unary calls; the one streaming service the
  server registers, when configured, is server reflection. A stream's handler returns only an error.
\<close>

definition trace_stream_interceptor :: "string \<Rightarrow> ('w, 'f, unit) handler \<Rightarrow> ('w, 'f, unit) handler" where
  "trace_stream_interceptor trace_id handler ctx = handler (log_with_trace_id trace_id ctx)"

definition log_stream_interceptor :: "('w, 'f, unit) handler \<Rightarrow> ('w, 'f, unit) handler" where
  "log_stream_interceptor handler ctx = handler ctx"

definition auth_stream_interceptor ::
  "'f oauth_lib \<Rightarrow> rpc_info \<Rightarrow> ('w, 'f, unit) handler \<Rightarrow> ('w, 'f, unit) handler" where
  "auth_stream_interceptor L info handler ctx \<sigma> =
    (case auth_func L (sys_svc \<sigma>) info ctx (sys_tokens \<sigma>) of
       (Inl err, f) \<Rightarrow> (Failed err, \<sigma>\<lparr>sys_tokens := f\<rparr>)
     | (Inr ctx', f) \<Rightarrow> handler ctx' (\<sigma>\<lparr>sys_tokens := f\<rparr>))"

definition serve_stream ::
  "'f oauth_lib \<Rightarrow> rpc_env \<Rightarrow> ('w, 'f, unit) handler \<Rightarrow> ('w, 'f) sys \<Rightarrow> unit reply \<times> ('w, 'f) sys" where
  "serve_stream L e handler =
    auth_stream_interceptor L (re_info e)
      (log_stream_interceptor
        (trace_stream_interceptor (re_trace_id e)
          (error_stream_interceptor (re_not_found_text e)
            (stream_server_access_log (re_not_found_text e) (re_access_log e) (re_full_method e)
              (stream_server_recover handler))))) background"

text \<open>The services of the server, with reflection when it is configured.\<close>

definition registered_services :: "bool \<Rightarrow> string list" where
  "registered_services grpc_reflection =
    [''ceph.Cluster'', ''ceph.Users'', ''ceph.Auth'', ''ceph.CrushRule'', ''ceph.Status'']
    @ (if grpc_reflection then [''grpc.reflection'']
       else [])"

lemma stream_chain_ends:
  assumes "error_stream_interceptor nf (stream_server_access_log nf log m (stream_server_recover h)) ctx \<sigma> = (r, \<sigma>')"
  shows "r = Reply () \<or> (\<exists>err. r = Failed err \<and> is_status err)"
proof -
  obtain x \<sigma>1 where "h ctx (if log then write_log (AccessLine m) \<sigma> else \<sigma>) = (x, \<sigma>1)" by fastforce
  then show ?thesis
    using assms convert_api_error_status
    by (cases x) (auto simp: error_stream_interceptor_def stream_server_access_log_def stream_server_recover_def)
qed

text \<open>Streams are guarded like calls: unless its method is one of the two open ones, a stream's handler
  runs only for a caller with a valid token of a user, and whatever it does, a panic included, the
  stream ends without an error or with a gRPC status.\<close>

theorem streams_are_guarded:
  assumes "rpc_method (re_info e) = Some m" and "m \<notin> open_methods" and "serve_stream L e handler \<sigma> = (r, \<sigma>')"
  shows "(r = Reply () \<or> (\<exists>err. r = Failed err \<and> is_status err))
    \<and> ((\<exists>f. \<sigma>' = \<sigma>\<lparr>sys_tokens := f\<rparr>)
      \<or> (\<exists>username usr. authenticated L (sys_svc \<sigma>) (sys_tokens \<sigma>) (rpc_bearer (re_info e)) username usr))"
proof (cases rule: auth_func_cases [OF assms(1), of L "sys_svc \<sigma>" "sys_tokens \<sigma>", case_names refused opened user])
  case (refused err f')
  then show ?thesis using assms(3) by (auto simp: serve_stream_def auth_stream_interceptor_def)
next
  case opened
  then show ?thesis using assms(2) by simp
next
  case (user username usr f')
  have "r = Reply () \<or> (\<exists>err. r = Failed err \<and> is_status err)"
    using assms(3) user(1) stream_chain_ends
    by (simp add: serve_stream_def auth_stream_interceptor_def log_stream_interceptor_def trace_stream_interceptor_def)
  then show ?thesis using user(2) by blast
qed

definition reflection_env :: rpc_env where
  "reflection_env =
    \<lparr>re_info = \<lparr>rpc_method = Some ''/grpc.reflection.v1.ServerReflection/ServerReflectionInfo'', rpc_bearer = Inr ''for-alice''\<rparr>,
     re_full_method = ''/grpc.reflection.v1.ServerReflection/ServerReflectionInfo'', re_trace_id = [],
     re_access_log = False, re_not_found_text = []\<rparr>"

theorem streams_are_guarded_witness:
  "\<exists>err. fst (serve_stream test_oauth reflection_env (\<lambda>ctx \<sigma>. (Panicked ''index out of range'', \<sigma>)) test_sys) = Failed err
    \<and> is_status err"
proof -
  let ?run = "serve_stream test_oauth reflection_env (\<lambda>ctx \<sigma>. (Panicked ''index out of range'', \<sigma>)) test_sys"
  obtain r \<sigma>' where r: "?run = (r, \<sigma>')" by fastforce
  then have "r \<noteq> Reply ()"
    by (auto simp: serve_stream_def auth_stream_interceptor_def log_stream_interceptor_def trace_stream_interceptor_def
        error_stream_interceptor_def stream_server_access_log_def stream_server_recover_def
        split: prod.splits outcome.splits sum.splits)
  then show ?thesis
    using streams_are_guarded [OF _ _ r] r by (auto simp: reflection_env_def open_methods_def)
qed

end
