(* ===== verification/Spec2Isabelle.thy ===== *)
theory Spec2Isabelle
  imports Api_Properties User_Properties Auth_Properties Cluster_Properties Config_Properties
    Status_Properties Serve_Properties App_Properties Gateway_Properties Gateway_Local Client_Properties
    Grpc_Streams
    Rados_Mock Config_Facts
begin

text \<open>
  Ceph API is a Go service that offers the management of a Ceph cluster over gRPC and HTTP: users and
  roles of its own, log-in with OAuth tokens, cluster users, CRUSH rules, configuration parameters and
  the cluster's status. It keeps no state but the users and roles, which it mirrors in a document of
  the cluster's key store, and talks to the cluster by JSON commands to its monitors. This
  development models the Go code under \<open>src/\<close> and proves what makes it correct, and where it is not.

  \<^bold>\<open>How a call runs.\<close> An HTTP request (\<open>Http_Gateway\<close>, \<open>Gateway_Mux\<close>) passes the websocket proxy, and is
  refused, becomes one gRPC call, or goes to one of the paths for metrics, OAuth and debugging. A call passes
  the interceptors (\<open>Grpc_Server\<close>): authentication (\<open>Auth_Server\<close>), which puts the user's permissions
  into the request context (\<open>Ctx\<close>), trace identifier, error conversion, access log, panic recovery. Its
  handler (\<open>Users_Api\<close>, \<open>Auth_Api\<close>, \<open>Cluster_Api\<close>, \<open>Crush_Api\<close>, \<open>Status_Api\<close>) checks the permissions, and
  asks the access database (\<open>User_Service\<close>) or the cluster (\<open>Rados\<close>). \<open>Api_Server\<close> puts the pieces
  together: \<open>serve_call\<close> is a call of any method through the whole server, \<open>serve_http\<close> an HTTP request.

  \<^bold>\<open>State and effects.\<close> The state is \<open>sys\<close>: the access database in memory, the cluster (an arbitrary type
  \<open>'w\<close> behind the connection record \<open>rados_conn\<close>), the token store of the OAuth library and the log. A
  handler is a function from context and state to a reply and a new state; a reply is an answer, an
  error value or a panic. Errors (\<open>Go_Errors\<close>) keep the sentinels and the wrapping that
  \<open>errors.Is\<close> sees. Strings are byte strings; maps are association lists whose order stands for the
  iteration order Go leaves open; nil slices and maps are told apart where JSON does.

  \<^bold>\<open>Theories.\<close>
  \<^item> \<open>Prelude\<close>, \<open>Go_Errors\<close>, \<open>Go_Strings\<close>, \<open>Go_Text\<close>, \<open>Go_Sort\<close>: the Go vocabulary, \<open>strconv\<close>, \<open>strings\<close>, UTF-8,
    \<open>sort.Slice\<close> (a parameter with the laws it documents).
  \<^item> \<open>Go_Json\<close>, \<open>Json_Facts\<close>, \<open>Go_Decode\<close>: \<open>encoding/json\<close>, as parser, printer and decoder into structs. The
    parser runs on fuel, twice the length of the text and two more, which \<open>json_fuel_enough\<close> shows to
    suffice; \<open>json_parse_print\<close> is the round trip.
  \<^item> \<open>Rados\<close>, \<open>Rados_Mock\<close>: \<open>pkg/rados\<close>, with the mock connection of the mock build.
  \<^item> \<open>Ctx\<close>, \<open>Roles\<close>, \<open>User_Service\<close>: \<open>pkg/ctx\<close> and \<open>pkg/user\<close>. \<open>User_Document\<close> has the round trip of the stored
    document, \<open>User_Laws\<close> the invariant of the database and the contract \<open>db_edit\<close> of an edit, \<open>User_Cluster\<close>
    the document in the cluster, requests and reachable states, \<open>User_Permissions\<close> what a user may do,
    \<open>User_Spec\<close> the abstract database (two partial maps) every edit refines.
  \<^item> \<open>Proto\<close>, \<open>Users_Api\<close>, \<open>Auth_Api\<close>, \<open>Cluster_Api\<close>, \<open>Crush_Api\<close>, \<open>Status_Api\<close>: the handlers of \<open>pkg/api\<close>, on
    records for the protobuf messages. \<open>guarded_handler\<close> is the contract of a handler that checks
    permissions first; every such handler is an instance. \<open>Command_Text\<close> reads the command texts back.
  \<^item> \<open>Status_Types\<close>, \<open>Mon_Types\<close>, \<open>Osd_Types\<close>, \<open>Pg_Types\<close>, \<open>Status_Decode\<close>, \<open>Go_Time\<close>: \<open>pkg/types/status.go\<close>, the
    structs the cluster's dumps decode into, with their decoders, and the two time layouts.
  \<^item> \<open>Ceph_Config\<close>, \<open>Wildcard\<close>, \<open>Config_Facts\<close>: \<open>pkg/cephconfig\<close>, the parameter index, its search, and
    \<open>filepath.Match\<close> with its chunks, which equals a plain recursive matcher on ASCII patterns of stars
    and question marks and names without slashes.
  \<^item> \<open>Auth_Server\<close>: \<open>pkg/auth\<close>; fosite, the JWT parser and the token store are the record \<open>oauth_lib\<close>.
  \<^item> \<open>Grpc_Server\<close>, \<open>Grpc_Streams\<close>, \<open>Api_Server\<close>: \<open>pkg/api/grpc_server.go\<close>, the dispatch of all 32 calls and
    what each requires.
  \<^item> \<open>Http_Gateway\<close>, \<open>Gateway_Mux\<close>, \<open>Gateway_Local\<close>: \<open>api/gen/grpc/go/*.pb.gw.go\<close> and \<open>pkg/api/grpc_http_gateway.go\<close>.
    \<open>Gateway_Local\<close> is the registration the program does not use; it is shown to fail closed.
  \<^item> \<open>Serve\<close>, \<open>Api_Serve\<close>: \<open>pkg/util/serve.go\<close> and \<open>pkg/api/api_server.go\<close>. The goroutines are a step relation
    over all interleavings; the servers' group runs inside the application's group, each goroutine returns
    what the code makes of its server's return, and a panic in one ends the process.
  \<^item> \<open>Config\<close>, \<open>App_Start\<close>: \<open>pkg/config\<close>, \<open>pkg/log\<close>, \<open>pkg/trace\<close>, \<open>pkg/app\<close> and \<open>cmd/ceph-api/main.go\<close>.
  \<^item> \<open>Go_Client\<close>: \<open>go_api_client.go\<close>.
  \<^item> \<open>User_Properties\<close>, \<open>Auth_Properties\<close>, \<open>Api_Properties\<close>, \<open>Cluster_Properties\<close>, \<open>Config_Properties\<close>,
    \<open>Status_Properties\<close>, \<open>Serve_Properties\<close>, \<open>App_Properties\<close>, \<open>Gateway_Properties\<close>, \<open>Client_Properties\<close>: the
    properties, each with a run on concrete data.

  \<^bold>\<open>What is shown.\<close> Authorization end to end: a gRPC call, or an HTTP request by one call of the route
  picked for it, that is answered or changes the database or the cluster comes from an authenticated user
  whose roles grant what the call needs. The exception is a log-in, which needs no token, checks the
  password and changes neither. Users, roles and passwords change only when a user changes the own
  password, with the old one, or by a call of a user who may create, update or delete users. The database keeps its invariant and
  agrees with the stored document over any sequence of requests, failures and restarts, with one
  exception that is shown as well; every edit refines the abstract database; documents, times and
  the cluster status survive their round trips. Calls never panic out of the server, and their status
  is that of the sentinel at the error's root. The worker group cleans up exactly once and ends. The
  start closes what it opened and ensures a working administrator. Some theorems state defects:
  what a failed reload, a clone onto a built-in role, a redeemed refresh token, a disabled user, a
  quote in an entity, a control character in a capability, a missing time, a TLS port in use, a server
  that fails alone, a requested shutdown, or the mock build do. Where a theorem is about texts it says
  whether they are ASCII.

  \<^bold>\<open>Parameters.\<close> Libraries that are not in the repository are arguments, and what is assumed of them is
  named: \<open>config_key_store\<close> (the monitor's key store), \<open>intn_ok\<close> (\<open>math/rand\<close>), \<open>password_checked\<close> and
  \<open>errors_are_errors\<close> (fosite), \<open>viper_layers\<close> (viper), \<open>picks_registered\<close> (the multiplexer of
  grpc-gateway), \<open>http_always_errors\<close> (the serving calls of \<open>net/http\<close>). What the websocket proxy makes of a
  request, the answers of the metrics and debug handlers (\<open>web_lib\<close>) and the JSON library of the gateway
  (\<open>gw_lib\<close>) are arguments of which nothing is assumed. At the start the run of the worker group is an
  argument too; \<open>runs_servers\<close> ties it to the runs of the two groups. bcrypt, the clock and the table of printable runes are
  the record \<open>go_env\<close>.

  \<^bold>\<open>Not modelled.\<close> The log texts beyond those of the interceptors; what the Prometheus and pprof handlers
  answer, and what goes through a websocket after its request; the wire formats of
  protobuf and gRPC, and the generated message code and stubs; the HTTP
  middleware of \<open>pkg/log\<close> and \<open>pkg/trace\<close>, which the program never calls; signals beyond the cancelled context; the lock of the access
  database, whose methods are atomic steps; sockets, TLS and cmux.
\<close>

end
